(* ===== verification/Go_Prelude.thy ===== *)
theory Go_Prelude
  imports Main "HOL-Library.Char_ord" "HOL-Library.List_Lexorder" "HOL-Library.Sublist"
begin

section \<open>Shared vocabulary of the development\<close>

text \<open>
  What every component theory uses: the functions of Go's \<open>strings\<close>, \<open>sort\<close> and
  \<open>strconv\<close> packages that the operator calls, Go error values with their wrapping tree, and
  the generic list and map lemmas the component proofs rest on. A Go string is a sequence of
  bytes and is modelled by \<^typ>\<open>string\<close>, whose characters are bytes; \<open>length\<close> is
  Go's \<open>len\<close>. Go maps are association lists in the order an iteration visits them: Go leaves
  that order open, so results that must not depend on it are proved invariant under permutation.
\<close>

named_theorems cond_names "unfolding rules for the condition type names"
named_theorems reason_names "unfolding rules for condition reasons and messages"

subsection \<open>Strings\<close>

definition HasPrefix :: "string \<Rightarrow> string \<Rightarrow> bool" where
  "HasPrefix s p \<longleftrightarrow> prefix p s"

definition HasSuffix :: "string \<Rightarrow> string \<Rightarrow> bool" where
  "HasSuffix s p \<longleftrightarrow> suffix p s"

definition Contains :: "string \<Rightarrow> string \<Rightarrow> bool" where
  "Contains s sub \<longleftrightarrow> sublist sub s"

definition TrimPrefix :: "string \<Rightarrow> string \<Rightarrow> string" where
  "TrimPrefix s p = (if HasPrefix s p then drop (length p) s else s)"

definition TrimSuffix :: "string \<Rightarrow> string \<Rightarrow> string" where
  "TrimSuffix s p = (if HasSuffix s p then take (length s - length p) s else s)"

text \<open>
  \<open>strings.TrimSpace\<close> removes the runes of \<open>unicode.IsSpace\<close>; these are their UTF-8
  encodings. An encoding at either end of a byte string is always decoded as that rune.
\<close>

definition space_runes :: "string list" where
  "space_runes =
     [[CHR 0x09], [CHR 0x0A], [CHR 0x0B], [CHR 0x0C], [CHR 0x0D], [CHR 0x20],
      [CHR 0xC2, CHR 0x85], [CHR 0xC2, CHR 0xA0], [CHR 0xE1, CHR 0x9A, CHR 0x80],
      [CHR 0xE2, CHR 0x80, CHR 0x80], [CHR 0xE2, CHR 0x80, CHR 0x81], [CHR 0xE2, CHR 0x80, CHR 0x82],
      [CHR 0xE2, CHR 0x80, CHR 0x83], [CHR 0xE2, CHR 0x80, CHR 0x84], [CHR 0xE2, CHR 0x80, CHR 0x85],
      [CHR 0xE2, CHR 0x80, CHR 0x86], [CHR 0xE2, CHR 0x80, CHR 0x87], [CHR 0xE2, CHR 0x80, CHR 0x88],
      [CHR 0xE2, CHR 0x80, CHR 0x89], [CHR 0xE2, CHR 0x80, CHR 0x8A], [CHR 0xE2, CHR 0x80, CHR 0xA8],
      [CHR 0xE2, CHR 0x80, CHR 0xA9], [CHR 0xE2, CHR 0x80, CHR 0xAF], [CHR 0xE2, CHR 0x81, CHR 0x9F],
      [CHR 0xE3, CHR 0x80, CHR 0x80]]"

lemma space_runes_nonempty: "r \<in> set space_runes \<Longrightarrow> r \<noteq> []"
  by (auto simp: space_runes_def)

function trim_left :: "string \<Rightarrow> string" where
  "trim_left s =
     (case find (\<lambda>r. prefix r s) space_runes of
        None \<Rightarrow> s
      | Some r \<Rightarrow> trim_left (drop (length r) s))"
  by pat_completeness auto
termination
proof (relation "measure length")
  fix s r assume "find (\<lambda>r. prefix r s) space_runes = Some r"
  then have "r \<in> set space_runes" and "prefix r s"
    by (auto simp: find_Some_iff)
  then have "r \<noteq> []" and "length r \<le> length s"
    by (auto simp: space_runes_nonempty prefix_length_le)
  then show "(drop (length r) s, s) \<in> measure length"
    by (cases r) auto
qed simp

declare trim_left.simps [simp del]

function trim_right :: "string \<Rightarrow> string" where
  "trim_right s =
     (case find (\<lambda>r. suffix r s) space_runes of
        None \<Rightarrow> s
      | Some r \<Rightarrow> trim_right (take (length s - length r) s))"
  by pat_completeness auto
termination
proof (relation "measure length")
  fix s r assume "find (\<lambda>r. suffix r s) space_runes = Some r"
  then have "r \<in> set space_runes" and "suffix r s"
    by (auto simp: find_Some_iff)
  then have "r \<noteq> []" and "length r \<le> length s"
    by (auto simp: space_runes_nonempty suffix_length_le)
  then show "(take (length s - length r) s, s) \<in> measure length"
    by (cases r) auto
qed simp

declare trim_right.simps [simp del]

definition TrimSpace :: "string \<Rightarrow> string" where
  "TrimSpace s = trim_right (trim_left s)"

text \<open>
  \<open>strings.ToLower\<close> and \<open>strings.ToUpper\<close> on ASCII letters; every other byte is kept.
\<close>

definition lower_char :: "char \<Rightarrow> char" where
  "lower_char c = (let n = (of_char c :: nat) in if 65 \<le> n \<and> n \<le> 90 then char_of (n + 32) else c)"

definition upper_char :: "char \<Rightarrow> char" where
  "upper_char c = (let n = (of_char c :: nat) in if 97 \<le> n \<and> n \<le> 122 then char_of (n - 32) else c)"

definition ToLower :: "string \<Rightarrow> string" where
  "ToLower = map lower_char"

definition ToUpper :: "string \<Rightarrow> string" where
  "ToUpper = map upper_char"

text \<open>Splitting at one separator byte: \<open>strings.SplitSeq\<close>, and \<open>strings.Cut\<close>.\<close>

fun split_on :: "char \<Rightarrow> string \<Rightarrow> string list" where
  "split_on c [] = [[]]"
| "split_on c (x # xs) =
     (if x = c then [] # split_on c xs
      else (case split_on c xs of [] \<Rightarrow> [[x]] | y # ys \<Rightarrow> (x # y) # ys))"

definition Cut :: "string \<Rightarrow> char \<Rightarrow> (string \<times> string) option" where
  "Cut s c = (if c \<in> set s
     then Some (takeWhile (\<lambda>x. x \<noteq> c) s, tl (dropWhile (\<lambda>x. x \<noteq> c) s)) else None)"

text \<open>The text after the last occurrence of a byte, or the whole text without one.\<close>

definition after_last :: "char \<Rightarrow> string \<Rightarrow> string" where
  "after_last c s = rev (takeWhile (\<lambda>x. x \<noteq> c) (rev s))"

fun Join :: "string list \<Rightarrow> string \<Rightarrow> string" where
  "Join [] sep = []"
| "Join [x] sep = x"
| "Join (x # y # ys) sep = x @ sep @ Join (y # ys) sep"

fun show_nat :: "nat \<Rightarrow> string" where
  "show_nat n = (if n < 10 then [char_of (48 + n)] else show_nat (n div 10) @ [char_of (48 + n mod 10)])"

declare show_nat.simps [simp del]

definition show_int :: "int \<Rightarrow> string" where
  "show_int i = (if i < 0 then ''-'' @ show_nat (nat (- i)) else show_nat (nat i))"

text \<open>
  The verb \<open>%q\<close> of \<open>fmt\<close> on ASCII text: a double-quoted Go literal.
\<close>

definition hex_digit :: "nat \<Rightarrow> char" where
  "hex_digit n = (if n < 10 then char_of (48 + n) else char_of (87 + n))"

definition quote_char :: "char \<Rightarrow> string" where
  "quote_char c = (let n = (of_char c :: nat) in
     if n = 34 then [CHR 0x5C, CHR 0x22]
     else if n = 92 then [CHR 0x5C, CHR 0x5C]
     else if n = 7 then [CHR 0x5C, CHR ''a'']
     else if n = 8 then [CHR 0x5C, CHR ''b'']
     else if n = 12 then [CHR 0x5C, CHR ''f'']
     else if n = 10 then [CHR 0x5C, CHR ''n'']
     else if n = 13 then [CHR 0x5C, CHR ''r'']
     else if n = 9 then [CHR 0x5C, CHR ''t'']
     else if n = 11 then [CHR 0x5C, CHR ''v'']
     else if n < 32 \<or> n = 127
       then [CHR 0x5C, CHR ''x'', hex_digit (n div 16), hex_digit (n mod 16)]
     else [c])"

definition quoted :: "string \<Rightarrow> string" where
  "quoted s = [CHR 0x22] @ concat (map quote_char s) @ [CHR 0x22]"

lemma HasPrefix_simps [simp]:
  "HasPrefix s []" "\<not> HasPrefix [] (x # p)"
  "HasPrefix (y # s) (x # p) \<longleftrightarrow> x = y \<and> HasPrefix s p"
  by (auto simp: HasPrefix_def)

lemma HasPrefix_append [simp]: "HasPrefix (p @ s) p"
  by (simp add: HasPrefix_def)

lemma HasSuffix_append [simp]: "HasSuffix (s @ p) p"
  by (simp add: HasSuffix_def suffix_def)

lemma TrimPrefix_append [simp]: "TrimPrefix (p @ s) p = s"
  by (simp add: TrimPrefix_def)

lemma TrimSuffix_append [simp]: "TrimSuffix (s @ p) p = s"
  by (simp add: TrimSuffix_def)

lemma split_on_not_Nil [simp]: "split_on c s \<noteq> []"
  by (induction s) (auto split: list.splits)

lemma split_on_no_sep: "c \<notin> set s \<Longrightarrow> split_on c s = [s]"
  by (induction s) auto

lemma split_on_elem_no_sep: "x \<in> set (split_on c s) \<Longrightarrow> c \<notin> set x"
  by (induction s arbitrary: x) (auto split: list.splits if_splits)

lemma split_on_append_sep:
  "c \<notin> set x \<Longrightarrow> split_on c (x @ c # s) = x # split_on c s"
  by (induction x) auto

lemma split_on_Join:
  "xs \<noteq> [] \<Longrightarrow> \<forall>x \<in> set xs. c \<notin> set x \<Longrightarrow> split_on c (Join xs [c]) = xs"
proof (induction xs "[c]" rule: Join.induct)
  case (3 x y ys)
  then show ?case by (simp add: split_on_append_sep)
qed (auto simp: split_on_no_sep)

lemma Join_split_on: "Join (split_on c s) [c] = s"
proof (induction s)
  case (Cons a s)
  then show ?case by (cases "split_on c s"; cases "tl (split_on c s)") auto
qed simp

subsection \<open>Go error values\<close>

text \<open>
  An error value carries its dynamic kind, its message and the errors it wraps (the operands
  of \<open>%w\<close>, or the result of \<open>Unwrap\<close>). \<open>errors.Is\<close> and \<open>errors.As\<close>
  walk the tree in pre-order. Errors of the Kubernetes client are represented by their status
  reason; \<open>NoMatch\<close> is the RESTMapper's answer for a kind the server does not serve.
\<close>

datatype api_reason =
    NotFound | Forbidden | Unauthorized | Conflict | InternalError | OtherReason string

datatype sentinel =
    errStorageSecretInvalid
  | errUsageLogsExporterInvalid
  | errProxyTLSResolutionFailed
  | errInvalidProxyTLSProfile
  | errOperatorNotInstalled
  | errDeadlineExceeded
  | errCanceled

datatype err_kind =
    Plain
  | ApiStatus api_reason
  | NoMatch
  | NetError
  | Sentinel sentinel
  | StorageConflict "string list" "string list"
  | StorageCheck string
  | MissingOperators

datatype go_error = GoError (err_kind_of: err_kind) (Error: string) (Unwrap: "go_error list")

type_synonym 'a result = "go_error + 'a"

primrec err_tree :: "go_error \<Rightarrow> go_error list" where
  "err_tree (GoError k m es) = GoError k m es # concat (map err_tree es)"

definition errors_Is :: "go_error \<Rightarrow> sentinel \<Rightarrow> bool" where
  "errors_Is e s \<longleftrightarrow> (\<exists>x \<in> set (err_tree e). err_kind_of x = Sentinel s)"

definition errors_As :: "(err_kind \<Rightarrow> bool) \<Rightarrow> go_error \<Rightarrow> go_error option" where
  "errors_As P e = find (\<lambda>x. P (err_kind_of x)) (err_tree e)"

fun is_api_status :: "err_kind \<Rightarrow> bool" where
  "is_api_status (ApiStatus r) = True"
| "is_api_status _ = False"

definition ReasonForError :: "go_error \<Rightarrow> api_reason option" where
  "ReasonForError e = (case errors_As is_api_status e of
      Some x \<Rightarrow> (case err_kind_of x of ApiStatus r \<Rightarrow> Some r | _ \<Rightarrow> None)
    | None \<Rightarrow> None)"

definition IsNotFound :: "go_error \<Rightarrow> bool" where
  "IsNotFound e \<longleftrightarrow> ReasonForError e = Some NotFound"

definition IsNoMatchError :: "go_error \<Rightarrow> bool" where
  "IsNoMatchError e \<longleftrightarrow> errors_As (\<lambda>k. k = NoMatch) e \<noteq> None"

text \<open>\<open>errors.New\<close>, and \<open>fmt.Errorf\<close> with one or two wrapped operands.\<close>

definition errors_New :: "string \<Rightarrow> go_error" where
  "errors_New m = GoError Plain m []"

definition wrapf :: "string \<Rightarrow> go_error \<Rightarrow> go_error" where
  "wrapf pre e = GoError Plain (pre @ Error e) [e]"

definition wrap2 :: "string \<Rightarrow> go_error list \<Rightarrow> go_error" where
  "wrap2 m es = GoError Plain m es"

lemma errors_Is_wrapf [simp]: "errors_Is (wrapf p e) s \<longleftrightarrow> errors_Is e s"
  by (simp add: errors_Is_def wrapf_def)

lemma errors_As_wrapf [simp]: "\<not> P Plain \<Longrightarrow> errors_As P (wrapf p e) = errors_As P e"
  by (simp add: errors_As_def wrapf_def)

lemma ReasonForError_wrapf [simp]: "ReasonForError (wrapf p e) = ReasonForError e"
  by (simp add: ReasonForError_def)

lemma IsNotFound_wrapf [simp]: "IsNotFound (wrapf p e) \<longleftrightarrow> IsNotFound e"
  by (simp add: IsNotFound_def)

lemma Error_wrapf [simp]: "Error (wrapf p e) = p @ Error e"
  by (simp add: wrapf_def)

subsection \<open>Sorted name lists\<close>

text \<open>
  Collecting names in a Go map and calling \<open>sort.Strings\<close> on its keys: the result is the
  unique strictly sorted list with these elements, whatever the iteration order was.
\<close>

definition sorted_keys :: "string list \<Rightarrow> string list" where
  "sorted_keys xs = sort (remdups xs)"

lemma set_sorted_keys [simp]: "set (sorted_keys xs) = set xs"
  by (simp add: sorted_keys_def)

lemma distinct_sorted_keys [simp]: "distinct (sorted_keys xs)"
  by (simp add: sorted_keys_def)

lemma sorted_sorted_keys [simp]: "sorted (sorted_keys xs)"
  by (simp add: sorted_keys_def)

lemma sorted_keys_cong: "set xs = set ys \<Longrightarrow> sorted_keys xs = sorted_keys ys"
  by (rule sorted_distinct_set_unique) auto

subsection \<open>Lists and maps\<close>

lemma find_cong_None: "find P xs = None \<longleftrightarrow> (\<forall>x \<in> set xs. \<not> P x)"
  by (induction xs) auto

lemma find_map_compose: "find P (map f xs) = map_option f (find (P \<circ> f) xs)"
  by (induction xs) auto

end
