(* ===== verification/Gvk.thy ===== *)
theory Gvk
  imports Go_Prelude
begin

section \<open>Group, version and kind constants (internal/controller/gvk)\<close>

text \<open>
  The GroupVersionKinds the controller watches, renders, probes and collects, one constant per
  variable of \<open>internal/controller/gvk/gvk.go\<close> with the prefix \<open>gvk_\<close>. The type is
  the library's \<open>schema.GroupVersionKind\<close>: three strings compared field by field.
\<close>

record gvk =
  Group :: string
  Version :: string
  Kind :: string

definition gvk_DSCInitialization :: gvk where
  "gvk_DSCInitialization = \<lparr>Group = ''dscinitialization.opendatahub.io'', Version = ''v1'', Kind = ''DSCInitialization''\<rparr>"

definition gvk_Monitoring :: gvk where
  "gvk_Monitoring = \<lparr>Group = ''services.platform.opendatahub.io'', Version = ''v1alpha1'', Kind = ''Monitoring''\<rparr>"

definition gvk_MonitoringStack :: gvk where
  "gvk_MonitoringStack = \<lparr>Group = ''monitoring.rhobs'', Version = ''v1alpha1'', Kind = ''MonitoringStack''\<rparr>"

definition gvk_ThanosQuerier :: gvk where
  "gvk_ThanosQuerier = \<lparr>Group = ''monitoring.rhobs'', Version = ''v1alpha1'', Kind = ''ThanosQuerier''\<rparr>"

definition gvk_InferenceService :: gvk where
  "gvk_InferenceService = \<lparr>Group = ''serving.kserve.io'', Version = ''v1beta1'', Kind = ''InferenceService''\<rparr>"

definition gvk_LLMInferenceService :: gvk where
  "gvk_LLMInferenceService = \<lparr>Group = ''serving.kserve.io'', Version = ''v1alpha2'', Kind = ''LLMInferenceService''\<rparr>"

definition gvk_TempoMonolithic :: gvk where
  "gvk_TempoMonolithic = \<lparr>Group = ''tempo.grafana.com'', Version = ''v1alpha1'', Kind = ''TempoMonolithic''\<rparr>"

definition gvk_TempoStack :: gvk where
  "gvk_TempoStack = \<lparr>Group = ''tempo.grafana.com'', Version = ''v1alpha1'', Kind = ''TempoStack''\<rparr>"

definition gvk_OpenTelemetryCollector :: gvk where
  "gvk_OpenTelemetryCollector = \<lparr>Group = ''opentelemetry.io'', Version = ''v1beta1'', Kind = ''OpenTelemetryCollector''\<rparr>"

definition gvk_Instrumentation :: gvk where
  "gvk_Instrumentation = \<lparr>Group = ''opentelemetry.io'', Version = ''v1alpha1'', Kind = ''Instrumentation''\<rparr>"

definition gvk_LokiStack :: gvk where
  "gvk_LokiStack = \<lparr>Group = ''loki.grafana.com'', Version = ''v1'', Kind = ''LokiStack''\<rparr>"

definition gvk_ServiceMonitor :: gvk where
  "gvk_ServiceMonitor = \<lparr>Group = ''monitoring.rhobs'', Version = ''v1'', Kind = ''ServiceMonitor''\<rparr>"

definition gvk_ServiceMonitorCoreos :: gvk where
  "gvk_ServiceMonitorCoreos = \<lparr>Group = ''monitoring.coreos.com'', Version = ''v1'', Kind = ''ServiceMonitor''\<rparr>"

definition gvk_PodMonitor :: gvk where
  "gvk_PodMonitor = \<lparr>Group = ''monitoring.rhobs'', Version = ''v1'', Kind = ''PodMonitor''\<rparr>"

definition gvk_PodMonitorCoreos :: gvk where
  "gvk_PodMonitorCoreos = \<lparr>Group = ''monitoring.coreos.com'', Version = ''v1'', Kind = ''PodMonitor''\<rparr>"

definition gvk_PrometheusRule :: gvk where
  "gvk_PrometheusRule = \<lparr>Group = ''monitoring.rhobs'', Version = ''v1'', Kind = ''PrometheusRule''\<rparr>"

definition gvk_PersesV1Alpha1 :: gvk where
  "gvk_PersesV1Alpha1 = \<lparr>Group = ''perses.dev'', Version = ''v1alpha1'', Kind = ''Perses''\<rparr>"

definition gvk_PersesV1Alpha2 :: gvk where
  "gvk_PersesV1Alpha2 = \<lparr>Group = ''perses.dev'', Version = ''v1alpha2'', Kind = ''Perses''\<rparr>"

definition gvk_PersesDatasourceV1Alpha1 :: gvk where
  "gvk_PersesDatasourceV1Alpha1 = \<lparr>Group = ''perses.dev'', Version = ''v1alpha1'', Kind = ''PersesDatasource''\<rparr>"

definition gvk_PersesDatasourceV1Alpha2 :: gvk where
  "gvk_PersesDatasourceV1Alpha2 = \<lparr>Group = ''perses.dev'', Version = ''v1alpha2'', Kind = ''PersesDatasource''\<rparr>"

definition gvk_PersesDashboardV1Alpha1 :: gvk where
  "gvk_PersesDashboardV1Alpha1 = \<lparr>Group = ''perses.dev'', Version = ''v1alpha1'', Kind = ''PersesDashboard''\<rparr>"

definition gvk_PersesDashboardV1Alpha2 :: gvk where
  "gvk_PersesDashboardV1Alpha2 = \<lparr>Group = ''perses.dev'', Version = ''v1alpha2'', Kind = ''PersesDashboard''\<rparr>"

definition gvk_CertManagerIssuer :: gvk where
  "gvk_CertManagerIssuer = \<lparr>Group = ''cert-manager.io'', Version = ''v1'', Kind = ''Issuer''\<rparr>"

definition gvk_CertManagerCertificate :: gvk where
  "gvk_CertManagerCertificate = \<lparr>Group = ''cert-manager.io'', Version = ''v1'', Kind = ''Certificate''\<rparr>"

definition gvk_ClusterLogForwarder :: gvk where
  "gvk_ClusterLogForwarder = \<lparr>Group = ''observability.openshift.io'', Version = ''v1'', Kind = ''ClusterLogForwarder''\<rparr>"

definition gvk_ValidatingAdmissionPolicy :: gvk where
  "gvk_ValidatingAdmissionPolicy = \<lparr>Group = ''admissionregistration.k8s.io'', Version = ''v1'', Kind = ''ValidatingAdmissionPolicy''\<rparr>"

definition gvk_ValidatingAdmissionPolicyBinding :: gvk where
  "gvk_ValidatingAdmissionPolicyBinding = \<lparr>Group = ''admissionregistration.k8s.io'', Version = ''v1'', Kind = ''ValidatingAdmissionPolicyBinding''\<rparr>"

definition gvk_OperatorGroup :: gvk where
  "gvk_OperatorGroup = \<lparr>Group = ''operators.coreos.com'', Version = ''v1'', Kind = ''OperatorGroup''\<rparr>"

definition gvk_Subscription :: gvk where
  "gvk_Subscription = \<lparr>Group = ''operators.coreos.com'', Version = ''v1alpha1'', Kind = ''Subscription''\<rparr>"

definition gvk_ClusterServiceVersion :: gvk where
  "gvk_ClusterServiceVersion = \<lparr>Group = ''operators.coreos.com'', Version = ''v1alpha1'', Kind = ''ClusterServiceVersion''\<rparr>"

definition gvk_InstallPlan :: gvk where
  "gvk_InstallPlan = \<lparr>Group = ''operators.coreos.com'', Version = ''v1alpha1'', Kind = ''InstallPlan''\<rparr>"

definition gvk_Secret :: gvk where
  "gvk_Secret = \<lparr>Group = '''', Version = ''v1'', Kind = ''Secret''\<rparr>"

definition gvk_Deployment :: gvk where
  "gvk_Deployment = \<lparr>Group = ''apps'', Version = ''v1'', Kind = ''Deployment''\<rparr>"

definition gvk_Service :: gvk where
  "gvk_Service = \<lparr>Group = '''', Version = ''v1'', Kind = ''Service''\<rparr>"

definition gvk_ConfigMap :: gvk where
  "gvk_ConfigMap = \<lparr>Group = '''', Version = ''v1'', Kind = ''ConfigMap''\<rparr>"

definition gvk_Namespace :: gvk where
  "gvk_Namespace = \<lparr>Group = '''', Version = ''v1'', Kind = ''Namespace''\<rparr>"

definition gvk_OpenshiftAPIServer :: gvk where
  "gvk_OpenshiftAPIServer = \<lparr>Group = ''config.openshift.io'', Version = ''v1'', Kind = ''APIServer''\<rparr>"

definition gvk_Route :: gvk where
  "gvk_Route = \<lparr>Group = ''route.openshift.io'', Version = ''v1'', Kind = ''Route''\<rparr>"

definition gvk_NetworkPolicy :: gvk where
  "gvk_NetworkPolicy = \<lparr>Group = ''networking.k8s.io'', Version = ''v1'', Kind = ''NetworkPolicy''\<rparr>"

definition gvk_ClusterRole :: gvk where
  "gvk_ClusterRole = \<lparr>Group = ''rbac.authorization.k8s.io'', Version = ''v1'', Kind = ''ClusterRole''\<rparr>"

definition gvk_Role :: gvk where
  "gvk_Role = \<lparr>Group = ''rbac.authorization.k8s.io'', Version = ''v1'', Kind = ''Role''\<rparr>"

definition gvk_RoleBinding :: gvk where
  "gvk_RoleBinding = \<lparr>Group = ''rbac.authorization.k8s.io'', Version = ''v1'', Kind = ''RoleBinding''\<rparr>"

definition gvk_ClusterRoleBinding :: gvk where
  "gvk_ClusterRoleBinding = \<lparr>Group = ''rbac.authorization.k8s.io'', Version = ''v1'', Kind = ''ClusterRoleBinding''\<rparr>"

definition gvk_ServiceAccount :: gvk where
  "gvk_ServiceAccount = \<lparr>Group = '''', Version = ''v1'', Kind = ''ServiceAccount''\<rparr>"

definition gvk_DaemonSet :: gvk where
  "gvk_DaemonSet = \<lparr>Group = ''apps'', Version = ''v1'', Kind = ''DaemonSet''\<rparr>"

definition gvk_StatefulSet :: gvk where
  "gvk_StatefulSet = \<lparr>Group = ''apps'', Version = ''v1'', Kind = ''StatefulSet''\<rparr>"

definition gvk_Pod :: gvk where
  "gvk_Pod = \<lparr>Group = '''', Version = ''v1'', Kind = ''Pod''\<rparr>"

text \<open>
  Garbage collection compares whole GroupVersionKinds, so the kinds it treats differently must
  not coincide.
\<close>

lemmas gvk_defs = gvk_DSCInitialization_def gvk_Monitoring_def gvk_MonitoringStack_def gvk_ThanosQuerier_def gvk_InferenceService_def gvk_LLMInferenceService_def gvk_TempoMonolithic_def gvk_TempoStack_def gvk_OpenTelemetryCollector_def gvk_Instrumentation_def gvk_LokiStack_def gvk_ServiceMonitor_def gvk_ServiceMonitorCoreos_def gvk_PodMonitor_def gvk_PodMonitorCoreos_def gvk_PrometheusRule_def gvk_PersesV1Alpha1_def gvk_PersesV1Alpha2_def gvk_PersesDatasourceV1Alpha1_def gvk_PersesDatasourceV1Alpha2_def gvk_PersesDashboardV1Alpha1_def gvk_PersesDashboardV1Alpha2_def gvk_CertManagerIssuer_def gvk_CertManagerCertificate_def gvk_ClusterLogForwarder_def gvk_ValidatingAdmissionPolicy_def gvk_ValidatingAdmissionPolicyBinding_def gvk_OperatorGroup_def gvk_Subscription_def gvk_ClusterServiceVersion_def gvk_InstallPlan_def gvk_Secret_def gvk_Deployment_def gvk_Service_def gvk_ConfigMap_def gvk_Namespace_def gvk_OpenshiftAPIServer_def gvk_Route_def gvk_NetworkPolicy_def gvk_ClusterRole_def gvk_Role_def gvk_RoleBinding_def gvk_ClusterRoleBinding_def gvk_ServiceAccount_def gvk_DaemonSet_def gvk_StatefulSet_def gvk_Pod_def

definition all_gvks :: "gvk list" where
  "all_gvks =
    [gvk_DSCInitialization,
     gvk_Monitoring,
     gvk_MonitoringStack,
     gvk_ThanosQuerier,
     gvk_InferenceService,
     gvk_LLMInferenceService,
     gvk_TempoMonolithic,
     gvk_TempoStack,
     gvk_OpenTelemetryCollector,
     gvk_Instrumentation,
     gvk_LokiStack,
     gvk_ServiceMonitor,
     gvk_ServiceMonitorCoreos,
     gvk_PodMonitor,
     gvk_PodMonitorCoreos,
     gvk_PrometheusRule,
     gvk_PersesV1Alpha1,
     gvk_PersesV1Alpha2,
     gvk_PersesDatasourceV1Alpha1,
     gvk_PersesDatasourceV1Alpha2,
     gvk_PersesDashboardV1Alpha1,
     gvk_PersesDashboardV1Alpha2,
     gvk_CertManagerIssuer,
     gvk_CertManagerCertificate,
     gvk_ClusterLogForwarder,
     gvk_ValidatingAdmissionPolicy,
     gvk_ValidatingAdmissionPolicyBinding,
     gvk_OperatorGroup,
     gvk_Subscription,
     gvk_ClusterServiceVersion,
     gvk_InstallPlan,
     gvk_Secret,
     gvk_Deployment,
     gvk_Service,
     gvk_ConfigMap,
     gvk_Namespace,
     gvk_OpenshiftAPIServer,
     gvk_Route,
     gvk_NetworkPolicy,
     gvk_ClusterRole,
     gvk_Role,
     gvk_RoleBinding,
     gvk_ClusterRoleBinding,
     gvk_ServiceAccount,
     gvk_DaemonSet,
     gvk_StatefulSet,
     gvk_Pod]"

lemma distinct_all_gvks: "distinct all_gvks"
  by (simp add: all_gvks_def gvk_defs)

end
