(* ===== verification/Go_Regexp.thy ===== *)
theory Go_Regexp
  imports Go_Prelude
begin

section \<open>Anchored regular expressions\<close>

text \<open>
  The operator's patterns are anchored at both ends (\<open>^...$\<close> without flags), so a match
  is membership of the whole string in the language of the expression. The expressions are
  transcribed as terms of \<open>re\<close> and matched by derivatives; \<open>re_matches_iff\<close> states that
  the matcher decides the language. Byte classes are lists of inclusive ranges; the dot of Go's
  syntax is every byte but newline.
\<close>

datatype re =
    REmpty
  | REps
  | RCls "(nat \<times> nat) list"
  | RSeq re re
  | RAlt re re
  | RStar re

definition in_cls :: "(nat \<times> nat) list \<Rightarrow> char \<Rightarrow> bool" where
  "in_cls rs c \<longleftrightarrow> (\<exists>(lo, hi) \<in> set rs. lo \<le> (of_char c :: nat) \<and> (of_char c :: nat) \<le> hi)"

lemma in_cls_simps [simp]:
  "in_cls [] c \<longleftrightarrow> False"
  "in_cls ((lo, hi) # rs) c \<longleftrightarrow> lo \<le> (of_char c :: nat) \<and> (of_char c :: nat) \<le> hi \<or> in_cls rs c"
  by (auto simp: in_cls_def)

text \<open>The language of an expression.\<close>

inductive lang :: "re \<Rightarrow> string \<Rightarrow> bool" where
  lang_eps: "lang REps []"
| lang_cls: "in_cls rs c \<Longrightarrow> lang (RCls rs) [c]"
| lang_seq: "lang r s \<Longrightarrow> lang q t \<Longrightarrow> lang (RSeq r q) (s @ t)"
| lang_altl: "lang r s \<Longrightarrow> lang (RAlt r q) s"
| lang_altr: "lang q s \<Longrightarrow> lang (RAlt r q) s"
| lang_star_nil: "lang (RStar r) []"
| lang_star_cons: "lang r s \<Longrightarrow> lang (RStar r) t \<Longrightarrow> lang (RStar r) (s @ t)"

inductive_cases lang_seqE: "lang (RSeq r q) s"
inductive_cases lang_starE: "lang (RStar r) s"
inductive_simps lang_empty_iff [simp]: "lang REmpty s"
inductive_simps lang_eps_iff [simp]: "lang REps s"
inductive_simps lang_cls_iff: "lang (RCls rs) s"
inductive_simps lang_alt_iff [simp]: "lang (RAlt r q) s"
inductive_simps lang_seq_iff: "lang (RSeq r q) s"

primrec nullable :: "re \<Rightarrow> bool" where
  "nullable REmpty = False"
| "nullable REps = True"
| "nullable (RCls rs) = False"
| "nullable (RSeq r q) = (nullable r \<and> nullable q)"
| "nullable (RAlt r q) = (nullable r \<or> nullable q)"
| "nullable (RStar r) = True"

text \<open>Constructors that drop empty branches keep the derivatives small.\<close>

definition mk_seq :: "re \<Rightarrow> re \<Rightarrow> re" where
  "mk_seq r q = (if r = REmpty \<or> q = REmpty then REmpty else if r = REps then q else RSeq r q)"

definition mk_alt :: "re \<Rightarrow> re \<Rightarrow> re" where
  "mk_alt r q = (if r = REmpty then q else if q = REmpty \<or> r = q then r else RAlt r q)"

primrec deriv :: "char \<Rightarrow> re \<Rightarrow> re" where
  "deriv c REmpty = REmpty"
| "deriv c REps = REmpty"
| "deriv c (RCls rs) = (if in_cls rs c then REps else REmpty)"
| "deriv c (RSeq r q) =
     (if nullable r then mk_alt (mk_seq (deriv c r) q) (deriv c q) else mk_seq (deriv c r) q)"
| "deriv c (RAlt r q) = mk_alt (deriv c r) (deriv c q)"
| "deriv c (RStar r) = mk_seq (deriv c r) (RStar r)"

fun re_matches :: "re \<Rightarrow> string \<Rightarrow> bool" where
  "re_matches r [] = nullable r"
| "re_matches r (c # s) = re_matches (deriv c r) s"

lemma lang_mk_seq [simp]: "lang (mk_seq r q) s \<longleftrightarrow> lang (RSeq r q) s"
  by (auto simp: mk_seq_def lang_seq_iff)

lemma lang_mk_alt [simp]: "lang (mk_alt r q) s \<longleftrightarrow> lang r s \<or> lang q s"
  by (auto simp: mk_alt_def)

lemma nullable_iff: "nullable r \<longleftrightarrow> lang r []"
  by (induction r) (auto simp: lang_cls_iff lang_seq_iff intro: lang.intros)

lemma lang_star_Cons:
  "lang (RStar r) (c # s) \<Longrightarrow> \<exists>u v. s = u @ v \<and> lang r (c # u) \<and> lang (RStar r) v"
proof (induction "RStar r" "c # s" arbitrary: s rule: lang.induct)
  case (lang_star_cons t u)
  then show ?case by (cases t) auto
qed

lemma deriv_iff: "lang (deriv c r) s \<longleftrightarrow> lang r (c # s)"
proof (induction r arbitrary: s)
  case (RSeq r q)
  show ?case
    by (auto simp: lang_seq_iff RSeq.IH nullable_iff Cons_eq_append_conv)
next
  case (RStar r)
  show ?case
  proof
    assume "lang (deriv c (RStar r)) s"
    then obtain u v where "s = u @ v" "lang r (c # u)" "lang (RStar r) v"
      by (auto simp: lang_seq_iff RStar.IH)
    then show "lang (RStar r) (c # s)"
      using lang_star_cons [of r "c # u" v] by simp
  next
    assume "lang (RStar r) (c # s)"
    then show "lang (deriv c (RStar r)) s"
      by (auto simp: lang_seq_iff RStar.IH dest: lang_star_Cons)
  qed
qed (auto simp: lang_cls_iff)

lemma re_matches_iff: "re_matches r s \<longleftrightarrow> lang r s"
  by (induction s arbitrary: r) (auto simp: nullable_iff deriv_iff)

subsection \<open>Derived forms\<close>

definition RPlus :: "re \<Rightarrow> re" where
  "RPlus r = RSeq r (RStar r)"

definition ROpt :: "re \<Rightarrow> re" where
  "ROpt r = RAlt REps r"

text \<open>\<open>r{0,n}\<close>, in the nested form \<open>(r(r...)?)?\<close>.\<close>

primrec RUpTo :: "nat \<Rightarrow> re \<Rightarrow> re" where
  "RUpTo 0 r = REps"
| "RUpTo (Suc n) r = ROpt (RSeq r (RUpTo n r))"

definition RChr :: "char \<Rightarrow> re" where
  "RChr c = RCls [(of_char c, of_char c)]"

primrec RLit :: "string \<Rightarrow> re" where
  "RLit [] = REps"
| "RLit (c # s) = RSeq (RChr c) (RLit s)"

abbreviation "cls_lower \<equiv> (97, 122)"
abbreviation "cls_upper \<equiv> (65, 90)"
abbreviation "cls_digit \<equiv> (48, 57)"
abbreviation "cls_dash \<equiv> (45, 45)"
abbreviation "cls_dot \<equiv> (46, 46)"
abbreviation "cls_underscore \<equiv> (95, 95)"

definition RDot :: re where
  "RDot = RCls [(0, 9), (11, 255)]"

lemmas re_forms = RPlus_def ROpt_def RChr_def RDot_def

lemma lang_chr_iff [simp]: "lang (RChr c) s \<longleftrightarrow> s = [c]"
  by (auto simp: RChr_def lang_cls_iff)

lemma lang_lit_iff [simp]: "lang (RLit p) s \<longleftrightarrow> s = p"
  by (induction p arbitrary: s) (auto simp: lang_seq_iff)

lemma lang_star_cls_iff: "lang (RStar (RCls rs)) s \<longleftrightarrow> list_all (in_cls rs) s"
proof
  assume "lang (RStar (RCls rs)) s"
  then show "list_all (in_cls rs) s"
    by (induction "RStar (RCls rs)" s rule: lang.induct) (auto simp: lang_cls_iff)
next
  assume "list_all (in_cls rs) s"
  then show "lang (RStar (RCls rs)) s"
  proof (induction s)
    case (Cons c s)
    then show ?case using lang_star_cons [of "RCls rs" "[c]" s] by (simp add: lang_cls)
  qed (simp add: lang_star_nil)
qed

lemma lang_cls_seq_iff: "lang (RSeq (RCls rs) q) s \<longleftrightarrow> (\<exists>c t. s = c # t \<and> in_cls rs c \<and> lang q t)"
proof
  assume "lang (RSeq (RCls rs) q) s"
  then show "\<exists>c t. s = c # t \<and> in_cls rs c \<and> lang q t"
    by (auto elim!: lang_seqE simp: lang_cls_iff)
next
  assume "\<exists>c t. s = c # t \<and> in_cls rs c \<and> lang q t"
  then show "lang (RSeq (RCls rs) q) s"
    using lang_seq [OF lang_cls] by force
qed

lemma lang_seq_cls_iff: "lang (RSeq q (RCls rs)) s \<longleftrightarrow> (\<exists>t c. s = t @ [c] \<and> lang q t \<and> in_cls rs c)"
proof -
  have "lang (RSeq q (RCls rs)) s \<longleftrightarrow> (\<exists>t u. s = t @ u \<and> lang q t \<and> lang (RCls rs) u)"
    by (rule lang_seq_iff)
  then show ?thesis by (auto simp: lang_cls_iff)
qed

lemma lang_upto_cls_iff: "lang (RUpTo n (RCls rs)) s \<longleftrightarrow> length s \<le> n \<and> list_all (in_cls rs) s"
proof (induction n arbitrary: s)
  case (Suc n)
  show ?case
    by (cases s) (auto simp: ROpt_def lang_cls_seq_iff Suc.IH)
qed auto

lemma lang_plus_cls_iff: "lang (RPlus (RCls rs)) s \<longleftrightarrow> s \<noteq> [] \<and> list_all (in_cls rs) s"
  by (cases s) (auto simp: RPlus_def lang_cls_seq_iff lang_star_cls_iff)

lemma lang_opt_iff [simp]: "lang (ROpt r) s \<longleftrightarrow> s = [] \<or> lang r s"
  by (auto simp: ROpt_def)

lemma lang_dots_iff: "lang (RStar RDot) s \<longleftrightarrow> CHR 0x0A \<notin> set s"
proof -
  have "in_cls [(0, 9), (11, 255)] c \<longleftrightarrow> c \<noteq> CHR 0x0A" for c
  proof -
    have lt: "(of_char c :: nat) < 256" by (rule nat_of_char_less_256)
    have eq: "c = CHR 0x0A \<longleftrightarrow> (of_char c :: nat) = 10"
      using of_char_eq_iff [of c "CHR 0x0A", where ?'a = nat] by simp
    show ?thesis unfolding eq using lt by (simp, linarith)
  qed
  then show ?thesis by (auto simp: RDot_def lang_star_cls_iff list_all_iff)
qed

subsection \<open>DNS-1123 labels\<close>

text \<open>The pattern of Kubernetes namespace names, \<open>^[a-z0-9]([a-z0-9\-]{0,61}[a-z0-9])?$\<close>.\<close>

abbreviation "alnum_low \<equiv> [cls_lower, cls_digit]"

definition dns1123LabelRe :: re where
  "dns1123LabelRe =
     RSeq (RCls alnum_low)
       (ROpt (RSeq (RUpTo 61 (RCls [cls_lower, cls_digit, cls_dash])) (RCls alnum_low)))"

definition dns1123_label :: "string \<Rightarrow> bool" where
  "dns1123_label s \<longleftrightarrow>
     s \<noteq> [] \<and> length s \<le> 63 \<and> list_all (in_cls [cls_lower, cls_digit, cls_dash]) s \<and>
     in_cls alnum_low (hd s) \<and> in_cls alnum_low (last s)"

lemma dns1123LabelRe_iff: "re_matches dns1123LabelRe s \<longleftrightarrow> dns1123_label s"
proof -
  have "lang dns1123LabelRe s \<longleftrightarrow>
    (\<exists>c. s = [c] \<and> in_cls alnum_low c) \<or>
    (\<exists>c u d. s = c # u @ [d] \<and> in_cls alnum_low c \<and> in_cls alnum_low d \<and> length u \<le> 61 \<and>
       list_all (in_cls [cls_lower, cls_digit, cls_dash]) u)"
    unfolding dns1123LabelRe_def
    by (simp only: lang_cls_seq_iff lang_seq_cls_iff lang_opt_iff lang_upto_cls_iff) blast
  also have "\<dots> \<longleftrightarrow> dns1123_label s"
  proof (cases s)
    case (Cons c t)
    show ?thesis
    proof (cases t rule: rev_cases)
      case Nil with Cons show ?thesis by (auto simp: dns1123_label_def)
    next
      case (snoc u d) with Cons show ?thesis by (auto simp: dns1123_label_def)
    qed
  qed (simp add: dns1123_label_def)
  finally show ?thesis by (simp add: re_matches_iff)
qed

end
