(* ===== verification/Api_Types.thy ===== *)
theory Api_Types
  imports Gvk Go_Regexp
begin

section \<open>The Monitoring API (api/v1alpha1)\<close>

text \<open>
  The structs of \<open>api/v1alpha1/monitoring_types.go\<close> as records: a Go pointer field is an
  option, a Go map is an association list, and a record field carries a prefix naming its
  struct. Of \<open>resource.Quantity\<close> the code reads only \<open>String()\<close>, so a quantity is that
  string; \<open>metav1.Duration\<close> is its number of nanoseconds. The validation markers of the CRD
  (CEL rules and schema bounds, enforced by the API server before the controller sees the
  object) are the Boolean functions \<open>valid_MonitoringSpec\<close> and its parts.
\<close>

definition MonitoringServiceName :: string where
  "MonitoringServiceName = ''monitoring''"

definition MonitoringInstanceName :: string where
  "MonitoringInstanceName = ''default-monitoring''"

text \<open>
  \<open>runtime.RawExtension\<close>: the raw bytes, and for a decoded object the outcome of
  marshalling it as YAML.
\<close>

record RawExtension =
  Raw :: string
  Object :: "string result option"

record MetricsStorage =
  ms_Size :: string
  ms_Retention :: string

record Metrics =
  mt_Storage :: "MetricsStorage option"
  mt_BuiltinDCGMScrapeEnabled :: "bool option"
  mt_Replicas :: int
  mt_Exporters :: "(string \<times> RawExtension) list"

record TracesTLS =
  tls_Enabled :: bool
  tls_CertificateSecret :: string
  tls_CAConfigMap :: string

record TracesStorage =
  ts_Backend :: string
  ts_Size :: string
  ts_Secret :: string
  ts_Retention :: int

record Traces =
  tr_Storage :: "TracesStorage option"
  tr_SampleRatio :: string
  tr_TLS :: "TracesTLS option"
  tr_Exporters :: "(string \<times> RawExtension) list"

record LokiStorageConfig =
  ls_Type :: string
  ls_SecretName :: string
  ls_CredentialMode :: string
  ls_StorageClassName :: string

record Logs =
  lg_Storage :: "LokiStorageConfig option"
  lg_Size :: string
  lg_InferenceNamespaces :: "string list"

record UsageLogs =
  ul_Storage :: "LokiStorageConfig option"
  ul_Size :: string
  ul_Exporters :: "(string \<times> RawExtension) list"
  ul_CredentialSecret :: string
  ul_Attributes :: "(string \<times> string) list"

datatype Alerting = Alerting

record MonitoringSpec =
  sp_ManagementState :: string
  sp_Namespace :: string
  sp_Metrics :: "Metrics option"
  sp_Traces :: "Traces option"
  sp_UsageLogs :: "UsageLogs option"
  sp_Alerting :: "Alerting option"
  sp_Logs :: "Logs option"
  sp_CollectorReplicas :: int

text \<open>
  The status part shared with the platform: conditions (a list keyed by \<open>type\<close>), phase,
  observed generation and releases. \<open>lastTransitionTime\<close> and \<open>lastHeartbeatTime\<close> are
  written by the conditions library only and are left out.
\<close>

datatype ConditionStatus = ConditionTrue | ConditionFalse | ConditionUnknown

datatype Severity = SeverityError | SeverityInfo

record Condition =
  c_Type :: string
  c_Status :: ConditionStatus
  c_Reason :: string
  c_Message :: string
  c_Severity :: Severity
  c_ObservedGeneration :: int

datatype Phase = PhaseUnset | PhaseReady | PhaseNotReady

record ComponentRelease =
  rel_Name :: string
  rel_RepoURL :: string
  rel_Version :: string

record MonitoringStatus =
  st_Conditions :: "Condition list"
  st_Phase :: Phase
  st_ObservedGeneration :: int
  st_Releases :: "ComponentRelease list"
  st_URL :: string
  st_UsageLogsEndpoint :: string
  st_LogsEndpoint :: string
  st_UsageLogsForwarding :: "string list"

record Monitoring =
  mo_Name :: string
  mo_UID :: string
  mo_Generation :: int
  mo_Deleting :: bool
  mo_Finalizers :: "string list"
  mo_Spec :: MonitoringSpec
  mo_Status :: MonitoringStatus

definition GetConditions :: "Monitoring \<Rightarrow> Condition list" where
  "GetConditions m = st_Conditions (mo_Status m)"

definition SetConditions :: "Monitoring \<Rightarrow> Condition list \<Rightarrow> Monitoring" where
  "SetConditions m cs = m\<lparr>mo_Status := (mo_Status m)\<lparr>st_Conditions := cs\<rparr>\<rparr>"

definition GetReleaseStatus :: "Monitoring \<Rightarrow> ComponentRelease list" where
  "GetReleaseStatus m = st_Releases (mo_Status m)"

definition SetReleaseStatus :: "Monitoring \<Rightarrow> ComponentRelease list \<Rightarrow> Monitoring" where
  "SetReleaseStatus m rs = m\<lparr>mo_Status := (mo_Status m)\<lparr>st_Releases := rs\<rparr>\<rparr>"

definition StorageBackendPV :: string where "StorageBackendPV = ''pv''"
definition StorageBackendS3 :: string where "StorageBackendS3 = ''s3''"
definition StorageBackendGCS :: string where "StorageBackendGCS = ''gcs''"

subsection \<open>Validation rules of the custom resource definition\<close>

text \<open>\<open>has(self.metrics) && has(self.metrics.storage)\<close> and its companions.\<close>

definition metrics_storage :: "MonitoringSpec \<Rightarrow> MetricsStorage option" where
  "metrics_storage sp = Option.bind (sp_Metrics sp) mt_Storage"

definition traces_storage :: "MonitoringSpec \<Rightarrow> TracesStorage option" where
  "traces_storage sp = Option.bind (sp_Traces sp) tr_Storage"

definition usage_logs_storage :: "MonitoringSpec \<Rightarrow> LokiStorageConfig option" where
  "usage_logs_storage sp = Option.bind (sp_UsageLogs sp) ul_Storage"

definition logs_storage :: "MonitoringSpec \<Rightarrow> LokiStorageConfig option" where
  "logs_storage sp = Option.bind (sp_Logs sp) lg_Storage"

text \<open>
  The patterns of namespace names, \<open>^([a-z0-9]([-a-z0-9]*[a-z0-9])?)?$\<close>, and of Secret names,
  \<open>^[a-z0-9]([-a-z0-9]*[a-z0-9])?(\.[a-z0-9]([-a-z0-9]*[a-z0-9])?)*$\<close>.
\<close>

definition labelRe :: re where
  "labelRe = RSeq (RCls [cls_lower, cls_digit])
     (ROpt (RSeq (RStar (RCls [cls_dash, cls_lower, cls_digit])) (RCls [cls_lower, cls_digit])))"

definition namespaceRe :: re where
  "namespaceRe = ROpt labelRe"

definition secretNameRe :: re where
  "secretNameRe = RSeq labelRe (RStar (RSeq (RChr CHR ''.'') labelRe))"

definition loki_sizes :: "string list" where
  "loki_sizes = [''1x.demo'', ''1x.pico'', ''1x.extra-small'', ''1x.small'', ''1x.medium'']"

definition valid_LokiStorageConfig :: "LokiStorageConfig \<Rightarrow> bool" where
  "valid_LokiStorageConfig ls \<longleftrightarrow>
     ls_Type ls = ''s3'' \<and>
     re_matches secretNameRe (ls_SecretName ls) \<and> length (ls_SecretName ls) \<le> 253 \<and>
     ls_CredentialMode ls \<in> set ['''', ''static'', ''token'', ''token-cco''] \<and>
     length (ls_StorageClassName ls) \<le> 253"

definition valid_Metrics :: "Metrics \<Rightarrow> bool" where
  "valid_Metrics mt \<longleftrightarrow>
     (mt_Storage mt \<noteq> None \<or> mt_Exporters mt \<noteq> []) \<and>
     (mt_Storage mt \<noteq> None \<or> mt_Replicas mt = 0) \<and>
     0 \<le> mt_Replicas mt \<and>
     ''prometheus'' \<notin> fst ` set (mt_Exporters mt) \<and>
     ''otlp/tempo'' \<notin> fst ` set (mt_Exporters mt) \<and>
     length (mt_Exporters mt) \<le> 10"

text \<open>\<open>^(0(\.[0-9]+)?|1(\.0+)?)$\<close>\<close>

definition sampleRatioRe :: re where
  "sampleRatioRe =
     RAlt (RSeq (RChr CHR ''0'') (ROpt (RSeq (RChr CHR ''.'') (RPlus (RCls [cls_digit])))))
          (RSeq (RChr CHR ''1'') (ROpt (RSeq (RChr CHR ''.'') (RPlus (RChr CHR ''0'')))))"

definition valid_TracesStorage :: "TracesStorage \<Rightarrow> bool" where
  "valid_TracesStorage ts \<longleftrightarrow>
     ts_Backend ts \<in> set [StorageBackendPV, StorageBackendS3, StorageBackendGCS] \<and>
     (ts_Backend ts \<noteq> ''pv'' \<longrightarrow> ts_Secret ts \<noteq> '''') \<and>
     (ts_Backend ts \<noteq> ''pv'' \<longrightarrow> ts_Size ts = '''')"

definition valid_Traces :: "Traces \<Rightarrow> bool" where
  "valid_Traces tr \<longleftrightarrow>
     (tr_Storage tr \<noteq> None \<or> tr_Exporters tr \<noteq> []) \<and>
     (tr_SampleRatio tr \<noteq> '''' \<longrightarrow> re_matches sampleRatioRe (tr_SampleRatio tr)) \<and>
     (case tr_Storage tr of None \<Rightarrow> True | Some ts \<Rightarrow> valid_TracesStorage ts)"

definition valid_UsageLogs :: "UsageLogs \<Rightarrow> bool" where
  "valid_UsageLogs ul \<longleftrightarrow>
     (ul_Storage ul \<noteq> None \<or> ul_Exporters ul \<noteq> []) \<and>
     ''otlphttp/loki'' \<notin> fst ` set (ul_Exporters ul) \<and>
     length (ul_Exporters ul) \<le> 10 \<and>
     (ul_Size ul = '''' \<or> ul_Size ul \<in> set loki_sizes) \<and>
     length (ul_CredentialSecret ul) \<le> 253 \<and>
     (ul_CredentialSecret ul = '''' \<or> re_matches secretNameRe (ul_CredentialSecret ul)) \<and>
     length (ul_Attributes ul) \<le> 20 \<and>
     (case ul_Storage ul of None \<Rightarrow> True | Some ls \<Rightarrow> valid_LokiStorageConfig ls)"

definition valid_Logs :: "Logs \<Rightarrow> bool" where
  "valid_Logs lg \<longleftrightarrow>
     (case lg_Storage lg of None \<Rightarrow> False | Some ls \<Rightarrow> valid_LokiStorageConfig ls) \<and>
     (lg_Size lg = '''' \<or> lg_Size lg \<in> set loki_sizes) \<and>
     list_all (re_matches dns1123LabelRe) (lg_InferenceNamespaces lg)"

text \<open>
  The rules for the whole spec. Left out are the rule that the namespace never changes, which relates
  two versions of an object, and the enumeration of \<open>managementState\<close>.
\<close>

definition valid_MonitoringSpec :: "MonitoringSpec \<Rightarrow> bool" where
  "valid_MonitoringSpec sp \<longleftrightarrow>
     (sp_Alerting sp \<noteq> None \<longrightarrow> metrics_storage sp \<noteq> None) \<and>
     (sp_CollectorReplicas sp \<noteq> 0 \<longrightarrow>
        0 < sp_CollectorReplicas sp \<and>
        ((case sp_Metrics sp of None \<Rightarrow> False
          | Some mt \<Rightarrow> mt_Storage mt \<noteq> None \<or> mt_Exporters mt \<noteq> []) \<or> sp_Traces sp \<noteq> None)) \<and>
     (sp_Logs sp \<noteq> None \<longrightarrow> logs_storage sp \<noteq> None) \<and>
     length (sp_Namespace sp) \<le> 63 \<and>
     re_matches namespaceRe (sp_Namespace sp) \<and>
     (case sp_Metrics sp of None \<Rightarrow> True | Some mt \<Rightarrow> valid_Metrics mt) \<and>
     (case sp_Traces sp of None \<Rightarrow> True | Some tr \<Rightarrow> valid_Traces tr) \<and>
     (case sp_UsageLogs sp of None \<Rightarrow> True | Some ul \<Rightarrow> valid_UsageLogs ul) \<and>
     (case sp_Logs sp of None \<Rightarrow> True | Some lg \<Rightarrow> valid_Logs lg)"

subsection \<open>Sample objects\<close>

text \<open>
  A spec with nothing configured and a freshly created Monitoring object: the starting points
  of the concrete instances in this development.
\<close>

definition bare_spec :: MonitoringSpec where
  "bare_spec =
     \<lparr>sp_ManagementState = ''Managed'', sp_Namespace = '''', sp_Metrics = None, sp_Traces = None,
      sp_UsageLogs = None, sp_Alerting = None, sp_Logs = None, sp_CollectorReplicas = 0\<rparr>"

definition fresh_status :: MonitoringStatus where
  "fresh_status =
     \<lparr>st_Conditions = [], st_Phase = PhaseUnset, st_ObservedGeneration = 0, st_Releases = [],
      st_URL = '''', st_UsageLogsEndpoint = '''', st_LogsEndpoint = '''', st_UsageLogsForwarding = []\<rparr>"

definition fresh_monitoring :: "MonitoringSpec \<Rightarrow> Monitoring" where
  "fresh_monitoring sp =
     \<lparr>mo_Name = MonitoringInstanceName, mo_UID = ''uid-1'', mo_Generation = 1, mo_Deleting = False,
      mo_Finalizers = [], mo_Spec = sp, mo_Status = fresh_status\<rparr>"

lemmas sample_defs = bare_spec_def fresh_status_def fresh_monitoring_def

lemma conditions_accessor [simp]:
  "GetConditions (SetConditions m cs) = cs"
  "mo_Spec (SetConditions m cs) = mo_Spec m"
  "mo_Generation (SetConditions m cs) = mo_Generation m"
  "mo_UID (SetConditions m cs) = mo_UID m"
  "mo_Name (SetConditions m cs) = mo_Name m"
  "mo_Finalizers (SetConditions m cs) = mo_Finalizers m"
  "mo_Deleting (SetConditions m cs) = mo_Deleting m"
  "st_UsageLogsEndpoint (mo_Status (SetConditions m cs)) = st_UsageLogsEndpoint (mo_Status m)"
  "st_LogsEndpoint (mo_Status (SetConditions m cs)) = st_LogsEndpoint (mo_Status m)"
  "st_UsageLogsForwarding (mo_Status (SetConditions m cs)) = st_UsageLogsForwarding (mo_Status m)"
  "st_URL (mo_Status (SetConditions m cs)) = st_URL (mo_Status m)"
  "st_Releases (mo_Status (SetConditions m cs)) = st_Releases (mo_Status m)"
  "SetConditions (SetConditions m cs) ds = SetConditions m ds"
  by (simp_all add: GetConditions_def SetConditions_def)

lemma SetConditions_GetConditions [simp]: "SetConditions m (GetConditions m) = m"
  by (simp add: GetConditions_def SetConditions_def)

end
