(* ===== verification/Conditions.thy ===== *)
theory Conditions
  imports Api_Types
begin

section \<open>Status conditions (internal/controller/conditions)\<close>

text \<open>
  The ConditionsManager of \<open>internal/controller/conditions/conditions.go\<close>. It reads and writes
  the conditions of the Monitoring object through the platform library's \<open>libconditions\<close>
  package, which is not part of this repository: its four functions are the fields of the
  parameter \<open>conditions_lib\<close>, and what the manager relies on (a set is an upsert by type, a
  find returns the entry of that type) are the laws of the locale \<open>lawful_conditions\<close>. The
  manager's accessor is the Monitoring object itself, so every operation here takes the object
  and returns it updated; the generation captured by \<open>NewConditionsManager\<close> is the argument
  \<open>g\<close>.
\<close>

record conditions_lib =
  SetStatusCondition :: "Condition list \<Rightarrow> Condition \<Rightarrow> Condition list"
  FindStatusCondition :: "Condition list \<Rightarrow> string \<Rightarrow> Condition option"
  IsStatusConditionTrue :: "Condition list \<Rightarrow> string \<Rightarrow> bool"
  IsStatusConditionPresentAndEqual :: "Condition list \<Rightarrow> string \<Rightarrow> ConditionStatus \<Rightarrow> bool"

subsection \<open>Condition types, reasons and messages\<close>

definition ConditionCOOVersionCompatible :: string where
  [cond_names]: "ConditionCOOVersionCompatible = ''COOVersionCompatible''"
definition COOSupportedVersionLine :: string where
  [reason_names]: "COOSupportedVersionLine = ''v1.5''"
definition ConditionMonitoringDependenciesReady :: string where
  [cond_names]: "ConditionMonitoringDependenciesReady = ''MonitoringDependenciesReady''"
definition ConditionMonitoringAvailable :: string where
  [cond_names]: "ConditionMonitoringAvailable = ''MonitoringAvailable''"
definition ConditionMonitoringStackAvailable :: string where
  [cond_names]: "ConditionMonitoringStackAvailable = ''MonitoringStackAvailable''"
definition ConditionThanosQuerierAvailable :: string where
  [cond_names]: "ConditionThanosQuerierAvailable = ''ThanosQuerierAvailable''"
definition ConditionTempoAvailable :: string where
  [cond_names]: "ConditionTempoAvailable = ''TempoAvailable''"
definition ConditionInstrumentationAvailable :: string where
  [cond_names]: "ConditionInstrumentationAvailable = ''InstrumentationAvailable''"
definition ConditionOpenTelemetryCollectorAvailable :: string where
  [cond_names]: "ConditionOpenTelemetryCollectorAvailable = ''OpenTelemetryCollectorAvailable''"
definition ConditionAlertingAvailable :: string where
  [cond_names]: "ConditionAlertingAvailable = ''AlertingAvailable''"
definition ConditionPersesAvailable :: string where
  [cond_names]: "ConditionPersesAvailable = ''PersesAvailable''"
definition ConditionPersesTempoDataSourceAvailable :: string where
  [cond_names]: "ConditionPersesTempoDataSourceAvailable = ''PersesTempoDataSourceAvailable''"
definition ConditionPersesPrometheusDataSourceAvailable :: string where
  [cond_names]: "ConditionPersesPrometheusDataSourceAvailable = ''PersesPrometheusDataSourceAvailable''"
definition ConditionNodeMetricsEndpointAvailable :: string where
  [cond_names]: "ConditionNodeMetricsEndpointAvailable = ''NodeMetricsEndpointAvailable''"
definition ConditionWebhookAvailable :: string where
  [cond_names]: "ConditionWebhookAvailable = ''WebhookAvailable''"
definition ConditionUsageLogsCollectorAvailable :: string where
  [cond_names]: "ConditionUsageLogsCollectorAvailable = ''UsageLogsCollectorAvailable''"
definition ConditionUsageLogsLokiStackAvailable :: string where
  [cond_names]: "ConditionUsageLogsLokiStackAvailable = ''UsageLogsLokiStackAvailable''"
definition ConditionLokiStackAvailable :: string where
  [cond_names]: "ConditionLokiStackAvailable = ''LokiStackAvailable''"
definition ConditionClusterLogForwarderAvailable :: string where
  [cond_names]: "ConditionClusterLogForwarderAvailable = ''ClusterLogForwarderAvailable''"
definition ConditionKorrel8rAvailable :: string where
  [cond_names]: "ConditionKorrel8rAvailable = ''Korrel8rAvailable''"
definition MissingOperatorReason :: string where
  [reason_names]: "MissingOperatorReason = ''MissingOperator''"
definition CredentialNotFoundReason :: string where
  [reason_names]: "CredentialNotFoundReason = ''CredentialNotFound''"
definition MetricsNotConfiguredReason :: string where
  [reason_names]: "MetricsNotConfiguredReason = ''MetricsNotConfigured''"
definition TracesNotConfiguredReason :: string where
  [reason_names]: "TracesNotConfiguredReason = ''TracesNotConfigured''"
definition AlertingNotConfiguredReason :: string where
  [reason_names]: "AlertingNotConfiguredReason = ''AlertingNotConfigured''"
definition MetricsAndTracesNotConfiguredReason :: string where
  [reason_names]: "MetricsAndTracesNotConfiguredReason = ''MetricsAndTracesNotConfigured''"
definition MetricsAndTracesNotConfiguredMessage :: string where
  [reason_names]: "MetricsAndTracesNotConfiguredMessage = ''Metrics and traces are not configured in Monitoring CR''"
definition MetricsNotConfiguredMessage :: string where
  [reason_names]: "MetricsNotConfiguredMessage = ''Metrics not configured in Monitoring CR''"
definition TracesNotConfiguredMessage :: string where
  [reason_names]: "TracesNotConfiguredMessage = ''Traces not configured in Monitoring CR''"
definition AlertingNotConfiguredMessage :: string where
  [reason_names]: "AlertingNotConfiguredMessage = ''Alerting not configured in Monitoring CR''"
definition TempoOperatorMissingMessage :: string where
  [reason_names]: "TempoOperatorMissingMessage = ''Tempo Operator is required for traces; install it from OperatorHub''"
definition COOMissingMessage :: string where
  [reason_names]: "COOMissingMessage = ''Cluster Observability Operator is required for metrics; install it from OperatorHub''"
definition OpenTelemetryCollectorOperatorMissingMessage :: string where
  [reason_names]: "OpenTelemetryCollectorOperatorMissingMessage = ''Red Hat build of OpenTelemetry is required for metrics, traces, and usage logs; install it from OperatorHub''"
definition CertManagerOperatorMissingMessage :: string where
  [reason_names]: "CertManagerOperatorMissingMessage = ''cert-manager Operator is required for metrics TargetAllocator mTLS; install it from OperatorHub''"
definition LokiOperatorMissingMessage :: string where
  [reason_names]: "LokiOperatorMissingMessage = ''Loki Operator is required for logs and usage logs; install it from OperatorHub''"
definition ClusterLoggingOperatorMissingMessage :: string where
  [reason_names]: "ClusterLoggingOperatorMissingMessage = ''Red Hat OpenShift Logging Operator is required for logs; install it from OperatorHub''"

text \<open>The top-level condition types of the platform API.\<close>

definition ConditionTypeReady :: string where
  [cond_names]: "ConditionTypeReady = ''Ready''"
definition ConditionTypeProvisioningSucceeded :: string where
  [cond_names]: "ConditionTypeProvisioningSucceeded = ''ProvisioningSucceeded''"
definition ConditionTypeDegraded :: string where
  [cond_names]: "ConditionTypeDegraded = ''Degraded''"

definition featureConditionTypes :: "string list" where
  "featureConditionTypes =
    [ConditionMonitoringStackAvailable,
     ConditionThanosQuerierAvailable,
     ConditionTempoAvailable,
     ConditionInstrumentationAvailable,
     ConditionOpenTelemetryCollectorAvailable,
     ConditionAlertingAvailable,
     ConditionPersesAvailable,
     ConditionPersesTempoDataSourceAvailable,
     ConditionPersesPrometheusDataSourceAvailable,
     ConditionNodeMetricsEndpointAvailable,
     ConditionWebhookAvailable,
     ConditionUsageLogsCollectorAvailable,
     ConditionUsageLogsLokiStackAvailable,
     ConditionLokiStackAvailable,
     ConditionClusterLogForwarderAvailable,
     ConditionKorrel8rAvailable]"

subsection \<open>The manager's operations\<close>

text \<open>\<open>FindStatusCondition\<close> on the object the manager is bound to.\<close>

definition find_cond :: "'w conditions_lib_scheme \<Rightarrow> Monitoring \<Rightarrow> string \<Rightarrow> Condition option" where
  "find_cond W m t = FindStatusCondition W (GetConditions m) t"

definition set_cond :: "'w conditions_lib_scheme \<Rightarrow> Condition \<Rightarrow> Monitoring \<Rightarrow> Monitoring" where
  "set_cond W c m = SetConditions m (SetStatusCondition W (GetConditions m) c)"

definition MarkTrue :: "'w conditions_lib_scheme \<Rightarrow> int \<Rightarrow> string \<Rightarrow> Monitoring \<Rightarrow> Monitoring" where
  "MarkTrue W g t = set_cond W
     \<lparr>c_Type = t, c_Status = ConditionTrue, c_Reason = ''Available'', c_Message = '''',
      c_Severity = SeverityError, c_ObservedGeneration = g\<rparr>"

definition MarkTrueWithReason ::
  "'w conditions_lib_scheme \<Rightarrow> int \<Rightarrow> string \<Rightarrow> string \<Rightarrow> string \<Rightarrow> Monitoring \<Rightarrow> Monitoring" where
  "MarkTrueWithReason W g t r msg = set_cond W
     \<lparr>c_Type = t, c_Status = ConditionTrue, c_Reason = r, c_Message = msg,
      c_Severity = SeverityError, c_ObservedGeneration = g\<rparr>"

definition MarkFalse ::
  "'w conditions_lib_scheme \<Rightarrow> int \<Rightarrow> string \<Rightarrow> string \<Rightarrow> string \<Rightarrow> Monitoring \<Rightarrow> Monitoring" where
  "MarkFalse W g t r msg = set_cond W
     \<lparr>c_Type = t, c_Status = ConditionFalse, c_Reason = r, c_Message = msg,
      c_Severity = SeverityError, c_ObservedGeneration = g\<rparr>"

definition MarkWarning ::
  "'w conditions_lib_scheme \<Rightarrow> int \<Rightarrow> string \<Rightarrow> string \<Rightarrow> string \<Rightarrow> Monitoring \<Rightarrow> Monitoring" where
  "MarkWarning W g t r msg = set_cond W
     \<lparr>c_Type = t, c_Status = ConditionFalse, c_Reason = r, c_Message = msg,
      c_Severity = SeverityInfo, c_ObservedGeneration = g\<rparr>"

definition MarkNotConfigured ::
  "'w conditions_lib_scheme \<Rightarrow> int \<Rightarrow> string \<Rightarrow> string \<Rightarrow> string \<Rightarrow> Monitoring \<Rightarrow> Monitoring" where
  "MarkNotConfigured W g t r msg = set_cond W
     \<lparr>c_Type = t, c_Status = ConditionFalse, c_Reason = r, c_Message = msg,
      c_Severity = SeverityInfo, c_ObservedGeneration = g\<rparr>"

definition MarkUnknown ::
  "'w conditions_lib_scheme \<Rightarrow> int \<Rightarrow> string \<Rightarrow> string \<Rightarrow> string \<Rightarrow> Monitoring \<Rightarrow> Monitoring" where
  "MarkUnknown W g t r msg = set_cond W
     \<lparr>c_Type = t, c_Status = ConditionUnknown, c_Reason = r, c_Message = msg,
      c_Severity = SeverityError, c_ObservedGeneration = g\<rparr>"

lemmas mark_defs =
  MarkTrue_def MarkTrueWithReason_def MarkFalse_def MarkWarning_def MarkNotConfigured_def MarkUnknown_def

text \<open>The loop of \<open>AggregateReady\<close>: the flags \<open>anyFailing\<close> and \<open>anyUnknown\<close>.\<close>

fun aggregate_flags :: "Condition list \<Rightarrow> bool \<Rightarrow> bool \<Rightarrow> bool \<times> bool" where
  "aggregate_flags [] anyFailing anyUnknown = (anyFailing, anyUnknown)"
| "aggregate_flags (c # cs) anyFailing anyUnknown =
     (if c_Type c \<notin> set featureConditionTypes then aggregate_flags cs anyFailing anyUnknown
      else (case c_Status c of
          ConditionTrue \<Rightarrow> aggregate_flags cs anyFailing anyUnknown
        | ConditionFalse \<Rightarrow> aggregate_flags cs (anyFailing \<or> c_Severity c \<noteq> SeverityInfo) anyUnknown
        | ConditionUnknown \<Rightarrow> aggregate_flags cs anyFailing True))"

definition AggregateReady :: "'w conditions_lib_scheme \<Rightarrow> int \<Rightarrow> Monitoring \<Rightarrow> Monitoring" where
  "AggregateReady W g m =
     (if (case find_cond W m ConditionMonitoringDependenciesReady of
            None \<Rightarrow> True | Some c \<Rightarrow> c_Status c \<noteq> ConditionTrue)
      then MarkFalse W g ConditionTypeDegraded ''NotDegraded'' ''''
             (MarkFalse W g ConditionTypeReady ''PreconditionsFailed'' ''Required operators are not installed''
               (MarkFalse W g ConditionTypeProvisioningSucceeded
                  ''PreconditionsFailed'' ''Required operators are not installed'' m))
      else
        (let (anyFailing, anyUnknown) = aggregate_flags (GetConditions m) False False;
             m1 = MarkTrue W g ConditionTypeProvisioningSucceeded m
         in if anyFailing then
              MarkTrue W g ConditionTypeDegraded
                (MarkFalse W g ConditionTypeReady ''FeatureUnavailable''
                   ''A configured monitoring feature is unavailable'' m1)
            else if anyUnknown then
              MarkFalse W g ConditionTypeDegraded ''NotDegraded'' ''''
                (MarkUnknown W g ConditionTypeReady ''Progressing'' '''' m1)
            else
              MarkFalse W g ConditionTypeDegraded ''NotDegraded'' ''''
                (MarkTrue W g ConditionTypeReady m1)))"

definition PhaseOf :: "'w conditions_lib_scheme \<Rightarrow> Monitoring \<Rightarrow> Phase" where
  "PhaseOf W m =
     (if IsStatusConditionTrue W (GetConditions m) ConditionTypeReady then PhaseReady else PhaseNotReady)"

subsection \<open>What the manager relies on\<close>

text \<open>
  The documented behaviour of the library: \<open>FindStatusCondition\<close> returns the entry of the
  requested type, \<open>SetStatusCondition\<close> sets the entry of the new condition's type to the new
  condition and keeps the others, and the two predicates are defined by what a find returns.
\<close>

locale lawful_conditions =
  fixes W :: "'w conditions_lib_scheme"
  assumes find_entry: "FindStatusCondition W cs t = find (\<lambda>c. c_Type c = t) cs"
    and set_entries: "set (SetStatusCondition W cs c) \<subseteq> insert c (set cs)"
    and set_find: "FindStatusCondition W (SetStatusCondition W cs c) t =
        (if t = c_Type c then Some c else FindStatusCondition W cs t)"
    and set_distinct: "distinct (map c_Type cs) \<Longrightarrow> distinct (map c_Type (SetStatusCondition W cs c))"
    and true_iff: "IsStatusConditionTrue W cs t \<longleftrightarrow>
        (\<exists>c. FindStatusCondition W cs t = Some c \<and> c_Status c = ConditionTrue)"
    and equal_iff: "IsStatusConditionPresentAndEqual W cs t st \<longleftrightarrow>
        (\<exists>c. FindStatusCondition W cs t = Some c \<and> c_Status c = st)"
begin

lemma find_set_cond [simp]:
  "find_cond W (set_cond W c m) t = (if t = c_Type c then Some c else find_cond W m t)"
  by (simp add: find_cond_def set_cond_def set_find)

lemma find_MarkTrue [simp]:
  "find_cond W (MarkTrue W g t m) t' =
     (if t' = t then Some \<lparr>c_Type = t, c_Status = ConditionTrue, c_Reason = ''Available'',
        c_Message = '''', c_Severity = SeverityError, c_ObservedGeneration = g\<rparr> else find_cond W m t')"
  by (simp add: MarkTrue_def)

lemma find_MarkTrueWithReason [simp]:
  "find_cond W (MarkTrueWithReason W g t r msg m) t' =
     (if t' = t then Some \<lparr>c_Type = t, c_Status = ConditionTrue, c_Reason = r,
        c_Message = msg, c_Severity = SeverityError, c_ObservedGeneration = g\<rparr> else find_cond W m t')"
  by (simp add: MarkTrueWithReason_def)

lemma find_MarkFalse [simp]:
  "find_cond W (MarkFalse W g t r msg m) t' =
     (if t' = t then Some \<lparr>c_Type = t, c_Status = ConditionFalse, c_Reason = r,
        c_Message = msg, c_Severity = SeverityError, c_ObservedGeneration = g\<rparr> else find_cond W m t')"
  by (simp add: MarkFalse_def)

lemma find_MarkWarning [simp]:
  "find_cond W (MarkWarning W g t r msg m) t' =
     (if t' = t then Some \<lparr>c_Type = t, c_Status = ConditionFalse, c_Reason = r,
        c_Message = msg, c_Severity = SeverityInfo, c_ObservedGeneration = g\<rparr> else find_cond W m t')"
  by (simp add: MarkWarning_def)

lemma find_MarkNotConfigured [simp]:
  "find_cond W (MarkNotConfigured W g t r msg m) t' =
     (if t' = t then Some \<lparr>c_Type = t, c_Status = ConditionFalse, c_Reason = r,
        c_Message = msg, c_Severity = SeverityInfo, c_ObservedGeneration = g\<rparr> else find_cond W m t')"
  by (simp add: MarkNotConfigured_def)

lemma find_MarkUnknown [simp]:
  "find_cond W (MarkUnknown W g t r msg m) t' =
     (if t' = t then Some \<lparr>c_Type = t, c_Status = ConditionUnknown, c_Reason = r,
        c_Message = msg, c_Severity = SeverityError, c_ObservedGeneration = g\<rparr> else find_cond W m t')"
  by (simp add: MarkUnknown_def)

lemma PhaseOf_iff:
  "PhaseOf W m = PhaseReady \<longleftrightarrow>
     (\<exists>c. find_cond W m ConditionTypeReady = Some c \<and> c_Status c = ConditionTrue)"
  by (simp add: PhaseOf_def true_iff find_cond_def)

lemma find_cond_entry: "find_cond W m t = Some c \<Longrightarrow> c \<in> set (GetConditions m) \<and> c_Type c = t"
  by (auto simp: find_cond_def find_entry find_Some_iff)

lemma entry_find_cond:
  assumes "distinct (map c_Type (GetConditions m))" and "c \<in> set (GetConditions m)"
  shows "find_cond W m (c_Type c) = Some c"
proof -
  obtain d where d: "find (\<lambda>x. c_Type x = c_Type c) (GetConditions m) = Some d"
    using assms(2) by (cases "find (\<lambda>x. c_Type x = c_Type c) (GetConditions m)") (auto simp: find_None_iff)
  then have "d \<in> set (GetConditions m)" and "c_Type d = c_Type c"
    by (auto simp: find_Some_iff)
  with assms have "d = c"
    by (metis distinct_map inj_onD)
  with d show ?thesis by (simp add: find_cond_def find_entry)
qed

lemma distinct_set_cond [simp]:
  "distinct (map c_Type (GetConditions m)) \<Longrightarrow> distinct (map c_Type (GetConditions (set_cond W c m)))"
  by (simp add: set_cond_def set_distinct)

lemma GetConditions_set_cond: "set (GetConditions (set_cond W c m)) \<subseteq> insert c (set (GetConditions m))"
  by (simp add: set_cond_def set_entries)

end

text \<open>
  An instance of the laws: an in-place update of the entry with the new condition's type, or an
  append when there is none.
\<close>

fun upsert_condition :: "Condition list \<Rightarrow> Condition \<Rightarrow> Condition list" where
  "upsert_condition [] c = [c]"
| "upsert_condition (x # xs) c = (if c_Type x = c_Type c then c # xs else x # upsert_condition xs c)"

definition upsert_lib :: conditions_lib where
  "upsert_lib =
     \<lparr>SetStatusCondition = upsert_condition,
      FindStatusCondition = (\<lambda>cs t. find (\<lambda>c. c_Type c = t) cs),
      IsStatusConditionTrue =
        (\<lambda>cs t. case find (\<lambda>c. c_Type c = t) cs of None \<Rightarrow> False | Some c \<Rightarrow> c_Status c = ConditionTrue),
      IsStatusConditionPresentAndEqual =
        (\<lambda>cs t st. case find (\<lambda>c. c_Type c = t) cs of None \<Rightarrow> False | Some c \<Rightarrow> c_Status c = st)\<rparr>"

lemma set_upsert_condition: "set (upsert_condition cs c) \<subseteq> insert c (set cs)"
  by (induction cs) auto

lemma find_upsert_condition:
  "find (\<lambda>x. c_Type x = t) (upsert_condition cs c) =
     (if t = c_Type c then Some c else find (\<lambda>x. c_Type x = t) cs)"
  by (induction cs) auto

lemma types_upsert_condition: "c_Type ` set (upsert_condition cs c) = insert (c_Type c) (c_Type ` set cs)"
  by (induction cs) auto

lemma distinct_upsert_condition:
  "distinct (map c_Type cs) \<Longrightarrow> distinct (map c_Type (upsert_condition cs c))"
proof (induction cs)
  case (Cons a cs)
  then show ?case
    by (cases "c_Type a = c_Type c") (simp_all add: types_upsert_condition)
qed simp

lemma lawful_upsert_lib_scheme: "lawful_conditions (conditions_lib.extend upsert_lib e)"
  by unfold_locales
     (auto simp: upsert_lib_def conditions_lib.defs find_upsert_condition distinct_upsert_condition
        dest: set_upsert_condition [THEN subsetD] split: option.splits)

interpretation upsert: lawful_conditions upsert_lib
  using lawful_upsert_lib_scheme [of "()"] by (simp add: conditions_lib.defs upsert_lib_def)

subsection \<open>Readiness aggregation\<close>

definition failing_feature :: "Condition \<Rightarrow> bool" where
  "failing_feature c \<longleftrightarrow> c_Type c \<in> set featureConditionTypes \<and> c_Status c = ConditionFalse \<and>
     c_Severity c \<noteq> SeverityInfo"

definition unknown_feature :: "Condition \<Rightarrow> bool" where
  "unknown_feature c \<longleftrightarrow> c_Type c \<in> set featureConditionTypes \<and> c_Status c = ConditionUnknown"

lemma aggregate_flags_iff:
  "aggregate_flags cs f u = (f \<or> (\<exists>c \<in> set cs. failing_feature c), u \<or> (\<exists>c \<in> set cs. unknown_feature c))"
  by (induction cs arbitrary: f u)
     (auto simp: failing_feature_def unknown_feature_def split: ConditionStatus.splits)

text \<open>
  What the aggregation promises, stated without the loop and the order of the writes: a verdict
  on the object's conditions, and the statuses each verdict stands for.
\<close>

datatype readiness = Blocked | Failing | Progressing | Healthy

definition status_of :: "'w conditions_lib_scheme \<Rightarrow> Monitoring \<Rightarrow> string \<Rightarrow> ConditionStatus option" where
  "status_of W m t = map_option c_Status (find_cond W m t)"

definition readiness_of :: "'w conditions_lib_scheme \<Rightarrow> Monitoring \<Rightarrow> readiness" where
  "readiness_of W m =
     (if status_of W m ConditionMonitoringDependenciesReady \<noteq> Some ConditionTrue then Blocked
      else if \<exists>c \<in> set (GetConditions m). failing_feature c then Failing
      else if \<exists>c \<in> set (GetConditions m). unknown_feature c then Progressing
      else Healthy)"

definition top_level_types :: "string list" where
  "top_level_types = [ConditionTypeReady, ConditionTypeProvisioningSucceeded, ConditionTypeDegraded]"

lemma deps_ready_iff:
  "(case find_cond W m ConditionMonitoringDependenciesReady of
      None \<Rightarrow> True | Some c \<Rightarrow> c_Status c \<noteq> ConditionTrue) \<longleftrightarrow>
   status_of W m ConditionMonitoringDependenciesReady \<noteq> Some ConditionTrue"
  by (simp add: status_of_def split: option.splits)

lemmas aggregate_ready_unfold =
  AggregateReady_def deps_ready_iff aggregate_flags_iff readiness_of_def



end
