(* ===== verification/Cluster.thy ===== *)
theory Cluster
  imports Conditions
begin

section \<open>The cluster as the controller sees it\<close>

text \<open>
  Everything outside the repository that a reconcile reads is a field of the parameter
  \<open>cluster\<close>: environment variables, the answers of the Kubernetes client (a value or an error),
  the OLM lookups of the platform library, the template renderer and the garbage collector. It
  extends \<open>conditions_lib\<close>, so one argument \<open>W\<close> carries all of it. A field is the answer the
  API gives during one stage of a round; stages that follow a write take a \<open>cluster\<close> of their
  own. What the code writes is recorded as a list of \<open>effect\<close>s in the order it issues them: a
  request the server answered with an error is left out, except an apply, which the deploy library
  may have carried out in part.
  Objects are reduced to what the code reads of them: an accessor of the library that may fail
  (\<open>unstructured.NestedSlice\<close> and the like) is a field holding its outcome.
\<close>

type_synonym smap = "(string \<times> string) list"

text \<open>Indexing a Go map of strings: a missing key reads as the empty string.\<close>

definition sget :: "smap \<Rightarrow> string \<Rightarrow> string" where
  "sget m k = (case map_of m k of None \<Rightarrow> '''' | Some v \<Rightarrow> v)"

record KObject =
  o_Gvk :: gvk
  o_Namespace :: string
  o_Name :: string
  o_Labels :: smap
  o_Annotations :: smap
  o_ControllerUID :: "string option"
  o_UID :: string
  o_ResourceVersion :: string

record Secret =
  sec_Meta :: KObject
  sec_Type :: string
  sec_Data :: smap

record NamespaceObj =
  ns_Name :: string
  ns_Deleting :: bool
  ns_Labels :: smap
  ns_Annotations :: smap

record ConditionView =
  cv_Type :: string
  cv_Status :: string
  cv_ObservedGeneration :: "int option result"

record Unstructured =
  u_Generation :: int
  u_Conditions :: "ConditionView option list option result"

record DeploymentView =
  d_Replicas :: "int option"
  d_ReadyReplicas :: int

record Endpoint =
  ep_Ready :: "bool option"
  ep_Addresses :: "string list"

record EndpointSlice =
  es_AddressType :: string
  es_Endpoints :: "Endpoint list"

record RouteView =
  rt_TLS :: "(string \<times> string) option"
  rt_IngressHosts :: "string list"

record CSV =
  csv_Name :: string
  csv_Namespace :: string
  csv_CopiedFrom :: string
  csv_Phase :: "string option result"
  csv_Replaces :: "string option result"

record OperatorInfo =
  oi_Version :: string

text \<open>Values of the template data, Go's \<open>map[string]any\<close>.\<close>

datatype tval = TStr string | TBool bool | TInt int | TList "string list" | TMap smap

type_synonym tdata = "string \<rightharpoonup> tval"

text \<open>
  A decoded YAML value, Go's \<open>any\<close>: \<open>AOther\<close> stands for a value of a Go type that none of
  the type switches of the code names (a timestamp, say), with that type's name.
\<close>

datatype any =
    AStr string | AInt int | AFloat | ABool bool | ANil
  | AMap "(string \<times> any) list" | AList "any list" | AOther string

record cluster = conditions_lib +
  Getenv :: "string \<Rightarrow> string"
  ListLimit1 :: "gvk \<Rightarrow> go_error option"
  ListItemNamespaces :: "gvk \<Rightarrow> string list result"
  ListNamespaces :: "NamespaceObj list result"
  GetSecret :: "string \<Rightarrow> string \<Rightarrow> Secret result"
  GetConfigMapData :: "string \<Rightarrow> string \<Rightarrow> (smap option result) result"
  GetUnstructured :: "gvk \<Rightarrow> string \<Rightarrow> string \<Rightarrow> Unstructured result"
  GetDeployment :: "string \<Rightarrow> string \<Rightarrow> DeploymentView result"
  GetService :: "string \<Rightarrow> string \<Rightarrow> string result"
  ListEndpointSlices :: "string \<Rightarrow> string \<Rightarrow> EndpointSlice list result"
  GetRoute :: "string \<Rightarrow> string \<Rightarrow> RouteView result"
  GetNetworkPolicy :: "string \<Rightarrow> string \<Rightarrow> KObject result"
  ListOwned :: "gvk \<Rightarrow> KObject list result"
  DeleteAnswer :: "gvk \<Rightarrow> string \<Rightarrow> string \<Rightarrow> go_error option"
  PatchAnswer :: "gvk \<Rightarrow> string \<Rightarrow> string \<Rightarrow> go_error option"
  DeployAnswer :: "KObject list \<Rightarrow> go_error option"
  CollectorRun :: "(KObject \<Rightarrow> bool) \<Rightarrow> KObject list \<times> go_error option"
  Render :: "string list \<Rightarrow> tdata \<Rightarrow> KObject list result"
  OperatorExists :: "string \<Rightarrow> OperatorInfo result"
  ListCSVs :: "CSV list result"
  ViaClusterExtension :: "string \<Rightarrow> OperatorInfo option \<times> go_error option"
  IsSingleNodeCluster :: "bool \<times> go_error option"
  TLSFromAPIServer :: "(string \<times> string \<times> string) result"
  IsFipsEnabled :: "bool result"
  YamlUnmarshal :: "string \<Rightarrow> (string \<times> any) list option result"
  YamlMarshal :: "(string \<times> any) list \<Rightarrow> string result"
  MultiErrorText :: "string list \<Rightarrow> string"
  ReadFile :: "string \<Rightarrow> string result"
  GetMonitoring :: "string \<Rightarrow> Monitoring result"
  GetConfigMap :: "string \<Rightarrow> string \<Rightarrow> smap result"
  PatchMonitoringAnswer :: "go_error option"
  PatchStatusAnswer :: "go_error option"
  SetRelease :: "ComponentRelease list \<Rightarrow> ComponentRelease \<Rightarrow> ComponentRelease list"
  SetPlatformRelease :: "ComponentRelease list \<Rightarrow> string \<Rightarrow> ComponentRelease list"

text \<open>
  Requests that change the cluster. A deletion carries the UID and resource version it is
  conditioned on, when the code sets preconditions.
\<close>

datatype effect =
    Delete gvk string string "(string \<times> string) option"
  | Apply "KObject list"
  | PatchSecretData string string smap
  | PatchRouteCA string string string
  | CollectorDeleted KObject
  | PatchFinalizers "string list"
  | PatchStatus MonitoringStatus

text \<open>What an action mutates: the Monitoring object, the template sources, and the cluster.\<close>

record rstate =
  rs_Mon :: Monitoring
  rs_Sources :: "string list"
  rs_Effects :: "effect list"

type_synonym action_result = "rstate \<times> go_error option"

definition on_mon :: "(Monitoring \<Rightarrow> Monitoring) \<Rightarrow> rstate \<Rightarrow> rstate" where
  "on_mon f s = s\<lparr>rs_Mon := f (rs_Mon s)\<rparr>"

definition add_sources :: "string list \<Rightarrow> rstate \<Rightarrow> rstate" where
  "add_sources ts s = s\<lparr>rs_Sources := rs_Sources s @ ts\<rparr>"

definition emit :: "effect \<Rightarrow> rstate \<Rightarrow> rstate" where
  "emit e s = s\<lparr>rs_Effects := rs_Effects s @ [e]\<rparr>"

subsection \<open>A sample cluster\<close>

text \<open>
  An API server that serves no optional kind and holds no object, with the in-place upsert as
  the conditions library: the base of the concrete instances in this development.
\<close>

definition notFound :: go_error where
  "notFound = GoError (ApiStatus NotFound) ''not found'' []"

fun upsert_release :: "ComponentRelease list \<Rightarrow> ComponentRelease \<Rightarrow> ComponentRelease list" where
  "upsert_release [] r = [r]"
| "upsert_release (x # xs) r = (if rel_Name x = rel_Name r then r # xs else x # upsert_release xs r)"

definition quiet_cluster :: cluster where
  "quiet_cluster =
     \<lparr>SetStatusCondition = SetStatusCondition upsert_lib,
      FindStatusCondition = FindStatusCondition upsert_lib,
      IsStatusConditionTrue = IsStatusConditionTrue upsert_lib,
      IsStatusConditionPresentAndEqual = IsStatusConditionPresentAndEqual upsert_lib,
      Getenv = (\<lambda>v. if v = ''OPERATOR_IMAGE'' then ''quay.io/op:1'' else ''''),
      ListLimit1 = (\<lambda>_. Some notFound),
      ListItemNamespaces = (\<lambda>_. Inl notFound),
      ListNamespaces = Inr [],
      GetSecret = (\<lambda>_ _. Inl notFound),
      GetConfigMapData = (\<lambda>_ _. Inl notFound),
      GetUnstructured = (\<lambda>_ _ _. Inl notFound),
      GetDeployment = (\<lambda>_ _. Inl notFound),
      GetService = (\<lambda>_ _. Inl notFound),
      ListEndpointSlices = (\<lambda>_ _. Inr []),
      GetRoute = (\<lambda>_ _. Inl notFound),
      GetNetworkPolicy = (\<lambda>_ _. Inl notFound),
      ListOwned = (\<lambda>_. Inr []),
      DeleteAnswer = (\<lambda>_ _ _. None),
      PatchAnswer = (\<lambda>_ _ _. None),
      DeployAnswer = (\<lambda>_. None),
      CollectorRun = (\<lambda>_. ([], None)),
      Render = (\<lambda>_ _. Inr []),
      OperatorExists = (\<lambda>_. Inr \<lparr>oi_Version = ''v1.5.0''\<rparr>),
      ListCSVs = Inl (GoError NoMatch ''no match'' []),
      ViaClusterExtension = (\<lambda>_. (None, None)),
      IsSingleNodeCluster = (False, None),
      TLSFromAPIServer = Inr (''VersionTLS13'', '''', ''''),
      IsFipsEnabled = Inr False,
      YamlUnmarshal = (\<lambda>_. Inr None),
      YamlMarshal = (\<lambda>_. Inr ''''),
      MultiErrorText = concat,
      ReadFile = (\<lambda>path. Inr path),
      GetMonitoring = (\<lambda>_. Inl notFound),
      GetConfigMap = (\<lambda>_ _. Inl notFound),
      PatchMonitoringAnswer = None,
      PatchStatusAnswer = None,
      SetRelease = upsert_release,
      SetPlatformRelease = (\<lambda>rs v. upsert_release rs
        \<lparr>rel_Name = ''platform'', rel_RepoURL = '''', rel_Version = v\<rparr>)\<rparr>"

lemma lawful_like_upsert:
  assumes "SetStatusCondition W = SetStatusCondition upsert_lib"
    and "FindStatusCondition W = FindStatusCondition upsert_lib"
    and "IsStatusConditionTrue W = IsStatusConditionTrue upsert_lib"
    and "IsStatusConditionPresentAndEqual W = IsStatusConditionPresentAndEqual upsert_lib"
  shows "lawful_conditions W"
  using upsert.lawful_conditions_axioms unfolding lawful_conditions_def assms .

lemma lawful_quiet_cluster: "lawful_conditions quiet_cluster"
  by (rule lawful_like_upsert) (simp_all add: quiet_cluster_def)

lemma notFound_classes [simp]: "IsNotFound notFound" "\<not> IsNoMatchError notFound"
  by (simp_all add: notFound_def IsNotFound_def ReasonForError_def IsNoMatchError_def errors_As_def)

end
