(* ===== verification/Helpers.thy ===== *)
theory Helpers
  imports Cluster
begin

section \<open>Reads of the cluster (helpers.go and the readiness checks of actions.go)\<close>

text \<open>
  Namespace selection, CRD detection, readiness of operand objects, and the copies of the
  injected service CA. A function that returns \<open>(T, error)\<close> in Go is a \<open>result\<close>; one that
  also issues requests threads the \<open>rstate\<close>.
\<close>

subsection \<open>Environment and namespaces\<close>

definition getEnvOrDefault :: "'w cluster_scheme \<Rightarrow> string \<Rightarrow> string \<Rightarrow> string" where
  "getEnvOrDefault W envVar defaultVal =
     (if Getenv W envVar \<noteq> '''' then Getenv W envVar else defaultVal)"

definition defaultMonitoringNamespace :: string where
  "defaultMonitoringNamespace = ''opendatahub''"

definition clusterLoggingNamespace :: string where
  "clusterLoggingNamespace = ''openshift-logging''"

definition monitoringNamespace :: "'w cluster_scheme \<Rightarrow> Monitoring \<Rightarrow> string" where
  "monitoringNamespace W m =
     (if sp_Namespace (mo_Spec m) = ''''
      then (if Getenv W ''MONITORING_NAMESPACE'' \<noteq> '''' then Getenv W ''MONITORING_NAMESPACE''
            else defaultMonitoringNamespace)
      else sp_Namespace (mo_Spec m))"

subsection \<open>Custom resource definitions\<close>

definition list_kind :: "gvk \<Rightarrow> gvk" where
  "list_kind g = g\<lparr>Kind := Kind g @ ''List''\<rparr>"

definition hasCRD :: "'w cluster_scheme \<Rightarrow> gvk \<Rightarrow> bool result" where
  "hasCRD W g =
     (case ListLimit1 W (list_kind g) of
        None \<Rightarrow> Inr True
      | Some err \<Rightarrow>
          if IsNoMatchError err \<or> IsNotFound err then Inr False else Inl (wrapf ''hasCRD: '' err))"

definition hasCRDWithVersion :: "'w cluster_scheme \<Rightarrow> string \<Rightarrow> string \<Rightarrow> string \<Rightarrow> bool result" where
  "hasCRDWithVersion W grp kind version =
     (case ListLimit1 W \<lparr>Group = grp, Version = version, Kind = kind @ ''List''\<rparr> of
        None \<Rightarrow> Inr True
      | Some err \<Rightarrow>
          if IsNotFound err \<or> IsNoMatchError err then Inr False
          else Inl (wrapf ''hasCRDWithVersion: '' err))"

definition persesV1Alpha2 :: string where
  "persesV1Alpha2 = ''v1alpha2''"

definition resolvePersesAPIVersion :: "'w cluster_scheme \<Rightarrow> (string \<times> bool) result" where
  "resolvePersesAPIVersion W =
     (case hasCRDWithVersion W ''perses.dev'' ''Perses'' persesV1Alpha2 of
        Inl err \<Rightarrow> Inl err
      | Inr True \<Rightarrow> Inr (persesV1Alpha2, True)
      | Inr False \<Rightarrow>
          (case hasCRDWithVersion W ''perses.dev'' ''Perses'' ''v1alpha1'' of
             Inl err \<Rightarrow> Inl err
           | Inr True \<Rightarrow> Inr (''v1alpha1'', True)
           | Inr False \<Rightarrow> Inr ('''', False)))"

definition persesGVKs :: "string \<Rightarrow> gvk \<times> gvk \<times> gvk" where
  "persesGVKs version =
     (if version = persesV1Alpha2
      then (gvk_PersesV1Alpha2, gvk_PersesDatasourceV1Alpha2, gvk_PersesDashboardV1Alpha2)
      else (gvk_PersesV1Alpha1, gvk_PersesDatasourceV1Alpha1, gvk_PersesDashboardV1Alpha1))"

subsection \<open>Namespace discovery\<close>

fun discover_loop :: "'w cluster_scheme \<Rightarrow> gvk list \<Rightarrow> string list \<Rightarrow> string list result" where
  "discover_loop W [] seen = Inr seen"
| "discover_loop W (g # gs) seen =
     (case ListItemNamespaces W (list_kind g) of
        Inl err \<Rightarrow>
          if IsNoMatchError err \<or> IsNotFound err then discover_loop W gs seen
          else Inl (wrapf (''listing '' @ Kind g @ '': '') err)
      | Inr items \<Rightarrow> discover_loop W gs (seen @ filter (\<lambda>ns. ns \<noteq> '''') items))"

definition discoverInferenceNamespaces :: "'w cluster_scheme \<Rightarrow> string list result" where
  "discoverInferenceNamespaces W =
     (case discover_loop W [gvk_InferenceService, gvk_LLMInferenceService] [] of
        Inl err \<Rightarrow> Inl err
      | Inr seen \<Rightarrow> Inr (sorted_keys seen))"

definition openshiftRunLevelLabel :: string where
  "openshiftRunLevelLabel = ''openshift.io/run-level''"
definition openshiftClusterMonitoringKey :: string where
  "openshiftClusterMonitoringKey = ''openshift.io/cluster-monitoring''"
definition openshiftClusterLoggingKey :: string where
  "openshiftClusterLoggingKey = ''openshift.io/cluster-logging''"
definition hypershiftManagedLabel :: string where
  "hypershiftManagedLabel = ''hypershift.openshift.io/managed''"
definition olmOperatorGroupLabelPrefix :: string where
  "olmOperatorGroupLabelPrefix = ''olm.operatorgroup.uid/''"

definition isSystemNamespace :: "NamespaceObj \<Rightarrow> bool" where
  "isSystemNamespace ns \<longleftrightarrow>
     ns_Name ns \<in> set ['''', ''default'', ''kube-system'', ''kube-public'', ''kube-node-lease'',
        ''openshift'', ''openshift-infra'', ''openshift-node''] \<or>
     HasPrefix (ns_Name ns) ''openshift-'' \<or>
     map_of (ns_Labels ns) openshiftRunLevelLabel \<noteq> None \<or>
     list_ex (\<lambda>key. sget (ns_Labels ns) key = ''true'' \<or> sget (ns_Annotations ns) key = ''true'')
       [openshiftClusterMonitoringKey, openshiftClusterLoggingKey] \<or>
     sget (ns_Labels ns) hypershiftManagedLabel = ''true'' \<or>
     list_ex (\<lambda>(key, _). HasPrefix key olmOperatorGroupLabelPrefix) (ns_Labels ns)"

text \<open>The loop over the listed namespaces: the set built so far and \<open>fallbackFound\<close>.\<close>

fun namespaces_loop :: "string \<Rightarrow> NamespaceObj list \<Rightarrow> string list \<Rightarrow> bool \<Rightarrow> string list \<times> bool" where
  "namespaces_loop fallback [] namespaces fallbackFound = (namespaces, fallbackFound)"
| "namespaces_loop fallback (ns # items) namespaces fallbackFound =
     (if ns_Name ns = '''' \<or> ns_Deleting ns then
        namespaces_loop fallback items namespaces (fallbackFound \<or> ns_Name ns = fallback)
      else if ns_Name ns = fallback then
        namespaces_loop fallback items (namespaces @ [ns_Name ns]) True
      else if \<not> isSystemNamespace ns then
        namespaces_loop fallback items (namespaces @ [ns_Name ns]) fallbackFound
      else namespaces_loop fallback items namespaces fallbackFound)"

definition listAllNamespaces :: "'w cluster_scheme \<Rightarrow> string \<Rightarrow> string list result" where
  "listAllNamespaces W fallback =
     (case ListNamespaces W of
        Inl err \<Rightarrow> Inl (wrapf ''listing namespaces: '' err)
      | Inr items \<Rightarrow>
          (let (namespaces, fallbackFound) = namespaces_loop fallback items [] False
           in Inr (sorted_keys
                (if fallback \<noteq> '''' \<and> \<not> fallbackFound then namespaces @ [fallback] else namespaces))))"

lemma namespaces_loop_set:
  "set (fst (namespaces_loop fb items acc found)) =
     set acc \<union> {ns_Name ns | ns. ns \<in> set items \<and> ns_Name ns \<noteq> '''' \<and> \<not> ns_Deleting ns \<and>
                   (ns_Name ns = fb \<or> \<not> isSystemNamespace ns)}"
  by (induction items arbitrary: acc found) auto

lemma namespaces_loop_found:
  "snd (namespaces_loop fb items acc found) \<longleftrightarrow>
     found \<or> (\<exists>ns \<in> set items. ns_Name ns = fb)"
  by (induction items arbitrary: acc found) auto

text \<open>
  C15: \<open>listAllNamespaces\<close> returns, in strict order, exactly the live namespaces that are not
  system namespaces, together with the monitoring namespace: that one is included when it is
  live (even if it is a system namespace) or when the list omits it, and left out only while it
  is listed as terminating. A failed list is an error and grants nothing.
\<close>

theorem list_all_namespaces_spec:
  "case ListNamespaces W of
     Inl err \<Rightarrow> listAllNamespaces W fb = Inl (wrapf ''listing namespaces: '' err)
   | Inr items \<Rightarrow>
       (\<exists>xs. listAllNamespaces W fb = Inr xs \<and> sorted xs \<and> distinct xs \<and>
          set xs =
            {ns_Name ns | ns. ns \<in> set items \<and> ns_Name ns \<noteq> '''' \<and> \<not> ns_Deleting ns \<and>
               (ns_Name ns = fb \<or> \<not> isSystemNamespace ns)} \<union>
            (if fb \<noteq> '''' \<and> fb \<notin> ns_Name ` set items then {fb} else {}))"
proof (cases "ListNamespaces W")
  case (Inr items)
  obtain acc found where loop: "namespaces_loop fb items [] False = (acc, found)"
    by (cases "namespaces_loop fb items [] False")
  have "found \<longleftrightarrow> fb \<in> ns_Name ` set items"
    using namespaces_loop_found [of fb items "[]" False] loop by auto
  then show ?thesis
    using Inr namespaces_loop_set [of fb items "[]" False] loop
    by (auto simp: listAllNamespaces_def)
qed (simp add: listAllNamespaces_def)

definition sample_namespace :: "string \<Rightarrow> bool \<Rightarrow> NamespaceObj" where
  "sample_namespace name deleting =
     \<lparr>ns_Name = name, ns_Deleting = deleting, ns_Labels = [], ns_Annotations = []\<rparr>"

definition sample_namespaces :: "NamespaceObj list" where
  "sample_namespaces =
     [sample_namespace ''team'' False, sample_namespace ''openshift-dns'' False,
      sample_namespace ''old'' True]"

lemma sample_system_namespaces:
  "\<not> isSystemNamespace (sample_namespace ''team'' False)"
  "isSystemNamespace (sample_namespace ''openshift-dns'' False)"
  by (simp_all add: isSystemNamespace_def sample_namespace_def sget_def)

theorem list_all_namespaces_spec_witness:
  "\<exists>xs. listAllNamespaces (quiet_cluster\<lparr>ListNamespaces := Inr sample_namespaces\<rparr>) ''opendatahub'' = Inr xs \<and>
    sorted xs \<and> set xs = {''team'', ''opendatahub''}"
proof -
  have names: "ns_Name (sample_namespace n d) = n" "ns_Deleting (sample_namespace n d) = d" for n d
    by (simp_all add: sample_namespace_def)
  have "{ns_Name ns | ns. ns \<in> set sample_namespaces \<and> ns_Name ns \<noteq> '''' \<and> \<not> ns_Deleting ns \<and>
     (ns_Name ns = ''opendatahub'' \<or> \<not> isSystemNamespace ns)} = {''team''}"
    using sample_system_namespaces unfolding sample_namespaces_def
    by (auto simp: names intro!: exI [of _ "sample_namespace ''team'' False"])
  moreover have "''opendatahub'' \<notin> ns_Name ` set sample_namespaces"
    by (simp add: sample_namespaces_def names)
  ultimately show ?thesis
    using list_all_namespaces_spec [of "quiet_cluster\<lparr>ListNamespaces := Inr sample_namespaces\<rparr>" "''opendatahub''"]
    by (auto simp: insert_commute)
qed

subsection \<open>Readiness of operands\<close>

definition is_ready_type :: "string \<Rightarrow> bool" where
  "is_ready_type t \<longleftrightarrow> t = ''Ready'' \<or> HasSuffix t ''/Ready''"

fun ready_loop :: "ConditionView option list \<Rightarrow> bool" where
  "ready_loop [] = False"
| "ready_loop (None # conds) = ready_loop conds"
| "ready_loop (Some cv # conds) =
     (if is_ready_type (cv_Type cv) \<and> cv_Status cv = ''True'' then True else ready_loop conds)"

definition hasReadyCondition :: "Unstructured \<Rightarrow> bool result" where
  "hasReadyCondition obj =
     (case u_Conditions obj of
        Inl err \<Rightarrow> Inl err
      | Inr None \<Rightarrow> Inr False
      | Inr (Some conds) \<Rightarrow> Inr (ready_loop conds))"

fun current_ready_loop :: "int \<Rightarrow> ConditionView option list \<Rightarrow> bool result" where
  "current_ready_loop gen [] = Inr False"
| "current_ready_loop gen (None # conds) = current_ready_loop gen conds"
| "current_ready_loop gen (Some cv # conds) =
     (if \<not> is_ready_type (cv_Type cv) \<or> cv_Status cv \<noteq> ''True'' then current_ready_loop gen conds
      else (case cv_ObservedGeneration cv of
          Inl err \<Rightarrow> Inl err
        | Inr None \<Rightarrow> Inr False
        | Inr (Some og) \<Rightarrow> Inr (og = gen)))"

definition hasCurrentReadyCondition :: "Unstructured \<Rightarrow> bool result" where
  "hasCurrentReadyCondition obj =
     (case u_Conditions obj of
        Inl err \<Rightarrow> Inl err
      | Inr None \<Rightarrow> Inr False
      | Inr (Some conds) \<Rightarrow> current_ready_loop (u_Generation obj) conds)"

definition openTelemetryCollectorName :: string where
  "openTelemetryCollectorName = ''data-science-collector''"
definition usageLogsLokiStackResourceName :: string where
  "usageLogsLokiStackResourceName = ''data-science-usage-logs-lokistack''"
definition lokiStackResourceName :: string where
  "lokiStackResourceName = ''data-science-lokistack''"
definition clusterLogForwarderResourceName :: string where
  "clusterLogForwarderResourceName = ''data-science-cluster-log-forwarder''"
definition Korrel8rServiceName :: string where
  "Korrel8rServiceName = ''korrel8r''"

definition isOpenTelemetryCollectorReady :: "'w cluster_scheme \<Rightarrow> string \<Rightarrow> bool result" where
  "isOpenTelemetryCollectorReady W namespace =
     (case GetUnstructured W gvk_OpenTelemetryCollector namespace openTelemetryCollectorName of
        Inl err \<Rightarrow> if IsNotFound err then Inr False else Inl err
      | Inr collector \<Rightarrow> hasCurrentReadyCondition collector)"

definition isLokiStackReady :: "'w cluster_scheme \<Rightarrow> Monitoring \<Rightarrow> string \<Rightarrow> bool result" where
  "isLokiStackReady W m name =
     (case GetUnstructured W gvk_LokiStack (monitoringNamespace W m) name of
        Inl err \<Rightarrow> if IsNotFound err then Inr False else Inl err
      | Inr lokiStack \<Rightarrow>
          (case hasReadyCondition lokiStack of
             Inl err \<Rightarrow> Inl (wrapf ''malformed LokiStack status.conditions: '' err)
           | Inr ready \<Rightarrow> Inr ready))"

definition isClusterLogForwarderReady :: "'w cluster_scheme \<Rightarrow> bool result" where
  "isClusterLogForwarderReady W =
     (case GetUnstructured W gvk_ClusterLogForwarder clusterLoggingNamespace clusterLogForwarderResourceName of
        Inl err \<Rightarrow> if IsNotFound err then Inr False else Inl err
      | Inr clf \<Rightarrow>
          (case hasReadyCondition clf of
             Inl err \<Rightarrow> Inl (wrapf ''malformed ClusterLogForwarder status.conditions: '' err)
           | Inr ready \<Rightarrow> Inr ready))"

definition usageLogsCredentialExists :: "'w cluster_scheme \<Rightarrow> Monitoring \<Rightarrow> string \<Rightarrow> bool result" where
  "usageLogsCredentialExists W m credentialSecret =
     (case GetSecret W (monitoringNamespace W m) credentialSecret of
        Inl err \<Rightarrow>
          if IsNotFound err then Inr False
          else Inl (wrapf ''getting usage logs credential Secret: '' err)
      | Inr _ \<Rightarrow> Inr True)"

definition korrel8rReady :: "'w cluster_scheme \<Rightarrow> string \<Rightarrow> bool result" where
  "korrel8rReady W namespace =
     (case GetDeployment W namespace Korrel8rServiceName of
        Inl err \<Rightarrow>
          if IsNotFound err then Inr False else Inl (wrapf ''getting Korrel8r Deployment: '' err)
      | Inr deployment \<Rightarrow>
          (let desiredReplicas = (case d_Replicas deployment of None \<Rightarrow> 1 | Some n \<Rightarrow> n) in
           if d_ReadyReplicas deployment < desiredReplicas then Inr False
           else (case GetService W namespace Korrel8rServiceName of
               Inl err \<Rightarrow>
                 if IsNotFound err then Inr False else Inl (wrapf ''getting Korrel8r Service: '' err)
             | Inr service \<Rightarrow>
                 (case ListEndpointSlices W namespace service of
                    Inl err \<Rightarrow> Inl (wrapf ''listing Korrel8r endpoint slices: '' err)
                  | Inr slices \<Rightarrow>
                      Inr (list_ex (\<lambda>sl. list_ex (\<lambda>ep. ep_Ready ep = Some True) (es_Endpoints sl)) slices)))))"

lemma current_ready_loop_sound:
  "current_ready_loop gen conds = Inr True \<Longrightarrow>
     \<exists>cv. Some cv \<in> set conds \<and> is_ready_type (cv_Type cv) \<and> cv_Status cv = ''True'' \<and>
       cv_ObservedGeneration cv = Inr (Some gen)"
  by (induction gen conds rule: current_ready_loop.induct)
     (auto split: if_splits sum.splits option.splits)

lemma ready_loop_iff:
  "ready_loop conds \<longleftrightarrow>
     (\<exists>cv. Some cv \<in> set conds \<and> is_ready_type (cv_Type cv) \<and> cv_Status cv = ''True'')"
  by (induction conds rule: ready_loop.induct) auto

text \<open>
  The collector is reported ready only on evidence about its current spec: the object exists
  and one of its conditions is a Ready condition with status True whose observed generation is
  the object's generation. A missing object, a missing generation or a stale one is not ready.
\<close>

theorem collector_ready_is_current:
  assumes "isOpenTelemetryCollectorReady W namespace = Inr True"
  shows "\<exists>obj conds cv.
      GetUnstructured W gvk_OpenTelemetryCollector namespace openTelemetryCollectorName = Inr obj \<and>
      u_Conditions obj = Inr (Some conds) \<and> Some cv \<in> set conds \<and> is_ready_type (cv_Type cv) \<and>
      cv_Status cv = ''True'' \<and> cv_ObservedGeneration cv = Inr (Some (u_Generation obj))"
  using assms
  by (fastforce simp: isOpenTelemetryCollectorReady_def hasCurrentReadyCondition_def
      dest: current_ready_loop_sound split: sum.splits if_splits option.splits)

theorem collector_ready_is_current_witness:
  "\<exists>obj conds cv.
      GetUnstructured (quiet_cluster\<lparr>GetUnstructured := \<lambda>_ _ _. Inr \<lparr>u_Generation = 3, u_Conditions = Inr (Some
          [Some \<lparr>cv_Type = ''Ready'', cv_Status = ''True'', cv_ObservedGeneration = Inr (Some 3)\<rparr>])\<rparr>\<rparr>)
        gvk_OpenTelemetryCollector ''opendatahub'' openTelemetryCollectorName = Inr obj \<and>
      u_Conditions obj = Inr (Some conds) \<and> Some cv \<in> set conds \<and> is_ready_type (cv_Type cv) \<and>
      cv_Status cv = ''True'' \<and> cv_ObservedGeneration cv = Inr (Some (u_Generation obj))"
  by (rule collector_ready_is_current)
     (simp add: isOpenTelemetryCollectorReady_def hasCurrentReadyCondition_def is_ready_type_def)

subsection \<open>Copies of the service CA\<close>

definition serviceCACertificateKey :: string where
  "serviceCACertificateKey = ''service-ca.crt''"
definition prometheusWebTLSCAConfigMapName :: string where
  "prometheusWebTLSCAConfigMapName = ''prometheus-web-tls-ca''"
definition thanosQuerierRouteName :: string where
  "thanosQuerierRouteName = ''data-science-thanos-querier-route''"

text \<open>\<open>base64.StdEncoding.EncodeToString\<close>.\<close>

definition b64_char :: "nat \<Rightarrow> char" where
  "b64_char n =
     (if n < 26 then char_of (65 + n) else if n < 52 then char_of (71 + n)
      else if n < 62 then char_of (n - 4) else if n = 62 then CHR ''+'' else CHR 0x2F)"

fun EncodeToString :: "string \<Rightarrow> string" where
  "EncodeToString [] = []"
| "EncodeToString [a] =
     (let x = of_char a in [b64_char (x div 4), b64_char ((x mod 4) * 16), CHR ''='', CHR ''=''])"
| "EncodeToString [a, b] =
     (let x = of_char a; y = of_char b in
      [b64_char (x div 4), b64_char ((x mod 4) * 16 + y div 16), b64_char ((y mod 16) * 4), CHR ''=''])"
| "EncodeToString (a # b # c # s) =
     (let x = of_char a; y = of_char b; z = of_char c in
      [b64_char (x div 4), b64_char ((x mod 4) * 16 + y div 16), b64_char ((y mod 16) * 4 + z div 64),
       b64_char (z mod 64)]) @ EncodeToString s"

definition syncPrometheusWebTLSCA ::
  "'w cluster_scheme \<Rightarrow> rstate \<Rightarrow> rstate \<times> bool result" where
  "syncPrometheusWebTLSCA W s =
     (if metrics_storage (mo_Spec (rs_Mon s)) = None then (s, Inr True)
      else
       (let namespace = monitoringNamespace W (rs_Mon s); name = prometheusWebTLSCAConfigMapName in
        case GetConfigMapData W namespace name of
          Inl err \<Rightarrow>
            if IsNotFound err then (s, Inr False) else (s, Inl (wrapf ''failed to get CA ConfigMap: '' err))
        | Inr (Inl err) \<Rightarrow> (s, Inl (wrapf ''failed to extract data from ConfigMap: '' err))
        | Inr (Inr None) \<Rightarrow> (s, Inr False)
        | Inr (Inr (Some data)) \<Rightarrow>
            (let caCert = sget data serviceCACertificateKey in
             if caCert = '''' then (s, Inr False)
             else
               (let apply_secret =
                  (case PatchAnswer W gvk_Secret namespace name of
                     Some err \<Rightarrow> (s, Inl (wrapf ''failed to apply CA Secret: '' err))
                   | None \<Rightarrow>
                       (emit (PatchSecretData namespace name
                          [(serviceCACertificateKey, EncodeToString caCert)]) s, Inr True))
                in case GetSecret W namespace name of
                     Inl err \<Rightarrow>
                       if IsNotFound err then apply_secret
                       else (s, Inl (wrapf ''failed to get CA Secret: '' err))
                   | Inr current \<Rightarrow>
                       if sec_Type current = ''Opaque'' \<and>
                          sget (sec_Data current) serviceCACertificateKey = caCert
                       then (s, Inr True) else apply_secret))))"

definition syncThanosQuerierRouteDestinationCA ::
  "'w cluster_scheme \<Rightarrow> rstate \<Rightarrow> rstate \<times> go_error option" where
  "syncThanosQuerierRouteDestinationCA W s =
     (if metrics_storage (mo_Spec (rs_Mon s)) = None then (s, None)
      else
       (let namespace = monitoringNamespace W (rs_Mon s) in
        case GetConfigMapData W namespace prometheusWebTLSCAConfigMapName of
          Inl err \<Rightarrow>
            if IsNotFound err then (s, None)
            else (s, Some (wrapf ''failed to get Thanos route destination CA ConfigMap: '' err))
        | Inr (Inl err) \<Rightarrow> (s, Some (wrapf ''failed to extract Thanos route destination CA: '' err))
        | Inr (Inr None) \<Rightarrow> (s, None)
        | Inr (Inr (Some data)) \<Rightarrow>
            (let ca = sget data serviceCACertificateKey in
             if ca = '''' then (s, None)
             else (case GetRoute W namespace thanosQuerierRouteName of
                 Inl err \<Rightarrow>
                   if IsNotFound err then (s, None)
                   else (s, Some (wrapf ''failed to get Thanos Querier Route: '' err))
               | Inr route \<Rightarrow>
                   (case rt_TLS route of
                      None \<Rightarrow> (s, None)
                    | Some (termination, destinationCA) \<Rightarrow>
                        if termination \<noteq> ''reencrypt'' then (s, None)
                        else if destinationCA = ca then (s, None)
                        else (case PatchAnswer W gvk_Route namespace thanosQuerierRouteName of
                            Some err \<Rightarrow>
                              (s, Some (wrapf ''failed to set Thanos Querier Route destination CA: '' err))
                          | None \<Rightarrow>
                              (emit (PatchRouteCA namespace thanosQuerierRouteName ca) s, None)))))))"

definition set_url :: "string \<Rightarrow> Monitoring \<Rightarrow> Monitoring" where
  "set_url url m = m\<lparr>mo_Status := (mo_Status m)\<lparr>st_URL := url\<rparr>\<rparr>"

definition syncStatusURL :: "'w cluster_scheme \<Rightarrow> Monitoring \<Rightarrow> Monitoring \<times> go_error option" where
  "syncStatusURL W m =
     (if metrics_storage (mo_Spec m) = None then (set_url '''' m, None)
      else (case GetRoute W (monitoringNamespace W m) thanosQuerierRouteName of
          Inl err \<Rightarrow>
            (set_url '''' m,
             if IsNotFound err then None
             else Some (wrapf ''failed to fetch Thanos Querier route for status URL: '' err))
        | Inr route \<Rightarrow>
            (case rt_IngressHosts route of
               [] \<Rightarrow> (m, None)
             | host # _ \<Rightarrow> if host \<noteq> '''' then (set_url (''https://'' @ host) m, None) else (m, None))))"

end
