(* ===== verification/Go_Url.thy ===== *)
theory Go_Url
  imports Go_Prelude
begin

section \<open>Addresses and URLs of Go's standard library\<close>

text \<open>
  The parts of \<open>net/netip\<close>, \<open>net/url\<close>, \<open>net\<close> and \<open>path\<close> that the operator calls, following
  the library of the Go release in \<open>go.mod\<close> (1.26): \<open>netip.ParseAddr\<close>, \<open>url.Parse\<close> with
  \<open>Hostname\<close> and \<open>Port\<close>, \<open>net.JoinHostPort\<close>, and \<open>path.Clean\<close> on rooted paths. A host with
  more than one colon outside brackets is rejected, as that release does by default. Parse
  errors are not distinguished: the callers replace them by messages of their own.
\<close>

subsection \<open>Characters\<close>

definition is_digit :: "char \<Rightarrow> bool" where
  "is_digit c \<longleftrightarrow> (let n = (of_char c :: nat) in 48 \<le> n \<and> n \<le> 57)"

definition is_alpha :: "char \<Rightarrow> bool" where
  "is_alpha c \<longleftrightarrow> (let n = (of_char c :: nat) in 65 \<le> n \<and> n \<le> 90 \<or> 97 \<le> n \<and> n \<le> 122)"

definition is_hex :: "char \<Rightarrow> bool" where
  "is_hex c \<longleftrightarrow> (let n = (of_char c :: nat) in
     48 \<le> n \<and> n \<le> 57 \<or> 65 \<le> n \<and> n \<le> 70 \<or> 97 \<le> n \<and> n \<le> 102)"

definition unhex :: "char \<Rightarrow> nat" where
  "unhex c = (let n = of_char c in if n \<le> 57 then n - 48 else if n \<le> 70 then n - 55 else n - 87)"

definition digits_value :: "string \<Rightarrow> nat" where
  "digits_value = foldl (\<lambda>v c. v * 10 + (of_char c - 48)) 0"

definition hex_value :: "string \<Rightarrow> nat" where
  "hex_value = foldl (\<lambda>v c. v * 16 + unhex c) 0"

subsection \<open>netip.ParseAddr\<close>

datatype ip_addr = V4 "nat list" | V6 "nat list" string

definition parse_octet :: "string \<Rightarrow> nat option" where
  "parse_octet f =
     (if f = [] \<or> \<not> list_all is_digit f \<or> (hd f = CHR ''0'' \<and> length f > 1) \<or> digits_value f > 255
      then None else Some (digits_value f))"

definition parse_v4 :: "string \<Rightarrow> nat list option" where
  "parse_v4 s =
     (let fs = map parse_octet (split_on CHR ''.'' s)
      in if length fs = 4 \<and> None \<notin> set fs then Some (map the fs) else None)"

text \<open>The field loop of the IPv6 parser: the groups read so far and where \<open>::\<close> was seen.\<close>

function v6_loop :: "string \<Rightarrow> nat list \<Rightarrow> nat option \<Rightarrow> (nat list \<times> nat option) option" where
  "v6_loop s gs ell =
     (if length gs \<ge> 8 then (if s = [] then Some (gs, ell) else None)
      else
       (let ds = takeWhile is_hex s; rest = dropWhile is_hex s; gs' = gs @ [hex_value ds] in
        if ds = [] \<or> length ds > 4 then None
        else if rest \<noteq> [] \<and> hd rest = CHR ''.'' then
          (if (ell = None \<and> length gs \<noteq> 6) \<or> length gs > 6 then None
           else (case parse_v4 s of
               Some [a, b, c, d] \<Rightarrow> Some (gs @ [a * 256 + b, c * 256 + d], ell)
             | _ \<Rightarrow> None))
        else if rest = [] then Some (gs', ell)
        else if hd rest \<noteq> CHR '':'' \<or> tl rest = [] then None
        else if hd (tl rest) = CHR '':'' then
          (if ell \<noteq> None then None
           else if tl (tl rest) = [] then Some (gs', Some (length gs'))
           else v6_loop (tl (tl rest)) gs' (Some (length gs')))
        else v6_loop (tl rest) gs' ell))"
  by pat_completeness auto
termination
proof (relation "measure (\<lambda>(s, gs, ell). length s)", goal_cases)
  case (2 s gs ell ds rest gs')
  then have "length rest \<le> length s"
    by (simp add: length_dropWhile_le)
  moreover from 2 have "rest \<noteq> []" by auto
  ultimately show ?case by (cases rest) auto
next
  case (3 s gs ell ds rest gs')
  then have "length rest \<le> length s"
    by (simp add: length_dropWhile_le)
  moreover from 3 have "rest \<noteq> []" by auto
  ultimately show ?case by (cases rest) auto
qed simp

declare v6_loop.simps [simp del]

definition v6_finish :: "nat list \<times> nat option \<Rightarrow> nat list option" where
  "v6_finish r = (case r of (gs, ell) \<Rightarrow>
     if length gs < 8 then
       (case ell of None \<Rightarrow> None
        | Some k \<Rightarrow> Some (take k gs @ replicate (8 - length gs) 0 @ drop k gs))
     else if ell \<noteq> None then None else Some gs)"

definition parse_v6 :: "string \<Rightarrow> ip_addr option" where
  "parse_v6 s =
     (let (addr, zone) = (case Cut s CHR ''%'' of None \<Rightarrow> (s, None) | Some (a, z) \<Rightarrow> (a, Some z)) in
      if zone = Some '''' then None
      else
        (let z = (case zone of None \<Rightarrow> '''' | Some z \<Rightarrow> z);
             r = (if HasPrefix addr ''::'' then
                    (if drop 2 addr = [] then Some ([], Some 0) else v6_loop (drop 2 addr) [] (Some 0))
                  else v6_loop addr [] None)
         in map_option (\<lambda>gs. V6 gs z) (Option.bind r v6_finish)))"

definition ParseAddr :: "string \<Rightarrow> ip_addr option" where
  "ParseAddr s =
     (case find (\<lambda>c. c \<in> {CHR ''.'', CHR '':'', CHR ''%''}) s of
        None \<Rightarrow> None
      | Some c \<Rightarrow>
          if c = CHR ''.'' then map_option V4 (parse_v4 s)
          else if c = CHR '':'' then parse_v6 s else None)"

subsection \<open>url.Parse\<close>

record Url =
  url_Scheme :: string
  url_Host :: string
  url_Path :: string

text \<open>Escape modes of \<open>unescape\<close>; the callers here use these four.\<close>

datatype esc_mode = EncHost | EncZone | EncUserPassword | EncOther

text \<open>The ASCII bytes a host may contain unescaped.\<close>

definition host_char :: "char \<Rightarrow> bool" where
  "host_char c \<longleftrightarrow> is_alpha c \<or> is_digit c \<or>
     c \<in> set ''-_.~!$&()*+,;=:[]<>'' \<or> c = CHR 0x27 \<or> c = CHR 0x22"

fun unescape :: "esc_mode \<Rightarrow> string \<Rightarrow> string option" where
  "unescape mode [] = Some []"
| "unescape mode (c # s) =
     (if c = CHR ''%'' then
        (case s of
           a # b # t \<Rightarrow>
             if \<not> is_hex a \<or> \<not> is_hex b then None
             else if mode = EncHost \<and> unhex a < 8 \<and> [a, b] \<noteq> ''25'' then None
             else if mode = EncZone \<and> [a, b] \<noteq> ''25'' \<and> char_of (unhex a * 16 + unhex b) \<noteq> CHR '' '' \<and>
               \<not> host_char (char_of (unhex a * 16 + unhex b)) then None
             else map_option (\<lambda>r. char_of (unhex a * 16 + unhex b) # r) (unescape mode t)
         | _ \<Rightarrow> None)
      else if (mode = EncHost \<or> mode = EncZone) \<and> (of_char c :: nat) < 128 \<and> \<not> host_char c then None
      else map_option (\<lambda>r. c # r) (unescape mode s))"

definition validOptionalPort :: "string \<Rightarrow> bool" where
  "validOptionalPort p \<longleftrightarrow> p = [] \<or> (hd p = CHR '':'' \<and> list_all is_digit (tl p))"

text \<open>Position of the first or last occurrence of a byte.\<close>

definition before_last :: "char \<Rightarrow> string \<Rightarrow> string" where
  "before_last c s = rev (tl (dropWhile (\<lambda>x. x \<noteq> c) (rev s)))"

definition parseHost :: "string \<Rightarrow> string option" where
  "parseHost host =
     (if CHR ''['' \<in> set host then
        (if CHR '']'' \<notin> set host then None
         else
          (let colonPort = after_last CHR '']'' host;
               hostname = after_last CHR ''['' (before_last CHR '']'' host) in
           if \<not> validOptionalPort colonPort \<or> CHR ''['' \<notin> set (before_last CHR '']'' host) then None
           else
            (let zone = find (\<lambda>i. take 3 (drop i hostname) = ''%25'') [0..<length hostname];
                 unescaped =
                   (case zone of
                      None \<Rightarrow> unescape EncHost hostname
                    | Some i \<Rightarrow>
                        Option.bind (unescape EncHost (take i hostname)) (\<lambda>a.
                          map_option (\<lambda>z. a @ z) (unescape EncZone (drop i hostname))))
             in Option.bind unescaped (\<lambda>h.
                  Option.bind (unescape EncHost colonPort) (\<lambda>p.
                    (case ParseAddr h of
                       Some (V6 _ _) \<Rightarrow> Some (''['' @ h @ '']'' @ p)
                     | _ \<Rightarrow> None))))))
      else if CHR '':'' \<in> set host \<and> \<not> validOptionalPort (dropWhile (\<lambda>x. x \<noteq> CHR '':'') host) then None
      else unescape EncHost host)"

definition userinfo_char :: "char \<Rightarrow> bool" where
  "userinfo_char c \<longleftrightarrow> is_alpha c \<or> is_digit c \<or> c \<in> set ''-._:~!$&()*+,;=%@'' \<or> c = CHR 0x27"

definition parseAuthority :: "string \<Rightarrow> string option" where
  "parseAuthority authority =
     (if CHR ''@'' \<notin> set authority then parseHost authority
      else (case parseHost (after_last CHR ''@'' authority) of
          None \<Rightarrow> None
        | Some host \<Rightarrow>
            (let userinfo = before_last CHR ''@'' authority in
             if \<not> list_all userinfo_char userinfo \<or> unescape EncUserPassword userinfo = None then None
             else Some host)))"

definition getScheme :: "string \<Rightarrow> (string \<times> string) option" where
  "getScheme raw =
     (let sch = takeWhile (\<lambda>c. is_alpha c \<or> is_digit c \<or> c \<in> set ''+-.'') raw;
          rest = drop (length sch) raw in
      if raw \<noteq> [] \<and> hd raw = CHR '':'' then None
      else if sch \<noteq> [] \<and> is_alpha (hd sch) \<and> rest \<noteq> [] \<and> hd rest = CHR '':''
        then Some (sch, tl rest)
      else Some ('''', raw))"

definition is_ctl :: "char \<Rightarrow> bool" where
  "is_ctl c \<longleftrightarrow> (of_char c :: nat) < 32 \<or> (of_char c :: nat) = 127"

definition drop_query :: "string \<Rightarrow> string" where
  "drop_query s = takeWhile (\<lambda>c. c \<noteq> CHR ''?'') s"

definition parse_url :: "string \<Rightarrow> Url option" where
  "parse_url raw =
     (if list_ex is_ctl raw then None
      else if raw = ''*'' then Some \<lparr>url_Scheme = '''', url_Host = '''', url_Path = ''*''\<rparr>
      else (case getScheme raw of
          None \<Rightarrow> None
        | Some (sch, rest0) \<Rightarrow>
            (let scheme = ToLower sch; rest = drop_query rest0 in
             if \<not> HasPrefix rest ''/'' \<and> scheme \<noteq> '''' then
               Some \<lparr>url_Scheme = scheme, url_Host = '''', url_Path = ''''\<rparr>
             else if \<not> HasPrefix rest ''/'' \<and> CHR '':'' \<in> set (takeWhile (\<lambda>c. c \<noteq> CHR 0x2F) rest) then None
             else if (scheme \<noteq> '''' \<or> \<not> HasPrefix rest ''///'') \<and> HasPrefix rest ''//'' then
               (let authority = takeWhile (\<lambda>c. c \<noteq> CHR 0x2F) (drop 2 rest);
                    pth = dropWhile (\<lambda>c. c \<noteq> CHR 0x2F) (drop 2 rest) in
                Option.bind (parseAuthority authority) (\<lambda>host.
                  map_option (\<lambda>p. \<lparr>url_Scheme = scheme, url_Host = host, url_Path = p\<rparr>)
                    (unescape EncOther pth)))
             else map_option (\<lambda>p. \<lparr>url_Scheme = scheme, url_Host = '''', url_Path = p\<rparr>)
                    (unescape EncOther rest))))"

definition url_Parse :: "string \<Rightarrow> Url option" where
  "url_Parse raw =
     (case Cut raw CHR ''#'' of
        None \<Rightarrow> parse_url raw
      | Some (u, frag) \<Rightarrow> if unescape EncOther frag = None then None else parse_url u)"

definition splitHostPort :: "string \<Rightarrow> string \<times> string" where
  "splitHostPort hostPort =
     (let (host, port) =
        (if CHR '':'' \<in> set hostPort \<and> list_all is_digit (after_last CHR '':'' hostPort)
         then (before_last CHR '':'' hostPort, after_last CHR '':'' hostPort) else (hostPort, ''''))
      in (if HasPrefix host ''['' \<and> HasSuffix host '']'' then (butlast (tl host), port) else (host, port)))"

definition Hostname :: "Url \<Rightarrow> string" where
  "Hostname u = fst (splitHostPort (url_Host u))"

definition Port :: "Url \<Rightarrow> string" where
  "Port u = snd (splitHostPort (url_Host u))"

subsection \<open>net.JoinHostPort and path.Clean\<close>

definition JoinHostPort :: "string \<Rightarrow> string \<Rightarrow> string" where
  "JoinHostPort host port =
     (if CHR '':'' \<in> set host then ''['' @ host @ '']:'' @ port else host @ '':'' @ port)"

text \<open>\<open>path.Clean\<close> of a rooted path: the surviving segments, each preceded by a slash.\<close>

fun clean_segments :: "string list \<Rightarrow> string list \<Rightarrow> string list" where
  "clean_segments [] out = out"
| "clean_segments (x # xs) out =
     (if x = '''' \<or> x = ''.'' then clean_segments xs out
      else if x = ''..'' then clean_segments xs (butlast out)
      else clean_segments xs (out @ [x]))"

definition clean_rooted :: "string \<Rightarrow> string" where
  "clean_rooted p =
     (let segs = clean_segments (split_on CHR 0x2F p) [] in
      if segs = [] then ''/'' else concat (map (\<lambda>x. CHR 0x2F # x) segs))"

end
