(* ===== verification/Storage.thy ===== *)
theory Storage
  imports Helpers Go_Url
begin

section \<open>Object storage isolation (errors.go and the storage gate of actions.go)\<close>

text \<open>
  Two LokiStacks that share a bucket overwrite each other's index and chunks, so the controller
  resolves every claim on object storage to canonical locations and refuses a configuration in
  which two claims meet. Here are the error values of \<open>errors.go\<close>, the canonical location of an
  endpoint and a bucket, the check over all claims, and the gate that reports on the claimants'
  conditions and names the components to withhold. The lemmas show that the check answers
  exactly the isolation question, and how the canonical key folds the spellings of one location.
\<close>

subsection \<open>Error values\<close>

definition storageConflictReason :: string where "storageConflictReason = ''StorageConflict''"
definition storageCheckFailedReason :: string where "storageCheckFailedReason = ''StorageCheckFailed''"
definition storageSecretMissingReason :: string where "storageSecretMissingReason = ''StorageSecretNotFound''"
definition storageSecretInvalidReason :: string where "storageSecretInvalidReason = ''StorageSecretInvalid''"
definition lokiCRDCheckFailedReason :: string where "lokiCRDCheckFailedReason = ''LokiCRDCheckFailed''"
definition lokiReadinessCheckFailedReason :: string where "lokiReadinessCheckFailedReason = ''ReadinessCheckFailed''"

text \<open>The sentinel \<open>errStorageSecretInvalid\<close> as an error value.\<close>

definition storage_secret_invalid :: go_error where
  "storage_secret_invalid = GoError (Sentinel errStorageSecretInvalid)
     ''storage Secret does not name a usable object store location'' []"

definition storageConflictError :: "string list \<Rightarrow> string list \<Rightarrow> go_error" where
  "storageConflictError claimants shared = GoError (StorageConflict claimants shared)
     (Join claimants '' and '' @ '' resolve to the same object storage: '' @
      ''both LokiStacks serve the '' @ quoted ''application'' @
      '' tenant and Loki keys objects by tenant rather than by stack, '' @
      ''so they would overwrite each other'' @ [CHR 0x27] @
      ''s index and chunks. Give each stack its own bucket'') []"

definition newStorageCheckError :: "go_error \<Rightarrow> go_error" where
  "newStorageCheckError err = GoError
     (StorageCheck
       (if IsNotFound err then storageSecretMissingReason
        else if errors_Is err errStorageSecretInvalid then storageSecretInvalidReason
        else storageCheckFailedReason))
     (''cannot verify object storage isolation: '' @ Error err) [err]"

fun is_storage_error :: "err_kind \<Rightarrow> bool" where
  "is_storage_error (StorageConflict _ _) = True"
| "is_storage_error (StorageCheck _) = True"
| "is_storage_error _ = False"

fun conditionReason :: "err_kind \<Rightarrow> string" where
  "conditionReason (StorageConflict _ _) = storageConflictReason"
| "conditionReason (StorageCheck reason) = (if reason = '''' then storageCheckFailedReason else reason)"
| "conditionReason _ = storageCheckFailedReason"

fun conditionStatus :: "err_kind \<Rightarrow> ConditionStatus" where
  "conditionStatus (StorageConflict _ _) = ConditionFalse"
| "conditionStatus _ = ConditionUnknown"

subsection \<open>Canonical locations\<close>

definition defaultWebPorts :: "string list" where
  "defaultWebPorts = [''80'', ''443'']"

definition canonicalStorageLocation :: "string \<Rightarrow> string \<Rightarrow> string result" where
  "canonicalStorageLocation endpoint0 bucket0 =
     (let endpoint = TrimSpace endpoint0 in
      if endpoint = '''' then Inl (errors_New ''storage endpoint is empty'')
      else
       (let bucket = ToLower (TrimSpace bucket0);
            toParse = (if Contains endpoint ''://'' then endpoint else ''//'' @ endpoint) in
        case url_Parse toParse of
          None \<Rightarrow> Inl (errors_New ''storage endpoint is not a valid URL'')
        | Some parsed \<Rightarrow>
            (let host0 = TrimSuffix (ToLower (Hostname parsed)) ''.'' in
             if host0 = '''' then Inl (errors_New ''storage endpoint URL names no host'')
             else
              (let host1 = (if bucket \<noteq> '''' then TrimPrefix host0 (bucket @ ''.'') else host0);
                   port = (if Port parsed \<in> set defaultWebPorts then '''' else Port parsed);
                   host = (if port \<noteq> '''' then JoinHostPort host1 port else host1);
                   prefix0 = clean_rooted (''/'' @ url_Path parsed);
                   prefix = (if prefix0 = ''/'' then '''' else prefix0)
               in Inr (''//'' @ host @ prefix @ ''/'' @ bucket)))))"

text \<open>The loop over the comma-separated bucket names.\<close>

fun bucket_loop :: "string \<Rightarrow> string \<Rightarrow> string list \<Rightarrow> string list \<Rightarrow> string list result" where
  "bucket_loop loc_name endpoint [] locations = Inr locations"
| "bucket_loop loc_name endpoint (b # bs) locations =
     (let bucket = TrimSpace b in
      if bucket = '''' then bucket_loop loc_name endpoint bs locations
      else (case canonicalStorageLocation endpoint bucket of
          Inl err \<Rightarrow>
            Inl (wrap2 (''LokiStack storage secret '' @ loc_name @ '': '' @ Error err @ '': '' @
                   Error storage_secret_invalid) [err, storage_secret_invalid])
        | Inr location \<Rightarrow> bucket_loop loc_name endpoint bs (locations @ [location])))"

definition lokiStorageLocations :: "'w cluster_scheme \<Rightarrow> string \<Rightarrow> string \<Rightarrow> string list result" where
  "lokiStorageLocations W namespace secretName =
     (if secretName = '''' then
        Inl (wrapf ''LokiStack storage secret name is empty: '' storage_secret_invalid)
      else (case GetSecret W namespace secretName of
          Inl err \<Rightarrow>
            Inl (wrapf (''reading LokiStack storage secret '' @ namespace @ ''/'' @ secretName @ '': '') err)
        | Inr secret \<Rightarrow>
            (let loc_name = namespace @ ''/'' @ secretName;
                 endpoint = TrimSpace (sget (sec_Data secret) ''endpoint'') in
             if endpoint = '''' then
               Inl (wrapf (''LokiStack storage secret '' @ loc_name @ '' has an empty endpoint: '')
                 storage_secret_invalid)
             else (case bucket_loop loc_name endpoint
                      (split_on CHR '','' (sget (sec_Data secret) ''bucketnames'')) [] of
                 Inl err \<Rightarrow> Inl err
               | Inr locations \<Rightarrow>
                   if locations = [] then
                     Inl (wrapf (''LokiStack storage secret '' @ loc_name @
                       '' has no usable bucketnames entry: '') storage_secret_invalid)
                   else Inr locations))))"

subsection \<open>Claims and the isolation check\<close>

record storageClaim =
  sc_description :: string
  sc_secretName :: string
  sc_condition :: string
  sc_component :: string

definition componentLokiUsageLogs :: string where "componentLokiUsageLogs = ''loki-usage-logs''"
definition componentLokiLogs :: string where "componentLokiLogs = ''loki-logs''"

definition lokiComponents :: "string list" where
  "lokiComponents = [componentLokiUsageLogs, componentLokiLogs]"

definition storageClaims :: "Monitoring \<Rightarrow> storageClaim list" where
  "storageClaims m =
     (case usage_logs_storage (mo_Spec m) of
        None \<Rightarrow> []
      | Some ls \<Rightarrow>
          [\<lparr>sc_description = ''usageLogs.storage (secret '' @ quoted (ls_SecretName ls) @ '')'',
            sc_secretName = ls_SecretName ls,
            sc_condition = ConditionUsageLogsLokiStackAvailable,
            sc_component = componentLokiUsageLogs\<rparr>]) @
     (case logs_storage (mo_Spec m) of
        None \<Rightarrow> []
      | Some ls \<Rightarrow>
          [\<lparr>sc_description = ''logs.storage (secret '' @ quoted (ls_SecretName ls) @ '')'',
            sc_secretName = ls_SecretName ls,
            sc_condition = ConditionLokiStackAvailable,
            sc_component = componentLokiLogs\<rparr>])"

text \<open>
  The tables of the check: \<open>claimedBy\<close> maps a location to the claimants that resolve to it,
  \<open>order\<close> lists the locations as they were first seen.
\<close>

fun claim_locations ::
  "string \<Rightarrow> string list \<Rightarrow> string list \<Rightarrow> (string \<Rightarrow> string list) \<Rightarrow> string list \<Rightarrow>
   (string \<Rightarrow> string list) \<times> string list" where
  "claim_locations description [] claimed claimedBy order = (claimedBy, order)"
| "claim_locations description (location # locations) claimed claimedBy order =
     (if location \<in> set claimed then claim_locations description locations claimed claimedBy order
      else claim_locations description locations (location # claimed)
             (claimedBy(location := claimedBy location @ [description]))
             (if claimedBy location = [] then order @ [location] else order))"

fun claims_loop ::
  "'w cluster_scheme \<Rightarrow> string \<Rightarrow> storageClaim list \<Rightarrow> (string \<Rightarrow> string list) \<Rightarrow> string list \<Rightarrow>
   ((string \<Rightarrow> string list) \<times> string list) result" where
  "claims_loop W namespace [] claimedBy order = Inr (claimedBy, order)"
| "claims_loop W namespace (claim # claims) claimedBy order =
     (case lokiStorageLocations W namespace (sc_secretName claim) of
        Inl err \<Rightarrow> Inl (newStorageCheckError err)
      | Inr locations \<Rightarrow>
          (let (claimedBy', order') = claim_locations (sc_description claim) locations [] claimedBy order
           in claims_loop W namespace claims claimedBy' order'))"

fun add_missing :: "string list \<Rightarrow> string list \<Rightarrow> string list" where
  "add_missing [] claimants = claimants"
| "add_missing (c # cs) claimants =
     add_missing cs (if c \<in> set claimants then claimants else claimants @ [c])"

fun shared_loop ::
  "(string \<Rightarrow> string list) \<Rightarrow> string list \<Rightarrow> string list \<Rightarrow> string list \<Rightarrow> string list \<times> string list" where
  "shared_loop claimedBy [] shared claimants = (shared, claimants)"
| "shared_loop claimedBy (location # order) shared claimants =
     (if length (claimedBy location) < 2 then shared_loop claimedBy order shared claimants
      else shared_loop claimedBy order (shared @ [location]) (add_missing (claimedBy location) claimants))"

definition checkStorageIsolation ::
  "'w cluster_scheme \<Rightarrow> string \<Rightarrow> storageClaim list \<Rightarrow> go_error option" where
  "checkStorageIsolation W namespace claims =
     (if length claims < 2 then None
      else (case claims_loop W namespace claims (\<lambda>_. []) [] of
          Inl err \<Rightarrow> Some err
        | Inr (claimedBy, order) \<Rightarrow>
            (let (shared, claimants) = shared_loop claimedBy order [] []
             in if shared = [] then None else Some (storageConflictError claimants shared))))"

subsection \<open>The gate\<close>

fun mark_claims ::
  "'w conditions_lib_scheme \<Rightarrow> int \<Rightarrow> ConditionStatus \<Rightarrow> string \<Rightarrow> string \<Rightarrow> storageClaim list \<Rightarrow>
   Monitoring \<Rightarrow> Monitoring" where
  "mark_claims W g status reason msg [] m = m"
| "mark_claims W g status reason msg (claim # claims) m =
     mark_claims W g status reason msg claims
       (if status = ConditionUnknown then MarkUnknown W g (sc_condition claim) reason msg m
        else MarkFalse W g (sc_condition claim) reason msg m)"

definition validateStorageIsolation ::
  "'w cluster_scheme \<Rightarrow> int \<Rightarrow> Monitoring \<Rightarrow> Monitoring \<times> string list \<times> go_error option" where
  "validateStorageIsolation W g m =
     (let claims = storageClaims m in
      case checkStorageIsolation W (monitoringNamespace W m) claims of
        None \<Rightarrow> (m, [], None)
      | Some err \<Rightarrow>
          (let (reason, status) =
             (case errors_As is_storage_error err of
                None \<Rightarrow> (storageCheckFailedReason, ConditionUnknown)
              | Some e \<Rightarrow> (conditionReason (err_kind_of e), conditionStatus (err_kind_of e)))
           in (mark_claims W g status reason (Error err) claims m, map sc_component claims, Some err)))"


subsection \<open>What the check decides\<close>

text \<open>
  The locations a claim resolves to (none when its Secret cannot be resolved), and the claims
  that resolve to a location.
\<close>

definition resolved :: "'w cluster_scheme \<Rightarrow> string \<Rightarrow> storageClaim \<Rightarrow> bool" where
  "resolved W ns c \<longleftrightarrow> (case lokiStorageLocations W ns (sc_secretName c) of Inl _ \<Rightarrow> False | Inr _ \<Rightarrow> True)"

definition claim_set :: "'w cluster_scheme \<Rightarrow> string \<Rightarrow> storageClaim \<Rightarrow> string set" where
  "claim_set W ns c = (case lokiStorageLocations W ns (sc_secretName c) of Inl _ \<Rightarrow> {} | Inr ls \<Rightarrow> set ls)"

definition claims_on :: "'w cluster_scheme \<Rightarrow> string \<Rightarrow> storageClaim list \<Rightarrow> string \<Rightarrow> storageClaim list" where
  "claims_on W ns claims l = filter (\<lambda>c. l \<in> claim_set W ns c) claims"

lemma claim_locations_table:
  "claim_locations d ls claimed cb ord = (cb', ord') \<Longrightarrow>
     cb' l = cb l @ (if l \<in> set ls \<and> l \<notin> set claimed then [d] else [])"
  by (induction ls arbitrary: claimed cb ord) (auto split: if_splits)

lemma claim_locations_order:
  "claim_locations d ls claimed cb ord = (cb', ord') \<Longrightarrow> set ord = {l. cb l \<noteq> []} \<Longrightarrow>
     set ord' = {l. cb' l \<noteq> []}"
proof (induction ls arbitrary: claimed cb ord)
  case (Cons a ls)
  show ?case
  proof (cases "a \<in> set claimed")
    case True
    with Cons show ?thesis by simp
  next
    case False
    have "set (if cb a = [] then ord @ [a] else ord) = {l. (cb(a := cb a @ [d])) l \<noteq> []}"
      using Cons.prems(2) by auto
    then show ?thesis
      using Cons.IH Cons.prems(1) False by simp
  qed
qed simp

lemma claims_loop_Inr:
  "claims_loop W ns claims cb ord = Inr (cb', ord') \<Longrightarrow>
     list_all (resolved W ns) claims \<and>
     (\<forall>l. cb' l = cb l @ map sc_description (claims_on W ns claims l)) \<and>
     (set ord = {l. cb l \<noteq> []} \<longrightarrow> set ord' = {l. cb' l \<noteq> []})"
proof (induction claims arbitrary: cb ord)
  case (Cons c claims)
  then obtain ls where ls: "lokiStorageLocations W ns (sc_secretName c) = Inr ls"
    by (auto split: sum.splits)
  obtain cb1 ord1 where cl: "claim_locations (sc_description c) ls [] cb ord = (cb1, ord1)"
    by force
  have loop: "claims_loop W ns claims cb1 ord1 = Inr (cb', ord')"
    using Cons.prems ls cl by simp
  have cb1: "cb1 l = cb l @ (if l \<in> claim_set W ns c then [sc_description c] else [])" for l
    using claim_locations_table [OF cl] ls by (simp add: claim_set_def)
  have "resolved W ns c"
    using ls by (simp add: resolved_def)
  moreover note Cons.IH [OF loop] claim_locations_order [OF cl]
  ultimately show ?case
    by (simp add: cb1 claims_on_def)
qed (simp add: claims_on_def)

lemma claims_loop_Inl:
  "claims_loop W ns claims cb ord = Inl e \<Longrightarrow>
     \<exists>c \<in> set claims. \<exists>err. lokiStorageLocations W ns (sc_secretName c) = Inl err \<and>
       e = newStorageCheckError err"
  by (induction claims arbitrary: cb ord) (fastforce split: sum.splits prod.splits)+

lemma set_add_missing [simp]: "set (add_missing cs acc) = set acc \<union> set cs"
  by (induction cs arbitrary: acc) auto

lemma shared_loop_sets:
  "shared_loop cb ord sh cl = (sh', cl') \<Longrightarrow>
     set sh' = set sh \<union> {l \<in> set ord. 2 \<le> length (cb l)} \<and>
     set cl' = set cl \<union> (\<Union>l \<in> {l \<in> set ord. 2 \<le> length (cb l)}. set (cb l))"
  by (induction ord arbitrary: sh cl) (auto split: if_splits)

text \<open>At most one element satisfies a predicate: the pairwise form of a short filter.\<close>

lemma filter_at_most_one: "length (filter P xs) < 2 \<longleftrightarrow> sorted_wrt (\<lambda>x y. \<not> (P x \<and> P y)) xs"
proof (induction xs)
  case (Cons a xs)
  have "filter P xs = [] \<Longrightarrow> sorted_wrt (\<lambda>x y. \<not> (P x \<and> P y)) xs"
    using Cons.IH by simp
  with Cons.IH show ?case
    by (auto simp: filter_empty_conv)
qed simp

lemma sorted_wrt_all: "(\<forall>l. sorted_wrt (R l) xs) \<longleftrightarrow> sorted_wrt (\<lambda>x y. \<forall>l. R l x y) xs"
  by (induction xs) auto

definition isolated :: "'w cluster_scheme \<Rightarrow> string \<Rightarrow> storageClaim list \<Rightarrow> bool" where
  "isolated W ns claims \<longleftrightarrow> sorted_wrt (\<lambda>c d. claim_set W ns c \<inter> claim_set W ns d = {}) claims"

lemma isolated_iff: "isolated W ns claims \<longleftrightarrow> (\<forall>l. length (claims_on W ns claims l) < 2)"
  by (simp add: isolated_def claims_on_def filter_at_most_one sorted_wrt_all disjoint_iff)

text \<open>
  The three answers of the check in terms of the claims: an unresolved claim, a shared location,
  or isolation.
\<close>

lemma check_cases:
  assumes "2 \<le> length claims"
  obtains (unresolved) c err where "c \<in> set claims"
      "lokiStorageLocations W ns (sc_secretName c) = Inl err"
      "checkStorageIsolation W ns claims = Some (newStorageCheckError err)"
  | (conflict) names shared where "list_all (resolved W ns) claims" "\<not> isolated W ns claims"
      "checkStorageIsolation W ns claims = Some (storageConflictError names shared)"
      "set shared = {l. 2 \<le> length (claims_on W ns claims l)}"
      "set names = sc_description ` (\<Union>l \<in> set shared. set (claims_on W ns claims l))"
  | (apart) "list_all (resolved W ns) claims" "isolated W ns claims"
      "checkStorageIsolation W ns claims = None"
proof (cases "claims_loop W ns claims (\<lambda>_. []) []")
  case (Inl e)
  with claims_loop_Inl [OF Inl] unresolved assms show ?thesis
    by (auto simp: checkStorageIsolation_def)
next
  case (Inr p)
  obtain cb ord where p: "p = (cb, ord)" by force
  obtain sh cl where sl: "shared_loop cb ord [] [] = (sh, cl)" by force
  have res: "list_all (resolved W ns) claims" and cb: "cb = (\<lambda>l. map sc_description (claims_on W ns claims l))"
    and ord: "set ord = {l. cb l \<noteq> []}"
    using claims_loop_Inr [OF Inr [unfolded p]] by auto
  have "l \<in> set ord" if "2 \<le> length (cb l)" for l
    using that by (cases "cb l") (simp_all add: ord)
  then have sh: "set sh = {l. 2 \<le> length (claims_on W ns claims l)}"
    and cl: "set cl = sc_description ` (\<Union>l \<in> set sh. set (claims_on W ns claims l))"
    using shared_loop_sets [OF sl] by (auto simp: cb image_UN)
  have check: "checkStorageIsolation W ns claims = (if sh = [] then None else Some (storageConflictError cl sh))"
    using assms Inr p sl by (simp add: checkStorageIsolation_def)
  have "sh = [] \<longleftrightarrow> set sh = {}" by simp
  also have "\<dots> \<longleftrightarrow> isolated W ns claims"
    unfolding sh by (simp add: isolated_iff not_le)
  finally have "sh = [] \<longleftrightarrow> isolated W ns claims" .
  then show ?thesis
    using conflict apart res check sh cl by metis
qed

text \<open>
  C1: the isolation check passes exactly when the configuration is safe: there are fewer than two
  claims, or every claim's Secret resolves and no two claims name a common canonical location. An
  unreadable or malformed Secret is never taken for isolation.
\<close>

theorem isolation_check_exact:
  "checkStorageIsolation W ns claims = None \<longleftrightarrow>
     length claims < 2 \<or> list_all (resolved W ns) claims \<and> isolated W ns claims"
proof (cases "length claims < 2")
  case False
  then have "2 \<le> length claims" by simp
  then show ?thesis
    by (cases rule: check_cases [of claims W ns])
       (use False in \<open>fastforce simp: list_all_iff resolved_def split: sum.splits\<close>)+
qed (simp add: checkStorageIsolation_def)

text \<open>
  C13: a conflict report is accurate: when the check answers with a storage conflict, every Secret
  was resolved, the listed locations are exactly those that two or more claims resolve to (and
  there is one), and the listed claimants are exactly the claims that resolve to one of them.
\<close>

theorem conflict_report_exact:
  assumes "checkStorageIsolation W ns claims = Some err"
    and "err_kind_of err = StorageConflict names shared"
  shows "list_all (resolved W ns) claims \<and> shared \<noteq> [] \<and>
         set shared = {l. 2 \<le> length (claims_on W ns claims l)} \<and>
         set names = sc_description ` (\<Union>l \<in> set shared. set (claims_on W ns claims l))"
proof -
  have "2 \<le> length claims"
    using assms(1) by (simp add: checkStorageIsolation_def split: if_splits)
  then show ?thesis
  proof (cases rule: check_cases [of claims W ns])
    case (unresolved c e)
    with assms show ?thesis by (auto simp: newStorageCheckError_def)
  next
    case (conflict ns' sh)
    with assms have "names = ns'" "shared = sh" by (auto simp: storageConflictError_def)
    moreover have "sh \<noteq> []"
      using conflict(2,4) by (auto simp: isolated_iff not_less)
    ultimately show ?thesis using conflict by simp
  next
    case apart
    with assms show ?thesis by simp
  qed
qed


definition sample_bucket_secret :: "string \<Rightarrow> string \<Rightarrow> Secret" where
  "sample_bucket_secret endpoint buckets =
     \<lparr>sec_Meta = \<lparr>o_Gvk = gvk_Secret, o_Namespace = ''opendatahub'', o_Name = ''s'', o_Labels = [],
        o_Annotations = [], o_ControllerUID = None, o_UID = ''u'', o_ResourceVersion = ''1''\<rparr>,
      sec_Type = ''Opaque'', sec_Data = [(''endpoint'', endpoint), (''bucketnames'', buckets)]\<rparr>"

text \<open>
  Two Secrets that spell one location differently: scheme and default port on one side, the
  bucket as a virtual host on the other.
\<close>

definition shared_bucket_cluster :: cluster where
  "shared_bucket_cluster = quiet_cluster
     \<lparr>GetSecret := (\<lambda>ns name.
        if name = ''a'' then Inr (sample_bucket_secret ''https://S3.example:443'' ''logs'')
        else if name = ''b'' then Inr (sample_bucket_secret ''http://logs.s3.example./'' ''logs, other'')
        else Inl notFound)\<rparr>"

definition sample_loki_storage :: "string \<Rightarrow> LokiStorageConfig" where
  "sample_loki_storage name =
     \<lparr>ls_Type = ''s3'', ls_SecretName = name, ls_CredentialMode = '''', ls_StorageClassName = ''''\<rparr>"

definition two_stacks_spec :: "string \<Rightarrow> string \<Rightarrow> MonitoringSpec" where
  "two_stacks_spec usage_secret logs_secret = bare_spec
     \<lparr>sp_UsageLogs := Some \<lparr>ul_Storage = Some (sample_loki_storage usage_secret), ul_Size = '''',
        ul_Exporters = [], ul_CredentialSecret = '''', ul_Attributes = []\<rparr>,
      sp_Logs := Some \<lparr>lg_Storage = Some (sample_loki_storage logs_secret), lg_Size = '''',
        lg_InferenceNamespaces = []\<rparr>\<rparr>"

lemma lawful_shared_bucket_cluster: "lawful_conditions shared_bucket_cluster"
  by (rule lawful_like_upsert) (simp_all add: shared_bucket_cluster_def quiet_cluster_def)


lemma sample_canonical:
  "canonicalStorageLocation ''https://S3.example:443'' ''logs'' = Inr ''//s3.example/logs''"
  "canonicalStorageLocation ''http://logs.s3.example./'' ''logs'' = Inr ''//s3.example/logs''"
  "canonicalStorageLocation ''http://logs.s3.example./'' ''other'' = Inr ''//logs.s3.example/other''"
  by code_simp+

lemma sample_trims:
  "TrimSpace ''https://S3.example:443'' = ''https://S3.example:443''"
  "TrimSpace ''http://logs.s3.example./'' = ''http://logs.s3.example./''"
  "TrimSpace ''logs'' = ''logs''" "TrimSpace '' other'' = ''other''"
  by code_simp+

lemma sample_locations:
  "lokiStorageLocations shared_bucket_cluster ns ''a'' = Inr [''//s3.example/logs'']"
  "lokiStorageLocations shared_bucket_cluster ns ''b'' = Inr [''//s3.example/logs'', ''//logs.s3.example/other'']"
  by (simp_all add: lokiStorageLocations_def shared_bucket_cluster_def sample_bucket_secret_def sget_def
      sample_trims sample_canonical)

lemma sample_conflict:
  assumes "claims = storageClaims (fresh_monitoring (two_stacks_spec ''a'' ''b''))"
  shows "checkStorageIsolation shared_bucket_cluster ns claims =
    Some (storageConflictError [sc_description (claims ! 0), sc_description (claims ! 1)]
      [''//s3.example/logs''])"
  by (simp add: assms checkStorageIsolation_def storageClaims_def two_stacks_spec_def sample_defs
      usage_logs_storage_def logs_storage_def sample_loki_storage_def sample_locations quoted_def)

theorem conflict_report_exact_witness:
  "set [''//s3.example/logs''] = {l. 2 \<le> length (claims_on shared_bucket_cluster ''x''
      (storageClaims (fresh_monitoring (two_stacks_spec ''a'' ''b''))) l)}"
  using conflict_report_exact [OF sample_conflict [OF refl]]
  by (simp add: storageConflictError_def)


subsection \<open>The gate fails closed\<close>

context lawful_conditions
begin

lemma find_mark_claims:
  "find_cond W (mark_claims W g status reason msg claims m) t =
     (if t \<in> sc_condition ` set claims then
        Some \<lparr>c_Type = t, c_Status = (if status = ConditionUnknown then ConditionUnknown else ConditionFalse),
          c_Reason = reason, c_Message = msg, c_Severity = SeverityError, c_ObservedGeneration = g\<rparr>
      else find_cond W m t)"
  by (induction claims arbitrary: m) auto

end

lemma mark_claims_frame [simp]:
  "mo_Spec (mark_claims W g status reason msg claims m) = mo_Spec m"
  by (induction claims arbitrary: m) (auto simp: mark_defs set_cond_def)

lemma two_claims:
  assumes "2 \<le> length (storageClaims m)"
  shows "map sc_condition (storageClaims m) =
           [ConditionUsageLogsLokiStackAvailable, ConditionLokiStackAvailable]"
    and "map sc_component (storageClaims m) = lokiComponents"
  using assms by (auto simp: storageClaims_def lokiComponents_def split: option.splits)

lemma as_storage_error:
  "errors_As is_storage_error (newStorageCheckError e) = Some (newStorageCheckError e)"
  "errors_As is_storage_error (storageConflictError ns sh) = Some (storageConflictError ns sh)"
  by (simp_all add: errors_As_def newStorageCheckError_def storageConflictError_def)

lemma error_statuses:
  "conditionStatus (err_kind_of (newStorageCheckError e)) = ConditionUnknown"
  "conditionStatus (err_kind_of (storageConflictError ns sh)) = ConditionFalse"
  "conditionReason (err_kind_of (storageConflictError ns sh)) = storageConflictReason"
  by (simp_all add: newStorageCheckError_def storageConflictError_def)

lemma gate_error_length:
  "checkStorageIsolation W ns claims = Some err \<Longrightarrow> 2 \<le> length claims"
  by (simp add: checkStorageIsolation_def split: if_splits)

text \<open>What the gate reports about a failed check: the status it derives from the error.\<close>

lemma check_error_status:
  assumes "checkStorageIsolation W ns claims = Some err"
  shows "\<exists>e. errors_As is_storage_error err = Some e \<and>
           conditionStatus (err_kind_of e) =
             (if list_all (resolved W ns) claims then ConditionFalse else ConditionUnknown)"
proof (cases rule: check_cases [OF gate_error_length [OF assms], of W ns])
  case (1 c e)
  then have "\<not> list_all (resolved W ns) claims"
    by (auto simp: list_all_iff resolved_def intro!: bexI [of _ c])
  then show ?thesis using 1 assms by (auto simp: as_storage_error error_statuses)
next
  case (2 names shared)
  then show ?thesis using assms by (auto simp: as_storage_error error_statuses)
next
  case 3
  then show ?thesis using assms by simp
qed

lemma gate_accepts:
  "validateStorageIsolation W g m = (m', withheld, None) \<Longrightarrow>
     m' = m \<and> withheld = [] \<and> checkStorageIsolation W (monitoringNamespace W m) (storageClaims m) = None"
  by (auto simp: validateStorageIsolation_def Let_def split: option.splits prod.splits)

lemma gate_refuses:
  assumes gate: "validateStorageIsolation W g m = (m', withheld, Some err)"
  shows "withheld = lokiComponents"
    and "checkStorageIsolation W (monitoringNamespace W m) (storageClaims m) = Some err"
    and "\<exists>reason. m' = mark_claims W g
           (if list_all (resolved W (monitoringNamespace W m)) (storageClaims m)
            then ConditionFalse else ConditionUnknown) reason (Error err) (storageClaims m) m"
    and "sc_condition ` set (storageClaims m) =
           {ConditionUsageLogsLokiStackAvailable, ConditionLokiStackAvailable}"
proof -
  show check: "checkStorageIsolation W (monitoringNamespace W m) (storageClaims m) = Some err"
    using gate by (auto simp: validateStorageIsolation_def Let_def split: option.splits prod.splits)
  note two = two_claims [OF gate_error_length [OF check]]
  show "withheld = lokiComponents"
    using gate check two(2) by (auto simp: validateStorageIsolation_def Let_def split: prod.splits)
  show "\<exists>reason. m' = mark_claims W g
           (if list_all (resolved W (monitoringNamespace W m)) (storageClaims m)
            then ConditionFalse else ConditionUnknown) reason (Error err) (storageClaims m) m"
    using gate check check_error_status [OF check]
    by (auto simp: validateStorageIsolation_def Let_def)
  show "sc_condition ` set (storageClaims m) =
      {ConditionUsageLogsLokiStackAvailable, ConditionLokiStackAvailable}"
    using arg_cong [OF two(1), of set] by simp
qed

text \<open>
  C2: the storage gate fails closed. Without an error it touches nothing and withholds nothing;
  with an error it withholds both Loki pipelines and marks both of their availability conditions
  with the error's message, as False when the Secrets were read and the locations do collide, as
  Unknown when isolation could not be verified; no other condition and no part of the spec moves.
\<close>

theorem storage_gate_fails_closed:
  assumes lawful: "lawful_conditions W"
    and gate: "validateStorageIsolation W g m = (m', withheld, res)"
  shows "case res of
           None \<Rightarrow> m' = m \<and> withheld = [] \<and>
             checkStorageIsolation W (monitoringNamespace W m) (storageClaims m) = None
         | Some err \<Rightarrow> withheld = lokiComponents \<and> mo_Spec m' = mo_Spec m \<and>
             checkStorageIsolation W (monitoringNamespace W m) (storageClaims m) = Some err \<and>
             (\<forall>t. if t \<in> {ConditionUsageLogsLokiStackAvailable, ConditionLokiStackAvailable}
               then (\<exists>c. find_cond W m' t = Some c \<and> c_Message c = Error err \<and>
                  c_Severity c = SeverityError \<and> c_Status c =
                    (if list_all (resolved W (monitoringNamespace W m)) (storageClaims m)
                     then ConditionFalse else ConditionUnknown))
               else find_cond W m' t = find_cond W m t)"
proof (cases res)
  case None
  with gate gate_accepts show ?thesis by fastforce
next
  case (Some err)
  note refused = gate_refuses [OF gate [unfolded Some]]
  obtain reason where "m' = mark_claims W g
      (if list_all (resolved W (monitoringNamespace W m)) (storageClaims m)
       then ConditionFalse else ConditionUnknown) reason (Error err) (storageClaims m) m"
    using refused(3) by blast
  with Some refused(1,2) show ?thesis
    by (simp add: lawful_conditions.find_mark_claims [OF lawful] refused(4))
qed

theorem storage_gate_fails_closed_witness:
  "lawful_conditions shared_bucket_cluster \<and>
   fst (snd (validateStorageIsolation shared_bucket_cluster 1
     (fresh_monitoring (two_stacks_spec ''a'' ''b'')))) = lokiComponents"
proof -
  let ?m = "fresh_monitoring (two_stacks_spec ''a'' ''b'')"
  obtain m' w r where gate: "validateStorageIsolation shared_bucket_cluster 1 ?m = (m', w, r)"
    by (metis prod_cases3)
  note gated = storage_gate_fails_closed [OF lawful_shared_bucket_cluster gate]
  have "r \<noteq> None"
    using gated sample_conflict [OF refl, of "monitoringNamespace shared_bucket_cluster ?m"]
    by (cases r) simp_all
  then show ?thesis
    using gated gate lawful_shared_bucket_cluster by auto
qed

end
