(* ===== verification/Actions.thy ===== *)
theory Actions
  imports Storage
begin

section \<open>The deploy actions (actions.go)\<close>

text \<open>
  One function per deploy action of \<open>actions.go\<close>. An action receives the cluster \<open>W\<close>, the
  generation \<open>g\<close> of the conditions manager and the state (the Monitoring object, the template
  sources collected so far, the requests issued so far), and returns the new state with an
  optional error. A template source is the path inside the embedded file system. The locale
  \<open>deploy_action\<close> is the contract every action keeps: it writes only its own conditions, appends
  only its own templates, deletes only the kinds it is responsible for and changes nothing else.
\<close>

named_theorems template_names "unfolding rules for the template paths"

subsection \<open>Template paths and resource names\<close>

definition MonitoringStackTemplate :: string where
  [template_names]: "MonitoringStackTemplate = ''resources/monitoring-stack.tmpl.yaml''"
definition MonitoringAdmissionPoliciesTemplate :: string where
  [template_names]: "MonitoringAdmissionPoliciesTemplate = ''resources/monitoring-admission-policies.tmpl.yaml''"
definition MonitoringStackAlertmanagerRBACTemplate :: string where
  [template_names]: "MonitoringStackAlertmanagerRBACTemplate = ''resources/monitoringstack-alertmanager-rbac.tmpl.yaml''"
definition TempoMonolithicTemplate :: string where
  [template_names]: "TempoMonolithicTemplate = ''resources/tempo-monolithic.tmpl.yaml''"
definition TempoStackTemplate :: string where
  [template_names]: "TempoStackTemplate = ''resources/tempo-stack.tmpl.yaml''"
definition OpenTelemetryCollectorTemplate :: string where
  [template_names]: "OpenTelemetryCollectorTemplate = ''resources/opentelemetry-collector.tmpl.yaml''"
definition CollectorServiceMonitorsTemplate :: string where
  [template_names]: "CollectorServiceMonitorsTemplate = ''resources/collector-servicemonitors.tmpl.yaml''"
definition CollectorMonitorServiceTemplate :: string where
  [template_names]: "CollectorMonitorServiceTemplate = ''resources/collector-monitor-service.tmpl.yaml''"
definition CollectorPrometheusServiceTemplate :: string where
  [template_names]: "CollectorPrometheusServiceTemplate = ''resources/collector-prometheus-service.tmpl.yaml''"
definition CollectorMonitoringNetworkPolicyTemplate :: string where
  [template_names]: "CollectorMonitoringNetworkPolicyTemplate = ''resources/collector-monitoring-network-policy.tmpl.yaml''"
definition CollectorTargetAllocatorNetworkPolicyTemplate :: string where
  [template_names]: "CollectorTargetAllocatorNetworkPolicyTemplate = ''resources/collector-targetallocator-network-policy.tmpl.yaml''"
definition CollectorRBACTemplate :: string where
  [template_names]: "CollectorRBACTemplate = ''resources/collector-rbac.tmpl.yaml''"
definition CollectorMLflowRBACTemplate :: string where
  [template_names]: "CollectorMLflowRBACTemplate = ''resources/collector-mlflow-rbac.tmpl.yaml''"
definition CollectorTempoRBACTemplate :: string where
  [template_names]: "CollectorTempoRBACTemplate = ''resources/collector-tempo-rbac.tmpl.yaml''"
definition PrometheusRouteTemplate :: string where
  [template_names]: "PrometheusRouteTemplate = ''resources/data-science-prometheus-route.tmpl.yaml''"
definition InstrumentationTemplate :: string where
  [template_names]: "InstrumentationTemplate = ''resources/instrumentation.tmpl.yaml''"
definition PrometheusNamespaceProxyTemplate :: string where
  [template_names]: "PrometheusNamespaceProxyTemplate = ''resources/data-science-prometheus-namespace-proxy.tmpl.yaml''"
definition PrometheusNamespaceProxyNetworkPolicyTemplate :: string where
  [template_names]: "PrometheusNamespaceProxyNetworkPolicyTemplate = ''resources/data-science-prometheus-namespace-proxy-network-policy.tmpl.yaml''"
definition PrometheusServiceOverrideTemplate :: string where
  [template_names]: "PrometheusServiceOverrideTemplate = ''resources/data-science-prometheus-service-override.tmpl.yaml''"
definition PrometheusNetworkPolicyTemplate :: string where
  [template_names]: "PrometheusNetworkPolicyTemplate = ''resources/data-science-prometheus-network-policy.tmpl.yaml''"
definition AlertmanagerNetworkPolicyTemplate :: string where
  [template_names]: "AlertmanagerNetworkPolicyTemplate = ''resources/data-science-alertmanager-network-policy.tmpl.yaml''"
definition PrometheusClusterProxyNetworkPolicyTemplate :: string where
  [template_names]: "PrometheusClusterProxyNetworkPolicyTemplate = ''resources/data-science-prometheus-cluster-proxy-network-policy.tmpl.yaml''"
definition ThanosQuerierProxyTemplate :: string where
  [template_names]: "ThanosQuerierProxyTemplate = ''resources/data-science-thanos-querier-proxy.tmpl.yaml''"
definition ThanosQuerierProxyNetworkPolicyTemplate :: string where
  [template_names]: "ThanosQuerierProxyNetworkPolicyTemplate = ''resources/data-science-thanos-querier-proxy-network-policy.tmpl.yaml''"
definition PrometheusWebTLSServiceTemplate :: string where
  [template_names]: "PrometheusWebTLSServiceTemplate = ''resources/prometheus-web-tls-service.tmpl.yaml''"
definition PrometheusSelfServiceMonitorTemplate :: string where
  [template_names]: "PrometheusSelfServiceMonitorTemplate = ''resources/prometheus-self-servicemonitor.tmpl.yaml''"
definition ThanosQuerierTemplate :: string where
  [template_names]: "ThanosQuerierTemplate = ''resources/thanos-querier-cr.tmpl.yaml''"
definition ThanosQuerierNetworkPolicyTemplate :: string where
  [template_names]: "ThanosQuerierNetworkPolicyTemplate = ''resources/data-science-thanos-querier-network-policy.tmpl.yaml''"
definition TempoMonolithicNetworkPolicyTemplate :: string where
  [template_names]: "TempoMonolithicNetworkPolicyTemplate = ''resources/data-science-tempo-monolithic-network-policy.tmpl.yaml''"
definition ThanosQuerierRouteTemplate :: string where
  [template_names]: "ThanosQuerierRouteTemplate = ''resources/thanos-querier-route.tmpl.yaml''"
definition PersesTemplate :: string where
  [template_names]: "PersesTemplate = ''resources/perses.tmpl.yaml''"
definition PersesTempoDatasourceTemplate :: string where
  [template_names]: "PersesTempoDatasourceTemplate = ''resources/perses-tempo-datasource.tmpl.yaml''"
definition PersesTempoDashboardV1Alpha1Template :: string where
  [template_names]: "PersesTempoDashboardV1Alpha1Template = ''resources/perses-tempo-dashboard-v1alpha1.tmpl.yaml''"
definition PersesTempoDashboardV1Alpha2Template :: string where
  [template_names]: "PersesTempoDashboardV1Alpha2Template = ''resources/perses-tempo-dashboard-v1alpha2.tmpl.yaml''"
definition PersesDatasourcePrometheusTemplate :: string where
  [template_names]: "PersesDatasourcePrometheusTemplate = ''resources/perses-datasource-prometheus.tmpl.yaml''"
definition PersesDatasourceClusterPrometheusTemplate :: string where
  [template_names]: "PersesDatasourceClusterPrometheusTemplate = ''resources/perses-datasource-cluster-prometheus.tmpl.yaml''"
definition PersesDatasourceClusterPrometheusTenancyTemplate :: string where
  [template_names]: "PersesDatasourceClusterPrometheusTenancyTemplate = ''resources/perses-datasource-cluster-prometheus-tenancy.tmpl.yaml''"
definition PrometheusClusterProxyTemplate :: string where
  [template_names]: "PrometheusClusterProxyTemplate = ''resources/data-science-prometheus-cluster-proxy.tmpl.yaml''"
definition TempoServiceCAConfigMapTemplate :: string where
  [template_names]: "TempoServiceCAConfigMapTemplate = ''resources/tempo-service-ca-configmap.tmpl.yaml''"
definition PersesOperatorAccessNetworkPolicyTemplate :: string where
  [template_names]: "PersesOperatorAccessNetworkPolicyTemplate = ''resources/perses-operator-access-network-policy.tmpl.yaml''"
definition OperatorPrometheusRulesTemplate :: string where
  [template_names]: "OperatorPrometheusRulesTemplate = ''monitoring/operator-prometheusrules.tmpl.yaml''"
definition AcceleratorRecordingRulesTemplate :: string where
  [template_names]: "AcceleratorRecordingRulesTemplate = ''resources/accelerator-recording-rules.tmpl.yaml''"
definition UsageLogsOpenTelemetryCollectorTemplate :: string where
  [template_names]: "UsageLogsOpenTelemetryCollectorTemplate = ''resources/usage-logs-opentelemetry-collector.tmpl.yaml''"
definition UsageLogsOpenTelemetryCollectorRBACTemplate :: string where
  [template_names]: "UsageLogsOpenTelemetryCollectorRBACTemplate = ''resources/usage-logs-opentelemetry-collector-rbac.tmpl.yaml''"
definition UsageLogsOpenTelemetryCollectorNPTemplate :: string where
  [template_names]: "UsageLogsOpenTelemetryCollectorNPTemplate = ''resources/usage-logs-opentelemetry-collector-network-policy.tmpl.yaml''"
definition UsageLogsLokiStackNPTemplate :: string where
  [template_names]: "UsageLogsLokiStackNPTemplate = ''resources/usage-logs-lokistack-network-policy.tmpl.yaml''"
definition UsageLogsLokiStackTemplate :: string where
  [template_names]: "UsageLogsLokiStackTemplate = ''resources/usage-logs-loki-stack.tmpl.yaml''"
definition LokiStackNetworkPolicyTemplate :: string where
  [template_names]: "LokiStackNetworkPolicyTemplate = ''resources/data-science-lokistack-network-policy.tmpl.yaml''"
definition LokiStackGatewayNetworkPolicyTemplate :: string where
  [template_names]: "LokiStackGatewayNetworkPolicyTemplate = ''resources/data-science-lokistack-gateway-network-policy.tmpl.yaml''"
definition LokiStackTemplate :: string where
  [template_names]: "LokiStackTemplate = ''resources/loki-stack.tmpl.yaml''"
definition ClusterLogForwarderTemplate :: string where
  [template_names]: "ClusterLogForwarderTemplate = ''resources/cluster-log-forwarder.tmpl.yaml''"
definition ClusterLogForwarderRBACTemplate :: string where
  [template_names]: "ClusterLogForwarderRBACTemplate = ''resources/cluster-log-forwarder-rbac.tmpl.yaml''"
definition ClusterLogForwarderNetworkPolicyTemplate :: string where
  [template_names]: "ClusterLogForwarderNetworkPolicyTemplate = ''resources/cluster-log-forwarder-network-policy.tmpl.yaml''"
definition Korrel8rDeploymentTemplate :: string where
  [template_names]: "Korrel8rDeploymentTemplate = ''resources/korrel8r-deployment.tmpl.yaml''"
definition Korrel8rConfigTemplate :: string where
  [template_names]: "Korrel8rConfigTemplate = ''resources/korrel8r-config.tmpl.yaml''"
definition Korrel8rRBACTemplate :: string where
  [template_names]: "Korrel8rRBACTemplate = ''resources/korrel8r-rbac.tmpl.yaml''"
definition Korrel8rNetworkPolicyTemplate :: string where
  [template_names]: "Korrel8rNetworkPolicyTemplate = ''resources/korrel8r-network-policy.tmpl.yaml''"

definition legacyDataSciencePrometheusDatasourceSecret :: string where
  "legacyDataSciencePrometheusDatasourceSecret = ''data-science-prometheus-datasource-secret''"
definition legacyClusterPrometheusDatasourceSecret :: string where
  "legacyClusterPrometheusDatasourceSecret = ''cluster-prometheus-datasource-secret''"
definition legacyClusterPrometheusTenancyDatasourceSecret :: string where
  "legacyClusterPrometheusTenancyDatasourceSecret = ''cluster-prometheus-tenancy-datasource-secret''"
definition legacyPersesDatasourceServiceAccount :: string where
  "legacyPersesDatasourceServiceAccount = ''data-science-prometheus-cluster-proxy''"
definition PersesTempoDatasourceName :: string where
  "PersesTempoDatasourceName = ''tempo-datasource''"
definition PersesTempoDashboardName :: string where
  "PersesTempoDashboardName = ''data-science-tempo-traces''"

text \<open>
  The core/v1 constants \<open>SecretTypeServiceAccountToken\<close> and \<open>ServiceAccountNameKey\<close>.
\<close>

definition SecretTypeServiceAccountToken :: string where
  "SecretTypeServiceAccountToken = ''kubernetes.io/service-account-token''"
definition ServiceAccountNameKey :: string where
  "ServiceAccountNameKey = ''kubernetes.io/service-account.name''"

definition isOwnedByMonitoring :: "Monitoring \<Rightarrow> KObject \<Rightarrow> bool" where
  "isOwnedByMonitoring m obj \<longleftrightarrow> mo_UID m \<noteq> '''' \<and> o_ControllerUID obj = Some (mo_UID m)"

text \<open>An action's failure before it changed anything further.\<close>

abbreviation fail_with :: "string \<Rightarrow> go_error \<Rightarrow> rstate \<Rightarrow> action_result" where
  "fail_with pre err s \<equiv> (s, Some (wrapf pre err))"

subsection \<open>Metrics, traces and the collector\<close>

definition deployMonitoringAdmissionPolicies :: "'w cluster_scheme \<Rightarrow> int \<Rightarrow> rstate \<Rightarrow> action_result" where
  "deployMonitoringAdmissionPolicies W g s = (add_sources [MonitoringAdmissionPoliciesTemplate] s, None)"

definition monitoring_stack_templates :: "string list" where
  "monitoring_stack_templates =
     [PrometheusWebTLSServiceTemplate, MonitoringStackTemplate, PrometheusSelfServiceMonitorTemplate,
      MonitoringStackAlertmanagerRBACTemplate, AcceleratorRecordingRulesTemplate, PrometheusRouteTemplate,
      PrometheusServiceOverrideTemplate, PrometheusNetworkPolicyTemplate, AlertmanagerNetworkPolicyTemplate,
      PrometheusClusterProxyNetworkPolicyTemplate, PrometheusNamespaceProxyTemplate,
      PrometheusNamespaceProxyNetworkPolicyTemplate, ThanosQuerierTemplate, ThanosQuerierNetworkPolicyTemplate,
      ThanosQuerierProxyTemplate, ThanosQuerierProxyNetworkPolicyTemplate, ThanosQuerierRouteTemplate]"

definition deployMonitoringStackWithQuerierAndRestrictions ::
  "'w cluster_scheme \<Rightarrow> int \<Rightarrow> rstate \<Rightarrow> action_result" where
  "deployMonitoringStackWithQuerierAndRestrictions W g s =
     (if metrics_storage (mo_Spec (rs_Mon s)) = None then
        (on_mon (MarkNotConfigured W g ConditionThanosQuerierAvailable
                   MetricsNotConfiguredReason MetricsNotConfiguredMessage)
          (on_mon (MarkNotConfigured W g ConditionMonitoringStackAvailable
                   MetricsNotConfiguredReason MetricsNotConfiguredMessage) s), None)
      else (case hasCRD W gvk_MonitoringStack of
          Inl err \<Rightarrow> fail_with ''checking MonitoringStack CRD: '' err s
        | Inr msExists \<Rightarrow>
            (case hasCRD W gvk_ThanosQuerier of
               Inl err \<Rightarrow> fail_with ''checking ThanosQuerier CRD: '' err s
             | Inr tqExists \<Rightarrow>
                 if \<not> msExists \<or> \<not> tqExists then
                   (let s1 = (if \<not> msExists then
                          on_mon (MarkFalse W g ConditionMonitoringStackAvailable
                            ''MonitoringStackCRDNotFoundReason''
                            ''MonitoringStack CRD not found (atomic deployment requires all CRDs)'') s
                        else s);
                        s2 = (if \<not> tqExists then
                          on_mon (MarkFalse W g ConditionThanosQuerierAvailable
                            ''ThanosQuerierCRDNotFoundReason''
                            ''ThanosQuerier CRD not found (atomic deployment requires all CRDs)'') s1
                        else s1)
                    in (s2, None))
                 else
                   (add_sources monitoring_stack_templates
                     (on_mon (MarkTrue W g ConditionThanosQuerierAvailable)
                       (on_mon (MarkTrue W g ConditionMonitoringStackAvailable) s)), None))))"

text \<open>The second half of \<open>deployTracingStack\<close>: Tempo itself.\<close>

definition tempoGVK_of :: "TracesStorage \<Rightarrow> gvk" where
  "tempoGVK_of ts = (if ts_Backend ts = StorageBackendPV then gvk_TempoMonolithic else gvk_TempoStack)"

definition tempoTemplate_of :: "TracesStorage \<Rightarrow> string" where
  "tempoTemplate_of ts =
     (if ts_Backend ts = StorageBackendPV then TempoMonolithicTemplate else TempoStackTemplate)"

definition deploy_tempo :: "'w cluster_scheme \<Rightarrow> int \<Rightarrow> TracesStorage option \<Rightarrow> rstate \<Rightarrow> action_result" where
  "deploy_tempo W g storage s =
     (case storage of
        None \<Rightarrow>
          (on_mon (MarkNotConfigured W g ConditionTempoAvailable
             TracesNotConfiguredReason TracesNotConfiguredMessage) s, None)
      | Some ts \<Rightarrow>
          (let tempoGVK = tempoGVK_of ts in
           case hasCRD W tempoGVK of
             Inl err \<Rightarrow> fail_with (''checking '' @ Kind tempoGVK @ '' CRD: '') err s
           | Inr False \<Rightarrow>
               (on_mon (MarkFalse W g ConditionTempoAvailable
                  (Kind tempoGVK @ ''CRDNotFoundReason'') (Kind tempoGVK @ '' CRD not found'')) s, None)
           | Inr True \<Rightarrow>
               (let s1 = add_sources [tempoTemplate_of ts]
                      (on_mon (MarkTrue W g ConditionTempoAvailable) s)
                in (if tempoGVK = gvk_TempoMonolithic
                    then add_sources [TempoMonolithicNetworkPolicyTemplate] s1 else s1, None))))"

definition deployTracingStack :: "'w cluster_scheme \<Rightarrow> int \<Rightarrow> rstate \<Rightarrow> action_result" where
  "deployTracingStack W g s =
     (case sp_Traces (mo_Spec (rs_Mon s)) of
        None \<Rightarrow>
          (on_mon (MarkNotConfigured W g ConditionInstrumentationAvailable
                     TracesNotConfiguredReason TracesNotConfiguredMessage)
            (on_mon (MarkNotConfigured W g ConditionTempoAvailable
                     TracesNotConfiguredReason TracesNotConfiguredMessage) s), None)
      | Some traces \<Rightarrow>
          (case hasCRD W gvk_Instrumentation of
             Inl err \<Rightarrow> fail_with ''checking Instrumentation CRD: '' err s
           | Inr instrExists \<Rightarrow>
               deploy_tempo W g (tr_Storage traces)
                 (if \<not> instrExists then
                    on_mon (MarkFalse W g ConditionInstrumentationAvailable
                      ''InstrumentationCRDNotFoundReason'' ''Instrumentation CRD not found'') s
                  else add_sources [InstrumentationTemplate]
                         (on_mon (MarkTrue W g ConditionInstrumentationAvailable) s))))"

definition collector_templates :: "MonitoringSpec \<Rightarrow> string list" where
  "collector_templates sp =
     [CollectorRBACTemplate, OpenTelemetryCollectorTemplate, CollectorMonitorServiceTemplate,
      CollectorMonitoringNetworkPolicyTemplate, CollectorTargetAllocatorNetworkPolicyTemplate] @
     (if metrics_storage sp \<noteq> None
      then [CollectorServiceMonitorsTemplate, CollectorPrometheusServiceTemplate] else []) @
     (if sp_Traces sp \<noteq> None
      then CollectorMLflowRBACTemplate # (if traces_storage sp \<noteq> None then [CollectorTempoRBACTemplate] else [])
      else [])"

definition deployOpenTelemetryCollector :: "'w cluster_scheme \<Rightarrow> int \<Rightarrow> rstate \<Rightarrow> action_result" where
  "deployOpenTelemetryCollector W g s =
     (let m = rs_Mon s; sp = mo_Spec m in
      if sp_Metrics sp = None \<and> sp_Traces sp = None then
        (on_mon (MarkNotConfigured W g ConditionOpenTelemetryCollectorAvailable
           MetricsAndTracesNotConfiguredReason MetricsAndTracesNotConfiguredMessage) s, None)
      else (case hasCRD W gvk_OpenTelemetryCollector of
          Inl err \<Rightarrow> fail_with ''checking OpenTelemetryCollector CRD: '' err s
        | Inr False \<Rightarrow>
            (on_mon (MarkFalse W g ConditionOpenTelemetryCollectorAvailable
               (Kind gvk_OpenTelemetryCollector @ ''CRDNotFoundReason'')
               (Kind gvk_OpenTelemetryCollector @ '' CRD not found'')) s, None)
        | Inr True \<Rightarrow>
            (case isOpenTelemetryCollectorReady W (monitoringNamespace W m) of
               Inl err \<Rightarrow> fail_with ''checking OpenTelemetryCollector readiness: '' err s
             | Inr collectorReady \<Rightarrow>
                 (add_sources (collector_templates sp)
                   (on_mon (if \<not> collectorReady
                      then MarkFalse W g ConditionOpenTelemetryCollectorAvailable
                        ''OpenTelemetryCollectorNotReadyReason''
                        ''OpenTelemetryCollector has not been admitted and reported Ready yet''
                      else MarkTrue W g ConditionOpenTelemetryCollectorAvailable) s), None))))"

subsection \<open>Operator rules, alerting, node metrics, Korrel8r, webhook\<close>

definition deployOperatorMonitoring :: "'w cluster_scheme \<Rightarrow> int \<Rightarrow> rstate \<Rightarrow> action_result" where
  "deployOperatorMonitoring W g s =
     (case hasCRD W gvk_PrometheusRule of
        Inl err \<Rightarrow> fail_with ''checking PrometheusRule CRD: '' err s
      | Inr False \<Rightarrow> (s, None)
      | Inr True \<Rightarrow> (add_sources [OperatorPrometheusRulesTemplate] s, None))"

definition deployAlerting :: "'w cluster_scheme \<Rightarrow> int \<Rightarrow> rstate \<Rightarrow> action_result" where
  "deployAlerting W g s =
     (if sp_Alerting (mo_Spec (rs_Mon s)) = None then
        (on_mon (MarkNotConfigured W g ConditionAlertingAvailable
           AlertingNotConfiguredReason AlertingNotConfiguredMessage) s, None)
      else (case hasCRD W gvk_PrometheusRule of
          Inl err \<Rightarrow> fail_with ''checking PrometheusRule CRD: '' err s
        | Inr False \<Rightarrow>
            (on_mon (MarkFalse W g ConditionAlertingAvailable
               ''PrometheusRuleCRDNotFoundReason'' ''PrometheusRule CRD not found'') s, None)
        | Inr True \<Rightarrow> (on_mon (MarkTrue W g ConditionAlertingAvailable) s, None)))"

definition deployNodeMetricsEndpoint :: "'w cluster_scheme \<Rightarrow> int \<Rightarrow> rstate \<Rightarrow> action_result" where
  "deployNodeMetricsEndpoint W g s =
     (if metrics_storage (mo_Spec (rs_Mon s)) = None then
        (on_mon (MarkNotConfigured W g ConditionNodeMetricsEndpointAvailable
           MetricsNotConfiguredReason MetricsNotConfiguredMessage) s, None)
      else
        (add_sources [PrometheusClusterProxyTemplate]
          (on_mon (MarkTrue W g ConditionNodeMetricsEndpointAvailable) s), None))"

definition korrel8r_templates :: "string list" where
  "korrel8r_templates =
     [Korrel8rConfigTemplate, Korrel8rDeploymentTemplate, Korrel8rRBACTemplate, Korrel8rNetworkPolicyTemplate]"

definition deployKorrel8r :: "'w cluster_scheme \<Rightarrow> int \<Rightarrow> rstate \<Rightarrow> action_result" where
  "deployKorrel8r W g s =
     (let m = rs_Mon s; sp = mo_Spec m in
      if sp_Metrics sp = None \<and> sp_Traces sp = None \<and> sp_Logs sp = None then
        (on_mon (MarkNotConfigured W g ConditionKorrel8rAvailable ''Korrel8rNotConfigured''
           ''Metrics, traces, and logs are not configured in Monitoring CR'') s, None)
      else (case korrel8rReady W (monitoringNamespace W m) of
          Inl err \<Rightarrow> fail_with ''checking Korrel8r readiness: '' err s
        | Inr ready \<Rightarrow>
            (add_sources korrel8r_templates
              (on_mon (if ready then MarkTrue W g ConditionKorrel8rAvailable
                 else MarkFalse W g ConditionKorrel8rAvailable ''Korrel8rNotReady''
                   ''Korrel8r Deployment or Service endpoint is not ready'') s), None)))"

definition deployWebhookInfrastructure :: "'w cluster_scheme \<Rightarrow> int \<Rightarrow> rstate \<Rightarrow> action_result" where
  "deployWebhookInfrastructure W g s =
     (let operatorName = getEnvOrDefault W ''OPERATOR_NAME'' ''odh-observability'';
          operatorNamespace = Getenv W ''POD_NAMESPACE'';
          secretName = operatorName @ ''-webhook-cert'' in
      case GetSecret W operatorNamespace secretName of
        Inl err \<Rightarrow>
          if IsNotFound err then
            (on_mon (MarkNotConfigured W g ConditionWebhookAvailable ''TLSSecretPending''
               (''Waiting for cert-manager to provision TLS secret '' @ operatorNamespace @ ''/'' @ secretName)) s,
             None)
          else fail_with ''checking webhook TLS secret: '' err s
      | Inr secret \<Rightarrow>
          if sget (sec_Data secret) ''tls.crt'' = '''' \<or> sget (sec_Data secret) ''tls.key'' = '''' then
            (on_mon (MarkNotConfigured W g ConditionWebhookAvailable ''TLSSecretPending''
               ''TLS secret exists but certificate data not yet populated by cert-manager'') s, None)
          else (on_mon (MarkTrue W g ConditionWebhookAvailable) s, None))"


subsection \<open>Perses\<close>

text \<open>
  \<open>c.Delete\<close> with a NotFound answer accepted, the pattern of every deletion in the operator.
\<close>

definition delete_object ::
  "'w cluster_scheme \<Rightarrow> string \<Rightarrow> gvk \<Rightarrow> string \<Rightarrow> string \<Rightarrow> (string \<times> string) option \<Rightarrow> rstate \<Rightarrow> action_result" where
  "delete_object W pre k ns name preconditions s =
     (case DeleteAnswer W k ns name of
        None \<Rightarrow> (emit (Delete k ns name preconditions) s, None)
      | Some err \<Rightarrow> if IsNotFound err then (s, None) else fail_with pre err s)"

definition deployPerses ::
  "'w cluster_scheme \<Rightarrow> int \<Rightarrow> string \<Rightarrow> bool \<Rightarrow> rstate \<Rightarrow> action_result" where
  "deployPerses W g persesVersion persesFound s =
     (let sp = mo_Spec (rs_Mon s) in
      if metrics_storage sp = None \<and> traces_storage sp = None then
        (on_mon (MarkNotConfigured W g ConditionPersesAvailable MetricsAndTracesNotConfiguredReason
           ''Perses requires metrics.storage or traces.storage to be configured'') s, None)
      else if \<not> persesFound then
        (on_mon (MarkFalse W g ConditionPersesAvailable ''PersesCRDNotFoundReason''
           ''Perses CRD not found in any supported version (v1alpha2, v1alpha1)'') s, None)
      else
        (let (persesGVK, _, _) = persesGVKs persesVersion in
         case hasCRD W persesGVK of
           Inl err \<Rightarrow> fail_with ''checking Perses CRD: '' err s
         | Inr False \<Rightarrow>
             (on_mon (MarkFalse W g ConditionPersesAvailable ''PersesCRDNotFoundReason''
                (Kind persesGVK @ '' CRD not found'')) s, None)
         | Inr True \<Rightarrow>
             (add_sources [PersesTemplate, PersesOperatorAccessNetworkPolicyTemplate]
               (on_mon (MarkTrue W g ConditionPersesAvailable) s), None)))"

text \<open>
  \<open>deployPersesTempoIntegration\<close>: the two CRD lookups, the cleanup when the traces storage is
  gone, and the deployment otherwise.
\<close>

definition perses_crds :: "'w cluster_scheme \<Rightarrow> gvk \<Rightarrow> gvk \<Rightarrow> bool \<Rightarrow> (bool \<times> bool) result" where
  "perses_crds W datasourceGVK dashboardGVK persesFound =
     (if \<not> persesFound then Inr (False, False)
      else (case hasCRD W datasourceGVK of
          Inl err \<Rightarrow> Inl (wrapf ''checking PersesDatasource CRD: '' err)
        | Inr datasourceExists \<Rightarrow>
            (case hasCRD W dashboardGVK of
               Inl err \<Rightarrow> Inl (wrapf ''checking PersesDashboard CRD: '' err)
             | Inr dashboardExists \<Rightarrow> Inr (datasourceExists, dashboardExists))))"

definition perses_tempo_cleanup ::
  "'w cluster_scheme \<Rightarrow> int \<Rightarrow> gvk \<Rightarrow> gvk \<Rightarrow> bool \<Rightarrow> bool \<Rightarrow> rstate \<Rightarrow> action_result" where
  "perses_tempo_cleanup W g datasourceGVK dashboardGVK datasourceExists dashboardExists s =
     (let namespace = monitoringNamespace W (rs_Mon s) in
      case (if datasourceExists
            then delete_object W ''deleting PersesDatasource: '' datasourceGVK namespace
                   PersesTempoDatasourceName None s
            else (s, None)) of
        (s1, Some err) \<Rightarrow> (s1, Some err)
      | (s1, None) \<Rightarrow>
          (case (if dashboardExists
                 then delete_object W ''deleting PersesDashboard: '' dashboardGVK namespace
                        PersesTempoDashboardName None s1
                 else (s1, None)) of
             (s2, Some err) \<Rightarrow> (s2, Some err)
           | (s2, None) \<Rightarrow>
               (on_mon (MarkNotConfigured W g ConditionPersesTempoDataSourceAvailable
                  TracesNotConfiguredReason TracesNotConfiguredMessage) s2, None)))"

definition deployPersesTempoIntegration ::
  "'w cluster_scheme \<Rightarrow> int \<Rightarrow> string \<Rightarrow> bool \<Rightarrow> rstate \<Rightarrow> action_result" where
  "deployPersesTempoIntegration W g persesVersion persesFound s =
     (let (_, datasourceGVK, dashboardGVK) = persesGVKs persesVersion in
      case perses_crds W datasourceGVK dashboardGVK persesFound of
        Inl err \<Rightarrow> (s, Some err)
      | Inr (datasourceExists, dashboardExists) \<Rightarrow>
          if traces_storage (mo_Spec (rs_Mon s)) = None then
            perses_tempo_cleanup W g datasourceGVK dashboardGVK datasourceExists dashboardExists s
          else if \<not> datasourceExists then
            (on_mon (MarkFalse W g ConditionPersesTempoDataSourceAvailable
               (Kind datasourceGVK @ ''CRDNotFoundReason'') (Kind datasourceGVK @ '' CRD not found'')) s, None)
          else
            (let s1 = add_sources [PersesTempoDatasourceTemplate, TempoServiceCAConfigMapTemplate]
                   (on_mon (MarkTrue W g ConditionPersesTempoDataSourceAvailable) s);
                 dashboardTemplate = (if persesVersion = persesV1Alpha2
                   then PersesTempoDashboardV1Alpha2Template else PersesTempoDashboardV1Alpha1Template)
             in (if dashboardExists then add_sources [dashboardTemplate] s1 else s1, None)))"

definition cleanupLegacyPersesDatasourceSATokenSecret ::
  "'w cluster_scheme \<Rightarrow> string \<Rightarrow> string \<Rightarrow> rstate \<Rightarrow> action_result" where
  "cleanupLegacyPersesDatasourceSATokenSecret W namespace name s =
     (if namespace = '''' \<or> name = '''' then (s, None)
      else (case GetSecret W namespace name of
          Inl err \<Rightarrow>
            if IsNotFound err then (s, None)
            else fail_with (''getting legacy Perses datasource secret '' @ namespace @ ''/'' @ name @ '': '') err s
        | Inr secret \<Rightarrow>
            if sec_Type secret \<noteq> SecretTypeServiceAccountToken \<or>
               sget (o_Annotations (sec_Meta secret)) ServiceAccountNameKey \<noteq>
                 legacyPersesDatasourceServiceAccount \<or>
               \<not> isOwnedByMonitoring (rs_Mon s) (sec_Meta secret)
            then (s, None)
            else delete_object W
              (''deleting legacy Perses datasource SA token secret '' @ namespace @ ''/'' @ name @ '': '')
              gvk_Secret namespace name
              (Some (o_UID (sec_Meta secret), o_ResourceVersion (sec_Meta secret))) s))"

fun legacy_secret_loop :: "'w cluster_scheme \<Rightarrow> string \<Rightarrow> string list \<Rightarrow> rstate \<Rightarrow> action_result" where
  "legacy_secret_loop W namespace [] s = (s, None)"
| "legacy_secret_loop W namespace (name # names) s =
     (case cleanupLegacyPersesDatasourceSATokenSecret W namespace name s of
        (s1, Some err) \<Rightarrow> (s1, Some err)
      | (s1, None) \<Rightarrow> legacy_secret_loop W namespace names s1)"

definition legacy_secret_names :: "string list" where
  "legacy_secret_names =
     [legacyDataSciencePrometheusDatasourceSecret, legacyClusterPrometheusDatasourceSecret,
      legacyClusterPrometheusTenancyDatasourceSecret]"

definition cleanupLegacyPersesDatasourceSATokenSecrets ::
  "'w cluster_scheme \<Rightarrow> rstate \<Rightarrow> action_result" where
  "cleanupLegacyPersesDatasourceSATokenSecrets W s =
     legacy_secret_loop W (monitoringNamespace W (rs_Mon s)) legacy_secret_names s"

definition deployPersesPrometheusIntegration ::
  "'w cluster_scheme \<Rightarrow> int \<Rightarrow> string \<Rightarrow> bool \<Rightarrow> rstate \<Rightarrow> action_result" where
  "deployPersesPrometheusIntegration W g persesVersion persesFound s =
     (if metrics_storage (mo_Spec (rs_Mon s)) = None then
        (on_mon (MarkNotConfigured W g ConditionPersesPrometheusDataSourceAvailable
           MetricsNotConfiguredReason ''Prometheus datasource requires metrics.storage to be configured'') s, None)
      else if \<not> persesFound then
        (on_mon (MarkFalse W g ConditionPersesPrometheusDataSourceAvailable
           ''PersesDatasourceCRDNotFoundReason''
           ''PersesDatasource CRD not found in any supported version'') s, None)
      else
        (let (_, datasourceGVK, _) = persesGVKs persesVersion in
         case hasCRD W datasourceGVK of
           Inl err \<Rightarrow> fail_with ''checking PersesDatasource CRD: '' err s
         | Inr False \<Rightarrow>
             (on_mon (MarkFalse W g ConditionPersesPrometheusDataSourceAvailable
                (Kind datasourceGVK @ ''CRDNotFoundReason'') (Kind datasourceGVK @ '' CRD not found'')) s, None)
         | Inr True \<Rightarrow>
             (case cleanupLegacyPersesDatasourceSATokenSecrets W s of
                (s1, Some err) \<Rightarrow> (s1, Some err)
              | (s1, None) \<Rightarrow>
                  (add_sources [PersesDatasourceClusterPrometheusTemplate,
                     PersesDatasourceClusterPrometheusTenancyTemplate, PersesDatasourcePrometheusTemplate]
                    (on_mon (MarkTrue W g ConditionPersesPrometheusDataSourceAvailable) s1), None))))"

subsection \<open>The two log pipelines\<close>

definition usage_logs_collector_templates :: "string list" where
  "usage_logs_collector_templates =
     [UsageLogsOpenTelemetryCollectorTemplate, UsageLogsOpenTelemetryCollectorRBACTemplate,
      UsageLogsOpenTelemetryCollectorNPTemplate]"

text \<open>The last stage of \<open>deployUsageLogsCollector\<close>, past the storage and credential gates.\<close>

definition render_usage_logs_collector ::
  "'w cluster_scheme \<Rightarrow> int \<Rightarrow> UsageLogs \<Rightarrow> rstate \<Rightarrow> action_result" where
  "render_usage_logs_collector W g usageLogs s =
     (case hasCRD W gvk_OpenTelemetryCollector of
        Inl err \<Rightarrow> fail_with ''checking OpenTelemetryCollector CRD: '' err s
      | Inr False \<Rightarrow>
          (on_mon (MarkFalse W g ConditionUsageLogsCollectorAvailable
             ''OpenTelemetryCollectorCRDNotFound'' ''OpenTelemetryCollector CRD not found'') s, None)
      | Inr True \<Rightarrow>
          (add_sources usage_logs_collector_templates
            (on_mon (if ul_Storage usageLogs = None
               then MarkTrueWithReason W g ConditionUsageLogsCollectorAvailable ''ForwardingOnly''
                 (''Forwarding usage logs to '' @ show_nat (length (ul_Exporters usageLogs)) @
                  '' remote exporter(s); no cluster-local store'')
               else MarkTrue W g ConditionUsageLogsCollectorAvailable) s), None))"

definition deployUsageLogsCollector :: "'w cluster_scheme \<Rightarrow> int \<Rightarrow> rstate \<Rightarrow> action_result" where
  "deployUsageLogsCollector W g s =
     (let not_configured = (on_mon (MarkNotConfigured W g ConditionUsageLogsCollectorAvailable
            ''UsageLogsNotConfigured'' ''Usage logs not configured in Monitoring CR'') s, None) in
      case sp_UsageLogs (mo_Spec (rs_Mon s)) of
        None \<Rightarrow> not_configured
      | Some usageLogs \<Rightarrow>
          if ul_Storage usageLogs = None \<and> ul_Exporters usageLogs = [] then not_configured
          else if ul_Storage usageLogs \<noteq> None \<and> st_UsageLogsEndpoint (mo_Status (rs_Mon s)) = '''' then
            (on_mon (MarkFalse W g ConditionUsageLogsCollectorAvailable
               ''LokiStackNotReady'' ''Waiting for LokiStack to be ready'') s, None)
          else if ul_CredentialSecret usageLogs \<noteq> '''' \<and> ul_Exporters usageLogs \<noteq> [] then
            (case usageLogsCredentialExists W (rs_Mon s) (ul_CredentialSecret usageLogs) of
               Inl err \<Rightarrow> (s, Some err)
             | Inr False \<Rightarrow>
                 (on_mon (MarkFalse W g ConditionUsageLogsCollectorAvailable CredentialNotFoundReason
                    (''Waiting for Secret '' @ quoted (ul_CredentialSecret usageLogs) @
                     '', which carries the remote-write credential'')) s, None)
             | Inr True \<Rightarrow> render_usage_logs_collector W g usageLogs s)
          else render_usage_logs_collector W g usageLogs s)"

definition capitalizeFirst :: "string \<Rightarrow> string" where
  "capitalizeFirst s = (if s = '''' then s else ToUpper (take 1 s) @ drop 1 s)"

record lokiStackDeployment =
  ld_configured :: bool
  ld_resourceName :: string
  ld_condition :: string
  ld_description :: string
  ld_feature :: string
  ld_templates :: "string list"

definition deployLokiStack ::
  "'w cluster_scheme \<Rightarrow> int \<Rightarrow> lokiStackDeployment \<Rightarrow> rstate \<Rightarrow> action_result" where
  "deployLokiStack W g stack s =
     (if \<not> ld_configured stack then
        (on_mon (MarkNotConfigured W g (ld_condition stack) ''LokiNotRequired''
           (capitalizeFirst (ld_feature stack) @ '' not configured'')) s, None)
      else (case hasCRD W gvk_LokiStack of
          Inl err \<Rightarrow>
            fail_with ''checking LokiStack CRD: '' err
              (on_mon (MarkUnknown W g (ld_condition stack) lokiCRDCheckFailedReason
                (''Cannot determine whether the LokiStack CRD is installed: '' @ Error err)) s)
        | Inr False \<Rightarrow>
            (on_mon (MarkFalse W g (ld_condition stack) MissingOperatorReason
               (''LokiStack operator must be installed for '' @ ld_feature stack @ '' configuration'')) s, None)
        | Inr True \<Rightarrow>
            (let s1 = add_sources (ld_templates stack) s in
             case isLokiStackReady W (rs_Mon s1) (ld_resourceName stack) of
               Inl err \<Rightarrow>
                 fail_with (''checking '' @ ld_description stack @ '' readiness: '') err
                   (on_mon (MarkUnknown W g (ld_condition stack) lokiReadinessCheckFailedReason
                     (''Cannot determine whether the '' @ ld_description stack @ '' is ready: '' @ Error err)) s1)
             | Inr ready \<Rightarrow>
                 (on_mon (if ready then MarkTrue W g (ld_condition stack)
                    else MarkFalse W g (ld_condition stack) ''LokiStackNotReady''
                      (capitalizeFirst (ld_description stack) @ '' is not ready yet'')) s1, None))))"

definition usage_logs_stack :: "MonitoringSpec \<Rightarrow> lokiStackDeployment" where
  "usage_logs_stack sp =
     \<lparr>ld_configured = usage_logs_storage sp \<noteq> None,
      ld_resourceName = usageLogsLokiStackResourceName,
      ld_condition = ConditionUsageLogsLokiStackAvailable,
      ld_description = ''usage logs LokiStack'',
      ld_feature = ''usage logs storage'',
      ld_templates = [UsageLogsLokiStackTemplate, UsageLogsLokiStackNPTemplate]\<rparr>"

definition logs_stack :: "MonitoringSpec \<Rightarrow> lokiStackDeployment" where
  "logs_stack sp =
     \<lparr>ld_configured = sp_Logs sp \<noteq> None,
      ld_resourceName = lokiStackResourceName,
      ld_condition = ConditionLokiStackAvailable,
      ld_description = ''LokiStack'',
      ld_feature = ''log forwarding'',
      ld_templates =
        [LokiStackTemplate, LokiStackNetworkPolicyTemplate, LokiStackGatewayNetworkPolicyTemplate]\<rparr>"

definition deployUsageLogsLokiStack :: "'w cluster_scheme \<Rightarrow> int \<Rightarrow> rstate \<Rightarrow> action_result" where
  "deployUsageLogsLokiStack W g s =
     (case deployLokiStack W g (usage_logs_stack (mo_Spec (rs_Mon s))) s of
        (s1, Some err) \<Rightarrow> (s1, Some err)
      | (s1, None) \<Rightarrow> deployUsageLogsCollector W g s1)"

definition forwarder_templates :: "string list" where
  "forwarder_templates =
     [ClusterLogForwarderTemplate, ClusterLogForwarderRBACTemplate, ClusterLogForwarderNetworkPolicyTemplate]"

definition deployClusterLogForwarder :: "'w cluster_scheme \<Rightarrow> int \<Rightarrow> rstate \<Rightarrow> action_result" where
  "deployClusterLogForwarder W g s =
     (if sp_Logs (mo_Spec (rs_Mon s)) = None then
        (on_mon (MarkNotConfigured W g ConditionClusterLogForwarderAvailable
           ''LogsNotConfigured'' ''Logs not configured in Monitoring CR'') s, None)
      else (case hasCRD W gvk_ClusterLogForwarder of
          Inl err \<Rightarrow> fail_with ''checking ClusterLogForwarder CRD: '' err s
        | Inr False \<Rightarrow>
            (on_mon (MarkFalse W g ConditionClusterLogForwarderAvailable
               ''ClusterLogForwarderCRDNotFound'' ''ClusterLogForwarder CRD not found'') s, None)
        | Inr True \<Rightarrow>
            (case hasCRD W gvk_LokiStack of
               Inl err \<Rightarrow> fail_with ''checking LokiStack CRD: '' err s
             | Inr False \<Rightarrow>
                 (on_mon (MarkFalse W g ConditionClusterLogForwarderAvailable
                    ''LokiStackCRDNotFound'' ''LokiStack CRD not found'') s, None)
             | Inr True \<Rightarrow>
                 (let s1 = add_sources forwarder_templates s in
                  case isLokiStackReady W (rs_Mon s1) lokiStackResourceName of
                    Inl err \<Rightarrow> fail_with ''checking LokiStack readiness for log forwarding: '' err s1
                  | Inr False \<Rightarrow>
                      (on_mon (MarkFalse W g ConditionClusterLogForwarderAvailable ''LokiStackNotReady''
                         ''LokiStack must be ready before ClusterLogForwarder can be deployed'') s1, None)
                  | Inr True \<Rightarrow>
                      (case isClusterLogForwarderReady W of
                         Inl err \<Rightarrow> fail_with ''checking ClusterLogForwarder readiness: '' err s1
                       | Inr logReady \<Rightarrow>
                           (on_mon (if logReady then MarkTrue W g ConditionClusterLogForwarderAvailable
                              else MarkFalse W g ConditionClusterLogForwarderAvailable
                                ''ClusterLogForwarderNotReady'' ''ClusterLogForwarder is not ready yet'') s1,
                            None))))))"

definition deployRHOAILogsLokiStack :: "'w cluster_scheme \<Rightarrow> int \<Rightarrow> rstate \<Rightarrow> action_result" where
  "deployRHOAILogsLokiStack W g s =
     (case deployLokiStack W g (logs_stack (mo_Spec (rs_Mon s))) s of
        (s1, Some err) \<Rightarrow> (s1, Some err)
      | (s1, None) \<Rightarrow> deployClusterLogForwarder W g s1)"

definition markWithheldPipeline ::
  "'w conditions_lib_scheme \<Rightarrow> int \<Rightarrow> string \<Rightarrow> string \<Rightarrow> string \<Rightarrow> Monitoring \<Rightarrow> Monitoring" where
  "markWithheldPipeline W g stackCondition dependentCondition dependent m =
     (case find_cond W m stackCondition of
        None \<Rightarrow> m
      | Some stack \<Rightarrow>
          (let message = capitalizeFirst dependent @ '' withheld with its LokiStack: '' @ c_Message stack in
           case c_Status stack of
             ConditionFalse \<Rightarrow> MarkFalse W g dependentCondition (c_Reason stack) message m
           | ConditionUnknown \<Rightarrow> MarkUnknown W g dependentCondition (c_Reason stack) message m
           | ConditionTrue \<Rightarrow> m))"

fun loki_loop :: "'w cluster_scheme \<Rightarrow> int \<Rightarrow> string list \<Rightarrow> string list \<Rightarrow> rstate \<Rightarrow> action_result" where
  "loki_loop W g withheld [] s = (s, None)"
| "loki_loop W g withheld (component # components) s =
     (case (if component = componentLokiUsageLogs then
              (if component \<in> set withheld then
                 (on_mon (markWithheldPipeline W g ConditionUsageLogsLokiStackAvailable
                    ConditionUsageLogsCollectorAvailable ''usage logs collector'') s, None)
               else deployUsageLogsLokiStack W g s)
            else if component = componentLokiLogs then
              (if component \<in> set withheld then
                 (on_mon (markWithheldPipeline W g ConditionLokiStackAvailable
                    ConditionClusterLogForwarderAvailable ''cluster log forwarder'') s, None)
               else deployRHOAILogsLokiStack W g s)
            else (s, None)) of
        (s1, Some err) \<Rightarrow> (s1, Some err)
      | (s1, None) \<Rightarrow> loki_loop W g withheld components s1)"

definition deployLokiStacks ::
  "'w cluster_scheme \<Rightarrow> int \<Rightarrow> string list \<Rightarrow> rstate \<Rightarrow> action_result" where
  "deployLokiStacks W g withheldComponents s = loki_loop W g withheldComponents lokiComponents s"


subsection \<open>The contract of an action\<close>

text \<open>
  The deletions an action may request: the Perses datasource and dashboard of the Tempo integration,
  and the legacy token Secrets, each by its own name.
\<close>

fun action_delete :: "effect \<Rightarrow> bool" where
  "action_delete (Delete k _ n _) \<longleftrightarrow>
     (k = gvk_PersesDatasourceV1Alpha1 \<or> k = gvk_PersesDatasourceV1Alpha2) \<and> n = PersesTempoDatasourceName \<or>
     (k = gvk_PersesDashboardV1Alpha1 \<or> k = gvk_PersesDashboardV1Alpha2) \<and> n = PersesTempoDashboardName \<or>
     k = gvk_Secret \<and> n \<in> set legacy_secret_names"
| "action_delete _ \<longleftrightarrow> False"

text \<open>
  From \<open>s\<close> to \<open>s'\<close> only the conditions of the Monitoring object changed, and of them only those
  of the types \<open>owned\<close>; only templates of \<open>tmpls\<close> were appended to the sources; and the requests
  issued are the deletions of \<open>action_delete\<close>. A list of conditions with one entry per type stays
  one.
\<close>

definition acts_within ::
  "'w conditions_lib_scheme \<Rightarrow> string list \<Rightarrow> string list \<Rightarrow> rstate \<Rightarrow> rstate \<Rightarrow> bool" where
  "acts_within W owned tmpls s s' \<longleftrightarrow>
     rs_Mon s' = SetConditions (rs_Mon s) (GetConditions (rs_Mon s')) \<and>
     (\<forall>t. t \<notin> set owned \<longrightarrow> find_cond W (rs_Mon s') t = find_cond W (rs_Mon s) t) \<and>
     (distinct (map c_Type (GetConditions (rs_Mon s))) \<longrightarrow>
        distinct (map c_Type (GetConditions (rs_Mon s')))) \<and>
     (\<exists>ts. rs_Sources s' = rs_Sources s @ ts \<and> set ts \<subseteq> set tmpls) \<and>
     (\<exists>es. rs_Effects s' = rs_Effects s @ es \<and> list_all action_delete es)"

lemma within_refl [intro, simp]: "acts_within W owned tmpls s s"
  by (auto simp: acts_within_def)

lemma within_trans:
  assumes "acts_within W owned tmpls s s1" and "acts_within W owned tmpls s1 s2"
  shows "acts_within W owned tmpls s s2"
proof -
  have "rs_Mon s2 = SetConditions (rs_Mon s) (GetConditions (rs_Mon s2))"
    using assms by (metis acts_within_def conditions_accessor(13))
  with assms show ?thesis
    unfolding acts_within_def by fastforce
qed

lemma within_mono:
  "acts_within W owned tmpls s s' \<Longrightarrow> set owned \<subseteq> set owned' \<Longrightarrow> set tmpls \<subseteq> set tmpls' \<Longrightarrow>
     acts_within W owned' tmpls' s s'"
  unfolding acts_within_def by blast

lemma within_mark:
  assumes "lawful_conditions W" and "c_Type c \<in> set owned" and "acts_within W owned tmpls s s'"
  shows "acts_within W owned tmpls s (on_mon (set_cond W c) s')"
proof -
  have "acts_within W owned tmpls s' (on_mon (set_cond W c) s')"
    using assms(1,2) lawful_conditions.distinct_set_cond [OF assms(1)]
    by (auto simp: acts_within_def on_mon_def lawful_conditions.find_set_cond [OF assms(1)])
       (simp add: set_cond_def)
  then show ?thesis using assms(3) within_trans by blast
qed

lemma within_sources:
  "set ts \<subseteq> set tmpls \<Longrightarrow> acts_within W owned tmpls s s' \<Longrightarrow> acts_within W owned tmpls s (add_sources ts s')"
  by (auto simp: acts_within_def add_sources_def)

lemma within_delete:
  "acts_within W owned tmpls s s' \<Longrightarrow> action_delete (Delete k ns n p) \<Longrightarrow>
     acts_within W owned tmpls s (fst (delete_object W' pre k ns n p s'))"
  by (auto simp: acts_within_def delete_object_def emit_def simp del: action_delete.simps split: option.splits)

lemma persesGVKs_delete:
  assumes "persesGVKs v = (k, k1, k2)"
  shows "action_delete (Delete k1 ns PersesTempoDatasourceName p)"
    and "action_delete (Delete k2 ns PersesTempoDashboardName p)"
  using assms by (auto simp: persesGVKs_def split: if_splits)

lemma within_frame:
  assumes "acts_within W owned tmpls s s'"
  shows "mo_Spec (rs_Mon s') = mo_Spec (rs_Mon s)" "mo_UID (rs_Mon s') = mo_UID (rs_Mon s)"
    "mo_Generation (rs_Mon s') = mo_Generation (rs_Mon s)"
    "st_UsageLogsEndpoint (mo_Status (rs_Mon s')) = st_UsageLogsEndpoint (mo_Status (rs_Mon s))"
    "st_LogsEndpoint (mo_Status (rs_Mon s')) = st_LogsEndpoint (mo_Status (rs_Mon s))"
  using assms unfolding acts_within_def by (metis conditions_accessor)+

locale deploy_action =
  fixes act :: "'w cluster_scheme \<Rightarrow> int \<Rightarrow> rstate \<Rightarrow> action_result"
    and owned :: "string list" and tmpls :: "string list"
  assumes within: "lawful_conditions W \<Longrightarrow> acts_within W owned tmpls s (fst (act W g s))"
begin

lemma spec_kept: "lawful_conditions W \<Longrightarrow> mo_Spec (rs_Mon (fst (act W g s))) = mo_Spec (rs_Mon s)"
  by (rule within_frame(1) [OF within])

lemma foreign_condition_kept:
  "lawful_conditions W \<Longrightarrow> t \<notin> set owned \<Longrightarrow>
     find_cond W (rs_Mon (fst (act W g s))) t = find_cond W (rs_Mon s) t"
  using within unfolding acts_within_def by blast

lemma foreign_template_kept:
  "lawful_conditions W \<Longrightarrow> x \<notin> set tmpls \<Longrightarrow>
     x \<in> set (rs_Sources (fst (act W g s))) \<longleftrightarrow> x \<in> set (rs_Sources s)"
  using within [of W s g] unfolding acts_within_def by auto

end

text \<open>Two actions in a row, the second run only if the first returned no error.\<close>

definition then_act ::
  "('w cluster_scheme \<Rightarrow> int \<Rightarrow> rstate \<Rightarrow> action_result) \<Rightarrow> ('w cluster_scheme \<Rightarrow> int \<Rightarrow> rstate \<Rightarrow> action_result) \<Rightarrow>
   'w cluster_scheme \<Rightarrow> int \<Rightarrow> rstate \<Rightarrow> action_result" where
  "then_act a b W g s = (case a W g s of (s1, Some err) \<Rightarrow> (s1, Some err) | (s1, None) \<Rightarrow> b W g s1)"

locale action_pair =
  first: deploy_action act1 owned1 tmpls1 + second: deploy_action act2 owned2 tmpls2
  for act1 act2 :: "'w cluster_scheme \<Rightarrow> int \<Rightarrow> rstate \<Rightarrow> action_result"
    and owned1 owned2 tmpls1 tmpls2
begin

lemma pair_within:
  assumes "lawful_conditions W"
  shows "acts_within W (owned1 @ owned2) (tmpls1 @ tmpls2) s (fst (then_act act1 act2 W g s))"
proof -
  have a: "acts_within W (owned1 @ owned2) (tmpls1 @ tmpls2) s (fst (act1 W g s))" for s
    by (rule within_mono [OF first.within [OF assms]]) auto
  have b: "acts_within W (owned1 @ owned2) (tmpls1 @ tmpls2) s (fst (act2 W g s))" for s
    by (rule within_mono [OF second.within [OF assms]]) auto
  show ?thesis
    using a [of s] b [of "fst (act1 W g s)"]
    by (cases "act1 W g s") (auto simp: then_act_def intro: within_trans split: option.split)
qed

end

sublocale action_pair \<subseteq> pair: deploy_action "then_act act1 act2" "owned1 @ owned2" "tmpls1 @ tmpls2"
  by unfold_locales (rule pair_within)

subsection \<open>Every action keeps the contract\<close>

lemma if_mark: "on_mon (if b then f else h) s = (if b then on_mon f s else on_mon h s)"
  by simp

lemmas action_unfolds = mark_defs if_mark Let_def within_mark within_sources within_delete

interpretation policies: deploy_action deployMonitoringAdmissionPolicies "[]"
    "[MonitoringAdmissionPoliciesTemplate]"
  by unfold_locales (simp add: deployMonitoringAdmissionPolicies_def action_unfolds)

interpretation stack: deploy_action deployMonitoringStackWithQuerierAndRestrictions
    "[ConditionMonitoringStackAvailable, ConditionThanosQuerierAvailable]" monitoring_stack_templates
  by unfold_locales
     (simp add: deployMonitoringStackWithQuerierAndRestrictions_def action_unfolds split: sum.split)

interpretation tracing: deploy_action deployTracingStack
    "[ConditionTempoAvailable, ConditionInstrumentationAvailable]"
    "[InstrumentationTemplate, TempoMonolithicTemplate, TempoStackTemplate, TempoMonolithicNetworkPolicyTemplate]"
  by unfold_locales
     (simp add: deployTracingStack_def deploy_tempo_def tempoTemplate_of_def action_unfolds
        split: sum.split bool.split option.split)

interpretation collector: deploy_action deployOpenTelemetryCollector
    "[ConditionOpenTelemetryCollectorAvailable]"
    "[CollectorRBACTemplate, OpenTelemetryCollectorTemplate, CollectorMonitorServiceTemplate,
      CollectorMonitoringNetworkPolicyTemplate, CollectorTargetAllocatorNetworkPolicyTemplate,
      CollectorServiceMonitorsTemplate, CollectorPrometheusServiceTemplate, CollectorMLflowRBACTemplate,
      CollectorTempoRBACTemplate]"
  by unfold_locales
     (simp add: deployOpenTelemetryCollector_def collector_templates_def action_unfolds
        split: sum.split bool.split)

interpretation operator_rules: deploy_action deployOperatorMonitoring "[]" "[OperatorPrometheusRulesTemplate]"
  by unfold_locales (simp add: deployOperatorMonitoring_def action_unfolds split: sum.split bool.split)

interpretation alerting: deploy_action deployAlerting "[ConditionAlertingAvailable]" "[]"
  by unfold_locales (simp add: deployAlerting_def action_unfolds split: sum.split bool.split)

interpretation node_metrics: deploy_action deployNodeMetricsEndpoint
    "[ConditionNodeMetricsEndpointAvailable]" "[PrometheusClusterProxyTemplate]"
  by unfold_locales (simp add: deployNodeMetricsEndpoint_def action_unfolds)

interpretation korrel8r: deploy_action deployKorrel8r "[ConditionKorrel8rAvailable]" korrel8r_templates
  by unfold_locales (simp add: deployKorrel8r_def action_unfolds split: sum.split)

interpretation webhook: deploy_action deployWebhookInfrastructure "[ConditionWebhookAvailable]" "[]"
  by unfold_locales (simp add: deployWebhookInfrastructure_def action_unfolds split: sum.split)


interpretation perses: deploy_action "\<lambda>W g. deployPerses W g v f" "[ConditionPersesAvailable]"
    "[PersesTemplate, PersesOperatorAccessNetworkPolicyTemplate]" for v f
  by unfold_locales
     (auto simp: deployPerses_def action_unfolds split: sum.split bool.split prod.split)

lemma perses_tempo_cleanup_within:
  fixes W :: "'w cluster_scheme"
  assumes "lawful_conditions W" and gvks: "persesGVKs v = (k, k1, k2)"
  shows "acts_within W [ConditionPersesTempoDataSourceAvailable] tmpls s
           (fst (perses_tempo_cleanup W g k1 k2 b1 b2 s))"
proof -
  let ?ns = "monitoringNamespace W (rs_Mon s)"
  note k = persesGVKs_delete [OF gvks]
  obtain s1 r1 where 1: "(if b1 then delete_object W ''deleting PersesDatasource: '' k1 ?ns
      PersesTempoDatasourceName None s else (s, None)) = (s1, r1)"
    by force
  obtain s2 r2 where 2: "(if b2 then delete_object W ''deleting PersesDashboard: '' k2 ?ns
      PersesTempoDashboardName None s1 else (s1, None)) = (s2, r2)"
    by force
  have w: "acts_within W [ConditionPersesTempoDataSourceAvailable] tmpls s s1"
    using arg_cong [OF 1, of fst] within_delete [OF within_refl k(1)] by (auto split: if_splits)
  moreover have "acts_within W [ConditionPersesTempoDataSourceAvailable] tmpls s s2"
    using arg_cong [OF 2, of fst] within_delete [OF w k(2)] w by (auto split: if_splits)
  ultimately show ?thesis
    using assms(1) by (simp add: perses_tempo_cleanup_def 1 2 Let_def mark_defs within_mark split: option.split)
qed

interpretation perses_tempo: deploy_action "\<lambda>W g. deployPersesTempoIntegration W g v f"
    "[ConditionPersesTempoDataSourceAvailable]"
    "[PersesTempoDatasourceTemplate, TempoServiceCAConfigMapTemplate,
      PersesTempoDashboardV1Alpha1Template, PersesTempoDashboardV1Alpha2Template]" for v f
  by unfold_locales
     (auto simp: deployPersesTempoIntegration_def action_unfolds perses_tempo_cleanup_within
        split: sum.split bool.split prod.split)

lemma legacy_secret_within:
  "n \<in> set legacy_secret_names \<Longrightarrow>
     acts_within W owned tmpls s (fst (cleanupLegacyPersesDatasourceSATokenSecret W' ns n s))"
  by (simp add: cleanupLegacyPersesDatasourceSATokenSecret_def within_delete split: sum.split)

lemma legacy_secret_loop_within:
  "set names \<subseteq> set legacy_secret_names \<Longrightarrow> acts_within W owned tmpls s (fst (legacy_secret_loop W' ns names s))"
proof (induction names arbitrary: s)
  case (Cons n names)
  obtain s1 r where c: "cleanupLegacyPersesDatasourceSATokenSecret W' ns n s = (s1, r)"
    by force
  have "acts_within W owned tmpls s s1"
    using legacy_secret_within [of n W owned tmpls s W' ns] c Cons.prems by simp
  then show ?case
    using Cons.IH [of s1] Cons.prems c by (auto intro: within_trans split: option.split)
qed simp

interpretation perses_prometheus: deploy_action "\<lambda>W g. deployPersesPrometheusIntegration W g v f"
    "[ConditionPersesPrometheusDataSourceAvailable]"
    "[PersesDatasourceClusterPrometheusTemplate, PersesDatasourceClusterPrometheusTenancyTemplate,
      PersesDatasourcePrometheusTemplate]" for v f
proof unfold_locales
  fix W :: "'a cluster_scheme" and s g
  assume "lawful_conditions W"
  obtain s1 r where c: "cleanupLegacyPersesDatasourceSATokenSecrets W s = (s1, r)"
    by force
  have "acts_within W owned tmpls s s1" for owned tmpls
    using legacy_secret_loop_within [of legacy_secret_names W owned tmpls s W "monitoringNamespace W (rs_Mon s)"] c
    by (simp add: cleanupLegacyPersesDatasourceSATokenSecrets_def)
  with \<open>lawful_conditions W\<close> show "acts_within W [ConditionPersesPrometheusDataSourceAvailable]
     [PersesDatasourceClusterPrometheusTemplate, PersesDatasourceClusterPrometheusTenancyTemplate,
      PersesDatasourcePrometheusTemplate] s (fst (deployPersesPrometheusIntegration W g v f s))"
    by (simp add: deployPersesPrometheusIntegration_def action_unfolds c
        split: sum.split bool.split prod.split option.split)
qed

interpretation usage_collector: deploy_action deployUsageLogsCollector
    "[ConditionUsageLogsCollectorAvailable]" usage_logs_collector_templates
  by unfold_locales
     (simp add: deployUsageLogsCollector_def render_usage_logs_collector_def action_unfolds
        split: sum.split bool.split option.split)

interpretation forwarder: deploy_action deployClusterLogForwarder
    "[ConditionClusterLogForwarderAvailable]" forwarder_templates
  by unfold_locales
     (simp add: deployClusterLogForwarder_def action_unfolds split: sum.split bool.split)

interpretation usage_stack: deploy_action
    "\<lambda>W g s. deployLokiStack W g (usage_logs_stack (mo_Spec (rs_Mon s))) s"
    "[ConditionUsageLogsLokiStackAvailable]" "[UsageLogsLokiStackTemplate, UsageLogsLokiStackNPTemplate]"
  by unfold_locales
     (simp add: deployLokiStack_def usage_logs_stack_def action_unfolds split: sum.split bool.split)

interpretation forward_stack: deploy_action
    "\<lambda>W g s. deployLokiStack W g (logs_stack (mo_Spec (rs_Mon s))) s"
    "[ConditionLokiStackAvailable]"
    "[LokiStackTemplate, LokiStackNetworkPolicyTemplate, LokiStackGatewayNetworkPolicyTemplate]"
  by unfold_locales
     (simp add: deployLokiStack_def logs_stack_def action_unfolds split: sum.split bool.split)

lemma loki_pipelines_as_pairs:
  "deployUsageLogsLokiStack =
     then_act (\<lambda>W g s. deployLokiStack W g (usage_logs_stack (mo_Spec (rs_Mon s))) s) deployUsageLogsCollector"
  "deployRHOAILogsLokiStack =
     then_act (\<lambda>W g s. deployLokiStack W g (logs_stack (mo_Spec (rs_Mon s))) s) deployClusterLogForwarder"
  by (auto simp: fun_eq_iff then_act_def deployUsageLogsLokiStack_def deployRHOAILogsLokiStack_def)

text \<open>The stack and the workload that ships into it, as one action.\<close>

interpretation usage_pipeline: action_pair
    "\<lambda>W g s. deployLokiStack W g (usage_logs_stack (mo_Spec (rs_Mon s))) s" deployUsageLogsCollector
    "[ConditionUsageLogsLokiStackAvailable]" "[ConditionUsageLogsCollectorAvailable]"
    "[UsageLogsLokiStackTemplate, UsageLogsLokiStackNPTemplate]" usage_logs_collector_templates ..

interpretation forward_pipeline: action_pair
    "\<lambda>W g s. deployLokiStack W g (logs_stack (mo_Spec (rs_Mon s))) s" deployClusterLogForwarder
    "[ConditionLokiStackAvailable]" "[ConditionClusterLogForwarderAvailable]"
    "[LokiStackTemplate, LokiStackNetworkPolicyTemplate, LokiStackGatewayNetworkPolicyTemplate]"
    forwarder_templates ..


subsection \<open>Withheld pipelines\<close>

definition usage_pipeline_templates :: "string list" where
  "usage_pipeline_templates =
     [UsageLogsLokiStackTemplate, UsageLogsLokiStackNPTemplate] @ usage_logs_collector_templates"

definition forward_pipeline_templates :: "string list" where
  "forward_pipeline_templates =
     [LokiStackTemplate, LokiStackNetworkPolicyTemplate, LokiStackGatewayNetworkPolicyTemplate] @
     forwarder_templates"

definition loki_conditions :: "string list" where
  "loki_conditions =
     [ConditionUsageLogsLokiStackAvailable, ConditionUsageLogsCollectorAvailable,
      ConditionLokiStackAvailable, ConditionClusterLogForwarderAvailable]"

text \<open>The templates the pipelines outside \<open>withheld\<close> may contribute.\<close>

definition standing_templates :: "string list \<Rightarrow> string list" where
  "standing_templates withheld =
     (if componentLokiUsageLogs \<in> set withheld then [] else usage_pipeline_templates) @
     (if componentLokiLogs \<in> set withheld then [] else forward_pipeline_templates)"

lemma withheld_mark_within:
  "lawful_conditions W \<Longrightarrow> dep \<in> set owned \<Longrightarrow>
     acts_within W owned tmpls s (on_mon (markWithheldPipeline W g st dep name) s)"
  by (auto simp: markWithheldPipeline_def Let_def mark_defs on_mon_def [of "\<lambda>m. m"] on_mon_def
      split: option.split ConditionStatus.split
      intro: within_mark [where s' = s, unfolded on_mon_def])

lemma component_names: "componentLokiUsageLogs \<noteq> componentLokiLogs"
  by (simp add: componentLokiUsageLogs_def componentLokiLogs_def)

lemma deployLokiStacks_within:
  assumes "lawful_conditions W"
  shows "acts_within W loki_conditions (standing_templates withheld) s
           (fst (deployLokiStacks W g withheld s))"
proof -
  define a where "a = (if componentLokiUsageLogs \<in> set withheld
      then (\<lambda>W g s. (on_mon (markWithheldPipeline W g ConditionUsageLogsLokiStackAvailable
              ConditionUsageLogsCollectorAvailable ''usage logs collector'') s, None))
      else deployUsageLogsLokiStack :: 'a cluster_scheme \<Rightarrow> int \<Rightarrow> rstate \<Rightarrow> action_result)"
  define b where "b = (if componentLokiLogs \<in> set withheld
      then (\<lambda>W g s. (on_mon (markWithheldPipeline W g ConditionLokiStackAvailable
              ConditionClusterLogForwarderAvailable ''cluster log forwarder'') s, None))
      else deployRHOAILogsLokiStack :: 'a cluster_scheme \<Rightarrow> int \<Rightarrow> rstate \<Rightarrow> action_result)"
  have run: "fst (deployLokiStacks W g withheld s) = fst (then_act a b W g s)"
    using component_names
    by (auto simp: deployLokiStacks_def lokiComponents_def then_act_def a_def b_def split: prod.split option.split)
  have wa: "acts_within W loki_conditions (standing_templates withheld) s (fst (a W g s))" for s
  proof (cases "componentLokiUsageLogs \<in> set withheld")
    case True
    then show ?thesis
      using assms by (simp add: a_def withheld_mark_within loki_conditions_def)
  next
    case False
    then show ?thesis
      unfolding a_def loki_pipelines_as_pairs
      by (simp, intro within_mono [OF usage_pipeline.pair.within [OF assms]])
         (auto simp: loki_conditions_def standing_templates_def usage_pipeline_templates_def)
  qed
  have wb: "acts_within W loki_conditions (standing_templates withheld) s (fst (b W g s))" for s
  proof (cases "componentLokiLogs \<in> set withheld")
    case True
    then show ?thesis
      using assms by (simp add: b_def withheld_mark_within loki_conditions_def)
  next
    case False
    then show ?thesis
      unfolding b_def loki_pipelines_as_pairs
      by (simp, intro within_mono [OF forward_pipeline.pair.within [OF assms]])
         (auto simp: loki_conditions_def standing_templates_def forward_pipeline_templates_def)
  qed
  show ?thesis
    unfolding run using wa [of s] wb [of "fst (a W g s)"]
    by (cases "a W g s") (auto simp: then_act_def intro: within_trans split: option.split)
qed

text \<open>
  The verdict a withheld stack hands to the workload that ships into it: the same status and
  reason, unless the stack's condition is absent or True.
\<close>

definition inherits_verdict :: "'w conditions_lib_scheme \<Rightarrow> string \<Rightarrow> string \<Rightarrow> Monitoring \<Rightarrow> Monitoring \<Rightarrow> bool" where
  "inherits_verdict W st dep m m' \<longleftrightarrow>
     (case find_cond W m st of
        Some c \<Rightarrow> c_Status c = ConditionTrue \<or>
          (\<exists>d. find_cond W m' dep = Some d \<and> c_Status d = c_Status c \<and> c_Reason d = c_Reason c \<and>
             c_Severity d = SeverityError)
      | None \<Rightarrow> True)"

text \<open>
  C16: when both pipelines are withheld, deploying the stacks renders nothing, issues no request
  and cannot fail; it only passes each stack's verdict on to the workload that ships into it, and
  every other condition keeps its value.
\<close>

theorem withheld_pipelines_frozen:
  assumes lawful: "lawful_conditions W"
    and run: "deployLokiStacks W g lokiComponents s = (s', r)"
  shows "r = None \<and> rs_Sources s' = rs_Sources s \<and> rs_Effects s' = rs_Effects s \<and>
         inherits_verdict W ConditionUsageLogsLokiStackAvailable ConditionUsageLogsCollectorAvailable
           (rs_Mon s) (rs_Mon s') \<and>
         inherits_verdict W ConditionLokiStackAvailable ConditionClusterLogForwarderAvailable
           (rs_Mon s) (rs_Mon s') \<and>
         (t \<notin> {ConditionUsageLogsCollectorAvailable, ConditionClusterLogForwarderAvailable} \<longrightarrow>
            find_cond W (rs_Mon s') t = find_cond W (rs_Mon s) t)"
proof -
  have ne: "ConditionUsageLogsCollectorAvailable \<noteq> ConditionLokiStackAvailable"
    "ConditionUsageLogsCollectorAvailable \<noteq> ConditionClusterLogForwarderAvailable"
    by (simp_all add: cond_names)
  note finds = lawful_conditions.find_MarkFalse [OF lawful] lawful_conditions.find_MarkUnknown [OF lawful]
  have mark: "find_cond W (markWithheldPipeline W g st dep name m) t =
      (case find_cond W m st of
         Some c \<Rightarrow> if c_Status c = ConditionTrue \<or> t \<noteq> dep then find_cond W m t
           else Some \<lparr>c_Type = dep, c_Status = c_Status c, c_Reason = c_Reason c,
             c_Message = capitalizeFirst name @ '' withheld with its LokiStack: '' @ c_Message c,
             c_Severity = SeverityError, c_ObservedGeneration = g\<rparr>
       | None \<Rightarrow> find_cond W m t)" for st dep name m t
    by (auto simp: markWithheldPipeline_def Let_def finds split: option.split ConditionStatus.split)
  show ?thesis
    using run component_names ne
    by (auto simp: deployLokiStacks_def lokiComponents_def on_mon_def inherits_verdict_def mark
        split: option.split)
qed


definition start_state :: "Monitoring \<Rightarrow> rstate" where
  "start_state m = \<lparr>rs_Mon = m, rs_Sources = [], rs_Effects = []\<rparr>"

theorem withheld_pipelines_frozen_witness:
  "lawful_conditions quiet_cluster \<and>
   status_of quiet_cluster
     (rs_Mon (fst (deployLokiStacks quiet_cluster 1 lokiComponents
        (start_state (MarkFalse quiet_cluster 1 ConditionLokiStackAvailable storageConflictReason ''shared''
           (fresh_monitoring bare_spec))))))
     ConditionClusterLogForwarderAvailable = Some ConditionFalse"
proof -
  let ?m = "MarkFalse quiet_cluster 1 ConditionLokiStackAvailable storageConflictReason ''shared''
      (fresh_monitoring bare_spec)"
  obtain s' r where run: "deployLokiStacks quiet_cluster 1 lokiComponents (start_state ?m) = (s', r)"
    by force
  show ?thesis
    using withheld_pipelines_frozen [OF lawful_quiet_cluster run, of ConditionTypeReady] lawful_quiet_cluster run
    by (auto simp: inherits_verdict_def start_state_def status_of_def
        lawful_conditions.find_MarkFalse [OF lawful_quiet_cluster])
qed

subsection \<open>What the actions decide\<close>

lemma add_sources_fields [simp]:
  "rs_Mon (add_sources ts s) = rs_Mon s" "rs_Sources (add_sources ts s) = rs_Sources s @ ts"
  "rs_Effects (add_sources ts s) = rs_Effects s"
  by (simp_all add: add_sources_def)

lemma on_mon_fields [simp]:
  "rs_Mon (on_mon f s) = f (rs_Mon s)" "rs_Sources (on_mon f s) = rs_Sources s"
  "rs_Effects (on_mon f s) = rs_Effects s"
  by (simp_all add: on_mon_def)

text \<open>When the usage logs collector may be rendered: every gate of the action is open.\<close>

definition collector_gates_open :: "'w cluster_scheme \<Rightarrow> Monitoring \<Rightarrow> bool" where
  "collector_gates_open W m \<longleftrightarrow>
     (case sp_UsageLogs (mo_Spec m) of
        None \<Rightarrow> False
      | Some ul \<Rightarrow>
          (ul_Storage ul \<noteq> None \<or> ul_Exporters ul \<noteq> []) \<and>
          (ul_Storage ul = None \<or> st_UsageLogsEndpoint (mo_Status m) \<noteq> '''') \<and>
          (ul_CredentialSecret ul = '''' \<or> ul_Exporters ul = [] \<or>
             usageLogsCredentialExists W m (ul_CredentialSecret ul) = Inr True) \<and>
          hasCRD W gvk_OpenTelemetryCollector = Inr True)"

text \<open>
  C22: the usage logs collector is rendered exactly when it is reported available. An action that
  returns without error appends its three templates and marks the condition True when every gate
  is open (something to do, a published endpoint if there is local storage, the credential Secret
  if one is named and needed, the CRD), and appends nothing and marks it False otherwise.
\<close>

theorem usage_collector_rendered_iff_available:
  assumes lawful: "lawful_conditions W"
    and run: "deployUsageLogsCollector W g s = (s', None)"
  shows "rs_Sources s' = rs_Sources s @
           (if collector_gates_open W (rs_Mon s) then usage_logs_collector_templates else []) \<and>
         status_of W (rs_Mon s') ConditionUsageLogsCollectorAvailable =
           Some (if collector_gates_open W (rs_Mon s) then ConditionTrue else ConditionFalse)"
proof -
  note finds = lawful_conditions.find_MarkFalse [OF lawful] lawful_conditions.find_MarkTrue [OF lawful]
    lawful_conditions.find_MarkTrueWithReason [OF lawful] lawful_conditions.find_MarkNotConfigured [OF lawful]
  show ?thesis
    using run
    by (auto simp: deployUsageLogsCollector_def render_usage_logs_collector_def collector_gates_open_def
        Let_def status_of_def finds split: option.splits if_splits sum.splits bool.splits)
qed

definition otel_cluster :: cluster where
  "otel_cluster = quiet_cluster\<lparr>ListLimit1 := (\<lambda>k.
     if k = list_kind gvk_OpenTelemetryCollector then None else Some notFound)\<rparr>"

definition forwarding_spec :: MonitoringSpec where
  "forwarding_spec = bare_spec\<lparr>sp_UsageLogs := Some \<lparr>ul_Storage = None, ul_Size = '''',
     ul_Exporters = [(''otlp'', \<lparr>Raw = ''{}'', Object = None\<rparr>)], ul_CredentialSecret = '''',
     ul_Attributes = []\<rparr>\<rparr>"

lemma lawful_otel_cluster: "lawful_conditions otel_cluster"
  by (rule lawful_like_upsert) (simp_all add: otel_cluster_def quiet_cluster_def)

theorem usage_collector_rendered_iff_available_witness:
  "rs_Sources (fst (deployUsageLogsCollector otel_cluster 1 (start_state (fresh_monitoring forwarding_spec)))) =
     usage_logs_collector_templates"
proof -
  let ?s = "start_state (fresh_monitoring forwarding_spec)"
  obtain s' r where run: "deployUsageLogsCollector otel_cluster 1 ?s = (s', r)"
    by force
  have crd: "hasCRD otel_cluster gvk_OpenTelemetryCollector = Inr True"
    by (simp add: hasCRD_def otel_cluster_def)
  have "r = None"
    using run by (auto simp: deployUsageLogsCollector_def render_usage_logs_collector_def crd
        start_state_def forwarding_spec_def sample_defs)
  moreover have "collector_gates_open otel_cluster (rs_Mon ?s)"
    by (simp add: collector_gates_open_def crd start_state_def forwarding_spec_def sample_defs)
  ultimately show ?thesis
    using usage_collector_rendered_iff_available [OF lawful_otel_cluster, of 1 ?s s'] run
    by (simp add: start_state_def)
qed

text \<open>
  The metrics stack is deployed atomically. Without an error the action appends either all of
  its templates (metrics storage configured and both CRDs served) or none, and it marks the two
  conditions True exactly in the first case.
\<close>

theorem monitoring_stack_atomic:
  assumes lawful: "lawful_conditions W"
    and run: "deployMonitoringStackWithQuerierAndRestrictions W g s = (s', None)"
  shows "let go = metrics_storage (mo_Spec (rs_Mon s)) \<noteq> None \<and>
               hasCRD W gvk_MonitoringStack = Inr True \<and> hasCRD W gvk_ThanosQuerier = Inr True
         in rs_Sources s' = rs_Sources s @ (if go then monitoring_stack_templates else []) \<and>
            (go \<longleftrightarrow> status_of W (rs_Mon s') ConditionMonitoringStackAvailable = Some ConditionTrue \<and>
                     status_of W (rs_Mon s') ConditionThanosQuerierAvailable = Some ConditionTrue)"
proof -
  note finds = lawful_conditions.find_MarkFalse [OF lawful] lawful_conditions.find_MarkTrue [OF lawful]
    lawful_conditions.find_MarkNotConfigured [OF lawful]
  have "ConditionMonitoringStackAvailable \<noteq> ConditionThanosQuerierAvailable"
    by (simp add: cond_names)
  then show ?thesis
    using run
    by (auto simp: deployMonitoringStackWithQuerierAndRestrictions_def Let_def status_of_def finds
        split: if_splits sum.splits)
qed

definition metrics_spec :: MonitoringSpec where
  "metrics_spec = bare_spec\<lparr>sp_Metrics := Some
     \<lparr>mt_Storage = Some \<lparr>ms_Size = ''5Gi'', ms_Retention = ''1d''\<rparr>, mt_BuiltinDCGMScrapeEnabled = None,
      mt_Replicas = 0, mt_Exporters = []\<rparr>\<rparr>"

definition rhobs_cluster :: "gvk list \<Rightarrow> cluster" where
  "rhobs_cluster served = quiet_cluster\<lparr>ListLimit1 := (\<lambda>k.
     if k \<in> set (map list_kind served) then None else Some notFound)\<rparr>"

lemma lawful_rhobs_cluster: "lawful_conditions (rhobs_cluster ks)"
  by (rule lawful_like_upsert) (simp_all add: rhobs_cluster_def quiet_cluster_def)

theorem monitoring_stack_atomic_witness:
  "rs_Sources (fst (deployMonitoringStackWithQuerierAndRestrictions
     (rhobs_cluster [gvk_MonitoringStack, gvk_ThanosQuerier]) 1 (start_state (fresh_monitoring metrics_spec)))) =
   monitoring_stack_templates"
proof -
  let ?W = "rhobs_cluster [gvk_MonitoringStack, gvk_ThanosQuerier]"
  let ?s = "start_state (fresh_monitoring metrics_spec)"
  have crds: "hasCRD ?W gvk_MonitoringStack = Inr True" "hasCRD ?W gvk_ThanosQuerier = Inr True"
    by (simp_all add: hasCRD_def rhobs_cluster_def)
  have spec: "metrics_storage (mo_Spec (rs_Mon ?s)) \<noteq> None"
    by (simp add: start_state_def metrics_spec_def sample_defs metrics_storage_def)
  obtain s' where run: "deployMonitoringStackWithQuerierAndRestrictions ?W 1 ?s = (s', None)"
    using spec by (simp add: deployMonitoringStackWithQuerierAndRestrictions_def crds)
  show ?thesis
    using monitoring_stack_atomic [OF lawful_rhobs_cluster run] run spec crds
    by (simp add: start_state_def)
qed

text \<open>
  When only the ThanosQuerier CRD is missing the action leaves the MonitoringStackAvailable
  condition exactly as the previous round left it, although nothing of the stack is rendered.
\<close>

theorem missing_querier_keeps_stack_condition:
  assumes lawful: "lawful_conditions W"
    and "metrics_storage (mo_Spec (rs_Mon s)) \<noteq> None"
    and "hasCRD W gvk_MonitoringStack = Inr True" and "hasCRD W gvk_ThanosQuerier = Inr False"
  shows "find_cond W (rs_Mon (fst (deployMonitoringStackWithQuerierAndRestrictions W g s)))
           ConditionMonitoringStackAvailable =
         find_cond W (rs_Mon s) ConditionMonitoringStackAvailable \<and>
         rs_Sources (fst (deployMonitoringStackWithQuerierAndRestrictions W g s)) = rs_Sources s"
  using assms(2-4)
  by (auto simp: deployMonitoringStackWithQuerierAndRestrictions_def Let_def
      lawful_conditions.find_MarkFalse [OF lawful] cond_names)

theorem missing_querier_keeps_stack_condition_witness:
  "status_of (rhobs_cluster [gvk_MonitoringStack])
     (rs_Mon (fst (deployMonitoringStackWithQuerierAndRestrictions (rhobs_cluster [gvk_MonitoringStack]) 2
        (start_state (MarkTrue (rhobs_cluster [gvk_MonitoringStack]) 1 ConditionMonitoringStackAvailable
           (fresh_monitoring metrics_spec))))))
     ConditionMonitoringStackAvailable = Some ConditionTrue"
proof -
  let ?W = "rhobs_cluster [gvk_MonitoringStack]"
  let ?s = "start_state (MarkTrue ?W 1 ConditionMonitoringStackAvailable (fresh_monitoring metrics_spec))"
  have "list_kind gvk_ThanosQuerier \<noteq> list_kind gvk_MonitoringStack"
    by (simp add: gvk_defs list_kind_def)
  then have crds: "hasCRD ?W gvk_MonitoringStack = Inr True" "hasCRD ?W gvk_ThanosQuerier = Inr False"
    by (simp_all add: hasCRD_def rhobs_cluster_def)
  have "metrics_storage (mo_Spec (rs_Mon ?s)) \<noteq> None"
    by (simp add: start_state_def metrics_spec_def sample_defs metrics_storage_def mark_defs set_cond_def
        SetConditions_def)
  then show ?thesis
    using missing_querier_keeps_stack_condition [OF lawful_rhobs_cluster _ crds, of ?s 2]
    by (simp add: status_of_def start_state_def lawful_conditions.find_MarkTrue [OF lawful_rhobs_cluster])
qed


text \<open>
  A request to delete a legacy datasource token: a Secret of the monitoring namespace with one of
  the three legacy names, read as a service-account token of the legacy account and owned by this
  Monitoring object, with the deletion conditioned on the identity that was read.
\<close>

definition legacy_token_delete :: "'w cluster_scheme \<Rightarrow> Monitoring \<Rightarrow> effect \<Rightarrow> bool" where
  "legacy_token_delete W m e \<longleftrightarrow>
     (\<exists>name secret. name \<in> set legacy_secret_names \<and>
        GetSecret W (monitoringNamespace W m) name = Inr secret \<and>
        sec_Type secret = SecretTypeServiceAccountToken \<and>
        sget (o_Annotations (sec_Meta secret)) ServiceAccountNameKey = legacyPersesDatasourceServiceAccount \<and>
        isOwnedByMonitoring m (sec_Meta secret) \<and>
        e = Delete gvk_Secret (monitoringNamespace W m) name
              (Some (o_UID (sec_Meta secret), o_ResourceVersion (sec_Meta secret))))"

lemma legacy_secret_effects:
  assumes "cleanupLegacyPersesDatasourceSATokenSecret W (monitoringNamespace W m) name s = (s', r)"
    and "rs_Mon s = m" and "name \<in> set legacy_secret_names"
  shows "rs_Mon s' = m \<and> (\<exists>es. rs_Effects s' = rs_Effects s @ es \<and> list_all (legacy_token_delete W m) es)"
  using assms
  by (auto simp: cleanupLegacyPersesDatasourceSATokenSecret_def delete_object_def emit_def
      legacy_token_delete_def split: if_splits sum.splits option.splits) blast

lemma legacy_loop_effects:
  "legacy_secret_loop W (monitoringNamespace W m) names s = (s', r) \<Longrightarrow> rs_Mon s = m \<Longrightarrow>
   set names \<subseteq> set legacy_secret_names \<Longrightarrow>
     \<exists>es. rs_Effects s' = rs_Effects s @ es \<and> list_all (legacy_token_delete W m) es"
proof (induction names arbitrary: s)
  case (Cons n names)
  obtain s1 r1 where c: "cleanupLegacyPersesDatasourceSATokenSecret W (monitoringNamespace W m) n s = (s1, r1)"
    by force
  obtain es where es: "rs_Mon s1 = m" "rs_Effects s1 = rs_Effects s @ es" "list_all (legacy_token_delete W m) es"
    using legacy_secret_effects [OF c Cons.prems(2)] Cons.prems(3) by auto
  show ?case
  proof (cases r1)
    case None
    with Cons.prems(1) c have "legacy_secret_loop W (monitoringNamespace W m) names s1 = (s', r)"
      by simp
    from Cons.IH [OF this es(1)] Cons.prems(3) es show ?thesis by auto
  next
    case (Some err)
    with Cons.prems(1) c es show ?thesis by auto
  qed
qed auto

text \<open>
  C23: the upgrade cleanup of the Prometheus datasource action deletes nothing but legacy tokens
  this Monitoring object owns: whatever the action does, every request it issues is a
  precondition-guarded deletion of such a Secret. A Secret of the same name that belongs to
  somebody else, or is of another type, is left alone.
\<close>

theorem legacy_cleanup_only_owned_tokens:
  assumes "deployPersesPrometheusIntegration W g v f s = (s', r)"
  shows "\<exists>es. rs_Effects s' = rs_Effects s @ es \<and> list_all (legacy_token_delete W (rs_Mon s)) es"
proof -
  obtain s1 r1 where c: "cleanupLegacyPersesDatasourceSATokenSecrets W s = (s1, r1)"
    by force
  have "\<exists>es. rs_Effects s1 = rs_Effects s @ es \<and> list_all (legacy_token_delete W (rs_Mon s)) es"
    using legacy_loop_effects [OF c [unfolded cleanupLegacyPersesDatasourceSATokenSecrets_def]] by simp
  with assms c show ?thesis
    by (auto simp: deployPersesPrometheusIntegration_def Let_def
        split: if_splits sum.splits prod.splits bool.splits option.splits)
qed

definition token_secret :: Secret where
  "token_secret =
     \<lparr>sec_Meta = \<lparr>o_Gvk = gvk_Secret, o_Namespace = ''opendatahub'',
        o_Name = legacyClusterPrometheusDatasourceSecret, o_Labels = [],
        o_Annotations = [(ServiceAccountNameKey, legacyPersesDatasourceServiceAccount)],
        o_ControllerUID = Some ''uid-1'', o_UID = ''s-uid'', o_ResourceVersion = ''7''\<rparr>,
      sec_Type = SecretTypeServiceAccountToken, sec_Data = []\<rparr>"

definition legacy_cluster :: cluster where
  "legacy_cluster = quiet_cluster
     \<lparr>ListLimit1 := (\<lambda>_. None),
      GetSecret := (\<lambda>ns n. if n = legacyClusterPrometheusDatasourceSecret then Inr token_secret else Inl notFound)\<rparr>"

theorem legacy_cleanup_only_owned_tokens_witness:
  "rs_Effects (fst (deployPersesPrometheusIntegration legacy_cluster 1 persesV1Alpha2 True
      (start_state (fresh_monitoring metrics_spec)))) \<noteq> [] \<and>
   list_all (legacy_token_delete legacy_cluster (fresh_monitoring metrics_spec))
     (rs_Effects (fst (deployPersesPrometheusIntegration legacy_cluster 1 persesV1Alpha2 True
        (start_state (fresh_monitoring metrics_spec)))))"
proof -
  let ?m = "fresh_monitoring metrics_spec"
  obtain s' r where run: "deployPersesPrometheusIntegration legacy_cluster 1 persesV1Alpha2 True (start_state ?m) = (s', r)"
    by force
  have storage: "metrics_storage (mo_Spec ?m) \<noteq> None"
    by (simp add: metrics_spec_def sample_defs metrics_storage_def)
  have crd: "hasCRD legacy_cluster k = Inr True" for k
    by (simp add: hasCRD_def legacy_cluster_def)
  have ns: "monitoringNamespace legacy_cluster ?m = ''opendatahub''"
    by (simp add: monitoringNamespace_def legacy_cluster_def quiet_cluster_def defaultMonitoringNamespace_def
        metrics_spec_def sample_defs)
  have "legacyDataSciencePrometheusDatasourceSecret \<noteq> legacyClusterPrometheusDatasourceSecret"
    "legacyClusterPrometheusTenancyDatasourceSecret \<noteq> legacyClusterPrometheusDatasourceSecret"
    "legacyDataSciencePrometheusDatasourceSecret \<noteq> ''''" "legacyClusterPrometheusDatasourceSecret \<noteq> ''''"
    "legacyClusterPrometheusTenancyDatasourceSecret \<noteq> ''''"
    by (simp_all add: legacyDataSciencePrometheusDatasourceSecret_def
        legacyClusterPrometheusDatasourceSecret_def legacyClusterPrometheusTenancyDatasourceSecret_def)
  moreover have "GetSecret legacy_cluster ns n =
      (if n = legacyClusterPrometheusDatasourceSecret then Inr token_secret else Inl notFound)"
    "DeleteAnswer legacy_cluster k ns n = None" "mo_UID ?m = ''uid-1''" for ns n k
    by (simp_all add: legacy_cluster_def quiet_cluster_def fresh_monitoring_def)
  ultimately have "rs_Effects s' \<noteq> []"
    using run storage
    by (auto simp: deployPersesPrometheusIntegration_def crd cleanupLegacyPersesDatasourceSATokenSecrets_def
        legacy_secret_names_def cleanupLegacyPersesDatasourceSATokenSecret_def delete_object_def ns start_state_def
        token_secret_def sget_def isOwnedByMonitoring_def emit_def persesGVKs_def)
  then show ?thesis
    using legacy_cleanup_only_owned_tokens [OF run] run by (auto simp: start_state_def)
qed

end
