(* ===== verification/Garbage.thy ===== *)
theory Garbage
  imports Actions
begin

section \<open>Garbage collection (monitoring_reconciler.go)\<close>

text \<open>
  Which owned objects the operator deletes. The platform library's collector \<open>gc.Run\<close> walks the
  cluster and asks a predicate; it is the parameter \<open>CollectorRun\<close>, which receives that
  predicate and answers with the objects it deleted and an optional error. The sweeps over
  cluster-scoped RBAC and over the target allocator's RBAC are the repository's own loops and are
  modelled request by request. The lemmas show that no sweep deletes an object that is desired,
  foreign, out of scope or withheld, and that a sweep without error leaves no stale object of the
  listed kinds behind.
\<close>

subsection \<open>Names and keys\<close>

definition monitoringPartOf :: string where "monitoringPartOf = ''monitoring''"
definition targetAllocatorSecretRBACName :: string where
  "targetAllocatorSecretRBACName = ''data-science-collector-targetallocator-secrets''"
definition componentLabel :: string where "componentLabel = ''platform.opendatahub.io/component''"

text \<open>
  The keys of the platform library: the annotation \<open>ManagedByODHOperator\<close>.
\<close>

definition ManagedByODHOperator :: string where
  "ManagedByODHOperator = ''opendatahub.io/managed''"

definition scopedClusterRoleNames :: "string list" where
  "scopedClusterRoleNames =
     [''data-science-collector-mlflow-trace-export'',
      ''data-science-collector-tempo-trace-export'',
      ''data-science-metrics-view'',
      ''data-science-usage-logs-processor'',
      ''generate-processors-role'',
      ''generate-processors-targetallocator-role'',
      ''korrel8r-query'',
      ''usage-logs-processor'']"

definition scopedClusterRoleBindingNames :: "string list" where
  "scopedClusterRoleBindingNames =
     [''data-science-cluster-log-forwarder-collector-collect-app-logs'',
      ''data-science-cluster-log-forwarder-collector-loki-writer'',
      ''data-science-collector-mlflow-trace-export'',
      ''data-science-collector-tempo-trace-export'',
      ''data-science-monitoringstack-alertmanager-prometheus-metrics-reader'',
      ''data-science-prometheus-cluster-proxy'',
      ''data-science-prometheus-cluster-proxy-auth-delegator'',
      ''data-science-prometheus-namespace-proxy'',
      ''data-science-prometheus-namespace-proxy-auth-delegator'',
      ''data-science-thanos-querier-proxy'',
      ''data-science-thanos-querier-proxy-auth-delegator'',
      ''data-science-usage-logs-processor'',
      ''generate-processors-collector-rolebinding'',
      ''generate-processors-targetallocator-discovery-rolebinding'',
      ''generate-processors-targetallocator-rolebinding'',
      ''korrel8r-auth-delegator'',
      ''korrel8r-query'',
      ''usage-logs-processor'',
      ''usage-logs-loki-writer'',
      ''data-science-usage-logs-loki-writer'']"

record resourceKey =
  rk_gvk :: gvk
  rk_namespace :: string
  rk_name :: string

definition key_of :: "KObject \<Rightarrow> resourceKey" where
  "key_of obj = \<lparr>rk_gvk = o_Gvk obj, rk_namespace = o_Namespace obj, rk_name = o_Name obj\<rparr>"

text \<open>The set the sweeps compare against, built from the rendered objects.\<close>

definition desired_set :: "KObject list \<Rightarrow> resourceKey list" where
  "desired_set desired = map key_of desired"

subsection \<open>The predicates\<close>

definition isNotManagedByODHOperator :: "KObject \<Rightarrow> bool" where
  "isNotManagedByODHOperator obj \<longleftrightarrow> sget (o_Annotations obj) ManagedByODHOperator = ''false''"

definition isInMonitoringScope :: "KObject \<Rightarrow> string \<Rightarrow> bool" where
  "isInMonitoringScope obj namespace \<longleftrightarrow>
     o_Namespace obj = '''' \<or> o_Namespace obj = namespace \<or> o_Namespace obj = clusterLoggingNamespace"

definition isTargetAllocatorSecretRBAC :: "KObject \<Rightarrow> gvk \<Rightarrow> bool" where
  "isTargetAllocatorSecretRBAC obj k \<longleftrightarrow>
     o_Name obj = targetAllocatorSecretRBACName \<and> (k = gvk_Role \<or> k = gvk_RoleBinding)"

definition shouldCollectOwnedResource ::
  "Monitoring \<Rightarrow> KObject \<Rightarrow> resourceKey list \<Rightarrow> string \<Rightarrow> string list \<Rightarrow> bool" where
  "shouldCollectOwnedResource m obj desiredSet namespace withheldComponents =
     (if \<not> isOwnedByMonitoring m obj \<or> \<not> isInMonitoringScope obj namespace then False
      else if sget (o_Labels obj) componentLabel \<in> set withheldComponents then False
      else if o_Gvk obj = gvk_LokiStack \<and> list_ex (\<lambda>c. c \<in> set withheldComponents) lokiComponents then False
      else key_of obj \<notin> set desiredSet)"

definition shouldCollectScopedClusterRBAC ::
  "Monitoring \<Rightarrow> gvk \<Rightarrow> KObject \<Rightarrow> string list \<Rightarrow> resourceKey list \<Rightarrow> string list \<Rightarrow> bool" where
  "shouldCollectScopedClusterRBAC m k obj allowedNames desiredSet withheldComponents =
     (if o_Name obj \<notin> set allowedNames then False
      else if \<not> isOwnedByMonitoring m obj then False
      else if isNotManagedByODHOperator obj then False
      else if sget (o_Labels obj) componentLabel \<in> set withheldComponents then False
      else \<lparr>rk_gvk = k, rk_namespace = '''', rk_name = o_Name obj\<rparr> \<notin> set desiredSet)"

definition shouldCollectTargetAllocatorRBAC ::
  "Monitoring \<Rightarrow> KObject \<Rightarrow> gvk \<Rightarrow> resourceKey list \<Rightarrow> bool" where
  "shouldCollectTargetAllocatorRBAC m obj k desiredSet =
     (if \<not> isTargetAllocatorSecretRBAC obj k \<or> \<not> isOwnedByMonitoring m obj then False
      else if isNotManagedByODHOperator obj then False
      else \<lparr>rk_gvk = k, rk_namespace = o_Namespace obj, rk_name = o_Name obj\<rparr> \<notin> set desiredSet)"

subsection \<open>The sweeps\<close>

text \<open>\<open>scopedRBACDeleteOptions\<close>: the deletion is conditioned on UID and resource version.\<close>

definition scopedRBACDeleteOptions :: "KObject \<Rightarrow> (string \<times> string) option" where
  "scopedRBACDeleteOptions obj = Some (o_UID obj, o_ResourceVersion obj)"

text \<open>
  The loop shared by the four RBAC sweeps: delete every listed object the predicate selects, and
  stop at the first request that fails for another reason than NotFound.
\<close>

fun sweep_loop ::
  "'w cluster_scheme \<Rightarrow> (KObject \<Rightarrow> bool) \<Rightarrow> gvk \<Rightarrow> (KObject \<Rightarrow> string) \<Rightarrow> KObject list \<Rightarrow> rstate \<Rightarrow> action_result" where
  "sweep_loop W select k describe [] s = (s, None)"
| "sweep_loop W select k describe (obj # objs) s =
     (if \<not> select obj then sweep_loop W select k describe objs s
      else (case delete_object W (describe obj) k (o_Namespace obj) (o_Name obj)
                   (scopedRBACDeleteOptions obj) s of
          (s1, Some err) \<Rightarrow> (s1, Some err)
        | (s1, None) \<Rightarrow> sweep_loop W select k describe objs s1))"

definition collectScopedClusterRBACGarbage ::
  "'w cluster_scheme \<Rightarrow> resourceKey list \<Rightarrow> string list \<Rightarrow> rstate \<Rightarrow> action_result" where
  "collectScopedClusterRBACGarbage W desiredSet withheldComponents s =
     (let m = rs_Mon s in
      case ListOwned W gvk_ClusterRole of
        Inl err \<Rightarrow> fail_with ''listing scoped ClusterRoles: '' err s
      | Inr roles \<Rightarrow>
          (case sweep_loop W
                  (\<lambda>obj. shouldCollectScopedClusterRBAC m gvk_ClusterRole obj scopedClusterRoleNames
                     desiredSet withheldComponents)
                  gvk_ClusterRole (\<lambda>obj. ''deleting scoped ClusterRole '' @ o_Name obj @ '': '') roles s of
             (s1, Some err) \<Rightarrow> (s1, Some err)
           | (s1, None) \<Rightarrow>
               (case ListOwned W gvk_ClusterRoleBinding of
                  Inl err \<Rightarrow> fail_with ''listing scoped ClusterRoleBindings: '' err s1
                | Inr bindings \<Rightarrow>
                    sweep_loop W
                      (\<lambda>obj. shouldCollectScopedClusterRBAC m gvk_ClusterRoleBinding obj
                         scopedClusterRoleBindingNames desiredSet withheldComponents)
                      gvk_ClusterRoleBinding
                      (\<lambda>obj. ''deleting scoped ClusterRoleBinding '' @ o_Name obj @ '': '') bindings s1)))"

definition collectTargetAllocatorRBACGarbage ::
  "'w cluster_scheme \<Rightarrow> resourceKey list \<Rightarrow> rstate \<Rightarrow> action_result" where
  "collectTargetAllocatorRBACGarbage W desiredSet s =
     (let m = rs_Mon s in
      case ListOwned W gvk_Role of
        Inl err \<Rightarrow> fail_with ''listing TargetAllocator Roles: '' err s
      | Inr roles \<Rightarrow>
          (case sweep_loop W (\<lambda>obj. shouldCollectTargetAllocatorRBAC m obj gvk_Role desiredSet) gvk_Role
                  (\<lambda>obj. ''deleting TargetAllocator Role '' @ o_Namespace obj @ ''/'' @ o_Name obj @ '': '') roles s of
             (s1, Some err) \<Rightarrow> (s1, Some err)
           | (s1, None) \<Rightarrow>
               (case ListOwned W gvk_RoleBinding of
                  Inl err \<Rightarrow> fail_with ''listing TargetAllocator RoleBindings: '' err s1
                | Inr bindings \<Rightarrow>
                    sweep_loop W (\<lambda>obj. shouldCollectTargetAllocatorRBAC m obj gvk_RoleBinding desiredSet)
                      gvk_RoleBinding
                      (\<lambda>obj. ''deleting TargetAllocator RoleBinding '' @ o_Namespace obj @ ''/'' @
                         o_Name obj @ '': '') bindings s1)))"

text \<open>One run of the library's collector with a predicate.\<close>

definition run_collector :: "'w cluster_scheme \<Rightarrow> (KObject \<Rightarrow> bool) \<Rightarrow> rstate \<Rightarrow> action_result" where
  "run_collector W select s =
     (let (deleted, err) = CollectorRun W select
      in (s\<lparr>rs_Effects := rs_Effects s @ map CollectorDeleted deleted\<rparr>, err))"

text \<open>The three sweeps in order, the next one run only if the previous returned no error.\<close>

definition three_sweeps ::
  "'w cluster_scheme \<Rightarrow> (KObject \<Rightarrow> bool) \<Rightarrow> resourceKey list \<Rightarrow> string list \<Rightarrow> rstate \<Rightarrow> action_result" where
  "three_sweeps W select desiredSet withheldComponents s =
     (case run_collector W select s of
        (s1, Some err) \<Rightarrow> (s1, Some err)
      | (s1, None) \<Rightarrow>
          (case collectScopedClusterRBACGarbage W desiredSet withheldComponents s1 of
             (s2, Some err) \<Rightarrow> (s2, Some err)
           | (s2, None) \<Rightarrow> collectTargetAllocatorRBACGarbage W desiredSet s2))"

definition collectGarbage ::
  "'w cluster_scheme \<Rightarrow> KObject list \<Rightarrow> string list \<Rightarrow> rstate \<Rightarrow> action_result" where
  "collectGarbage W desired withheldComponents s =
     (let m = rs_Mon s; namespace = monitoringNamespace W m; desiredSet = desired_set desired
      in three_sweeps W
           (\<lambda>obj. shouldCollectOwnedResource m obj desiredSet namespace withheldComponents)
           desiredSet withheldComponents s)"

definition deleteAllOwned :: "'w cluster_scheme \<Rightarrow> rstate \<Rightarrow> action_result" where
  "deleteAllOwned W s =
     (let m = rs_Mon s; namespace = monitoringNamespace W m
      in three_sweeps W (\<lambda>obj. isOwnedByMonitoring m obj \<and> isInMonitoringScope obj namespace) [] [] s)"


subsection \<open>What a sweep may delete\<close>

text \<open>
  What the collector library documents of a predicate: an object is deleted only if the predicate
  accepts it.
\<close>

locale faithful_collector =
  fixes W :: "'w cluster_scheme"
  assumes deletes_accepted: "list_all P (fst (CollectorRun W P))"

text \<open>The collector that deletes exactly the listed objects its predicate accepts.\<close>

definition listing_collector :: "KObject list \<Rightarrow> (KObject \<Rightarrow> bool) \<Rightarrow> KObject list \<times> go_error option" where
  "listing_collector objs P = (filter P objs, None)"

text \<open>
  What it documents of a run without error: every object it lists and the predicate accepts is
  deleted. \<open>seen\<close> are the objects a run lists, those with the operator's part-of label of the kinds
  the collector may list and delete.
\<close>

locale thorough_collector =
  fixes W :: "'w cluster_scheme" and seen :: "KObject list"
  assumes accepted_deleted:
    "snd (CollectorRun W P) = None \<Longrightarrow> obj \<in> set seen \<Longrightarrow> P obj \<Longrightarrow> obj \<in> set (fst (CollectorRun W P))"

interpretation listing: faithful_collector "W\<lparr>CollectorRun := listing_collector objs\<rparr>" for W :: "'w cluster_scheme" and objs
  by unfold_locales (simp add: listing_collector_def list_all_iff)

interpretation listing_all: thorough_collector "W\<lparr>CollectorRun := listing_collector objs\<rparr>" objs for W :: "'w cluster_scheme" and objs
  by unfold_locales (simp add: listing_collector_def)

text \<open>
  A deletion of the collector is justified when the object is owned, in scope, not desired, not
  labelled with a withheld component, and not a LokiStack while a Loki component is withheld.
\<close>

definition stale_owned :: "'w cluster_scheme \<Rightarrow> Monitoring \<Rightarrow> KObject list \<Rightarrow> string list \<Rightarrow> KObject \<Rightarrow> bool" where
  "stale_owned W m desired withheld obj \<longleftrightarrow>
     isOwnedByMonitoring m obj \<and> isInMonitoringScope obj (monitoringNamespace W m) \<and>
     key_of obj \<notin> key_of ` set desired \<and>
     sget (o_Labels obj) componentLabel \<notin> set withheld \<and>
     (o_Gvk obj = gvk_LokiStack \<longrightarrow> set lokiComponents \<inter> set withheld = {})"

lemma should_collect_iff:
  "shouldCollectOwnedResource m obj (desired_set desired) (monitoringNamespace W m) withheld \<longleftrightarrow>
     stale_owned W m desired withheld obj"
  by (auto simp: shouldCollectOwnedResource_def stale_owned_def desired_set_def list_ex_iff)

text \<open>
  A deletion of the RBAC sweeps, for an object listed under the kind \<open>k\<close>. The target allocator's
  Roles and RoleBindings are selected by name in every namespace, without a test of the scope or of
  the withheld components.
\<close>

definition stale_rbac ::
  "'w cluster_scheme \<Rightarrow> Monitoring \<Rightarrow> KObject list \<Rightarrow> string list \<Rightarrow> gvk \<Rightarrow> KObject \<Rightarrow> bool" where
  "stale_rbac W m desired withheld k obj \<longleftrightarrow>
     (\<exists>objs. ListOwned W k = Inr objs \<and> obj \<in> set objs) \<and>
     isOwnedByMonitoring m obj \<and> \<not> isNotManagedByODHOperator obj \<and>
     (k = gvk_ClusterRole \<and> o_Name obj \<in> set scopedClusterRoleNames \<and>
        sget (o_Labels obj) componentLabel \<notin> set withheld \<and>
        \<lparr>rk_gvk = k, rk_namespace = '''', rk_name = o_Name obj\<rparr> \<notin> key_of ` set desired \<or>
      k = gvk_ClusterRoleBinding \<and> o_Name obj \<in> set scopedClusterRoleBindingNames \<and>
        sget (o_Labels obj) componentLabel \<notin> set withheld \<and>
        \<lparr>rk_gvk = k, rk_namespace = '''', rk_name = o_Name obj\<rparr> \<notin> key_of ` set desired \<or>
      (k = gvk_Role \<or> k = gvk_RoleBinding) \<and> o_Name obj = targetAllocatorSecretRBACName \<and>
        \<lparr>rk_gvk = k, rk_namespace = o_Namespace obj, rk_name = o_Name obj\<rparr> \<notin> key_of ` set desired)"

fun justified :: "'w cluster_scheme \<Rightarrow> Monitoring \<Rightarrow> KObject list \<Rightarrow> string list \<Rightarrow> effect \<Rightarrow> bool" where
  "justified W m desired withheld (CollectorDeleted obj) \<longleftrightarrow> stale_owned W m desired withheld obj"
| "justified W m desired withheld (Delete k ns name pre) \<longleftrightarrow>
     (\<exists>obj. stale_rbac W m desired withheld k obj \<and> ns = o_Namespace obj \<and> name = o_Name obj \<and>
        pre = Some (o_UID obj, o_ResourceVersion obj))"
| "justified W m desired withheld _ \<longleftrightarrow> False"

text \<open>From \<open>s\<close> to \<open>s'\<close> only deletions that satisfy \<open>Q\<close> were issued.\<close>

definition only_deletes :: "(effect \<Rightarrow> bool) \<Rightarrow> rstate \<Rightarrow> rstate \<Rightarrow> bool" where
  "only_deletes Q s s' \<longleftrightarrow>
     rs_Mon s' = rs_Mon s \<and> rs_Sources s' = rs_Sources s \<and>
     (\<exists>es. rs_Effects s' = rs_Effects s @ es \<and> list_all Q es)"

lemma only_deletes_refl [simp]: "only_deletes Q s s"
  by (simp add: only_deletes_def)

lemma only_deletes_trans: "only_deletes Q s s1 \<Longrightarrow> only_deletes Q s1 s2 \<Longrightarrow> only_deletes Q s s2"
  by (auto simp: only_deletes_def)

lemma sweep_loop_only:
  assumes "\<And>obj. obj \<in> set objs \<Longrightarrow> select obj \<Longrightarrow>
      Q (Delete k (o_Namespace obj) (o_Name obj) (Some (o_UID obj, o_ResourceVersion obj)))"
  shows "only_deletes Q s (fst (sweep_loop W select k describe objs s))"
  using assms
proof (induction objs arbitrary: s)
  case (Cons obj objs)
  have rest: "only_deletes Q s (fst (sweep_loop W select k describe objs s))" for s
    by (rule Cons.IH) (use Cons.prems in auto)
  show ?case
  proof (cases "select obj")
    case True
    with Cons.prems [of obj] have q: "Q (Delete k (o_Namespace obj) (o_Name obj) (Some (o_UID obj, o_ResourceVersion obj)))"
      by simp
    obtain s1 r where d: "delete_object W (describe obj) k (o_Namespace obj) (o_Name obj)
        (scopedRBACDeleteOptions obj) s = (s1, r)" by force
    have "only_deletes Q s s1"
      using d q by (auto simp: delete_object_def emit_def only_deletes_def scopedRBACDeleteOptions_def
          split: option.splits if_splits)
    then show ?thesis
      using True d rest [of s1] by (auto intro: only_deletes_trans split: option.split)
  qed (use rest in simp)
qed simp

text \<open>Every selected object of a sweep that returned no error was deleted or already gone.\<close>

definition swept :: "'w cluster_scheme \<Rightarrow> gvk \<Rightarrow> KObject \<Rightarrow> effect list \<Rightarrow> bool" where
  "swept W k obj es \<longleftrightarrow>
     Delete k (o_Namespace obj) (o_Name obj) (Some (o_UID obj, o_ResourceVersion obj)) \<in> set es \<or>
     (\<exists>err. DeleteAnswer W k (o_Namespace obj) (o_Name obj) = Some err \<and> IsNotFound err)"

lemma sweep_loop_complete:
  "sweep_loop W select k describe objs s = (s', None) \<Longrightarrow>
     set (rs_Effects s) \<subseteq> set (rs_Effects s') \<and>
     (\<forall>obj \<in> set objs. select obj \<longrightarrow> swept W k obj (rs_Effects s'))"
proof (induction objs arbitrary: s)
  case (Cons obj objs)
  show ?case
  proof (cases "select obj")
    case True
    obtain s1 r where d: "delete_object W (describe obj) k (o_Namespace obj) (o_Name obj)
        (scopedRBACDeleteOptions obj) s = (s1, r)" by force
    with Cons.prems True have r: "r = None" and rest: "sweep_loop W select k describe objs s1 = (s', None)"
      by (auto split: option.splits)
    have "set (rs_Effects s) \<subseteq> set (rs_Effects s1)" and "swept W k obj (rs_Effects s1)"
      using d r by (auto simp: delete_object_def emit_def swept_def scopedRBACDeleteOptions_def
          split: option.splits if_splits)
    with Cons.IH [OF rest] show ?thesis by (auto simp: swept_def)
  qed (use Cons in auto)
qed simp



lemma only_deletes_bind:
  assumes "only_deletes Q s (fst p)" and "\<And>s1. only_deletes Q s s1 \<Longrightarrow> only_deletes Q s (fst (f s1))"
  shows "only_deletes Q s (fst (case p of (s1, Some err) \<Rightarrow> (s1, Some err) | (s1, None) \<Rightarrow> f s1))"
  using assms by (auto split: prod.split option.split)

lemma sweep_from:
  assumes "only_deletes Q s0 s"
    and "\<And>obj. obj \<in> set objs \<Longrightarrow> select obj \<Longrightarrow>
      Q (Delete k (o_Namespace obj) (o_Name obj) (Some (o_UID obj, o_ResourceVersion obj)))"
  shows "only_deletes Q s0 (fst (sweep_loop W select k describe objs s))"
  using only_deletes_trans [OF assms(1) sweep_loop_only] assms(2) by blast

lemma scoped_rbac_only:
  assumes "only_deletes (justified W m desired withheld) s0 s" and "rs_Mon s0 = m"
  shows "only_deletes (justified W m desired withheld) s0
           (fst (collectScopedClusterRBACGarbage W (desired_set desired) withheld s))"
proof -
  have m: "rs_Mon s = m" using assms by (simp add: only_deletes_def)
  have sel: "justified W m desired withheld
      (Delete k (o_Namespace obj) (o_Name obj) (Some (o_UID obj, o_ResourceVersion obj)))"
    if "ListOwned W k = Inr objs" "obj \<in> set objs"
      "shouldCollectScopedClusterRBAC m k obj names (desired_set desired) withheld"
      "k = gvk_ClusterRole \<and> names = scopedClusterRoleNames \<or>
       k = gvk_ClusterRoleBinding \<and> names = scopedClusterRoleBindingNames" for k objs obj names
    using that by (auto simp: shouldCollectScopedClusterRBAC_def desired_set_def stale_rbac_def
        intro!: exI [of _ obj] split: if_splits)
  show ?thesis
    unfolding collectScopedClusterRBACGarbage_def Let_def m
    by (auto simp: assms(1) split: sum.split intro!: only_deletes_bind sweep_from [OF assms(1)] sweep_from sel)
qed

lemma target_allocator_only:
  assumes "only_deletes (justified W m desired withheld) s0 s" and "rs_Mon s0 = m"
  shows "only_deletes (justified W m desired withheld) s0
           (fst (collectTargetAllocatorRBACGarbage W (desired_set desired) s))"
proof -
  have m: "rs_Mon s = m" using assms by (simp add: only_deletes_def)
  have sel: "justified W m desired withheld
      (Delete k (o_Namespace obj) (o_Name obj) (Some (o_UID obj, o_ResourceVersion obj)))"
    if "ListOwned W k = Inr objs" "obj \<in> set objs"
      "shouldCollectTargetAllocatorRBAC m obj k (desired_set desired)" for k objs obj
    using that by (auto simp: shouldCollectTargetAllocatorRBAC_def isTargetAllocatorSecretRBAC_def
        desired_set_def stale_rbac_def intro!: exI [of _ obj] split: if_splits)
  show ?thesis
    unfolding collectTargetAllocatorRBACGarbage_def Let_def m
    by (auto simp: assms(1) split: sum.split intro!: only_deletes_bind sweep_from [OF assms(1)] sweep_from sel)
qed

context faithful_collector
begin

lemma collector_only:
  assumes "\<And>obj. P obj \<Longrightarrow> Q (CollectorDeleted obj)"
  shows "only_deletes Q s (fst (run_collector W P s))"
  using assms deletes_accepted [of P]
  by (auto simp: run_collector_def only_deletes_def list_all_iff split: prod.split)

lemma three_sweeps_only:
  assumes "\<And>obj. P obj \<Longrightarrow> justified W (rs_Mon s) desired withheld (CollectorDeleted obj)"
  shows "only_deletes (justified W (rs_Mon s) desired withheld) s
           (fst (three_sweeps W P (desired_set desired) withheld s))"
  unfolding three_sweeps_def
  by (intro only_deletes_bind collector_only assms scoped_rbac_only target_allocator_only refl)

lemma collect_only: "only_deletes (justified W (rs_Mon s) desired withheld) s (fst (collectGarbage W desired withheld s))"
  unfolding collectGarbage_def Let_def by (rule three_sweeps_only) (simp add: should_collect_iff)

lemma delete_all_only: "only_deletes (justified W (rs_Mon s) [] []) s (fst (deleteAllOwned W s))"
  unfolding deleteAllOwned_def Let_def
  using three_sweeps_only [of _ s "[]" "[]"] by (simp add: desired_set_def stale_owned_def)

end


text \<open>
  C21: removing the operator's objects (the Removed state and the finalizer) touches only objects
  this Monitoring object controls, in its scope or in the RBAC name lists.
\<close>

theorem delete_all_owned_only_owned:
  assumes "faithful_collector W" and "deleteAllOwned W s = (s', r)"
  shows "only_deletes (justified W (rs_Mon s) [] []) s s'"
  using faithful_collector.delete_all_only [OF assms(1), of s] assms(2) by simp


lemma swept_mono: "swept W k obj es \<Longrightarrow> set es \<subseteq> set es' \<Longrightarrow> swept W k obj es'"
  by (auto simp: swept_def)

lemma scoped_rbac_complete:
  assumes "collectScopedClusterRBACGarbage W (desired_set desired) withheld s = (s', None)"
  shows "set (rs_Effects s) \<subseteq> set (rs_Effects s') \<and>
    (\<forall>k obj. (k = gvk_ClusterRole \<or> k = gvk_ClusterRoleBinding) \<longrightarrow>
       stale_rbac W (rs_Mon s) desired withheld k obj \<longrightarrow> swept W k obj (rs_Effects s'))"
proof -
  obtain roles bindings s1 where
    lists: "ListOwned W gvk_ClusterRole = Inr roles" "ListOwned W gvk_ClusterRoleBinding = Inr bindings"
    and 1: "sweep_loop W (\<lambda>obj. shouldCollectScopedClusterRBAC (rs_Mon s) gvk_ClusterRole obj
       scopedClusterRoleNames (desired_set desired) withheld) gvk_ClusterRole
       (\<lambda>obj. ''deleting scoped ClusterRole '' @ o_Name obj @ '': '') roles s = (s1, None)"
    and 2: "sweep_loop W (\<lambda>obj. shouldCollectScopedClusterRBAC (rs_Mon s) gvk_ClusterRoleBinding obj
       scopedClusterRoleBindingNames (desired_set desired) withheld) gvk_ClusterRoleBinding
       (\<lambda>obj. ''deleting scoped ClusterRoleBinding '' @ o_Name obj @ '': '') bindings s1 = (s', None)"
    using assms
    by (auto simp: collectScopedClusterRBACGarbage_def Let_def split: sum.splits prod.splits option.splits)
  have "gvk_ClusterRole \<noteq> gvk_ClusterRoleBinding" "gvk_Role \<noteq> gvk_ClusterRole" "gvk_Role \<noteq> gvk_ClusterRoleBinding"
    "gvk_RoleBinding \<noteq> gvk_ClusterRole" "gvk_RoleBinding \<noteq> gvk_ClusterRoleBinding"
    by (simp_all add: gvk_defs)
  then show ?thesis
    using sweep_loop_complete [OF 1] sweep_loop_complete [OF 2] lists
    by (auto simp: stale_rbac_def shouldCollectScopedClusterRBAC_def desired_set_def intro: swept_mono)
qed

lemma target_allocator_complete:
  assumes "collectTargetAllocatorRBACGarbage W (desired_set desired) s = (s', None)"
  shows "set (rs_Effects s) \<subseteq> set (rs_Effects s') \<and>
    (\<forall>k obj. (k = gvk_Role \<or> k = gvk_RoleBinding) \<longrightarrow>
       stale_rbac W (rs_Mon s) desired withheld k obj \<longrightarrow> swept W k obj (rs_Effects s'))"
proof -
  obtain roles bindings s1 where
    lists: "ListOwned W gvk_Role = Inr roles" "ListOwned W gvk_RoleBinding = Inr bindings"
    and 1: "sweep_loop W (\<lambda>obj. shouldCollectTargetAllocatorRBAC (rs_Mon s) obj gvk_Role (desired_set desired))
       gvk_Role (\<lambda>obj. ''deleting TargetAllocator Role '' @ o_Namespace obj @ ''/'' @ o_Name obj @ '': '')
       roles s = (s1, None)"
    and 2: "sweep_loop W (\<lambda>obj. shouldCollectTargetAllocatorRBAC (rs_Mon s) obj gvk_RoleBinding
       (desired_set desired)) gvk_RoleBinding
       (\<lambda>obj. ''deleting TargetAllocator RoleBinding '' @ o_Namespace obj @ ''/'' @ o_Name obj @ '': '')
       bindings s1 = (s', None)"
    using assms
    by (auto simp: collectTargetAllocatorRBACGarbage_def Let_def split: sum.splits prod.splits option.splits)
  have "gvk_Role \<noteq> gvk_ClusterRole" "gvk_Role \<noteq> gvk_ClusterRoleBinding"
    "gvk_RoleBinding \<noteq> gvk_ClusterRole" "gvk_RoleBinding \<noteq> gvk_ClusterRoleBinding"
    by (simp_all add: gvk_defs)
  then show ?thesis
    using sweep_loop_complete [OF 1] sweep_loop_complete [OF 2] lists
    by (auto simp: stale_rbac_def shouldCollectTargetAllocatorRBAC_def isTargetAllocatorSecretRBAC_def
        desired_set_def intro: swept_mono)
qed

lemma three_sweeps_complete:
  assumes run: "three_sweeps W P (desired_set desired) withheld s = (s', None)"
  shows "snd (CollectorRun W P) = None \<and> CollectorDeleted ` set (fst (CollectorRun W P)) \<subseteq> set (rs_Effects s')"
    and "k \<in> {gvk_ClusterRole, gvk_ClusterRoleBinding, gvk_Role, gvk_RoleBinding} \<Longrightarrow> \<exists>objs. ListOwned W k = Inr objs"
    and "stale_rbac W (rs_Mon s) desired withheld k obj \<Longrightarrow> swept W k obj (rs_Effects s')"
proof -
  obtain s1 s2 where
    1: "run_collector W P s = (s1, None)"
    and 2: "collectScopedClusterRBACGarbage W (desired_set desired) withheld s1 = (s2, None)"
    and 3: "collectTargetAllocatorRBACGarbage W (desired_set desired) s2 = (s', None)"
    using run by (auto simp: three_sweeps_def split: prod.splits option.splits)
  have m1: "rs_Mon s1 = rs_Mon s" and del: "snd (CollectorRun W P) = None"
    "CollectorDeleted ` set (fst (CollectorRun W P)) \<subseteq> set (rs_Effects s1)"
    using 1 by (auto simp: run_collector_def split: prod.splits)
  have "only_deletes (justified W (rs_Mon s) desired withheld) s1 s2"
    using scoped_rbac_only [OF only_deletes_refl m1, of W desired withheld] 2 by simp
  then have m2: "rs_Mon s2 = rs_Mon s"
    using m1 by (simp add: only_deletes_def)
  note scoped = scoped_rbac_complete [OF 2, unfolded m1]
    and target = target_allocator_complete [OF 3, unfolded m2, where withheld = withheld]
  show "snd (CollectorRun W P) = None \<and> CollectorDeleted ` set (fst (CollectorRun W P)) \<subseteq> set (rs_Effects s')"
    using del scoped target by blast
  show "\<exists>objs. ListOwned W k = Inr objs" if "k \<in> {gvk_ClusterRole, gvk_ClusterRoleBinding, gvk_Role, gvk_RoleBinding}"
    using 2 3 that
    by (auto simp: collectScopedClusterRBACGarbage_def collectTargetAllocatorRBACGarbage_def Let_def
        split: sum.splits prod.splits option.splits)
  show "swept W k obj (rs_Effects s')" if stale: "stale_rbac W (rs_Mon s) desired withheld k obj"
  proof -
    have "k = gvk_ClusterRole \<or> k = gvk_ClusterRoleBinding \<or> k = gvk_Role \<or> k = gvk_RoleBinding"
      using stale by (auto simp: stale_rbac_def)
    moreover have "swept W k obj (rs_Effects s2)" if "k = gvk_ClusterRole \<or> k = gvk_ClusterRoleBinding"
      using scoped that stale by blast
    moreover have "swept W k obj (rs_Effects s')" if "k = gvk_Role \<or> k = gvk_RoleBinding"
      using target that stale by blast
    ultimately show ?thesis
      using target swept_mono by blast
  qed
qed

text \<open>
  C20: a sweep that reports no error is complete for the RBAC kinds: every listed role or binding
  that is owned, managed, in the name lists, not withheld and not desired was deleted, or the API
  server answered that it is already gone.
\<close>

theorem gc_sweep_complete:
  assumes run: "collectGarbage W desired withheld s = (s', None)"
    and stale: "stale_rbac W (rs_Mon s) desired withheld k obj"
  shows "swept W k obj (rs_Effects s')"
  using three_sweeps_complete(3) [OF run [unfolded collectGarbage_def Let_def] stale] .

text \<open>
  What is left of the operator's objects once \<open>deleteAllOwned\<close> returned no error. The four RBAC
  kinds were listed, and every listed object this Monitoring object controls, with a name of the
  lists and without the opt-out annotation, was deleted or was already gone; so was every object in
  scope that the library's collector lists and this Monitoring object controls.
\<close>

fun rbac_names :: "gvk \<Rightarrow> string list" where
  "rbac_names k =
     (if k = gvk_ClusterRole then scopedClusterRoleNames
      else if k = gvk_ClusterRoleBinding then scopedClusterRoleBindingNames
      else [targetAllocatorSecretRBACName])"

definition rbac_removed :: "'w cluster_scheme \<Rightarrow> Monitoring \<Rightarrow> effect list \<Rightarrow> bool" where
  "rbac_removed W m es \<longleftrightarrow>
     (\<forall>k \<in> {gvk_ClusterRole, gvk_ClusterRoleBinding, gvk_Role, gvk_RoleBinding}.
        case ListOwned W k of
          Inl _ \<Rightarrow> False
        | Inr objs \<Rightarrow> (\<forall>obj \<in> set objs. isOwnedByMonitoring m obj \<and> \<not> isNotManagedByODHOperator obj \<and>
            o_Name obj \<in> set (rbac_names k) \<longrightarrow> swept W k obj es))"

definition owned_removed :: "'w cluster_scheme \<Rightarrow> Monitoring \<Rightarrow> KObject list \<Rightarrow> effect list \<Rightarrow> bool" where
  "owned_removed W m seen es \<longleftrightarrow>
     (\<forall>obj \<in> set seen. isOwnedByMonitoring m obj \<and> isInMonitoringScope obj (monitoringNamespace W m) \<longrightarrow>
        CollectorDeleted obj \<in> set es)"

lemma delete_all_rbac_removed:
  assumes "deleteAllOwned W s = (s', None)"
  shows "rbac_removed W (rs_Mon s) (rs_Effects s')"
proof -
  note run = three_sweeps_complete [where desired = "[]", unfolded desired_set_def list.map,
      OF assms [unfolded deleteAllOwned_def Let_def]]
  have ne: "gvk_ClusterRole \<noteq> gvk_ClusterRoleBinding" "gvk_Role \<noteq> gvk_ClusterRole" "gvk_Role \<noteq> gvk_ClusterRoleBinding"
    "gvk_RoleBinding \<noteq> gvk_ClusterRole" "gvk_RoleBinding \<noteq> gvk_ClusterRoleBinding"
    by (simp_all add: gvk_defs)
  have "swept W k obj (rs_Effects s')"
    if "k \<in> {gvk_ClusterRole, gvk_ClusterRoleBinding, gvk_Role, gvk_RoleBinding}" "ListOwned W k = Inr objs"
      "obj \<in> set objs" "isOwnedByMonitoring (rs_Mon s) obj" "\<not> isNotManagedByODHOperator obj"
      "o_Name obj \<in> set (rbac_names k)" for k objs obj
    using that ne ne(1) [symmetric] by (intro run(3)) (auto simp: stale_rbac_def split: if_splits)
  then show ?thesis
    using run(2) unfolding rbac_removed_def by (fastforce split: sum.split)
qed

context thorough_collector
begin

lemma delete_all_owned_removed:
  assumes "deleteAllOwned W s = (s', None)"
  shows "owned_removed W (rs_Mon s) seen (rs_Effects s')"
  using three_sweeps_complete(1) [where desired = "[]", unfolded desired_set_def list.map,
      OF assms [unfolded deleteAllOwned_def Let_def]] accepted_deleted
  by (fastforce simp: owned_removed_def)

end

definition sample_object :: "gvk \<Rightarrow> string \<Rightarrow> string \<Rightarrow> smap \<Rightarrow> KObject" where
  "sample_object k ns name labels =
     \<lparr>o_Gvk = k, o_Namespace = ns, o_Name = name, o_Labels = labels, o_Annotations = [],
      o_ControllerUID = Some ''uid-1'', o_UID = ''o-uid'', o_ResourceVersion = ''3''\<rparr>"

text \<open>
  A cluster that still holds a LokiStack of an older release, without the component label, and a
  cluster role that is no longer rendered.
\<close>

definition stale_cluster :: cluster where
  "stale_cluster = quiet_cluster
     \<lparr>CollectorRun := listing_collector [sample_object gvk_LokiStack ''opendatahub'' lokiStackResourceName []],
      ListOwned := (\<lambda>k. Inr (if k = gvk_ClusterRole then [sample_object k '''' ''korrel8r-query'' []] else []))\<rparr>"

lemma faithful_stale_cluster: "faithful_collector stale_cluster"
  by unfold_locales (simp add: stale_cluster_def listing_collector_def list_all_iff)


lemma stale_cluster_quiet:
  "DeleteAnswer stale_cluster k ns n = None"
  "ListOwned stale_cluster k = Inr (if k = gvk_ClusterRole then [sample_object k '''' ''korrel8r-query'' []] else [])"
  "CollectorRun stale_cluster = listing_collector [sample_object gvk_LokiStack ''opendatahub'' lokiStackResourceName []]"
  by (simp_all add: stale_cluster_def quiet_cluster_def)

lemma stale_role:
  "stale_rbac stale_cluster (fresh_monitoring bare_spec) [] [] gvk_ClusterRole
     (sample_object gvk_ClusterRole '''' ''korrel8r-query'' [])"
  by (simp add: stale_rbac_def stale_cluster_quiet sample_object_def isOwnedByMonitoring_def
      fresh_monitoring_def isNotManagedByODHOperator_def sget_def scopedClusterRoleNames_def)

theorem delete_all_owned_only_owned_witness:
  "faithful_collector stale_cluster \<and>
   list_all (justified stale_cluster (fresh_monitoring bare_spec) [] [])
     (rs_Effects (fst (deleteAllOwned stale_cluster (start_state (fresh_monitoring bare_spec)))))"
proof -
  obtain s' r where run: "deleteAllOwned stale_cluster (start_state (fresh_monitoring bare_spec)) = (s', r)"
    by force
  then show ?thesis
    using delete_all_owned_only_owned [OF faithful_stale_cluster run] faithful_stale_cluster
    by (auto simp: only_deletes_def start_state_def)
qed

theorem gc_sweep_complete_witness:
  "swept stale_cluster gvk_ClusterRole (sample_object gvk_ClusterRole '''' ''korrel8r-query'' [])
     (rs_Effects (fst (collectGarbage stale_cluster [] [] (start_state (fresh_monitoring bare_spec)))))"
proof -
  let ?s = "start_state (fresh_monitoring bare_spec)"
  have ne: "gvk_ClusterRoleBinding \<noteq> gvk_ClusterRole" "gvk_Role \<noteq> gvk_ClusterRole" "gvk_RoleBinding \<noteq> gvk_ClusterRole"
    by (simp_all add: gvk_defs)
  have "snd (collectGarbage stale_cluster [] [] ?s) = None"
    by (simp add: collectGarbage_def three_sweeps_def run_collector_def collectScopedClusterRBACGarbage_def
        collectTargetAllocatorRBACGarbage_def stale_cluster_quiet delete_object_def listing_collector_def ne Let_def)
  then obtain s' where run: "collectGarbage stale_cluster [] [] ?s = (s', None)"
    by (metis prod.collapse)
  show ?thesis
    using gc_sweep_complete [OF run, of gvk_ClusterRole] stale_role run
    by (simp add: start_state_def)
qed

end
