(* ===== verification/Preconditions.thy ===== *)
theory Preconditions
  imports Helpers
begin

section \<open>Operator preconditions (templatedata.go)\<close>

text \<open>
  Before anything is rendered the reconciler checks that the operators the spec needs are
  installed, and reads the version of the Cluster Observability Operator (COO). The OLM lookups
  of the platform library and the list of ClusterServiceVersions are fields of the cluster; the
  text a \<open>multierror\<close> prints is its field \<open>MultiErrorText\<close>. The lemmas state the check against
  the list of requirements a spec has, and which version is reported.
\<close>

subsection \<open>Operators\<close>

definition opentelemetryOperator :: string where "opentelemetryOperator = ''opentelemetry-operator''"
definition certManagerOperator :: string where "certManagerOperator = ''cert-manager-operator''"
definition clusterObservabilityOperator :: string where
  "clusterObservabilityOperator = ''cluster-observability-operator''"
definition tempoOperator :: string where "tempoOperator = ''tempo-operator''"
definition lokiOperator :: string where "lokiOperator = ''loki-operator''"
definition clusterLoggingOperator :: string where "clusterLoggingOperator = ''cluster-logging''"

lemmas operator_names = opentelemetryOperator_def certManagerOperator_def clusterObservabilityOperator_def
  tempoOperator_def lokiOperator_def clusterLoggingOperator_def

subsection \<open>The installed COO version\<close>

record installedCSV =
  ic_name :: string
  ic_namespace :: string
  ic_version :: string

definition csv_namePrefix :: string where
  "csv_namePrefix = clusterObservabilityOperator @ ''.''"

text \<open>The loop over the CSVs: those installed and the names they replace.\<close>

fun csv_loop :: "CSV list \<Rightarrow> installedCSV list \<Rightarrow> string list \<Rightarrow> (installedCSV list \<times> string list) result" where
  "csv_loop [] installed replaced = Inr (installed, replaced)"
| "csv_loop (csv # csvs) installed replaced =
     (if \<not> HasPrefix (csv_Name csv) csv_namePrefix then csv_loop csvs installed replaced
      else if csv_CopiedFrom csv \<noteq> '''' then csv_loop csvs installed replaced
      else (case csv_Phase csv of
          Inl err \<Rightarrow> Inl (wrapf (''reading CSV '' @ quoted (csv_Name csv) @ '' status.phase: '') err)
        | Inr phase \<Rightarrow>
            if phase \<noteq> Some ''Succeeded'' then csv_loop csvs installed replaced
            else (case csv_Replaces csv of
                Inl err \<Rightarrow> Inl (wrapf (''reading CSV '' @ quoted (csv_Name csv) @ '' spec.replaces: '') err)
              | Inr r \<Rightarrow>
                  csv_loop csvs
                    (installed @ [\<lparr>ic_name = csv_Name csv, ic_namespace = csv_Namespace csv,
                       ic_version = TrimPrefix (csv_Name csv) csv_namePrefix\<rparr>])
                    (case r of None \<Rightarrow> replaced
                     | Some x \<Rightarrow> replaced @ [csv_Namespace csv @ ''/'' @ x]))))"

definition current_csvs :: "installedCSV list \<Rightarrow> string list \<Rightarrow> installedCSV list" where
  "current_csvs installed replaced =
     filter (\<lambda>c. ic_namespace c @ ''/'' @ ic_name c \<notin> set replaced) installed"

definition cooInstalledCSVVersion :: "'w cluster_scheme \<Rightarrow> OperatorInfo \<Rightarrow> OperatorInfo result" where
  "cooInstalledCSVVersion W fallback =
     (case ListCSVs W of
        Inl err \<Rightarrow> if IsNoMatchError err then Inr fallback else Inl err
      | Inr items \<Rightarrow>
          (case csv_loop items [] [] of
             Inl err \<Rightarrow> Inl err
           | Inr (installed, replaced) \<Rightarrow>
               (case current_csvs installed replaced of
                  [c] \<Rightarrow> Inr \<lparr>oi_Version = ic_version c\<rparr>
                | _ \<Rightarrow>
                    (let (extensionInfo, err) = ViaClusterExtension W clusterObservabilityOperator in
                     case err of
                       Some e \<Rightarrow>
                         if \<not> IsNoMatchError e then
                           Inl (wrapf ''checking installed Cluster Observability Operator ClusterExtension: '' e)
                         else Inr (case extensionInfo of Some i \<Rightarrow> i | None \<Rightarrow> \<lparr>oi_Version = ''''\<rparr>)
                     | None \<Rightarrow> Inr (case extensionInfo of Some i \<Rightarrow> i | None \<Rightarrow> \<lparr>oi_Version = ''''\<rparr>)))))"

definition markCOOVersionCompatibility ::
  "'w conditions_lib_scheme \<Rightarrow> int \<Rightarrow> OperatorInfo option \<Rightarrow> Monitoring \<Rightarrow> Monitoring" where
  "markCOOVersionCompatibility W g info m =
     (let supportedPrefix = COOSupportedVersionLine @ ''.'';
          unavailable = MarkWarning W g ConditionCOOVersionCompatible ''VersionUnavailable''
            (''Unable to determine the installed Cluster Observability Operator version; '' @
             ''the supported version line is '' @ COOSupportedVersionLine @ ''.x'') m in
      case info of
        None \<Rightarrow> unavailable
      | Some i \<Rightarrow>
          if oi_Version i = '''' then unavailable
          else if HasPrefix (oi_Version i) supportedPrefix then MarkTrue W g ConditionCOOVersionCompatible m
          else MarkWarning W g ConditionCOOVersionCompatible ''UnsupportedVersion''
            (''Detected Cluster Observability Operator version '' @ oi_Version i @
             '' outside the supported version line '' @ COOSupportedVersionLine @
             ''.x; this combination is untested'') m)"

subsection \<open>The precondition check\<close>

text \<open>The two variables the closures of the check share: \<open>cooInfo\<close> and \<open>allErrors\<close>.\<close>

record precheck =
  pc_coo :: "OperatorInfo option"
  pc_errors :: "string list"

fun checkOperatorNames ::
  "'w cluster_scheme \<Rightarrow> string list \<Rightarrow> string \<Rightarrow> precheck \<Rightarrow> precheck \<times> go_error option" where
  "checkOperatorNames W [] missingMessage st = (st\<lparr>pc_errors := pc_errors st @ [missingMessage]\<rparr>, None)"
| "checkOperatorNames W (name # names) missingMessage st =
     (case OperatorExists W name of
        Inr info \<Rightarrow>
          if name = clusterObservabilityOperator then
            (case cooInstalledCSVVersion W info of
               Inl err \<Rightarrow>
                 (st\<lparr>pc_coo := None\<rparr>,
                  Some (wrapf ''checking installed Cluster Observability Operator CSV: '' err))
             | Inr coo \<Rightarrow> (st\<lparr>pc_coo := Some coo\<rparr>, None))
          else (st, None)
      | Inl err \<Rightarrow>
          if errors_Is err errOperatorNotInstalled then checkOperatorNames W names missingMessage st
          else (st, Some (wrapf (''checking OLM operator '' @ quoted name @ '': '') err)))"

text \<open>One guarded check of the sequence: skipped when not required, run only while no error.\<close>

definition check_if ::
  "'w cluster_scheme \<Rightarrow> bool \<Rightarrow> string list \<Rightarrow> string \<Rightarrow> precheck \<times> go_error option \<Rightarrow> precheck \<times> go_error option" where
  "check_if W required names missingMessage p =
     (case p of
        (st, Some err) \<Rightarrow> (st, Some err)
      | (st, None) \<Rightarrow> if required then checkOperatorNames W names missingMessage st else (st, None))"

definition missingOperatorsError :: "'w cluster_scheme \<Rightarrow> string list \<Rightarrow> go_error" where
  "missingOperatorsError W msgs =
     GoError MissingOperators (MultiErrorText W msgs)
       [GoError Plain (MultiErrorText W msgs) (map errors_New msgs)]"

definition usage_logs_collector :: "MonitoringSpec \<Rightarrow> bool" where
  "usage_logs_collector sp \<longleftrightarrow>
     (case sp_UsageLogs sp of None \<Rightarrow> False
      | Some ul \<Rightarrow> ul_Storage ul \<noteq> None \<or> ul_Exporters ul \<noteq> [])"

definition checkMonitoringPreconditionsWithCOOVersion ::
  "'w cluster_scheme \<Rightarrow> Monitoring \<Rightarrow> OperatorInfo option \<times> go_error option" where
  "checkMonitoringPreconditionsWithCOOVersion W m =
     (let sp = mo_Spec m;
          needsLoki = (sp_Logs sp \<noteq> None \<or> usage_logs_storage sp \<noteq> None);
          p0 = (\<lparr>pc_coo = None, pc_errors = []\<rparr>, None);
          p1 = check_if W (sp_Metrics sp \<noteq> None \<or> sp_Traces sp \<noteq> None \<or> usage_logs_collector sp)
                 [opentelemetryOperator] OpenTelemetryCollectorOperatorMissingMessage p0;
          p2 = check_if W (sp_Metrics sp \<noteq> None)
                 [certManagerOperator, ''openshift-cert-manager-operator''] CertManagerOperatorMissingMessage p1;
          p3 = check_if W (metrics_storage sp \<noteq> None) [clusterObservabilityOperator] COOMissingMessage p2;
          p4 = check_if W (traces_storage sp \<noteq> None) [tempoOperator] TempoOperatorMissingMessage p3;
          p5 = check_if W needsLoki [lokiOperator] LokiOperatorMissingMessage p4;
          p6 = check_if W (sp_Logs sp \<noteq> None) [clusterLoggingOperator] ClusterLoggingOperatorMissingMessage p5
      in case p6 of
           (st, Some err) \<Rightarrow> (pc_coo st, Some err)
         | (st, None) \<Rightarrow>
             if pc_errors st \<noteq> [] then (pc_coo st, Some (missingOperatorsError W (pc_errors st)))
             else (pc_coo st, None))"

definition checkMonitoringPreconditions :: "'w cluster_scheme \<Rightarrow> Monitoring \<Rightarrow> go_error option" where
  "checkMonitoringPreconditions W m = snd (checkMonitoringPreconditionsWithCOOVersion W m)"

subsection \<open>Requirements of a spec\<close>

text \<open>
  What a spec requires, in the order of the check: whether it applies, the alternatives for one
  operator, and the message that reports it missing.
\<close>

definition guarded :: "MonitoringSpec \<Rightarrow> (bool \<times> string list \<times> string) list" where
  "guarded sp =
     [(sp_Metrics sp \<noteq> None \<or> sp_Traces sp \<noteq> None \<or> usage_logs_collector sp,
         ([opentelemetryOperator], OpenTelemetryCollectorOperatorMissingMessage)),
      (sp_Metrics sp \<noteq> None,
         ([certManagerOperator, ''openshift-cert-manager-operator''], CertManagerOperatorMissingMessage)),
      (metrics_storage sp \<noteq> None, ([clusterObservabilityOperator], COOMissingMessage)),
      (traces_storage sp \<noteq> None, ([tempoOperator], TempoOperatorMissingMessage)),
      (sp_Logs sp \<noteq> None \<or> usage_logs_storage sp \<noteq> None, ([lokiOperator], LokiOperatorMissingMessage)),
      (sp_Logs sp \<noteq> None, ([clusterLoggingOperator], ClusterLoggingOperatorMissingMessage))]"

definition requirements :: "MonitoringSpec \<Rightarrow> (string list \<times> string) list" where
  "requirements sp = map snd (filter fst (guarded sp))"

text \<open>An operator is confirmed absent, present, or neither when the lookup failed.\<close>

definition absent :: "'w cluster_scheme \<Rightarrow> string \<Rightarrow> bool" where
  "absent W name \<longleftrightarrow> (case OperatorExists W name of Inl err \<Rightarrow> errors_Is err errOperatorNotInstalled | Inr _ \<Rightarrow> False)"

definition missing_messages :: "'w cluster_scheme \<Rightarrow> (string list \<times> string) list \<Rightarrow> string list" where
  "missing_messages W reqs = map snd (filter (\<lambda>r. list_all (absent W) (fst r)) reqs)"

lemma checkOperatorNames_errors:
  "checkOperatorNames W names msg st = (st', None) \<Longrightarrow>
     pc_errors st' = pc_errors st @ (if list_all (absent W) names then [msg] else [])"
  by (induction W names msg st rule: checkOperatorNames.induct)
     (auto simp: absent_def split: sum.splits if_splits)

lemma check_if_errors:
  "check_if W b names msg p = (st', None) \<Longrightarrow>
     \<exists>st. p = (st, None) \<and>
       pc_errors st' = pc_errors st @ (if b \<and> list_all (absent W) names then [msg] else [])"
  by (cases p) (auto simp: check_if_def checkOperatorNames_errors split: option.splits if_splits)

text \<open>No operational error came from the lookups: the check ran to its end.\<close>

definition check_ran :: "go_error option \<Rightarrow> bool" where
  "check_ran r \<longleftrightarrow> (case r of None \<Rightarrow> True | Some err \<Rightarrow> err_kind_of err = MissingOperators)"

lemma check_if_plain:
  "check_if W b names msg p = (st, Some err) \<Longrightarrow> (\<And>st e. p = (st, Some e) \<Longrightarrow> err_kind_of e = Plain) \<Longrightarrow>
     err_kind_of err = Plain"
proof (cases p)
  case (Pair st0 r)
  have names: "checkOperatorNames W names msg st0 = (st, Some err) \<Longrightarrow> err_kind_of err = Plain"
    by (induction W names msg st0 rule: checkOperatorNames.induct)
       (auto simp: wrapf_def split: sum.splits if_splits)
  assume "check_if W b names msg p = (st, Some err)" "\<And>st e. p = (st, Some e) \<Longrightarrow> err_kind_of e = Plain"
  with Pair names show ?thesis
    by (auto simp: check_if_def split: option.splits if_splits)
qed

lemma checks_as_fold:
  "checkMonitoringPreconditionsWithCOOVersion W m =
     (case fold (\<lambda>x. check_if W (fst x) (fst (snd x)) (snd (snd x))) (guarded (mo_Spec m))
             (\<lparr>pc_coo = None, pc_errors = []\<rparr>, None) of
        (st, Some err) \<Rightarrow> (pc_coo st, Some err)
      | (st, None) \<Rightarrow>
          if pc_errors st \<noteq> [] then (pc_coo st, Some (missingOperatorsError W (pc_errors st)))
          else (pc_coo st, None))"
  by (simp add: checkMonitoringPreconditionsWithCOOVersion_def guarded_def Let_def)

lemma fold_checks_errors:
  "fold (\<lambda>x. check_if W (fst x) (fst (snd x)) (snd (snd x))) xs p = (st', None) \<Longrightarrow>
     \<exists>st. p = (st, None) \<and> pc_errors st' = pc_errors st @ missing_messages W (map snd (filter fst xs))"
proof (induction xs arbitrary: p)
  case (Cons x xs)
  obtain st1 where 1: "check_if W (fst x) (fst (snd x)) (snd (snd x)) p = (st1, None)"
    "pc_errors st' = pc_errors st1 @ missing_messages W (map snd (filter fst xs))"
    using Cons.IH [OF Cons.prems [simplified]] by blast
  from check_if_errors [OF 1(1)] 1(2) show ?case
    by (auto simp: missing_messages_def)
qed (simp add: missing_messages_def)

lemma fold_checks_plain:
  "fold (\<lambda>x. check_if W (fst x) (fst (snd x)) (snd (snd x))) xs p = (st, Some err) \<Longrightarrow>
   (\<And>st e. p = (st, Some e) \<Longrightarrow> err_kind_of e = Plain) \<Longrightarrow> err_kind_of err = Plain"
proof (induction xs arbitrary: p)
  case (Cons x xs)
  show ?case
    by (rule Cons.IH [OF Cons.prems(1) [simplified]])
       (use check_if_plain Cons.prems(2) in blast)
qed auto



definition no_operators :: cluster where
  "no_operators = quiet_cluster
     \<lparr>OperatorExists := (\<lambda>_. Inl (GoError (Sentinel errOperatorNotInstalled) ''not installed'' []))\<rparr>"

definition traces_only_spec :: MonitoringSpec where
  "traces_only_spec = bare_spec\<lparr>sp_Traces := Some \<lparr>tr_Storage = None, tr_SampleRatio = '''', tr_TLS = None,
     tr_Exporters = [(''debug'', \<lparr>Raw = '''', Object = None\<rparr>)]\<rparr>\<rparr>"


subsection \<open>Which version is reported\<close>

definition succeeded_csv :: "CSV \<Rightarrow> bool" where
  "succeeded_csv c \<longleftrightarrow> HasPrefix (csv_Name c) csv_namePrefix \<and> csv_CopiedFrom c = '''' \<and>
     csv_Phase c = Inr (Some ''Succeeded'')"

definition readable_csv :: "CSV \<Rightarrow> bool" where
  "readable_csv c \<longleftrightarrow> (\<exists>p r. csv_Phase c = Inr p \<and> csv_Replaces c = Inr r)"

definition replaces_csv :: "CSV \<Rightarrow> CSV \<Rightarrow> bool" where
  "replaces_csv d c \<longleftrightarrow> (\<exists>x. csv_Replaces d = Inr (Some x) \<and>
     csv_Namespace d @ ''/'' @ x = csv_Namespace c @ ''/'' @ csv_Name c)"

definition to_installed :: "CSV \<Rightarrow> installedCSV" where
  "to_installed c = \<lparr>ic_name = csv_Name c, ic_namespace = csv_Namespace c,
     ic_version = TrimPrefix (csv_Name c) csv_namePrefix\<rparr>"

lemma csv_loop_closed:
  "list_all readable_csv items \<Longrightarrow>
   \<exists>reps. csv_loop items inst rep = Inr (inst @ map to_installed (filter succeeded_csv items), rep @ reps) \<and>
     set reps = {csv_Namespace d @ ''/'' @ x | d x. d \<in> set (filter succeeded_csv items) \<and>
        csv_Replaces d = Inr (Some x)}"
proof (induction items arbitrary: inst rep)
  case (Cons c items)
  then have rest: "list_all readable_csv items" and "readable_csv c" by simp_all
  then obtain p r where pr: "csv_Phase c = Inr p" "csv_Replaces c = Inr r"
    by (auto simp: readable_csv_def)
  show ?case
  proof (cases "succeeded_csv c")
    case True
    let ?rep = "case r of None \<Rightarrow> rep | Some x \<Rightarrow> rep @ [csv_Namespace c @ ''/'' @ x]"
    obtain reps where reps: "csv_loop items (inst @ [to_installed c]) ?rep =
        Inr ((inst @ [to_installed c]) @ map to_installed (filter succeeded_csv items), ?rep @ reps)"
      "set reps = {csv_Namespace d @ ''/'' @ x | d x. d \<in> set (filter succeeded_csv items) \<and>
        csv_Replaces d = Inr (Some x)}"
      using Cons.IH [OF rest] by blast
    have "csv_loop (c # items) inst rep = csv_loop items (inst @ [to_installed c]) ?rep"
      using True pr by (simp add: succeeded_csv_def to_installed_def)
    then show ?thesis
      using reps True pr
      by (cases r) (auto intro!: exI [of _ "(case r of None \<Rightarrow> [] | Some x \<Rightarrow> [csv_Namespace c @ ''/'' @ x]) @ reps"])
  next
    case False
    then have "csv_loop (c # items) inst rep = csv_loop items inst rep"
      using pr by (auto simp: succeeded_csv_def)
    then show ?thesis using Cons.IH [OF rest] False by simp
  qed
qed simp

text \<open>
  C32: during an upgrade the reported version is that of the terminal CSV. When every listed CSV is
  readable and exactly one succeeded, original (not copied) COO CSV is not replaced by another
  succeeded one, that CSV's version is returned, wherever it stands in the list.
\<close>

theorem coo_version_is_terminal:
  assumes items: "ListCSVs W = Inr items" and readable: "list_all readable_csv items"
    and terminal: "filter (\<lambda>c. \<not> (\<exists>d \<in> set (filter succeeded_csv items). replaces_csv d c))
           (filter succeeded_csv items) = [c]"
  shows "cooInstalledCSVVersion W fb = Inr \<lparr>oi_Version = TrimPrefix (csv_Name c) csv_namePrefix\<rparr>"
proof -
  obtain reps where loop: "csv_loop items [] [] = Inr (map to_installed (filter succeeded_csv items), reps)"
    and reps: "set reps = {csv_Namespace d @ ''/'' @ x | d x. d \<in> set (filter succeeded_csv items) \<and>
        csv_Replaces d = Inr (Some x)}"
    using csv_loop_closed [OF readable, of "[]" "[]"] by auto
  have "csv_Namespace c @ ''/'' @ csv_Name c \<in> set reps \<longleftrightarrow>
      (\<exists>d \<in> set (filter succeeded_csv items). replaces_csv d c)" for c
    unfolding reps replaces_csv_def by (simp, metis)
  then have "current_csvs (map to_installed (filter succeeded_csv items)) reps = map to_installed [c]"
    unfolding current_csvs_def filter_map terminal [symmetric]
    by (simp add: comp_def to_installed_def)
  then show ?thesis
    using items loop by (simp add: cooInstalledCSVVersion_def to_installed_def)
qed

definition sample_csv :: "string \<Rightarrow> string option \<Rightarrow> CSV" where
  "sample_csv version replaces =
     \<lparr>csv_Name = csv_namePrefix @ version, csv_Namespace = ''ops'', csv_CopiedFrom = '''',
      csv_Phase = Inr (Some ''Succeeded''),
      csv_Replaces = Inr (map_option (\<lambda>v. csv_namePrefix @ v) replaces)\<rparr>"

theorem coo_version_is_terminal_witness:
  "cooInstalledCSVVersion
     (quiet_cluster\<lparr>ListCSVs := Inr [sample_csv ''v1.5.0'' (Some ''v1.4.2''), sample_csv ''v1.4.2'' None]\<rparr>)
     \<lparr>oi_Version = ''v1.4.2''\<rparr> = Inr \<lparr>oi_Version = ''v1.5.0''\<rparr>"
proof -
  let ?items = "[sample_csv ''v1.5.0'' (Some ''v1.4.2''), sample_csv ''v1.4.2'' None]"
  have suc: "succeeded_csv (sample_csv v r)" for v r
    by (simp add: succeeded_csv_def sample_csv_def)
  have "filter (\<lambda>c. \<not> (\<exists>d \<in> set (filter succeeded_csv ?items). replaces_csv d c))
      (filter succeeded_csv ?items) = [sample_csv ''v1.5.0'' (Some ''v1.4.2'')]"
    by (simp add: suc) (simp add: replaces_csv_def sample_csv_def)
  moreover have "list_all readable_csv ?items"
    by (simp add: readable_csv_def sample_csv_def)
  ultimately show ?thesis
    using coo_version_is_terminal [of "quiet_cluster\<lparr>ListCSVs := Inr ?items\<rparr>" ?items] by (simp add: sample_csv_def)
qed

text \<open>
  Compatibility reporting touches only its own condition, which is True only for a version of the
  supported line.
\<close>

context lawful_conditions
begin

lemma find_markCOOVersionCompatibility_other:
  "t \<noteq> ConditionCOOVersionCompatible \<Longrightarrow>
     find_cond W (markCOOVersionCompatibility W g info m) t = find_cond W m t"
  by (simp add: markCOOVersionCompatibility_def Let_def split: option.split)

lemma find_markCOOVersionCompatibility_none:
  "\<exists>c. find_cond W (markCOOVersionCompatibility W g None m) ConditionCOOVersionCompatible = Some c \<and>
     c_Reason c = ''VersionUnavailable'' \<and> c_Severity c = SeverityInfo"
  by (simp add: markCOOVersionCompatibility_def Let_def)

end

end
