(* ===== verification/Exporters.thy ===== *)
theory Exporters
  imports Helpers Go_Url "HOL-Library.Multiset"
begin

section \<open>Exporter validation (templatedata.go)\<close>

text \<open>
  User-supplied collector exporters are admitted through an allowlist: a name check, size limits,
  limits on the decoded configuration and a schema per exporter type. YAML decoding and encoding
  are the parameters \<open>YamlUnmarshal\<close> and \<open>YamlMarshal\<close>. A Go map is an association list in
  the order an iteration visits it; the verdict is proved independent of that order. The lemmas
  give the check in closed form, the meaning of the limits on every value inside a configuration,
  and what an accepted endpoint may be.
\<close>

subsection \<open>Limits and names\<close>

definition maxConfigFields :: nat where "maxConfigFields = 50"
definition maxNestingDepth :: nat where "maxNestingDepth = 10"
definition maxStringLength :: nat where "maxStringLength = 1024"
definition maxArrayLength :: nat where "maxArrayLength = 100"
definition maxExporterSize :: nat where "maxExporterSize = 10240"
definition maxTotalExporterSize :: nat where "maxTotalExporterSize = 51200"

lemmas limit_defs = maxConfigFields_def maxNestingDepth_def maxStringLength_def maxArrayLength_def
  maxExporterSize_def maxTotalExporterSize_def

text \<open>\<open>^[A-Za-z][A-Za-z0-9_]*(?:/[A-Za-z0-9][A-Za-z0-9_-]*)?$\<close>\<close>

definition componentIDRE :: re where
  "componentIDRE =
     RSeq (RCls [cls_upper, cls_lower])
       (RSeq (RStar (RCls [cls_upper, cls_lower, cls_digit, cls_underscore]))
         (ROpt (RSeq (RChr CHR 0x2F)
           (RSeq (RCls [cls_upper, cls_lower, cls_digit])
             (RStar (RCls [cls_upper, cls_lower, cls_digit, cls_underscore, cls_dash]))))))"

definition componentIDRE_text :: string where
  "componentIDRE_text = ''^[A-Za-z][A-Za-z0-9_]*(?:/[A-Za-z0-9][A-Za-z0-9_-]*)?$''"

definition sq :: "string \<Rightarrow> string" where
  "sq s = [CHR 0x27] @ s @ [CHR 0x27]"

definition rawBytesFrom :: "RawExtension \<Rightarrow> string" where
  "rawBytesFrom rawConfig =
     (if Raw rawConfig \<noteq> [] then Raw rawConfig
      else (case Object rawConfig of
          Some (Inr b) \<Rightarrow> b
        | _ \<Rightarrow> []))"

definition isReservedName :: "string \<Rightarrow> bool" where
  "isReservedName n \<longleftrightarrow> n = ''otlp/tempo'' \<or> n = ''prometheus''"

definition isLocalServiceEndpoint :: "string \<Rightarrow> bool" where
  "isLocalServiceEndpoint endpoint =
     (case url_Parse endpoint of
        None \<Rightarrow> False
      | Some u \<Rightarrow>
          (let host = ToLower (Hostname u) in
           if url_Host u = '''' then False
           else if host = '''' then False
           else if host = ''localhost'' \<or> host = ''::1'' \<or> HasPrefix host ''127.'' then True
           else if HasSuffix host ''.svc.cluster.local'' \<or> HasSuffix host ''.svc'' then True
           else \<not> Contains host ''.'' \<and> \<not> Contains host '':''))"

subsection \<open>Depth, sizes and types of a configuration\<close>

text \<open>The verb \<open>%T\<close> on a decoded value.\<close>

fun type_name :: "any \<Rightarrow> string" where
  "type_name (AStr _) = ''string''"
| "type_name (AInt _) = ''int''"
| "type_name AFloat = ''float64''"
| "type_name (ABool _) = ''bool''"
| "type_name ANil = ''<nil>''"
| "type_name (AMap _) = ''map[string]interface {}''"
| "type_name (AList _) = ''[]interface {}''"
| "type_name (AOther t) = t"

function (sequential) validateConfigDepthAndTypes :: "any \<Rightarrow> nat \<Rightarrow> string \<Rightarrow> go_error option"
  and config_fields_loop :: "(string \<times> any) list \<Rightarrow> nat \<Rightarrow> string \<Rightarrow> go_error option"
  and config_items_loop :: "any list \<Rightarrow> nat \<Rightarrow> string \<Rightarrow> go_error option" where
  "validateConfigDepthAndTypes obj depth exporterName =
     (if depth > maxNestingDepth then
        Some (errors_New (''exporter '' @ sq exporterName @ '' config nesting too deep (max '' @
          show_nat maxNestingDepth @ '' levels)''))
      else (case obj of
          AMap v \<Rightarrow>
            if length v > maxConfigFields then
              Some (errors_New (''exporter '' @ sq exporterName @
                '' config object has too many fields at depth '' @ show_nat depth))
            else config_fields_loop v depth exporterName
        | AList v \<Rightarrow>
            if length v > maxArrayLength then
              Some (errors_New (''exporter '' @ sq exporterName @ '' config array too long ('' @
                show_nat (length v) @ '' items) at depth '' @ show_nat depth))
            else config_items_loop v depth exporterName
        | AStr v \<Rightarrow>
            if length v > maxStringLength then
              Some (errors_New (''exporter '' @ sq exporterName @
                '' config string value too long at depth '' @ show_nat depth))
            else None
        | AInt _ \<Rightarrow> None
        | AFloat \<Rightarrow> None
        | ABool _ \<Rightarrow> None
        | ANil \<Rightarrow> None
        | AOther t \<Rightarrow>
            Some (errors_New (''exporter '' @ sq exporterName @ '' config contains unsupported type '' @
              t @ '' at depth '' @ show_nat depth))))"
| "config_fields_loop [] depth exporterName = None"
| "config_fields_loop ((key, value) # flds) depth exporterName =
     (if length key > maxStringLength then
        Some (errors_New (''exporter '' @ sq exporterName @ '' config key too long at depth '' @ show_nat depth))
      else (case validateConfigDepthAndTypes value (depth + 1) exporterName of
          Some err \<Rightarrow> Some err
        | None \<Rightarrow> config_fields_loop flds depth exporterName))"
| "config_items_loop [] depth exporterName = None"
| "config_items_loop (item # items) depth exporterName =
     (case validateConfigDepthAndTypes item (depth + 1) exporterName of
        Some err \<Rightarrow> Some err
      | None \<Rightarrow> config_items_loop items depth exporterName)"
  by pat_completeness auto
termination
  by (relation "measure (\<lambda>x. case x of Inl (v, _, _) \<Rightarrow> size v
        | Inr (Inl (kvs, _, _)) \<Rightarrow> size_list (size_prod (\<lambda>_. 0) size) kvs
        | Inr (Inr (xs, _, _)) \<Rightarrow> size_list size xs)")
     auto

declare validateConfigDepthAndTypes.simps [simp del]

definition validateExporterConfigSecurity :: "string \<Rightarrow> (string \<times> any) list \<Rightarrow> go_error option" where
  "validateExporterConfigSecurity name config =
     (if length config > maxConfigFields then
        Some (errors_New (''exporter '' @ sq name @ '' has too many fields ('' @ show_nat (length config) @
          ''), maximum allowed is '' @ show_nat maxConfigFields))
      else validateConfigDepthAndTypes (AMap config) 1 name)"

subsection \<open>Schemas\<close>

record FieldType =
  ft_Type :: string
  ft_Pattern :: "re option"
  ft_MinLength :: "nat option"
  ft_MaxLength :: "nat option"
  ft_AllowedValues :: "string list"

record ValidationRule =
  vr_Name :: string
  vr_Validate :: "string \<Rightarrow> any \<Rightarrow> go_error option"

record ExporterSchema =
  xs_RequiredFields :: "string list"
  xs_AllowedFields :: "string list"
  xs_FieldTypes :: "(string \<times> FieldType) list"
  xs_FieldRules :: "(string \<times> ValidationRule list) list"

definition secure_endpoint_check :: "string \<Rightarrow> any \<Rightarrow> go_error option" where
  "secure_endpoint_check field value =
     (case value of
        AStr str \<Rightarrow>
          if HasPrefix str ''http://'' \<and> \<not> isLocalServiceEndpoint str
          then Some (errors_New ''insecure HTTP endpoints not allowed for external services'') else None
      | _ \<Rightarrow> None)"

definition secureEndpointRule :: ValidationRule where
  "secureEndpointRule = \<lparr>vr_Name = ''secure_endpoint_check'', vr_Validate = secure_endpoint_check\<rparr>"

text \<open>
  \<open>^https?://[a-zA-Z0-9.-]+(:[0-9]+)?(/.*)?$\<close> and \<open>^\d+[smh]$\<close>.
\<close>

definition endpointRe :: re where
  "endpointRe =
     RSeq (RLit ''http'') (RSeq (ROpt (RChr CHR ''s'')) (RSeq (RLit ''://'')
       (RSeq (RPlus (RCls [cls_lower, cls_upper, cls_digit, cls_dot, cls_dash]))
         (RSeq (ROpt (RSeq (RChr CHR '':'') (RPlus (RCls [cls_digit]))))
           (ROpt (RSeq (RChr CHR 0x2F) (RStar RDot)))))))"

definition timeoutRe :: re where
  "timeoutRe = RSeq (RPlus (RCls [cls_digit])) (RCls [(115, 115), (109, 109), (104, 104)])"

definition plain_type :: "string \<Rightarrow> FieldType" where
  "plain_type t =
     \<lparr>ft_Type = t, ft_Pattern = None, ft_MinLength = None, ft_MaxLength = None, ft_AllowedValues = []\<rparr>"

definition endpoint_type :: FieldType where
  "endpoint_type = (plain_type ''string'')
     \<lparr>ft_Pattern := Some endpointRe, ft_MinLength := Some 1, ft_MaxLength := Some 2048\<rparr>"

definition timeout_type :: FieldType where
  "timeout_type = (plain_type ''string'')\<lparr>ft_Pattern := Some timeoutRe, ft_MaxLength := Some 10\<rparr>"

definition choice_type :: "string list \<Rightarrow> FieldType" where
  "choice_type vs = (plain_type ''string'')\<lparr>ft_AllowedValues := vs\<rparr>"

definition metricsExporterSchemas :: "(string \<times> ExporterSchema) list" where
  "metricsExporterSchemas =
     [(''otlp'',
       \<lparr>xs_RequiredFields = [''endpoint''],
        xs_AllowedFields = [''endpoint'', ''headers'', ''tls'', ''compression'', ''timeout'',
          ''retry_on_failure'', ''sending_queue'', ''balancer_name''],
        xs_FieldTypes = [(''endpoint'', endpoint_type), (''headers'', plain_type ''map[string]string''),
          (''tls'', plain_type ''object''),
          (''compression'', choice_type [''gzip'', ''snappy'', ''zstd'', ''none'']),
          (''timeout'', timeout_type)],
        xs_FieldRules = [(''endpoint'', [secureEndpointRule])]\<rparr>),
      (''otlphttp'',
       \<lparr>xs_RequiredFields = [''endpoint''],
        xs_AllowedFields = [''endpoint'', ''headers'', ''tls'', ''compression'', ''timeout'',
          ''retry_on_failure'', ''sending_queue''],
        xs_FieldTypes = [(''endpoint'', endpoint_type), (''headers'', plain_type ''map[string]string''),
          (''compression'', choice_type [''gzip'', ''none'']), (''timeout'', timeout_type)],
        xs_FieldRules = [(''endpoint'', [secureEndpointRule])]\<rparr>),
      (''debug'',
       \<lparr>xs_RequiredFields = [],
        xs_AllowedFields = [''verbosity'', ''sampling_initial'', ''sampling_thereafter''],
        xs_FieldTypes = [(''verbosity'', choice_type [''basic'', ''normal'', ''detailed'']),
          (''sampling_initial'', plain_type ''int''), (''sampling_thereafter'', plain_type ''int'')],
        xs_FieldRules = []\<rparr>),
      (''prometheusremotewrite'',
       \<lparr>xs_RequiredFields = [''endpoint''],
        xs_AllowedFields = [''endpoint'', ''headers'', ''tls'', ''remote_timeout'', ''retry_on_failure'',
          ''sending_queue'', ''write_relabel_configs'', ''resource_to_telemetry_conversion''],
        xs_FieldTypes = [(''endpoint'', endpoint_type), (''headers'', plain_type ''map[string]string''),
          (''tls'', plain_type ''object''), (''remote_timeout'', timeout_type)],
        xs_FieldRules = [(''endpoint'', [secureEndpointRule])]\<rparr>)]"

fun map_values_loop :: "(string \<times> any) list \<Rightarrow> go_error option" where
  "map_values_loop [] = None"
| "map_values_loop ((k, v) # m) =
     (case v of AStr _ \<Rightarrow> map_values_loop m
      | _ \<Rightarrow> Some (errors_New (''map value must be string, got '' @ type_name v)))"

definition validateFieldTypeStrict :: "any \<Rightarrow> string \<Rightarrow> go_error option" where
  "validateFieldTypeStrict value expectedType =
     (let expected = (\<lambda>t. Some (errors_New (''expected '' @ t @ '', got '' @ type_name value))) in
      if expectedType = ''string'' then (case value of AStr _ \<Rightarrow> None | _ \<Rightarrow> expected ''string'')
      else if expectedType = ''int'' then (case value of AInt _ \<Rightarrow> None | AFloat \<Rightarrow> None | _ \<Rightarrow> expected ''int'')
      else if expectedType = ''bool'' then (case value of ABool _ \<Rightarrow> None | _ \<Rightarrow> expected ''bool'')
      else if expectedType = ''object'' then (case value of AMap _ \<Rightarrow> None | _ \<Rightarrow> expected ''object'')
      else if expectedType = ''array'' then (case value of AList _ \<Rightarrow> None | _ \<Rightarrow> expected ''array'')
      else if expectedType = ''map[string]string'' then
        (case value of AMap m \<Rightarrow> map_values_loop m | _ \<Rightarrow> expected ''map[string]string'')
      else Some (errors_New (''unsupported field type: '' @ expectedType)))"

text \<open>The verb \<open>%v\<close> on a slice of strings.\<close>

definition show_strings :: "string list \<Rightarrow> string" where
  "show_strings xs = ''['' @ Join xs '' '' @ '']''"

definition validateFieldTypeAndConstraints ::
  "string \<Rightarrow> string \<Rightarrow> any \<Rightarrow> FieldType \<Rightarrow> go_error option" where
  "validateFieldTypeAndConstraints exporterName field value fieldType =
     (let pre = ''exporter '' @ sq exporterName @ '' field '' @ sq field @ '': '' in
      case validateFieldTypeStrict value (ft_Type fieldType) of
        Some err \<Rightarrow> Some (wrapf pre err)
      | None \<Rightarrow>
          (case value of
             AStr str \<Rightarrow>
               if ft_Type fieldType \<noteq> ''string'' then None
               else if (case ft_MinLength fieldType of None \<Rightarrow> False | Some n \<Rightarrow> length str < n) then
                 Some (errors_New (pre @ ''minimum length '' @ show_nat (the (ft_MinLength fieldType)) @
                   '', got '' @ show_nat (length str)))
               else if (case ft_MaxLength fieldType of None \<Rightarrow> False | Some n \<Rightarrow> length str > n) then
                 Some (errors_New (pre @ ''maximum length '' @ show_nat (the (ft_MaxLength fieldType)) @
                   '', got '' @ show_nat (length str)))
               else if (case ft_Pattern fieldType of None \<Rightarrow> False | Some r \<Rightarrow> \<not> re_matches r str) then
                 Some (errors_New (pre @ ''does not match required pattern''))
               else if ft_AllowedValues fieldType \<noteq> [] \<and> str \<notin> set (ft_AllowedValues fieldType) then
                 Some (errors_New (pre @ ''must be one of '' @ show_strings (ft_AllowedValues fieldType) @
                   '', got '' @ sq str))
               else None
           | _ \<Rightarrow> None))"

fun required_loop :: "string \<Rightarrow> string list \<Rightarrow> (string \<times> any) list \<Rightarrow> go_error option" where
  "required_loop exporterName [] config = None"
| "required_loop exporterName (required # rs) config =
     (if map_of config required = None then
        Some (errors_New (''exporter '' @ sq exporterName @ '' missing required field: '' @ required))
      else required_loop exporterName rs config)"

fun allowed_loop :: "string \<Rightarrow> string list \<Rightarrow> (string \<times> any) list \<Rightarrow> go_error option" where
  "allowed_loop exporterName allowed [] = None"
| "allowed_loop exporterName allowed ((field, value) # flds) =
     (if field \<notin> set allowed then
        Some (errors_New (''exporter '' @ sq exporterName @ '' contains disallowed field: '' @ field @
          '' (allowed: '' @ show_strings allowed @ '')''))
      else allowed_loop exporterName allowed flds)"

fun rules_loop :: "string \<Rightarrow> string \<Rightarrow> any \<Rightarrow> ValidationRule list \<Rightarrow> go_error option" where
  "rules_loop exporterName field value [] = None"
| "rules_loop exporterName field value (rule # rules) =
     (case vr_Validate rule field value of
        Some err \<Rightarrow> Some (wrapf (''exporter '' @ sq exporterName @ '' field '' @ sq field @
          '' failed rule '' @ sq (vr_Name rule) @ '': '') err)
      | None \<Rightarrow> rules_loop exporterName field value rules)"

fun fields_loop :: "ExporterSchema \<Rightarrow> string \<Rightarrow> (string \<times> any) list \<Rightarrow> go_error option" where
  "fields_loop s exporterName [] = None"
| "fields_loop s exporterName ((field, value) # flds) =
     (case (case map_of (xs_FieldTypes s) field of
              None \<Rightarrow> None
            | Some fieldType \<Rightarrow> validateFieldTypeAndConstraints exporterName field value fieldType) of
        Some err \<Rightarrow> Some err
      | None \<Rightarrow>
          (case (case map_of (xs_FieldRules s) field of
                   None \<Rightarrow> None | Some rules \<Rightarrow> rules_loop exporterName field value rules) of
             Some err \<Rightarrow> Some err
           | None \<Rightarrow> fields_loop s exporterName flds))"

definition schema_Validate :: "ExporterSchema \<Rightarrow> string \<Rightarrow> (string \<times> any) list \<Rightarrow> go_error option" where
  "schema_Validate s exporterName config =
     (case required_loop exporterName (xs_RequiredFields s) config of
        Some err \<Rightarrow> Some err
      | None \<Rightarrow>
          (case allowed_loop exporterName (xs_AllowedFields s) config of
             Some err \<Rightarrow> Some err
           | None \<Rightarrow> fields_loop s exporterName config))"

definition getExporterType :: "string \<Rightarrow> string" where
  "getExporterType exporterName =
     (case Cut exporterName CHR 0x2F of Some (before, _) \<Rightarrow> before | None \<Rightarrow> exporterName)"

definition validateExporterSchema :: "string \<Rightarrow> (string \<times> any) list \<Rightarrow> go_error option" where
  "validateExporterSchema exporterName config =
     (case map_of metricsExporterSchemas (getExporterType exporterName) of
        None \<Rightarrow> None
      | Some s \<Rightarrow> schema_Validate s exporterName config)"

subsection \<open>The whole check\<close>

fun exporters_loop ::
  "'w cluster_scheme \<Rightarrow> (string \<times> RawExtension) list \<Rightarrow> smap \<Rightarrow> nat \<Rightarrow> smap result" where
  "exporters_loop W [] validatedExporters totalSize = Inr validatedExporters"
| "exporters_loop W ((name, rawConfig) # exporters) validatedExporters totalSize =
     (if isReservedName name then
        Inl (errors_New (''exporter name '' @ sq name @ '' is reserved and cannot be used''))
      else if \<not> re_matches componentIDRE name then
        Inl (errors_New (''invalid exporter name '' @ sq name @
          '': must match OpenTelemetry component ID format '' @ quoted componentIDRE_text))
      else
       (let raw = rawBytesFrom rawConfig in
        if raw = [] then exporters_loop W exporters validatedExporters totalSize
        else if length raw > maxExporterSize then
          Inl (errors_New (''exporter '' @ sq name @ '' config exceeds maximum size of '' @
            show_nat maxExporterSize @ '' bytes (actual: '' @ show_nat (length raw) @ '' bytes)''))
        else if totalSize + length raw > maxTotalExporterSize then
          Inl (errors_New (''total exporter config size exceeds maximum of '' @ show_nat maxTotalExporterSize @
            '' bytes (actual: '' @ show_nat (totalSize + length raw) @ '' bytes)''))
        else (case YamlUnmarshal W raw of
            Inl err \<Rightarrow> Inl (wrapf (''failed to unmarshal exporter config for '' @ sq name @ '': '') err)
          | Inr decoded \<Rightarrow>
              (let config = (case decoded of None \<Rightarrow> [] | Some c \<Rightarrow> c) in
               case validateExporterConfigSecurity name config of
                 Some err \<Rightarrow> Inl err
               | None \<Rightarrow>
                   (case validateExporterSchema name config of
                      Some err \<Rightarrow> Inl err
                    | None \<Rightarrow>
                        (case YamlMarshal W config of
                           Inl err \<Rightarrow> Inl (wrapf (''failed to marshal exporter config for '' @ sq name @ '': '') err)
                         | Inr configYAML \<Rightarrow>
                             exporters_loop W exporters (validatedExporters @ [(name, TrimSpace configYAML)])
                               (totalSize + length raw)))))))"

definition validateExporters ::
  "'w cluster_scheme \<Rightarrow> (string \<times> RawExtension) list \<Rightarrow> smap result" where
  "validateExporters W exporters = exporters_loop W exporters [] 0"


subsection \<open>What the limits mean\<close>

text \<open>
  \<open>inside obj d v e\<close>: the value \<open>v\<close> occurs in \<open>obj\<close> and sits at nesting depth \<open>e\<close> when \<open>obj\<close>
  itself sits at depth \<open>d\<close>.
\<close>

inductive inside :: "any \<Rightarrow> nat \<Rightarrow> any \<Rightarrow> nat \<Rightarrow> bool" where
  here: "inside v d v d"
| field: "(k, v) \<in> set kvs \<Longrightarrow> inside v (Suc d) w e \<Longrightarrow> inside (AMap kvs) d w e"
| item: "v \<in> set xs \<Longrightarrow> inside v (Suc d) w e \<Longrightarrow> inside (AList xs) d w e"

inductive_simps inside_simps [simp]:
  "inside (AStr s) d w e" "inside (AInt i) d w e" "inside AFloat d w e" "inside (ABool b) d w e"
  "inside ANil d w e" "inside (AOther t) d w e" "inside (AMap kvs) d w e" "inside (AList xs) d w e"

text \<open>The bounds on one value, leaving out what is inside it.\<close>

fun value_ok :: "any \<Rightarrow> bool" where
  "value_ok (AStr s) \<longleftrightarrow> length s \<le> maxStringLength"
| "value_ok (AMap kvs) \<longleftrightarrow> length kvs \<le> maxConfigFields \<and> list_all (\<lambda>kv. length (fst kv) \<le> maxStringLength) kvs"
| "value_ok (AList xs) \<longleftrightarrow> length xs \<le> maxArrayLength"
| "value_ok (AOther t) \<longleftrightarrow> False"
| "value_ok _ \<longleftrightarrow> True"

lemma config_fields_loop_None:
  "config_fields_loop kvs d n = None \<longleftrightarrow>
     list_all (\<lambda>kv. length (fst kv) \<le> maxStringLength \<and> validateConfigDepthAndTypes (snd kv) (Suc d) n = None) kvs"
  by (induction kvs) (auto split: option.splits if_splits)

lemma config_items_loop_None:
  "config_items_loop xs d n = None \<longleftrightarrow> list_all (\<lambda>v. validateConfigDepthAndTypes v (Suc d) n = None) xs"
  by (induction xs) (auto split: option.splits)

lemma inside_all_map:
  "(\<forall>w e. inside (AMap kvs) d w e \<longrightarrow> P w e) \<longleftrightarrow>
     P (AMap kvs) d \<and> (\<forall>kv \<in> set kvs. \<forall>w e. inside (snd kv) (Suc d) w e \<longrightarrow> P w e)"
  by (auto simp: Ball_def)

lemma inside_all_list:
  "(\<forall>w e. inside (AList xs) d w e \<longrightarrow> P w e) \<longleftrightarrow>
     P (AList xs) d \<and> (\<forall>v \<in> set xs. \<forall>w e. inside v (Suc d) w e \<longrightarrow> P w e)"
  by auto

lemma config_check_iff:
  "validateConfigDepthAndTypes obj d n = None \<longleftrightarrow>
     (\<forall>v e. inside obj d v e \<longrightarrow> e \<le> maxNestingDepth \<and> value_ok v)"
proof (induction obj arbitrary: d)
  case (AMap kvs)
  have IH: "validateConfigDepthAndTypes (snd kv) (Suc d) n = None \<longleftrightarrow>
      (\<forall>w e. inside (snd kv) (Suc d) w e \<longrightarrow> e \<le> maxNestingDepth \<and> value_ok w)" if "kv \<in> set kvs" for kv
    using AMap.IH [OF that, of "snd kv"] by (simp add: snds.simps)
  show ?case
    unfolding inside_all_map
    by (auto simp: validateConfigDepthAndTypes.simps [of "AMap kvs"] config_fields_loop_None list_all_iff IH
        simp del: inside_simps)
next
  case (AList xs)
  show ?case
    unfolding inside_all_list
    by (auto simp: validateConfigDepthAndTypes.simps [of "AList xs"] config_items_loop_None list_all_iff AList.IH
        simp del: inside_simps)
qed (auto simp: validateConfigDepthAndTypes.simps)


text \<open>
  C26: the limits hold for every value inside an accepted configuration, however deeply nested:
  the security check accepts a configuration exactly when every value in it sits at depth ten or
  less, strings and keys have at most 1024 bytes, objects at most 50 fields, arrays at most 100
  items, and no value has a type outside the allowed ones.
\<close>

theorem config_security_exact:
  "validateExporterConfigSecurity name config = None \<longleftrightarrow>
     (\<forall>v e. inside (AMap config) 1 v e \<longrightarrow> e \<le> maxNestingDepth \<and> value_ok v)"
proof -
  have "validateConfigDepthAndTypes (AMap config) 1 name = None \<Longrightarrow> length config \<le> maxConfigFields"
    by (rule ccontr) (simp add: validateConfigDepthAndTypes.simps split: if_splits)
  then show ?thesis
    unfolding config_check_iff [of "AMap config" 1 name, symmetric] validateExporterConfigSecurity_def
    by (cases "length config > maxConfigFields") auto
qed

theorem config_security_exact_witness:
  "validateExporterConfigSecurity ''otlp'' [(''headers'', AMap [(''x'', AStr ''y'')])] = None"
  using config_security_exact [of "''otlp''" "[(''headers'', AMap [(''x'', AStr ''y'')])]"]
  by (simp add: limit_defs imp_conjL)

subsection \<open>The check in closed form\<close>

text \<open>
  What the loop makes of one exporter on its own: rejected, skipped (no configuration), or
  rendered under its name.
\<close>

definition exporter_entry :: "'w cluster_scheme \<Rightarrow> string \<times> RawExtension \<Rightarrow> smap option" where
  "exporter_entry W p =
     (let name = fst p; raw = rawBytesFrom (snd p) in
      if isReservedName name \<or> \<not> re_matches componentIDRE name then None
      else if raw = [] then Some []
      else if length raw > maxExporterSize then None
      else (case YamlUnmarshal W raw of
          Inl _ \<Rightarrow> None
        | Inr decoded \<Rightarrow>
            (let config = (case decoded of None \<Rightarrow> [] | Some c \<Rightarrow> c) in
             if validateExporterConfigSecurity name config \<noteq> None \<or> validateExporterSchema name config \<noteq> None
             then None
             else (case YamlMarshal W config of Inl _ \<Rightarrow> None | Inr y \<Rightarrow> Some [(name, TrimSpace y)]))))"

definition raw_size :: "string \<times> RawExtension \<Rightarrow> nat" where
  "raw_size p = length (rawBytesFrom (snd p))"

lemma exporters_loop_step:
  "exporters_loop W (p # ps) acc tot = Inr r \<longleftrightarrow>
     (\<exists>x. exporter_entry W p = Some x \<and> (x = [] \<or> tot + raw_size p \<le> maxTotalExporterSize) \<and>
        exporters_loop W ps (acc @ x) (tot + raw_size p) = Inr r)"
  by (cases p)
     (auto simp: exporter_entry_def raw_size_def Let_def split: sum.splits option.splits if_splits)

lemma entry_empty: "exporter_entry W p = Some [] \<Longrightarrow> raw_size p = 0"
  by (auto simp: exporter_entry_def raw_size_def Let_def split: sum.splits option.splits if_splits)

lemma exporters_loop_closed:
  "tot \<le> maxTotalExporterSize \<Longrightarrow>
   exporters_loop W ps acc tot = Inr r \<longleftrightarrow>
     list_all (\<lambda>p. exporter_entry W p \<noteq> None) ps \<and>
     tot + sum_list (map raw_size ps) \<le> maxTotalExporterSize \<and>
     r = acc @ concat (map (the \<circ> exporter_entry W) ps)"
proof (induction ps arbitrary: acc tot)
  case (Cons p ps)
  show ?case
  proof (cases "exporter_entry W p")
    case None
    then show ?thesis unfolding exporters_loop_step by simp
  next
    case (Some x)
    show ?thesis
    proof (cases "tot + raw_size p \<le> maxTotalExporterSize")
      case True
      then show ?thesis
        unfolding exporters_loop_step using Some Cons.IH [OF True, of "acc @ x"] by (auto simp: add.assoc)
    next
      case False
      with Cons.prems have "x \<noteq> []" using Some entry_empty [of W p] by auto
      with False Some show ?thesis unfolding exporters_loop_step by simp
    qed
  qed
qed auto

lemma validateExporters_closed:
  "validateExporters W ps = Inr r \<longleftrightarrow>
     list_all (\<lambda>p. exporter_entry W p \<noteq> None) ps \<and> sum_list (map raw_size ps) \<le> maxTotalExporterSize \<and>
     r = concat (map (the \<circ> exporter_entry W) ps)"
  unfolding validateExporters_def by (subst exporters_loop_closed) auto

lemma sum_list_map_perm:
  "mset ps = mset qs \<Longrightarrow> sum_list (map h ps) = (sum_list (map h qs) :: 'b :: comm_monoid_add)"
  by (metis mset_map sum_mset_sum_list)

text \<open>
  C28: Go visits the exporter map in an unspecified order, and the verdict does not depend on it:
  two orders of the same exporters are both accepted, with the same rendered entries, or both
  rejected.
\<close>

theorem exporter_verdict_order_independent:
  assumes "mset ps = mset qs"
  shows "(\<exists>r. validateExporters W ps = Inr r \<and> (\<exists>r'. validateExporters W qs = Inr r' \<and> mset r' = mset r)) \<or>
         (\<exists>e e'. validateExporters W ps = Inl e \<and> validateExporters W qs = Inl e')"
proof -
  have sz: "sum_list (map raw_size ps) = sum_list (map raw_size qs)"
    by (rule sum_list_map_perm [OF assms])
  have ok: "list_all (\<lambda>p. exporter_entry W p \<noteq> None) ps \<longleftrightarrow> list_all (\<lambda>p. exporter_entry W p \<noteq> None) qs"
    using assms by (metis list_all_iff set_mset_mset)
  have same: "mset (concat (map f ps)) = mset (concat (map f qs))" for f :: "string \<times> RawExtension \<Rightarrow> smap"
    unfolding mset_concat map_map by (rule sum_list_map_perm [OF assms])
  show ?thesis
  proof (cases "validateExporters W ps")
    case (Inr r)
    then show ?thesis
      using sz ok same [of "the \<circ> exporter_entry W"]
      validateExporters_closed [of W qs "concat (map (the \<circ> exporter_entry W) qs)"]
    unfolding validateExporters_closed [of W ps] by simp
  next
    case (Inl e)
    then have "\<not> (list_all (\<lambda>p. exporter_entry W p \<noteq> None) ps \<and>
        sum_list (map raw_size ps) \<le> maxTotalExporterSize)"
      using validateExporters_closed [of W ps "concat (map (the \<circ> exporter_entry W) ps)"] by auto
    then have "\<nexists>r. validateExporters W qs = Inr r"
      using sz ok unfolding validateExporters_closed by simp
    with Inl show ?thesis by (cases "validateExporters W qs") auto
  qed
qed


definition yaml_cluster :: cluster where
  "yaml_cluster = quiet_cluster
     \<lparr>YamlUnmarshal := (\<lambda>_. Inr (Some [(''verbosity'', AStr ''basic'')])),
      YamlMarshal := (\<lambda>_. Inr ''verbosity: basic'')\<rparr>"

theorem exporter_verdict_order_independent_witness:
  "(\<exists>r. validateExporters yaml_cluster [(''debug'', \<lparr>Raw = ''x'', Object = None\<rparr>), (''bad name'', \<lparr>Raw = ''y'', Object = None\<rparr>)] = Inr r \<and>
      (\<exists>r'. validateExporters yaml_cluster [(''bad name'', \<lparr>Raw = ''y'', Object = None\<rparr>), (''debug'', \<lparr>Raw = ''x'', Object = None\<rparr>)] = Inr r' \<and>
        mset r' = mset r)) \<or>
   (\<exists>e e'. validateExporters yaml_cluster [(''debug'', \<lparr>Raw = ''x'', Object = None\<rparr>), (''bad name'', \<lparr>Raw = ''y'', Object = None\<rparr>)] = Inl e \<and>
      validateExporters yaml_cluster [(''bad name'', \<lparr>Raw = ''y'', Object = None\<rparr>), (''debug'', \<lparr>Raw = ''x'', Object = None\<rparr>)] = Inl e')"
  by (rule exporter_verdict_order_independent) simp

subsection \<open>What an accepted configuration guarantees\<close>

lemma required_loop_None:
  "required_loop n rs config = None \<longleftrightarrow> list_all (\<lambda>r. map_of config r \<noteq> None) rs"
  by (induction rs) auto

lemma allowed_loop_None: "allowed_loop n allowed config = None \<longleftrightarrow> fst ` set config \<subseteq> set allowed"
  by (induction config) (auto split: if_splits)

lemma fields_loop_None:
  "fields_loop s n config = None \<longleftrightarrow>
     (\<forall>(field, value) \<in> set config.
        (\<forall>ft. map_of (xs_FieldTypes s) field = Some ft \<longrightarrow> validateFieldTypeAndConstraints n field value ft = None) \<and>
        (\<forall>rs. map_of (xs_FieldRules s) field = Some rs \<longrightarrow> rules_loop n field value rs = None))"
  by (induction config) (auto split: option.splits)

lemma endpoint_constraints:
  "validateFieldTypeAndConstraints n f v endpoint_type = None \<longleftrightarrow>
     (\<exists>s. v = AStr s \<and> 1 \<le> length s \<and> length s \<le> 2048 \<and> re_matches endpointRe s)"
  by (cases v) (auto simp: validateFieldTypeAndConstraints_def validateFieldTypeStrict_def endpoint_type_def
      plain_type_def Let_def Suc_le_eq split: if_splits)

lemma secure_rule_None:
  "rules_loop n f (AStr s) [secureEndpointRule] = None \<longleftrightarrow>
     \<not> (HasPrefix s ''http://'' \<and> \<not> isLocalServiceEndpoint s)"
  by (simp add: secureEndpointRule_def secure_endpoint_check_def)

definition remote_types :: "string list" where
  "remote_types = [''otlp'', ''otlphttp'', ''prometheusremotewrite'']"

lemma remote_schema:
  assumes "t \<in> set remote_types"
  obtains s where "map_of metricsExporterSchemas t = Some s" "xs_RequiredFields s = [''endpoint'']"
    "map_of (xs_FieldTypes s) ''endpoint'' = Some endpoint_type"
    "map_of (xs_FieldRules s) ''endpoint'' = Some [secureEndpointRule]"
  using assms by (auto simp: remote_types_def metricsExporterSchemas_def)

text \<open>
  C27: an accepted configuration of a remote exporter type (otlp, otlphttp, prometheusremotewrite)
  has an endpoint; it is a string of 1 to 2048 bytes of the URL pattern, and if it is plain HTTP
  it names a host the operator takes for cluster-local. No field outside the type's allowlist is
  present, so in particular no authentication extension can be named.
\<close>

theorem accepted_endpoint_guarded:
  assumes accepted: "validateExporterSchema name config = None"
    and remote: "getExporterType name \<in> set remote_types"
  shows "(\<exists>s. map_of config ''endpoint'' = Some (AStr s) \<and> 1 \<le> length s \<and> length s \<le> 2048 \<and>
            re_matches endpointRe s \<and> \<not> (HasPrefix s ''http://'' \<and> \<not> isLocalServiceEndpoint s)) \<and>
         ''auth'' \<notin> fst ` set config"
proof -
  obtain sch where sch: "map_of metricsExporterSchemas (getExporterType name) = Some sch"
    "xs_RequiredFields sch = [''endpoint'']" "map_of (xs_FieldTypes sch) ''endpoint'' = Some endpoint_type"
    "map_of (xs_FieldRules sch) ''endpoint'' = Some [secureEndpointRule]"
    using remote_schema [OF remote] by blast
  have loops: "required_loop name [''endpoint''] config = None"
      "allowed_loop name (xs_AllowedFields sch) config = None" "fields_loop sch name config = None"
    using accepted sch
    by (auto simp: validateExporterSchema_def schema_Validate_def split: option.splits if_splits)
  obtain v where v: "map_of config ''endpoint'' = Some v"
    using loops(1) unfolding required_loop_None by auto
  then have "(''endpoint'', v) \<in> set config" by (rule map_of_SomeD)
  then have "validateFieldTypeAndConstraints name ''endpoint'' v endpoint_type = None"
    and rules: "rules_loop name ''endpoint'' v [secureEndpointRule] = None"
    using loops(3) sch by (auto simp: fields_loop_None)
  then obtain s where s: "v = AStr s" "1 \<le> length s" "length s \<le> 2048" "re_matches endpointRe s"
    by (auto simp: endpoint_constraints)
  moreover have "\<not> (HasPrefix s ''http://'' \<and> \<not> isLocalServiceEndpoint s)"
    using rules unfolding s(1) secure_rule_None .
  moreover have "''auth'' \<notin> set (xs_AllowedFields sch)"
    using sch(1) remote by (auto simp: metricsExporterSchemas_def remote_types_def)
  ultimately show ?thesis
    using v loops(2) by (auto simp: allowed_loop_None)
qed

theorem accepted_endpoint_guarded_witness:
  "validateExporterSchema ''otlphttp/hub'' [(''endpoint'', AStr ''https://hub.example:443/otlp'')] = None \<and>
   ''auth'' \<notin> fst ` set [(''endpoint'', AStr ''https://hub.example:443/otlp'')]"
proof -
  have ok: "validateExporterSchema ''otlphttp/hub'' [(''endpoint'', AStr ''https://hub.example:443/otlp'')] = None"
    by code_simp
  moreover have "getExporterType ''otlphttp/hub'' \<in> set remote_types"
    by code_simp
  ultimately show ?thesis
    using accepted_endpoint_guarded [OF ok] by blast
qed

text \<open>
  The locality test looks at the text of the host, not at an address: any host name that
  begins with \<open>127.\<close> is taken for the loopback interface, so a plain HTTP exporter to such an
  external host passes the schema.
\<close>

theorem loopback_prefix_accepts_external_host:
  "isLocalServiceEndpoint ''http://127.evil.example/v1'' \<and>
   validateExporterSchema ''otlp'' [(''endpoint'', AStr ''http://127.evil.example/v1'')] = None"
  by code_simp

end
