(* ===== verification/Proxy_Tls.thy ===== *)
theory Proxy_Tls
  imports Helpers Go_Url
begin

section \<open>TLS settings of the proxies (proxy_tls.go)\<close>

text \<open>
  The monitoring proxies follow the cluster's APIServer TLS profile. Reading the profile and the
  FIPS status are parameters of the cluster; the validation of the minimum version and the cipher
  suites and the filter on curve preferences are the repository's. The lemmas give the filter in
  closed form: the usable curves in their order of preference, each once.
\<close>

definition proxyTLSVersion12 :: string where "proxyTLSVersion12 = ''VersionTLS12''"
definition proxyTLSVersion13 :: string where "proxyTLSVersion13 = ''VersionTLS13''"
definition proxyHTTP2CipherRSA :: string where
  "proxyHTTP2CipherRSA = ''TLS_ECDHE_RSA_WITH_AES_128_GCM_SHA256''"
definition proxyHTTP2CipherECDSA :: string where
  "proxyHTTP2CipherECDSA = ''TLS_ECDHE_ECDSA_WITH_AES_128_GCM_SHA256''"
definition curveIDSecP256r1 :: int where "curveIDSecP256r1 = 23"
definition curveIDSecP384r1 :: int where "curveIDSecP384r1 = 24"
definition curveIDSecP521r1 :: int where "curveIDSecP521r1 = 25"
definition curveIDX25519 :: int where "curveIDX25519 = 29"
definition curveIDX25519MLKEM768 :: int where "curveIDX25519MLKEM768 = 4588"

lemmas curve_ids = curveIDSecP256r1_def curveIDSecP384r1_def curveIDSecP521r1_def curveIDX25519_def
  curveIDX25519MLKEM768_def

definition proxyCurveIDs :: "int list" where
  "proxyCurveIDs =
     [curveIDSecP256r1, curveIDSecP384r1, curveIDSecP521r1, curveIDX25519, curveIDX25519MLKEM768]"

definition fipsApprovedProxyCurveIDs :: "int list" where
  "fipsApprovedProxyCurveIDs = [curveIDSecP256r1, curveIDSecP384r1, curveIDSecP521r1]"

definition proxy_tls_resolution_failed :: go_error where
  "proxy_tls_resolution_failed = GoError (Sentinel errProxyTLSResolutionFailed)
     ''failed to resolve APIServer TLS profile for monitoring proxies'' []"

definition invalid_proxy_tls_profile :: go_error where
  "invalid_proxy_tls_profile = GoError (Sentinel errInvalidProxyTLSProfile)
     ''invalid APIServer TLS profile for monitoring proxies'' []"

text \<open>
  \<open>strconv.Atoi\<close> on a 64-bit platform: an optional sign and decimal digits, with a range error
  outside the type; the error's text is the library's.
\<close>

definition Atoi :: "string \<Rightarrow> int result" where
  "Atoi s =
     (let ds = (if s \<noteq> [] \<and> (hd s = CHR ''-'' \<or> hd s = CHR ''+'') then tl s else s);
          v = int (digits_value ds);
          n = (if s \<noteq> [] \<and> hd s = CHR ''-'' then - v else v) in
      if ds = [] \<or> \<not> list_all is_digit ds then
        Inl (errors_New (''strconv.Atoi: parsing '' @ quoted s @ '': invalid syntax''))
      else if n < - (2 ^ 63) \<or> n \<ge> 2 ^ 63 then
        Inl (errors_New (''strconv.Atoi: parsing '' @ quoted s @ '': value out of range''))
      else Inr n)"

definition validateProxyHTTP2CipherSuites :: "string \<Rightarrow> string \<Rightarrow> go_error option" where
  "validateProxyHTTP2CipherSuites minVersion cipherSuites =
     (if minVersion = proxyTLSVersion13 \<or> cipherSuites = '''' then None
      else if list_ex (\<lambda>c. c = proxyHTTP2CipherRSA \<or> c = proxyHTTP2CipherECDSA) (split_on CHR '','' cipherSuites)
      then None
      else Some (wrap2 (Error invalid_proxy_tls_profile @
          '': monitoring proxies cannot serve HTTP/2 with TLS cipher suites '' @ quoted cipherSuites)
        [invalid_proxy_tls_profile]))"

fun curve_loop :: "bool \<Rightarrow> string list \<Rightarrow> string list \<Rightarrow> int list \<Rightarrow> string list result" where
  "curve_loop fipsEnabled [] usable seen = Inr usable"
| "curve_loop fipsEnabled (rawCurveID # raws) usable seen =
     (case Atoi rawCurveID of
        Inl err \<Rightarrow> Inl (wrapf (''invalid numeric TLS curve preference '' @ quoted rawCurveID @ '': '') err)
      | Inr curveID \<Rightarrow>
          if curveID \<notin> set proxyCurveIDs then curve_loop fipsEnabled raws usable seen
          else if fipsEnabled \<and> curveID \<notin> set fipsApprovedProxyCurveIDs then
            curve_loop fipsEnabled raws usable seen
          else if curveID \<in> set seen then curve_loop fipsEnabled raws usable seen
          else curve_loop fipsEnabled raws (usable @ [rawCurveID]) (curveID # seen))"

definition filterProxyCurvePreferences :: "string \<Rightarrow> bool \<Rightarrow> string result" where
  "filterProxyCurvePreferences curvePreferences fipsEnabled =
     (if curvePreferences = '''' then Inr ''''
      else (case curve_loop fipsEnabled (split_on CHR '','' curvePreferences) [] [] of
          Inl err \<Rightarrow> Inl err
        | Inr usable \<Rightarrow>
            if usable = [] then
              Inl (errors_New (''TLS profile groups contain no usable proxy curve preferences: '' @
                quoted curvePreferences))
            else Inr (Join usable '','')))"

definition addTLSData :: "'w cluster_scheme \<Rightarrow> tdata \<Rightarrow> tdata result" where
  "addTLSData W data =
     (case TLSFromAPIServer W of
        Inl err \<Rightarrow>
          Inl (wrap2 (Error proxy_tls_resolution_failed @ '': '' @ Error err) [proxy_tls_resolution_failed, err])
      | Inr (minVersion, cipherSuites0, curvePreferences0) \<Rightarrow>
          if minVersion \<noteq> proxyTLSVersion12 \<and> minVersion \<noteq> proxyTLSVersion13 then
            Inl (wrap2 (Error invalid_proxy_tls_profile @ '': unsupported minimum TLS version '' @
                quoted minVersion) [invalid_proxy_tls_profile])
          else
           (let cipherSuites = (if minVersion = proxyTLSVersion13 then '''' else cipherSuites0) in
            case validateProxyHTTP2CipherSuites minVersion cipherSuites of
              Some err \<Rightarrow> Inl err
            | None \<Rightarrow>
                (case IsFipsEnabled W of
                   Inl err \<Rightarrow>
                     Inl (wrap2 (Error proxy_tls_resolution_failed @ '': determining cluster FIPS status: '' @
                       Error err) [proxy_tls_resolution_failed, err])
                 | Inr fipsEnabled \<Rightarrow>
                     (case filterProxyCurvePreferences curvePreferences0 fipsEnabled of
                        Inl err \<Rightarrow>
                          Inl (wrap2 (Error invalid_proxy_tls_profile @ '': '' @ Error err)
                            [invalid_proxy_tls_profile, err])
                      | Inr curvePreferences \<Rightarrow>
                          Inr (data(''TLSMinVersion'' \<mapsto> TStr minVersion,
                                    ''TLSCipherSuites'' \<mapsto> TStr cipherSuites,
                                    ''TLSCurvePreferences'' \<mapsto> TStr curvePreferences))))))"

subsection \<open>The curve filter in closed form\<close>

definition curve_ok :: "bool \<Rightarrow> int \<Rightarrow> bool" where
  "curve_ok fips i \<longleftrightarrow> i \<in> set proxyCurveIDs \<and> (\<not> fips \<or> i \<in> set fipsApprovedProxyCurveIDs)"

text \<open>The identifier a numeric text stands for.\<close>

definition curve_id :: "string \<Rightarrow> int" where
  "curve_id s = (case Atoi s of Inr i \<Rightarrow> i | Inl _ \<Rightarrow> 0)"

lemma curve_loop_result:
  "curve_loop fips raws usable seen = Inr us \<Longrightarrow> set seen = curve_id ` set usable \<Longrightarrow>
   distinct (map curve_id usable) \<Longrightarrow> list_all (\<lambda>u. curve_ok fips (curve_id u)) usable \<Longrightarrow>
     distinct (map curve_id us) \<and> list_all (\<lambda>u. curve_ok fips (curve_id u)) us \<and>
     curve_id ` set us = curve_id ` set usable \<union> {i \<in> curve_id ` set raws. curve_ok fips i} \<and>
     (\<exists>vs. us = usable @ vs \<and> subseq vs raws)"
proof (induction raws arbitrary: usable seen)
  case (Cons r raws)
  then obtain i where i: "Atoi r = Inr i" by (auto split: sum.splits)
  then have id: "curve_id r = i" by (simp add: curve_id_def)
  show ?case
  proof (cases "curve_ok fips i \<and> i \<notin> set seen")
    case True
    then have "curve_loop fips raws (usable @ [r]) (i # seen) = Inr us"
      using Cons.prems(1) i by (auto simp: curve_ok_def)
    from Cons.IH [OF this] Cons.prems(2-4) True id show ?thesis
      by (auto simp: list_all_iff)
  next
    case False
    then have "curve_loop fips raws usable seen = Inr us"
      using Cons.prems(1) i by (auto simp: curve_ok_def split: if_splits)
    from Cons.IH [OF this Cons.prems(2-4)] False id Cons.prems(2) show ?thesis
      by (auto intro: subseq_Cons')
  qed
qed auto

text \<open>
  C29: the curve preferences handed to the proxies are exactly the usable ones. When the filter
  accepts a non-empty preference list, the result is a comma-separated list whose entries are a
  subsequence of the input, name each usable curve of the input once and no other curve, and are
  all FIPS approved on a FIPS cluster; the filter never answers with an empty list.
\<close>

theorem curve_filter_exact:
  assumes "filterProxyCurvePreferences prefs fips = Inr out" and "prefs \<noteq> ''''"
  shows "\<exists>us. us \<noteq> [] \<and> out = Join us '','' \<and> split_on CHR '','' out = us \<and>
           subseq us (split_on CHR '','' prefs) \<and> distinct (map curve_id us) \<and>
           curve_id ` set us = {i \<in> curve_id ` set (split_on CHR '','' prefs). curve_ok fips i}"
proof -
  obtain us where us: "curve_loop fips (split_on CHR '','' prefs) [] [] = Inr us" "us \<noteq> []" "out = Join us '',''"
    using assms by (auto simp: filterProxyCurvePreferences_def split: sum.splits if_splits)
  note res = curve_loop_result [OF us(1)]
  have sub: "subseq us (split_on CHR '','' prefs)"
    using res by simp
  then have "\<forall>u \<in> set us. CHR '','' \<notin> set u"
    using list_emb_set [OF sub] split_on_elem_no_sep by blast
  then have "split_on CHR '','' out = us"
    unfolding us(3) by (rule split_on_Join [OF us(2)])
  with us res sub show ?thesis by auto
qed

theorem curve_filter_exact_witness:
  "filterProxyCurvePreferences ''29,23,4588,23,77'' True = Inr ''23'' \<and>
   (\<exists>us. us \<noteq> [] \<and> ''23'' = Join us '','' \<and> split_on CHR '','' ''23'' = us)"
proof -
  have run: "filterProxyCurvePreferences ''29,23,4588,23,77'' True = Inr ''23''"
    by code_simp
  then show ?thesis
    using curve_filter_exact [OF run] by auto
qed

text \<open>
  C30: an accepted TLS profile is one the proxies can serve: the minimum version is TLS 1.2 or 1.3,
  no cipher list is passed on for TLS 1.3, and with TLS 1.2 the list is empty (library defaults)
  or contains a cipher suite HTTP/2 requires. Every rejection and every failed lookup carries one
  of the two sentinel errors, which the reconciler tells apart.
\<close>

theorem accepted_tls_profile:
  shows "case addTLSData W data of
           Inr d \<Rightarrow> (\<exists>minV ciphers curves. d ''TLSMinVersion'' = Some (TStr minV) \<and>
              d ''TLSCipherSuites'' = Some (TStr ciphers) \<and> d ''TLSCurvePreferences'' = Some (TStr curves) \<and>
              (minV = proxyTLSVersion13 \<and> ciphers = '''' \<or>
               minV = proxyTLSVersion12 \<and> (ciphers = '''' \<or>
                 proxyHTTP2CipherRSA \<in> set (split_on CHR '','' ciphers) \<or>
                 proxyHTTP2CipherECDSA \<in> set (split_on CHR '','' ciphers))))
         | Inl err \<Rightarrow> errors_Is err errProxyTLSResolutionFailed \<or> errors_Is err errInvalidProxyTLSProfile"
proof (cases "TLSFromAPIServer W")
  case (Inl err)
  then show ?thesis
    by (simp add: addTLSData_def errors_Is_def wrap2_def proxy_tls_resolution_failed_def)
next
  case (Inr p)
  obtain minV ciphers curves where p: "p = (minV, ciphers, curves)" by (cases p) auto
  have "proxyTLSVersion12 \<noteq> proxyTLSVersion13"
    by (simp add: proxyTLSVersion12_def proxyTLSVersion13_def)
  then show ?thesis
    using Inr p
    by (auto simp: addTLSData_def validateProxyHTTP2CipherSuites_def Let_def errors_Is_def wrap2_def
        proxy_tls_resolution_failed_def invalid_proxy_tls_profile_def list_ex_iff
        split: sum.split)
qed

end
