(* ===== verification/Go_Format.thy ===== *)
theory Go_Format
  imports Go_Url "HOL-Library.Word"
begin

unbundle bit_operations_syntax

section \<open>Formatting and hashing of Go's standard library\<close>

text \<open>
  \<open>netip.Addr.String\<close>, \<open>time.Duration.String\<close> and \<open>crypto/sha256\<close> with \<open>encoding/hex\<close>, as the
  operator uses them. SHA-256 works on 32-bit words, so its additions wrap.
\<close>

subsection \<open>Addresses\<close>

fun show_hex :: "nat \<Rightarrow> string" where
  "show_hex n = (if n < 16 then [hex_digit n] else show_hex (n div 16) @ [hex_digit (n mod 16)])"

declare show_hex.simps [simp del]

definition show_v4 :: "nat list \<Rightarrow> string" where
  "show_v4 bs = Join (map show_nat bs) ''.''"

text \<open>
  The leftmost longest run of at least two zero groups: its start and length. \<open>run_at\<close> counts the
  zero groups from a position on.
\<close>

definition run_at :: "nat list \<Rightarrow> nat \<Rightarrow> nat" where
  "run_at gs i = length (takeWhile (\<lambda>g. g = 0) (drop i gs))"

definition longest_run :: "nat list \<Rightarrow> (nat \<times> nat) option" where
  "longest_run gs =
     foldl (\<lambda>best i. if run_at gs i \<ge> 2 \<and> (case best of None \<Rightarrow> True | Some (_, l) \<Rightarrow> run_at gs i > l)
              then Some (i, run_at gs i) else best)
       None [0..<length gs]"

definition show_v6_groups :: "nat list \<Rightarrow> string" where
  "show_v6_groups gs =
     (case longest_run gs of
        None \<Rightarrow> Join (map show_hex gs) '':''
      | Some (i, l) \<Rightarrow>
          Join (map show_hex (take i gs)) '':'' @ ''::'' @ Join (map show_hex (drop (i + l) gs)) '':'')"

definition is_4in6 :: "nat list \<Rightarrow> bool" where
  "is_4in6 gs \<longleftrightarrow> take 5 gs = replicate 5 0 \<and> gs ! 5 = 0xFFFF"

definition addr_zone :: "string \<Rightarrow> string" where
  "addr_zone z = (if z = '''' then '''' else ''%'' @ z)"

fun Addr_String :: "ip_addr \<Rightarrow> string" where
  "Addr_String (V4 bs) = show_v4 bs"
| "Addr_String (V6 gs z) =
     (if is_4in6 gs
      then ''::ffff:'' @ show_v4 [gs ! 6 div 256, gs ! 6 mod 256, gs ! 7 div 256, gs ! 7 mod 256]
      else show_v6_groups gs) @ addr_zone z"

fun BitLen :: "ip_addr \<Rightarrow> nat" where
  "BitLen (V4 _) = 32"
| "BitLen (V6 _ _) = 128"

subsection \<open>Durations\<close>

text \<open>
  A duration is a number of nanoseconds. \<open>frac n u\<close> prints the last \<open>n\<close> decimal digits of \<open>u\<close>
  after a point, without trailing zeros.
\<close>

definition pad_digits :: "nat \<Rightarrow> nat \<Rightarrow> string" where
  "pad_digits n u = (let d = show_nat u in replicate (n - length d) CHR ''0'' @ d)"

definition frac :: "nat \<Rightarrow> nat \<Rightarrow> string" where
  "frac n u =
     (let ds = rev (dropWhile (\<lambda>c. c = CHR ''0'') (rev (pad_digits n (u mod 10 ^ n))))
      in if u mod 10 ^ n = 0 then '''' else ''.'' @ ds)"

definition show_seconds :: "nat \<Rightarrow> string" where
  "show_seconds u =
     (let s = u div 1000000000; m = s div 60; h = m div 60;
          sec = show_nat (s mod 60) @ frac 9 u @ ''s'' in
      if m = 0 then sec
      else if h = 0 then show_nat m @ ''m'' @ sec
      else show_nat h @ ''h'' @ show_nat (m mod 60) @ ''m'' @ sec)"

definition Duration_String :: "int \<Rightarrow> string" where
  "Duration_String d =
     (let u = nat \<bar>d\<bar>;
          body =
            (if u = 0 then ''0s''
             else if u < 1000 then show_nat u @ ''ns''
             else if u < 1000000 then show_nat (u div 1000) @ frac 3 u @ [CHR 0xC2, CHR 0xB5, CHR ''s'']
             else if u < 1000000000 then show_nat (u div 1000000) @ frac 6 u @ ''ms''
             else show_seconds u)
      in if d < 0 then ''-'' @ body else body)"

subsection \<open>SHA-256\<close>

type_synonym w32 = "32 word"

definition rotr :: "nat \<Rightarrow> w32 \<Rightarrow> w32" where
  "rotr n x = drop_bit n x OR push_bit (32 - n) x"

text \<open>
  The round constants and the initial state are given by what they are: the first 32 bits of the
  fractional parts of the cube roots of the first 64 primes, and of the square roots of the
  first eight. \<open>iroot k n\<close> is the integer part of the k-th root of a number below \<open>2 ^ (36 k)\<close>,
  found bit by bit; the conversion to a word drops the integer part of the scaled root.
\<close>

definition iroot :: "nat \<Rightarrow> nat \<Rightarrow> nat" where
  "iroot k n = foldl (\<lambda>r i. if (r + 2 ^ i) ^ k \<le> n then r + 2 ^ i else r) 0 (rev [0..<36])"

definition primes_below :: "nat \<Rightarrow> nat list" where
  "primes_below n = [p. p \<leftarrow> [2..<n], list_all (\<lambda>d. p mod d \<noteq> 0) [2..<p]]"

definition sha_k :: "w32 list" where
  "sha_k = map (\<lambda>p. of_nat (iroot 3 (p * 2 ^ 96))) (primes_below 312)"

definition sha_init :: "w32 list" where
  "sha_init = map (\<lambda>p. of_nat (iroot 2 (p * 2 ^ 64))) (primes_below 20)"

definition be_bytes :: "nat \<Rightarrow> nat \<Rightarrow> nat list" where
  "be_bytes n v = map (\<lambda>i. v div 256 ^ (n - 1 - i) mod 256) [0..<n]"

definition sha_pad :: "nat list \<Rightarrow> nat list" where
  "sha_pad bs =
     (let l = length bs in bs @ [0x80] @ replicate ((119 - l mod 64) mod 64) 0 @ be_bytes 8 (8 * l))"

fun sha_words :: "nat list \<Rightarrow> w32 list" where
  "sha_words (a # b # c # d # r) =
     of_nat (a * 16777216 + b * 65536 + c * 256 + d) # sha_words r"
| "sha_words _ = []"

text \<open>Extending the sixteen words of a block, newest word first.\<close>

fun sha_extend :: "nat \<Rightarrow> w32 list \<Rightarrow> w32 list" where
  "sha_extend 0 ws = ws"
| "sha_extend (Suc n) ws =
     (let w2 = ws ! 1; w15 = ws ! 14;
          s0 = rotr 7 w15 XOR rotr 18 w15 XOR drop_bit 3 w15;
          s1 = rotr 17 w2 XOR rotr 19 w2 XOR drop_bit 10 w2
      in sha_extend n ((s1 + ws ! 6 + s0 + ws ! 15) # ws))"

fun sha_round :: "w32 \<times> w32 \<Rightarrow> w32 list \<Rightarrow> w32 list" where
  "sha_round (k, w) [a, b, c, d, e, f, g, h] =
     (let s1 = rotr 6 e XOR rotr 11 e XOR rotr 25 e;
          ch = (e AND f) XOR (NOT e AND g);
          t1 = h + s1 + ch + k + w;
          s0 = rotr 2 a XOR rotr 13 a XOR rotr 22 a;
          maj = (a AND b) XOR (a AND c) XOR (b AND c);
          t2 = s0 + maj
      in [t1 + t2, a, b, c, d + t1, e, f, g])"
| "sha_round _ st = st"

definition sha_block :: "w32 list \<Rightarrow> w32 list \<Rightarrow> w32 list" where
  "sha_block ws h =
     map2 (+) h (fold sha_round (zip sha_k (rev (sha_extend 48 (rev ws)))) h)"

function sha_blocks :: "w32 list \<Rightarrow> w32 list \<Rightarrow> w32 list" where
  "sha_blocks ws h = (if ws = [] then h else sha_blocks (drop 16 ws) (sha_block (take 16 ws) h))"
  by pat_completeness auto
termination
  by (relation "measure (length \<circ> fst)") auto

declare sha_blocks.simps [simp del]

definition sha256_hex :: "string \<Rightarrow> string" where
  "sha256_hex s =
     (let digest = sha_blocks (sha_words (sha_pad (map of_char s))) sha_init;
          bytes = concat (map (\<lambda>w. be_bytes 4 (unat w)) digest)
      in concat (map (\<lambda>b. [hex_digit (b div 16), hex_digit (b mod 16)]) bytes))"

end
