(* ===== verification/Template_Data.thy ===== *)
theory Template_Data
  imports Exporters Proxy_Tls Go_Format Actions "HOL-Library.Product_Lexorder"
begin

section \<open>Template data (templatedata.go)\<close>

text \<open>
  The map of values every template is rendered with. \<open>buildTemplateData\<close> and the functions it
  calls are modelled one by one; the map is a partial function from keys to \<open>tval\<close>. Reading the
  embedded template for the checksum is the parameter \<open>ReadFile\<close>. Go's errors for malformed
  addresses are represented without the library's own text.
\<close>

subsection \<open>Defaults\<close>

definition defaultStorageSize :: string where "defaultStorageSize = ''5Gi''"
definition defaultRetention :: string where "defaultRetention = ''90d''"
definition defaultLokiStorageClassName :: string where "defaultLokiStorageClassName = ''gp3-csi''"
definition defaultTracesSampleRatio :: string where "defaultTracesSampleRatio = ''0.1''"
definition defaultTracesBackend :: string where "defaultTracesBackend = ''pv''"
definition defaultTracesRetention :: string where "defaultTracesRetention = ''2160h''"
definition defaultCPULimit :: string where "defaultCPULimit = ''1''"
definition defaultMemoryLimit :: string where "defaultMemoryLimit = ''512Mi''"
definition defaultCPURequest :: string where "defaultCPURequest = ''100m''"
definition defaultMemoryRequest :: string where "defaultMemoryRequest = ''256Mi''"
definition defaultCollectorCPULimit :: string where "defaultCollectorCPULimit = ''1''"
definition defaultCollectorMemoryLimit :: string where "defaultCollectorMemoryLimit = ''256Mi''"
definition defaultCollectorCPURequest :: string where "defaultCollectorCPURequest = ''100m''"
definition defaultCollectorMemoryRequest :: string where "defaultCollectorMemoryRequest = ''256Mi''"
definition defaultTempoCPULimit :: string where "defaultTempoCPULimit = ''1''"
definition defaultTempoMemoryLimit :: string where "defaultTempoMemoryLimit = ''1Gi''"
definition defaultTempoCPURequest :: string where "defaultTempoCPURequest = ''100m''"
definition defaultTempoMemoryRequest :: string where "defaultTempoMemoryRequest = ''256Mi''"
definition defaultKorrel8rCPURequest :: string where "defaultKorrel8rCPURequest = ''50m''"
definition defaultKorrel8rMemoryRequest :: string where "defaultKorrel8rMemoryRequest = ''64Mi''"
definition defaultKorrel8rCPULimit :: string where "defaultKorrel8rCPULimit = ''200m''"
definition defaultKorrel8rMemoryLimit :: string where "defaultKorrel8rMemoryLimit = ''512Mi''"
definition kubernetesServiceName :: string where "kubernetesServiceName = ''kubernetes''"
definition targetAllocatorServiceAccountName :: string where
  "targetAllocatorServiceAccountName = ''data-science-collector-targetallocator''"
definition defaultLokiStackSize :: string where "defaultLokiStackSize = ''1x.extra-small''"
definition ClusterLogForwarderNetworkPolicyName :: string where
  "ClusterLogForwarderNetworkPolicyName = ''data-science-cluster-log-forwarder-allow''"
definition getResourceValueOrDefault :: "string \<Rightarrow> string \<Rightarrow> string" where
  "getResourceValueOrDefault value0 defaultValue =
     (if value0 = '''' \<or> value0 = ''0'' then defaultValue else value0)"

definition getStringValueOrDefault :: "string \<Rightarrow> string \<Rightarrow> string" where
  "getStringValueOrDefault value0 defaultValue = (if value0 = '''' then defaultValue else value0)"

definition determineTLSEnabled :: "Traces \<Rightarrow> bool" where
  "determineTLSEnabled traces = (case tr_TLS traces of Some t \<Rightarrow> tls_Enabled t | None \<Rightarrow> False)"

definition builtinDCGMScrapeEnabled :: "Metrics option \<Rightarrow> bool" where
  "builtinDCGMScrapeEnabled metrics =
     (case metrics of
        None \<Rightarrow> False
      | Some mt \<Rightarrow> (case mt_BuiltinDCGMScrapeEnabled mt of None \<Rightarrow> True | Some b \<Rightarrow> b))"

subsection \<open>Images\<close>

definition defaultPromLabelProxyImage :: string where
  "defaultPromLabelProxyImage =
     ''quay.io/prometheuscommunity/prom-label-proxy@sha256:9812cce38fa78c39250c9c59c78bbe75895ef9126952a098cd44adef2e21dbc5''"

text \<open>
  The pattern \<open>:v?(\d+)\.(\d+)(?:\.(\d+))?(?:[-:@]|$)\<close> tried at the start of a text: the digits of
  the three groups. It has one way to match at a position, so the leftmost match is the first
  position that matches.
\<close>

definition semver_end :: "string \<Rightarrow> bool" where
  "semver_end s \<longleftrightarrow> s = [] \<or> hd s = CHR ''-'' \<or> hd s = CHR '':'' \<or> hd s = CHR ''@''"

definition semver_at :: "string \<Rightarrow> (string \<times> string \<times> string) option" where
  "semver_at s =
     (if s = [] \<or> hd s \<noteq> CHR '':'' then None
      else
       (let s1 = (if tl s \<noteq> [] \<and> hd (tl s) = CHR ''v'' then tl (tl s) else tl s);
            major = takeWhile is_digit s1; s2 = dropWhile is_digit s1 in
        if major = [] \<or> s2 = [] \<or> hd s2 \<noteq> CHR ''.'' then None
        else
         (let minor = takeWhile is_digit (tl s2); s3 = dropWhile is_digit (tl s2) in
          if minor = [] then None
          else if semver_end s3 then Some (major, minor, '''')
          else if hd s3 = CHR ''.'' \<and> takeWhile is_digit (tl s3) \<noteq> [] \<and> semver_end (dropWhile is_digit (tl s3))
          then Some (major, minor, takeWhile is_digit (tl s3))
          else None)))"

fun FindSemver :: "string \<Rightarrow> (string \<times> string \<times> string) option" where
  "FindSemver [] = None"
| "FindSemver (c # s) = (case semver_at (c # s) of Some m \<Rightarrow> Some m | None \<Rightarrow> FindSemver s)"

definition parsePromLabelProxySemverTag :: "string \<Rightarrow> (int \<times> int \<times> int) option" where
  "parsePromLabelProxySemverTag img =
     (let ref = after_last CHR 0x2F img;
          tag = after_last CHR '':'' ref;
          ver = TrimPrefix tag ''v'' in
      if CHR ''-'' \<in> set ver \<or> CHR ''+'' \<in> set ver then None
      else (case FindSemver ref of
          None \<Rightarrow> None
        | Some (a, b, c) \<Rightarrow>
            (case (Atoi a, Atoi b) of
               (Inr major, Inr minor) \<Rightarrow>
                 if c = '''' then Some (major, minor, 0)
                 else (case Atoi c of Inl _ \<Rightarrow> None | Inr patch \<Rightarrow> Some (major, minor, patch))
             | _ \<Rightarrow> None)))"

definition validatePromLabelProxyImageSupportsQueryParamOnly :: "string \<Rightarrow> go_error option" where
  "validatePromLabelProxyImageSupportsQueryParamOnly img =
     (if Contains img ''@sha256:'' then None
      else (case parsePromLabelProxySemverTag img of
          None \<Rightarrow>
            Some (errors_New (''RELATED_IMAGE_OSE_PROM_LABEL_PROXY_IMAGE '' @ quoted img @
              '' must be digest-pinned or tagged >= v0.16.2 (required for --query-param-only)''))
        | Some (major, minor, patch) \<Rightarrow>
            if major > 0 \<or> minor > 16 \<or> (minor = 16 \<and> patch \<ge> 2) then None
            else Some (errors_New (''RELATED_IMAGE_OSE_PROM_LABEL_PROXY_IMAGE '' @ quoted img @
              '' is older than v0.16.2 required for --query-param-only''))))"

definition resolvePromLabelProxyImage :: "'w cluster_scheme \<Rightarrow> string result" where
  "resolvePromLabelProxyImage W =
     (let img = getEnvOrDefault W ''RELATED_IMAGE_OSE_PROM_LABEL_PROXY_IMAGE'' defaultPromLabelProxyImage in
      case validatePromLabelProxyImageSupportsQueryParamOnly img of
        Some err \<Rightarrow> Inl err
      | None \<Rightarrow> Inr img)"

definition addImageURLs :: "'w cluster_scheme \<Rightarrow> tdata \<Rightarrow> tdata result" where
  "addImageURLs W data =
     (let data1 = data(''KubeRBACProxyImage'' \<mapsto> TStr (getEnvOrDefault W
            ''RELATED_IMAGE_ODH_KUBE_RBAC_PROXY_IMAGE''
            ''quay.io/opendatahub/odh-kube-rbac-proxy@sha256:69c4b767117b9dab040070ca3cd6a4d08f87c197f92c2e9d7637101a39018a7d'')) in
      case resolvePromLabelProxyImage W of
        Inl err \<Rightarrow> Inl err
      | Inr promLabelProxyImage \<Rightarrow>
          (let img = Getenv W ''OPERATOR_IMAGE'' in
           if img = '''' then
             Inl (errors_New ''OPERATOR_IMAGE is empty: the method-gate sidecar must use this operator image'')
           else Inr (data1(''PromLabelProxyImage'' \<mapsto> TStr promLabelProxyImage,
                           ''HTTPMethodGateImage'' \<mapsto> TStr img))))"

definition getKorrel8rImage :: "'w cluster_scheme \<Rightarrow> string" where
  "getKorrel8rImage W = getEnvOrDefault W ''RELATED_IMAGE_KORREL8R_IMAGE''
     ''registry.redhat.io/cluster-observability-operator/korrel8r-rhel9@sha256:e3ebab37597e15fc58b989e7f3cf70f5561e96723f4f409333e8b99540386c8a''"

definition getPersesImage :: "'w cluster_scheme \<Rightarrow> string" where
  "getPersesImage W =
     (if Getenv W ''RELATED_IMAGE_PERSES_IMAGE'' \<noteq> '''' then Getenv W ''RELATED_IMAGE_PERSES_IMAGE''
      else ''registry.redhat.io/cluster-observability-operator/perses-rhel9@sha256:a811b9345d884ba1c575584bec9be1d2a237902164a99887458a82d07e7c2376'')"

subsection \<open>API server addresses\<close>

fun address_loop :: "string \<Rightarrow> string list \<Rightarrow> string list \<Rightarrow> string list result" where
  "address_loop addressType [] cidrs = Inr cidrs"
| "address_loop addressType (address # addresses) cidrs =
     (case ParseAddr address of
        None \<Rightarrow> Inl (wrapf (''parsing Kubernetes API endpoint address '' @ quoted address @ '': '')
                  (errors_New ''''))
      | Some ip \<Rightarrow>
          if addressType = ''IPv4'' \<and> BitLen ip \<noteq> 32 \<or> addressType = ''IPv6'' \<and> BitLen ip \<noteq> 128 then
            Inl (errors_New (''Kubernetes API endpoint address '' @ quoted address @
              '' does not match EndpointSlice address type '' @ quoted addressType))
          else address_loop addressType addresses
                 (cidrs @ [Addr_String ip @ ''/'' @ show_nat (BitLen ip)]))"

fun endpoint_loop :: "string \<Rightarrow> Endpoint list \<Rightarrow> string list \<Rightarrow> string list result" where
  "endpoint_loop addressType [] cidrs = Inr cidrs"
| "endpoint_loop addressType (ep # eps) cidrs =
     (if ep_Ready ep = Some False then endpoint_loop addressType eps cidrs
      else (case address_loop addressType (ep_Addresses ep) cidrs of
          Inl err \<Rightarrow> Inl err
        | Inr cidrs' \<Rightarrow> endpoint_loop addressType eps cidrs'))"

fun slice_loop :: "EndpointSlice list \<Rightarrow> string list \<Rightarrow> string list result" where
  "slice_loop [] cidrs = Inr cidrs"
| "slice_loop (sl # sls) cidrs =
     (if es_AddressType sl \<noteq> ''IPv4'' \<and> es_AddressType sl \<noteq> ''IPv6'' then slice_loop sls cidrs
      else (case endpoint_loop (es_AddressType sl) (es_Endpoints sl) cidrs of
          Inl err \<Rightarrow> Inl err
        | Inr cidrs' \<Rightarrow> slice_loop sls cidrs'))"

definition kubernetesAPIServerCIDRs :: "EndpointSlice list \<Rightarrow> string list result" where
  "kubernetesAPIServerCIDRs endpointSlices =
     (case slice_loop endpointSlices [] of
        Inl err \<Rightarrow> Inl err
      | Inr cidrs \<Rightarrow>
          if cidrs = [] then Inl (errors_New ''Kubernetes API EndpointSlices contain no ready IP addresses'')
          else Inr (sorted_keys cidrs))"

definition addKorrel8rAPIServerData :: "'w cluster_scheme \<Rightarrow> Monitoring \<Rightarrow> tdata \<Rightarrow> tdata result" where
  "addKorrel8rAPIServerData W m data =
     (let sp = mo_Spec m;
          data1 = data(''Korrel8rAPIServerCIDRs'' \<mapsto> TList [], ''KubernetesAPIServerCIDRs'' \<mapsto> TList []) in
      if sp_Metrics sp = None \<and> sp_Traces sp = None \<and> sp_Logs sp = None then Inr data1
      else (case ListEndpointSlices W ''default'' kubernetesServiceName of
          Inl err \<Rightarrow> Inl (wrapf ''listing Kubernetes API EndpointSlices for Korrel8r: '' err)
        | Inr slices \<Rightarrow>
            (case kubernetesAPIServerCIDRs slices of
               Inl err \<Rightarrow> Inl (wrapf ''resolving Kubernetes API endpoint CIDRs for Korrel8r: '' err)
             | Inr cidrs \<Rightarrow>
                 Inr (data1(''Korrel8rAPIServerCIDRs'' \<mapsto> TList cidrs,
                            ''KubernetesAPIServerCIDRs'' \<mapsto> TList cidrs)))))"

definition addImageTLSAndKorrel8rData :: "'w cluster_scheme \<Rightarrow> Monitoring \<Rightarrow> tdata \<Rightarrow> tdata result" where
  "addImageTLSAndKorrel8rData W m data =
     (case addImageURLs W data of
        Inl err \<Rightarrow> Inl err
      | Inr data1 \<Rightarrow>
          (case addTLSData W data1 of
             Inl err \<Rightarrow> Inl err
           | Inr data2 \<Rightarrow> addKorrel8rAPIServerData W m data2))"

subsection \<open>Metrics, usage logs and traces\<close>

definition addResourceData :: "tdata \<Rightarrow> tdata" where
  "addResourceData data =
     data(''CPULimit'' \<mapsto> TStr defaultCPULimit,
          ''MemoryLimit'' \<mapsto> TStr defaultMemoryLimit,
          ''CPURequest'' \<mapsto> TStr defaultCPURequest,
          ''MemoryRequest'' \<mapsto> TStr defaultMemoryRequest,
          ''CollectorCPULimit'' \<mapsto> TStr defaultCollectorCPULimit,
          ''CollectorMemoryLimit'' \<mapsto> TStr defaultCollectorMemoryLimit,
          ''CollectorCPURequest'' \<mapsto> TStr defaultCollectorCPURequest,
          ''CollectorMemoryRequest'' \<mapsto> TStr defaultCollectorMemoryRequest,
          ''TempoCPULimit'' \<mapsto> TStr defaultTempoCPULimit,
          ''TempoMemoryLimit'' \<mapsto> TStr defaultTempoMemoryLimit,
          ''TempoCPURequest'' \<mapsto> TStr defaultTempoCPURequest,
          ''TempoMemoryRequest'' \<mapsto> TStr defaultTempoMemoryRequest,
          ''Korrel8rCPURequest'' \<mapsto> TStr defaultKorrel8rCPURequest,
          ''Korrel8rMemoryRequest'' \<mapsto> TStr defaultKorrel8rMemoryRequest,
          ''Korrel8rCPULimit'' \<mapsto> TStr defaultKorrel8rCPULimit,
          ''Korrel8rMemoryLimit'' \<mapsto> TStr defaultKorrel8rMemoryLimit)"

definition addStorageData :: "Metrics \<Rightarrow> tdata \<Rightarrow> tdata" where
  "addStorageData metrics data =
     (case mt_Storage metrics of
        Some st \<Rightarrow>
          data(''StorageSize'' \<mapsto> TStr (getResourceValueOrDefault (ms_Size st) defaultStorageSize),
               ''StorageRetention'' \<mapsto> TStr (getStringValueOrDefault (ms_Retention st) defaultRetention))
      | None \<Rightarrow>
          data(''StorageSize'' \<mapsto> TStr defaultStorageSize,
               ''StorageRetention'' \<mapsto> TStr defaultRetention))"

definition addReplicasData :: "Metrics \<Rightarrow> bool \<Rightarrow> tdata \<Rightarrow> tdata" where
  "addReplicasData metrics isSNO data =
     (let allowedByConfig = (mt_Storage metrics \<noteq> None) in
      if mt_Replicas metrics \<noteq> 0 \<and> allowedByConfig then
        data(''Replicas'' \<mapsto> TStr (show_int (mt_Replicas metrics)))
      else if allowedByConfig then
        data(''Replicas'' \<mapsto> TStr (if isSNO then ''1'' else ''2''))
      else data(''Replicas'' \<mapsto> TStr ''1''))"

definition exporter_names :: "smap \<Rightarrow> string list" where
  "exporter_names validatedExporters = sorted_keys (map fst validatedExporters)"

definition addExportersData :: "'w cluster_scheme \<Rightarrow> Metrics \<Rightarrow> tdata \<Rightarrow> tdata result" where
  "addExportersData W metrics data =
     (if mt_Exporters metrics = [] then
        Inr (data(''MetricsExporters'' \<mapsto> TMap [], ''MetricsExporterNames'' \<mapsto> TList []))
      else (case validateExporters W (mt_Exporters metrics) of
          Inl err \<Rightarrow> Inl err
        | Inr validatedExporters \<Rightarrow>
            Inr (data(''MetricsExporters'' \<mapsto> TMap validatedExporters,
                      ''MetricsExporterNames'' \<mapsto> TList (exporter_names validatedExporters)))))"

definition addMetricsData :: "'w cluster_scheme \<Rightarrow> Metrics \<Rightarrow> bool \<Rightarrow> tdata \<Rightarrow> tdata result" where
  "addMetricsData W metrics isSNO data =
     addExportersData W metrics (addReplicasData metrics isSNO (addStorageData metrics data))"

definition usage_logs_exporter_invalid :: go_error where
  "usage_logs_exporter_invalid =
     GoError (Sentinel errUsageLogsExporterInvalid) ''invalid usage logs exporter configuration'' []"

definition addUsageLogsExportersData :: "'w cluster_scheme \<Rightarrow> UsageLogs \<Rightarrow> tdata \<Rightarrow> tdata result" where
  "addUsageLogsExportersData W usageLogs data =
     (case (if ul_Exporters usageLogs = [] then Inr [] else validateExporters W (ul_Exporters usageLogs)) of
        Inl err \<Rightarrow>
          Inl (wrap2 (Error usage_logs_exporter_invalid @ '': '' @ Error err)
            [usage_logs_exporter_invalid, err])
      | Inr validatedExporters \<Rightarrow>
          Inr (data(''UsageLogsExporters'' \<mapsto> TMap validatedExporters,
                    ''UsageLogsExporterNames'' \<mapsto> TList (exporter_names validatedExporters),
                    ''UsageLogsCredentialSecret'' \<mapsto> TStr (ul_CredentialSecret usageLogs),
                    ''UsageLogsAttributes'' \<mapsto> TMap (ul_Attributes usageLogs),
                    ''UsageLogsAttributeNames'' \<mapsto> TList (sorted_keys (map fst (ul_Attributes usageLogs))))))"

definition addUsageLogsData ::
  "'w cluster_scheme \<Rightarrow> Monitoring \<Rightarrow> string \<Rightarrow> string \<Rightarrow> tdata \<Rightarrow> tdata result" where
  "addUsageLogsData W m lokiStackName namespace data =
     (let usageLogs = sp_UsageLogs (mo_Spec m);
          lokiStackSize = (case usageLogs of
              Some ul \<Rightarrow> (if ul_Size ul \<noteq> '''' then ul_Size ul else defaultLokiStackSize)
            | None \<Rightarrow> defaultLokiStackSize);
          data1 = data(''LokiStackSize'' \<mapsto> TStr lokiStackSize,
                       ''UsageLogsCollectorName'' \<mapsto> TStr ''data-science-usage-logs'') in
      case usageLogs of
        None \<Rightarrow> Inr (data1(''UsageLogs'' \<mapsto> TBool False, ''UsageLogsEndpoint'' \<mapsto> TStr ''''))
      | Some ul \<Rightarrow>
          addUsageLogsExportersData W ul
            (if ul_Storage ul \<noteq> None then
               data1(''UsageLogs'' \<mapsto> TBool True,
                     ''UsageLogsEndpoint'' \<mapsto> TStr (''https://'' @ lokiStackName @ ''-gateway-http.'' @ namespace @
                       ''.svc.cluster.local:8080/api/logs/v1/application/otlp''))
             else data1(''UsageLogs'' \<mapsto> TBool False, ''UsageLogsEndpoint'' \<mapsto> TStr '''')))"

text \<open>The part of \<open>addTracesTemplateData\<close> that follows the exporters, for each kind of storage.\<close>

definition tempo_data :: "Traces \<Rightarrow> string \<Rightarrow> tdata \<Rightarrow> tdata" where
  "tempo_data traces namespace data =
     (case tr_Storage traces of
        None \<Rightarrow>
          data(''TempoStorage'' \<mapsto> TBool False, ''Backend'' \<mapsto> TStr '''', ''TracesRetention'' \<mapsto> TStr '''',
               ''TempoTLSEnabled'' \<mapsto> TBool False, ''TempoCertificateSecret'' \<mapsto> TStr '''',
               ''TempoCAConfigMap'' \<mapsto> TStr '''', ''TempoEndpoint'' \<mapsto> TStr '''',
               ''TempoQueryEndpoint'' \<mapsto> TStr '''')
      | Some st \<Rightarrow>
          (let backend = getStringValueOrDefault (ts_Backend st) defaultTracesBackend;
               retention = (if ts_Retention st = 0 then defaultTracesRetention
                            else Duration_String (ts_Retention st));
               tlsEnabled = determineTLSEnabled traces;
               data1 = data(''TempoStorage'' \<mapsto> TBool True, ''Backend'' \<mapsto> TStr backend,
                 ''TracesRetention'' \<mapsto> TStr retention, ''TempoTLSEnabled'' \<mapsto> TBool tlsEnabled,
                 ''TempoCertificateSecret'' \<mapsto> TStr (case tr_TLS traces of
                     Some t \<Rightarrow> (if tlsEnabled then tls_CertificateSecret t else '''') | None \<Rightarrow> ''''),
                 ''TempoCAConfigMap'' \<mapsto> TStr (case tr_TLS traces of
                     Some t \<Rightarrow> (if tlsEnabled then tls_CAConfigMap t else '''') | None \<Rightarrow> ''''));
               gateway = (\<lambda>kind. ''tempo-data-science-'' @ kind @ ''-gateway.'' @ namespace @ ''.svc.cluster.local:'');
               query = ''8080/api/traces/v1/'' @ namespace @ ''/tempo'' in
           if backend = StorageBackendPV then
             data1(''TempoEndpoint'' \<mapsto> TStr (gateway ''tempomonolithic'' @ ''4317''),
                   ''TempoQueryEndpoint'' \<mapsto> TStr (''https://'' @ gateway ''tempomonolithic'' @ query),
                   ''Size'' \<mapsto> TStr (ts_Size st))
           else if backend = StorageBackendS3 \<or> backend = StorageBackendGCS then
             data1(''TempoEndpoint'' \<mapsto> TStr (gateway ''tempostack'' @ ''4317''),
                   ''TempoQueryEndpoint'' \<mapsto> TStr (''https://'' @ gateway ''tempostack'' @ query),
                   ''Secret'' \<mapsto> TStr (ts_Secret st))
           else data1))"

definition addTracesTemplateData :: "'w cluster_scheme \<Rightarrow> tdata \<Rightarrow> Traces \<Rightarrow> string \<Rightarrow> tdata result" where
  "addTracesTemplateData W data traces namespace =
     (let data1 = data(
            ''OtlpEndpoint'' \<mapsto> TStr (''https://data-science-collector-collector-headless.'' @ namespace @
              ''.svc.cluster.local:4317''),
            ''SampleRatio'' \<mapsto> TStr (getStringValueOrDefault (tr_SampleRatio traces) defaultTracesSampleRatio)) in
      case (if tr_Exporters traces = [] then Inr [] else validateExporters W (tr_Exporters traces)) of
        Inl err \<Rightarrow> Inl err
      | Inr validatedExporters \<Rightarrow>
          Inr (tempo_data traces namespace
            (data1(''TracesExporters'' \<mapsto> TMap validatedExporters,
                   ''TracesExporterNames'' \<mapsto> TList (exporter_names validatedExporters)))))"


subsection \<open>Loki\<close>

definition lokiGatewayURL :: "string \<Rightarrow> string \<Rightarrow> string" where
  "lokiGatewayURL lokiStackName namespace =
     ''https://'' @ lokiStackName @ ''-gateway-http.'' @ namespace @
     ''.svc.cluster.local:8080/api/logs/v1/application''"

definition addLokiStorageData :: "string \<Rightarrow> LokiStorageConfig option \<Rightarrow> tdata \<Rightarrow> tdata" where
  "addLokiStorageData prefix0 storage data =
     (case storage of
        None \<Rightarrow>
          data(prefix0 @ ''StorageCredentialMode'' \<mapsto> TStr '''',
               prefix0 @ ''StorageSecretName'' \<mapsto> TStr '''',
               prefix0 @ ''StorageType'' \<mapsto> TStr '''',
               prefix0 @ ''StorageClassName'' \<mapsto> TStr '''')
      | Some st \<Rightarrow>
          data(prefix0 @ ''StorageCredentialMode'' \<mapsto> TStr (ls_CredentialMode st),
               prefix0 @ ''StorageSecretName'' \<mapsto> TStr (ls_SecretName st),
               prefix0 @ ''StorageType'' \<mapsto> TStr (ls_Type st),
               prefix0 @ ''StorageClassName'' \<mapsto>
                 TStr (getStringValueOrDefault (ls_StorageClassName st) defaultLokiStorageClassName)))"

definition addLokiTemplateData :: "Monitoring \<Rightarrow> string \<Rightarrow> tdata \<Rightarrow> tdata" where
  "addLokiTemplateData m namespace data =
     (let sp = mo_Spec m;
          usageLogsLokiStorage = (case sp_UsageLogs sp of Some ul \<Rightarrow> ul_Storage ul | None \<Rightarrow> None);
          lokiStorage = (case sp_Logs sp of Some lg \<Rightarrow> lg_Storage lg | None \<Rightarrow> None);
          logsLokiStackSize = (case sp_Logs sp of
              Some lg \<Rightarrow> getStringValueOrDefault (lg_Size lg) defaultLokiStackSize
            | None \<Rightarrow> defaultLokiStackSize) in
      addLokiStorageData ''Loki'' lokiStorage
       (addLokiStorageData ''UsageLogsLoki'' usageLogsLokiStorage
         (data(''UsageLogsLokiStackName'' \<mapsto> TStr usageLogsLokiStackResourceName,
               ''LokiStackName'' \<mapsto> TStr lokiStackResourceName,
               ''LokiTenant'' \<mapsto> TStr ''application'',
               ''LokiQueryEndpoint'' \<mapsto> TStr (lokiGatewayURL lokiStackResourceName namespace),
               ''LogsLokiStackSize'' \<mapsto> TStr logsLokiStackSize))))"

subsection \<open>The Korrel8r checksum\<close>

text \<open>
  What \<open>%v\<close> prints for the values the checksum covers, all of them strings and Booleans; a
  missing key is the nil interface. The other cases follow \<open>fmt\<close> and are not reached.
\<close>

fun fmt_v :: "tval option \<Rightarrow> string" where
  "fmt_v None = ''<nil>''"
| "fmt_v (Some (TStr s)) = s"
| "fmt_v (Some (TBool b)) = (if b then ''true'' else ''false'')"
| "fmt_v (Some (TInt i)) = show_int i"
| "fmt_v (Some (TList xs)) = ''['' @ Join xs '' '' @ '']''"
| "fmt_v (Some (TMap kvs)) =
     ''map['' @ Join (map (\<lambda>k. k @ '':'' @ sget kvs k) (sorted_keys (map fst kvs))) '' '' @ '']''"

definition korrel8r_checksum_keys :: "string list" where
  "korrel8r_checksum_keys =
     [''Metrics'', ''MetricsStorage'', ''Traces'', ''TempoStorage'', ''Logs'', ''ThanosQuerierEndpoint'',
      ''TempoQueryEndpoint'', ''LokiQueryEndpoint'', ''Korrel8rRequestTimeout'', ''Korrel8rSessionTimeout'']"

definition checksum_input :: "string \<Rightarrow> tdata \<Rightarrow> string" where
  "checksum_input configTemplate data =
     configTemplate @
     concat (map (\<lambda>key. [CHR 0x0A] @ key @ ''='' @ fmt_v (data key)) korrel8r_checksum_keys)"

definition addKorrel8rConfigChecksum :: "'w cluster_scheme \<Rightarrow> tdata \<Rightarrow> tdata result" where
  "addKorrel8rConfigChecksum W data =
     (case ReadFile W Korrel8rConfigTemplate of
        Inl err \<Rightarrow> Inl (wrapf ''reading Korrel8r config template for checksum: '' err)
      | Inr configTemplate \<Rightarrow>
          Inr (data(''Korrel8rConfigChecksum'' \<mapsto> TStr (sha256_hex (checksum_input configTemplate data)))))"

subsection \<open>The whole map\<close>

definition initial_data :: "'w cluster_scheme \<Rightarrow> Monitoring \<Rightarrow> string \<Rightarrow> tdata" where
  "initial_data W m persesAPIVersion =
     (let sp = mo_Spec m; ns = monitoringNamespace W m in
      [''Namespace'' \<mapsto> TStr ns,
       ''GatewayNamespace'' \<mapsto> TStr (Getenv W ''GATEWAY_NAMESPACE''),
       ''Traces'' \<mapsto> TBool (sp_Traces sp \<noteq> None),
       ''Metrics'' \<mapsto> TBool (sp_Metrics sp \<noteq> None),
       ''MetricsStorage'' \<mapsto> TBool (metrics_storage sp \<noteq> None),
       ''BuiltinDCGMScrapeEnabled'' \<mapsto> TBool (builtinDCGMScrapeEnabled (sp_Metrics sp)),
       ''TempoStorage'' \<mapsto> TBool False,
       ''Logs'' \<mapsto> TBool (sp_Logs sp \<noteq> None),
       ''AcceleratorMetrics'' \<mapsto> TBool (sp_Metrics sp \<noteq> None),
       ''OperatorNamespace'' \<mapsto> TStr (Getenv W ''POD_NAMESPACE''),
       ''OperatorName'' \<mapsto> TStr (getEnvOrDefault W ''OPERATOR_NAME'' ''odh-observability''),
       ''OperatorPodPrefix'' \<mapsto> TStr (getEnvOrDefault W ''OPERATOR_POD_PREFIX'' ''odh-observability''),
       ''MetricsExporters'' \<mapsto> TMap [],
       ''MetricsExporterNames'' \<mapsto> TList [],
       ''TracesExporters'' \<mapsto> TMap [],
       ''TracesExporterNames'' \<mapsto> TList [],
       ''UsageLogsExporters'' \<mapsto> TMap [],
       ''UsageLogsExporterNames'' \<mapsto> TList [],
       ''UsageLogsCredentialSecret'' \<mapsto> TStr '''',
       ''UsageLogsAttributes'' \<mapsto> TMap [],
       ''UsageLogsAttributeNames'' \<mapsto> TList [],
       ''PersesImage'' \<mapsto> TStr (getPersesImage W),
       ''PersesAPIVersion'' \<mapsto> TStr persesAPIVersion,
       ''Korrel8rImage'' \<mapsto> TStr (getKorrel8rImage W),
       ''Korrel8rServiceName'' \<mapsto> TStr Korrel8rServiceName,
       ''Korrel8rRequestTimeout'' \<mapsto> TStr ''30s'',
       ''Korrel8rSessionTimeout'' \<mapsto> TStr ''5m'',
       ''TargetAllocatorServiceAccount'' \<mapsto> TStr targetAllocatorServiceAccountName,
       ''TargetAllocatorSecretNamespaces'' \<mapsto> TList [ns]])"

definition metrics_data :: "'w cluster_scheme \<Rightarrow> Monitoring \<Rightarrow> bool \<Rightarrow> tdata \<Rightarrow> tdata result" where
  "metrics_data W m isSNO data =
     (case sp_Metrics (mo_Spec m) of
        None \<Rightarrow> Inr data
      | Some metrics \<Rightarrow>
          (case listAllNamespaces W (monitoringNamespace W m) of
             Inl err \<Rightarrow> Inl (wrapf ''listing namespaces for TargetAllocator Secret access: '' err)
           | Inr secretNamespaces \<Rightarrow>
               addMetricsData W metrics isSNO
                 (data(''TargetAllocatorSecretNamespaces'' \<mapsto> TList secretNamespaces))))"

definition traces_data :: "'w cluster_scheme \<Rightarrow> Monitoring \<Rightarrow> tdata \<Rightarrow> tdata result" where
  "traces_data W m data =
     (case sp_Traces (mo_Spec m) of
        None \<Rightarrow> Inr data
      | Some traces \<Rightarrow> addTracesTemplateData W data traces (monitoringNamespace W m))"

definition inference_namespaces :: "'w cluster_scheme \<Rightarrow> Logs \<Rightarrow> string list" where
  "inference_namespaces W logs =
     (if lg_InferenceNamespaces logs \<noteq> [] then
        filter (re_matches dns1123LabelRe) (lg_InferenceNamespaces logs)
      else (case discoverInferenceNamespaces W of Inl err \<Rightarrow> [] | Inr namespaces \<Rightarrow> namespaces))"

definition forwarding_data :: "'w cluster_scheme \<Rightarrow> Monitoring \<Rightarrow> tdata \<Rightarrow> tdata" where
  "forwarding_data W m data =
     (let data1 = data(
            ''ClusterLogForwarderName'' \<mapsto> TStr clusterLogForwarderResourceName,
            ''ClusterLogForwarderServiceAccount'' \<mapsto> TStr (clusterLogForwarderResourceName @ ''-collector''),
            ''ClusterLogForwarderNetworkPolicyName'' \<mapsto> TStr ClusterLogForwarderNetworkPolicyName,
            ''ClusterLoggingNamespace'' \<mapsto> TStr clusterLoggingNamespace) in
      case sp_Logs (mo_Spec m) of
        None \<Rightarrow> data1
      | Some logs \<Rightarrow> data1(''InferenceNamespaces'' \<mapsto> TList (inference_namespaces W logs)))"

definition collector_replicas :: "MonitoringSpec \<Rightarrow> bool \<Rightarrow> int" where
  "collector_replicas sp isSNO =
     (if sp_CollectorReplicas sp = 0 then (if isSNO then 1 else 2) else sp_CollectorReplicas sp)"

definition buildTemplateData :: "'w cluster_scheme \<Rightarrow> Monitoring \<Rightarrow> string \<Rightarrow> tdata result" where
  "buildTemplateData W m persesAPIVersion0 =
     (let persesAPIVersion = (if persesAPIVersion0 = '''' then persesV1Alpha2 else persesAPIVersion0);
          namespace = monitoringNamespace W m;
          gatewayNamespace = Getenv W ''GATEWAY_NAMESPACE'';
          isSNO = fst (IsSingleNodeCluster W) in
      if gatewayNamespace \<noteq> '''' \<and> \<not> re_matches dns1123LabelRe gatewayNamespace then
        Inl (errors_New (''invalid GATEWAY_NAMESPACE '' @ quoted gatewayNamespace @
          '': expected a DNS-1123 namespace name''))
      else
       (case addImageTLSAndKorrel8rData W m (addResourceData (initial_data W m persesAPIVersion)) of
          Inl err \<Rightarrow> Inl err
        | Inr data1 \<Rightarrow>
        (case metrics_data W m isSNO data1 of
          Inl err \<Rightarrow> Inl err
        | Inr data2 \<Rightarrow>
        (case traces_data W m data2 of
          Inl err \<Rightarrow> Inl err
        | Inr data3 \<Rightarrow>
        (case addUsageLogsData W m usageLogsLokiStackResourceName namespace
                (addLokiTemplateData m namespace
                  (data3(''ThanosQuerierEndpoint'' \<mapsto>
                     TStr (''http://thanos-querier-data-science-thanos-querier.'' @ namespace @
                           ''.svc.cluster.local:10902'')))) of
          Inl err \<Rightarrow> Inl err
        | Inr data4 \<Rightarrow>
            addKorrel8rConfigChecksum W
              ((forwarding_data W m data4)(''CollectorReplicas'' \<mapsto>
                 TInt (collector_replicas (mo_Spec m) isSNO)))))))) "


subsection \<open>The addresses admitted by the network policies\<close>

text \<open>
  The specification: the addresses of the endpoints that are not marked unready, in the slices
  of an IP address type, each paired with its slice's type; and the host network of an address.
\<close>

definition serving :: "EndpointSlice list \<Rightarrow> (string \<times> string) list" where
  "serving slices =
     [(es_AddressType sl, ad).
        sl \<leftarrow> slices, es_AddressType sl \<in> {''IPv4'', ''IPv6''},
        ep \<leftarrow> es_Endpoints sl, ep_Ready ep \<noteq> Some False, ad \<leftarrow> ep_Addresses ep]"

fun host_network :: "string \<times> string \<Rightarrow> string" where
  "host_network (ty, ad) =
     (case ParseAddr ad of Some ip \<Rightarrow> Addr_String ip @ ''/'' @ show_nat (BitLen ip) | None \<Rightarrow> '''')"

fun address_matches :: "string \<times> string \<Rightarrow> bool" where
  "address_matches (ty, ad) =
     (case ParseAddr ad of
        Some ip \<Rightarrow> (ty = ''IPv4'' \<longrightarrow> BitLen ip = 32) \<and> (ty = ''IPv6'' \<longrightarrow> BitLen ip = 128)
      | None \<Rightarrow> False)"

lemma bind_exact:
  assumes "\<And>r. f = Inr r \<longleftrightarrow> P \<and> r = v"
  shows "(case f of Inl e \<Rightarrow> Inl e | Inr x \<Rightarrow> g x) = Inr y \<longleftrightarrow> P \<and> g v = Inr y"
  using assms [of v] assms [of "projr f"] by (cases f) auto

lemma address_loop_exact:
  "address_loop ty as cs = Inr r \<longleftrightarrow>
     list_all address_matches (map (Pair ty) as) \<and> r = cs @ map host_network (map (Pair ty) as)"
  by (induction as arbitrary: cs) (auto split: option.splits)

lemma endpoint_loop_exact:
  "endpoint_loop ty eps cs = Inr r \<longleftrightarrow>
     (let as = [(ty, ad). ep \<leftarrow> eps, ep_Ready ep \<noteq> Some False, ad \<leftarrow> ep_Addresses ep] in
      list_all address_matches as \<and> r = cs @ map host_network as)"
proof (induction eps arbitrary: cs)
  case (Cons ep eps)
  then show ?case
    by (auto simp: Let_def bind_exact [OF address_loop_exact])
qed auto

lemma slice_loop_exact:
  "slice_loop sls cs = Inr r \<longleftrightarrow>
     list_all address_matches (serving sls) \<and> r = cs @ map host_network (serving sls)"
proof (induction sls arbitrary: cs)
  case (Cons sl sls)
  have "(case endpoint_loop (es_AddressType sl) (es_Endpoints sl) cs of
           Inl e \<Rightarrow> Inl e | Inr x \<Rightarrow> slice_loop sls x) = Inr r \<longleftrightarrow>
        list_all address_matches (serving [sl]) \<and>
        slice_loop sls (cs @ map host_network (serving [sl])) = Inr r"
    if "es_AddressType sl \<in> {''IPv4'', ''IPv6''}"
    using that
    by (subst bind_exact [OF endpoint_loop_exact [unfolded Let_def]]) (simp add: serving_def)
  moreover have "serving (sl # sls) = serving [sl] @ serving sls"
    by (simp add: serving_def)
  ultimately show ?case
    using Cons by (auto simp: serving_def)
qed (auto simp: serving_def)

text \<open>
  C33: the API server CIDRs handed to the network policies are exactly the host networks of the
  serving endpoints: the resolution succeeds if and only if there is at least one serving
  address and every one of them parses and is of its slice's address type, and the result is
  the sorted, duplicate-free list of their \<open>/32\<close> or \<open>/128\<close> networks.
\<close>

theorem api_server_cidrs_exact:
  "kubernetesAPIServerCIDRs slices = Inr cidrs \<longleftrightarrow>
     serving slices \<noteq> [] \<and> list_all address_matches (serving slices) \<and>
     cidrs = sorted_keys (map host_network (serving slices))"
proof (cases "slice_loop slices []")
  case (Inl e)
  then show ?thesis
    using slice_loop_exact [of slices "[]" "map host_network (serving slices)"]
    by (auto simp: kubernetesAPIServerCIDRs_def)
next
  case (Inr r)
  then show ?thesis
    using slice_loop_exact [of slices "[]" r] by (auto simp: kubernetesAPIServerCIDRs_def)
qed

subsection \<open>The prom-label-proxy version gate\<close>

lemma digit_char [simp]: "(n::nat) < 10 \<Longrightarrow> is_digit (char_of (48 + n))"
  by (simp add: is_digit_def Let_def)

lemma show_nat_digits [simp]: "list_all is_digit (show_nat n)"
  by (induction n rule: show_nat.induct) (subst show_nat.simps, simp)

lemma show_nat_not_Nil [simp]: "show_nat n \<noteq> []"
  by (subst show_nat.simps) simp

lemma digits_value_snoc [simp]: "digits_value (s @ [c]) = digits_value s * 10 + (of_char c - 48)"
  by (simp add: digits_value_def)

lemma digits_value_show_nat [simp]: "digits_value (show_nat n) = n"
proof (induction n rule: show_nat.induct)
  case (1 n)
  then show ?case
    by (subst show_nat.simps) (auto simp: digits_value_def)
qed

lemma hd_show_nat_digit: "is_digit (hd (show_nat n))"
  using show_nat_digits [of n] by (cases "show_nat n") (auto simp del: show_nat_digits)

lemma Atoi_show_nat: "n < 2 ^ 63 \<Longrightarrow> Atoi (show_nat n) = Inr (int n)"
  using hd_show_nat_digit [of n]
  by (auto simp: Atoi_def Let_def is_digit_def)

lemma span_show_nat [simp]:
  "takeWhile is_digit (show_nat n) = show_nat n" "dropWhile is_digit (show_nat n) = []"
  "\<not> is_digit c \<Longrightarrow> takeWhile is_digit (show_nat n @ c # s) = show_nat n"
  "\<not> is_digit c \<Longrightarrow> dropWhile is_digit (show_nat n @ c # s) = c # s"
  using show_nat_digits [of n]
  by (auto simp: list_all_iff takeWhile_append dropWhile_append simp del: show_nat_digits)

definition version_tag :: "nat \<Rightarrow> nat \<Rightarrow> nat \<Rightarrow> string" where
  "version_tag a b c = show_nat a @ ''.'' @ show_nat b @ ''.'' @ show_nat c"

lemma not_digits [simp]: "\<not> is_digit CHR ''.''" "\<not> is_digit CHR '':''" "\<not> is_digit CHR 0x2F"
  "\<not> is_digit CHR ''-''" "\<not> is_digit CHR ''+''" "\<not> is_digit CHR ''@''" "\<not> is_digit CHR ''v''"
  by (simp_all add: is_digit_def)

lemma show_nat_no: "\<not> is_digit c \<Longrightarrow> c \<notin> set (show_nat n)"
  using show_nat_digits [of n] by (auto simp: list_all_iff simp del: show_nat_digits)

lemma version_tag_no: "\<not> is_digit c \<Longrightarrow> c \<noteq> CHR ''.'' \<Longrightarrow> c \<notin> set (version_tag a b c')"
  by (auto simp: version_tag_def show_nat_no)

lemma semver_at_version_tag:
  "semver_at ('':v'' @ version_tag a b c) = Some (show_nat a, show_nat b, show_nat c)"
  by (simp add: semver_at_def version_tag_def semver_end_def)

lemma FindSemver_skip: "CHR '':'' \<notin> set s \<Longrightarrow> FindSemver (s @ t) = FindSemver t"
  by (induction s) (auto simp: semver_at_def)

lemma after_last_append: "c \<notin> set t \<Longrightarrow> after_last c (s @ c # t) = t"
  by (simp add: after_last_def takeWhile_append)


text \<open>
  C34: an image tagged with a version is accepted exactly when that version is at least 0.16.2
  in the lexicographic order of versions, the first to know \<open>--query-param-only\<close>: printing a
  version as a tag of any repository path, registry ports included, and parsing it back loses
  nothing as long as each number fits Go's \<open>int\<close>.
\<close>

theorem prom_label_proxy_gate_exact:
  assumes "CHR ''@'' \<notin> set (path @ name)" and "CHR '':'' \<notin> set name" and "CHR 0x2F \<notin> set name"
    and "a < 2 ^ 63" and "b < 2 ^ 63" and "c < 2 ^ 63"
  shows "validatePromLabelProxyImageSupportsQueryParamOnly
           (path @ [CHR 0x2F] @ name @ '':v'' @ version_tag a b c) = None \<longleftrightarrow>
         (0, 16, 2) \<le> (a, b, c)"
proof -
  let ?ref = "name @ '':v'' @ version_tag a b c"
  have ref: "after_last CHR 0x2F (path @ [CHR 0x2F] @ ?ref) = ?ref"
    using assms(3) after_last_append [of "CHR 0x2F" ?ref path] by (simp add: version_tag_no)
  have tag: "after_last CHR '':'' ?ref = ''v'' @ version_tag a b c"
    using after_last_append [of "CHR '':''" "''v'' @ version_tag a b c" name]
    by (simp add: version_tag_no)
  have "CHR ''@'' \<notin> set (path @ [CHR 0x2F] @ ?ref)"
    using assms(1) by (simp add: version_tag_no)
  then have "\<not> Contains (path @ [CHR 0x2F] @ ?ref) ''@sha256:''"
    using set_mono_sublist [of "''@sha256:''" "path @ [CHR 0x2F] @ ?ref"] by (auto simp: Contains_def)
  moreover have "FindSemver ?ref = Some (show_nat a, show_nat b, show_nat c)"
    using semver_at_version_tag [of a b c] by (simp add: FindSemver_skip [OF assms(2)])
  then have "parsePromLabelProxySemverTag (path @ [CHR 0x2F] @ ?ref) = Some (int a, int b, int c)"
    unfolding parsePromLabelProxySemverTag_def Let_def ref tag TrimPrefix_append
    using assms(4-6) by (simp add: version_tag_no Atoi_show_nat)
  ultimately show ?thesis
    unfolding validatePromLabelProxyImageSupportsQueryParamOnly_def by auto
qed

theorem prom_label_proxy_gate_exact_witness:
  "validatePromLabelProxyImageSupportsQueryParamOnly
     (''registry.local:5000'' @ [CHR 0x2F] @ ''proxy'' @ '':v'' @ version_tag 0 16 2) = None"
  by (subst prom_label_proxy_gate_exact) simp_all


subsection \<open>Every key a template reads is set\<close>

text \<open>
  Templates are executed with \<open>missingkey=error\<close>. \<open>required_keys\<close> is the union, over all templates
  of \<open>internal/controller/resources\<close> and the one of \<open>internal/controller/monitoring\<close> (the operator's
  own alerts), of the keys that occur in a template action: the keys read whatever is configured,
  and those read only by templates, or parts of templates, of a configured feature
  (\<open>monitoring-stack\<close>, \<open>instrumentation\<close>, the Tempo templates, the Tempo sections of the collector and
  of Korrel8r, \<open>cluster-log-forwarder\<close>).
\<close>

definition base_keys :: "string list" where
  "base_keys =
     [''AcceleratorMetrics'', ''BuiltinDCGMScrapeEnabled'', ''GatewayNamespace'', ''Korrel8rImage'',
      ''Korrel8rRequestTimeout'', ''Korrel8rServiceName'', ''Korrel8rSessionTimeout'', ''Logs'', ''Metrics'',
      ''MetricsExporterNames'', ''MetricsExporters'', ''MetricsStorage'', ''Namespace'', ''PersesAPIVersion'',
      ''OperatorNamespace'', ''OperatorPodPrefix'', ''PersesImage'', ''TargetAllocatorSecretNamespaces'', ''TargetAllocatorServiceAccount'', ''TempoStorage'',
      ''Traces'', ''TracesExporterNames'', ''TracesExporters'', ''UsageLogsAttributeNames'',
      ''UsageLogsAttributes'', ''UsageLogsCredentialSecret'', ''UsageLogsExporterNames'', ''UsageLogsExporters'']"

definition resource_keys :: "string list" where
  "resource_keys =
     [''CPULimit'', ''CPURequest'', ''CollectorCPULimit'', ''CollectorCPURequest'', ''CollectorMemoryLimit'',
      ''CollectorMemoryRequest'', ''Korrel8rCPULimit'', ''Korrel8rCPURequest'', ''Korrel8rMemoryLimit'',
      ''Korrel8rMemoryRequest'', ''MemoryLimit'', ''MemoryRequest'', ''TempoCPULimit'', ''TempoCPURequest'',
      ''TempoMemoryLimit'', ''TempoMemoryRequest'']"

definition proxy_keys :: "string list" where
  "proxy_keys =
     [''HTTPMethodGateImage'', ''KubeRBACProxyImage'', ''PromLabelProxyImage'', ''TLSCipherSuites'',
      ''TLSCurvePreferences'', ''TLSMinVersion'', ''Korrel8rAPIServerCIDRs'', ''KubernetesAPIServerCIDRs'']"

definition loki_keys :: "string list" where
  "loki_keys =
     [''LogsLokiStackSize'', ''LokiQueryEndpoint'', ''LokiStackName'', ''LokiStorageClassName'',
      ''LokiStorageCredentialMode'', ''LokiStorageSecretName'', ''LokiStorageType'',
      ''UsageLogsLokiStackName'', ''UsageLogsLokiStorageClassName'', ''UsageLogsLokiStorageCredentialMode'',
      ''UsageLogsLokiStorageSecretName'', ''UsageLogsLokiStorageType'']"

definition usage_keys :: "string list" where
  "usage_keys = [''LokiStackSize'', ''UsageLogs'', ''UsageLogsCollectorName'', ''UsageLogsEndpoint'']"

definition final_keys :: "string list" where
  "final_keys =
     [''ThanosQuerierEndpoint'', ''ClusterLogForwarderName'', ''ClusterLogForwarderNetworkPolicyName'',
      ''ClusterLogForwarderServiceAccount'', ''ClusterLoggingNamespace'', ''CollectorReplicas'',
      ''Korrel8rConfigChecksum'']"

definition tempo_keys :: "Traces \<Rightarrow> string list" where
  "tempo_keys tr =
     [''Backend'', ''TempoCAConfigMap'', ''TempoCertificateSecret'', ''TempoEndpoint'', ''TempoQueryEndpoint'',
      ''TempoTLSEnabled'', ''TracesRetention''] @
     (case tr_Storage tr of
        None \<Rightarrow> []
      | Some st \<Rightarrow> if ts_Backend st = StorageBackendPV then [''Size''] else [''Secret''])"

definition required_keys :: "MonitoringSpec \<Rightarrow> string list" where
  "required_keys sp =
     base_keys @ resource_keys @ proxy_keys @ loki_keys @ usage_keys @ final_keys @
     (if sp_Metrics sp \<noteq> None then [''Replicas'', ''StorageRetention'', ''StorageSize''] else []) @
     (case sp_Traces sp of None \<Rightarrow> [] | Some tr \<Rightarrow> [''OtlpEndpoint'', ''SampleRatio''] @ tempo_keys tr) @
     (if sp_Logs sp \<noteq> None then [''InferenceNamespaces''] else [])"

lemma initial_data_dom: "set base_keys \<subseteq> dom (initial_data W m v)"
  by (simp add: base_keys_def initial_data_def Let_def)

lemma addResourceData_dom: "dom (addResourceData data) = dom data \<union> set resource_keys"
  unfolding addResourceData_def resource_keys_def by (simp add: insert_commute)

lemma addImageTLSAndKorrel8rData_dom:
  assumes "addImageTLSAndKorrel8rData W m data = Inr d"
  shows "dom data \<union> set proxy_keys \<subseteq> dom d"
proof -
  obtain d1 d2 where d1: "addImageURLs W data = Inr d1" and d2: "addTLSData W d1 = Inr d2"
    and d: "addKorrel8rAPIServerData W m d2 = Inr d"
    using assms by (auto simp: addImageTLSAndKorrel8rData_def split: sum.splits)
  have "dom data \<union> {''HTTPMethodGateImage'', ''KubeRBACProxyImage'', ''PromLabelProxyImage''} \<subseteq> dom d1"
    using d1 by (auto simp: addImageURLs_def Let_def split: sum.splits if_splits)
  moreover have "dom d1 \<union> {''TLSCipherSuites'', ''TLSCurvePreferences'', ''TLSMinVersion''} \<subseteq> dom d2"
    using d2 by (auto simp: addTLSData_def Let_def split: sum.splits if_splits option.splits)
  moreover have "dom d2 \<union> {''Korrel8rAPIServerCIDRs'', ''KubernetesAPIServerCIDRs''} \<subseteq> dom d"
    using d by (auto simp: addKorrel8rAPIServerData_def Let_def split: sum.splits if_splits)
  ultimately show ?thesis
    by (simp add: proxy_keys_def) blast
qed

lemma metrics_data_dom:
  assumes "metrics_data W m b data = Inr d"
  shows "dom data \<subseteq> dom d"
    and "sp_Metrics (mo_Spec m) \<noteq> None \<Longrightarrow> {''Replicas'', ''StorageRetention'', ''StorageSize''} \<subseteq> dom d"
  using assms
  by (auto simp: metrics_data_def addMetricsData_def addExportersData_def addReplicasData_def
        addStorageData_def Let_def split: option.splits sum.splits if_splits)

lemma tempo_data_dom:
  assumes "case tr_Storage tr of None \<Rightarrow> True | Some st \<Rightarrow> valid_TracesStorage st"
  shows "dom data \<union> set (tempo_keys tr) \<subseteq> dom (tempo_data tr ns data)"
proof (cases "tr_Storage tr")
  case None
  then show ?thesis
    by (simp add: tempo_data_def tempo_keys_def) blast
next
  case (Some st)
  then consider "ts_Backend st = ''pv''" | "ts_Backend st = ''s3''" | "ts_Backend st = ''gcs''"
    using assms by (auto simp: valid_TracesStorage_def StorageBackendPV_def StorageBackendS3_def StorageBackendGCS_def)
  then show ?thesis
    by cases (simp_all add: Some tempo_data_def tempo_keys_def getStringValueOrDefault_def Let_def
      StorageBackendPV_def StorageBackendS3_def StorageBackendGCS_def, blast+)
qed

lemma traces_data_dom:
  assumes "traces_data W m data = Inr d" and "valid_MonitoringSpec (mo_Spec m)"
  shows "dom data \<union> (case sp_Traces (mo_Spec m) of None \<Rightarrow> {}
     | Some tr \<Rightarrow> {''OtlpEndpoint'', ''SampleRatio''} \<union> set (tempo_keys tr)) \<subseteq> dom d"
proof (cases "sp_Traces (mo_Spec m)")
  case None
  then show ?thesis using assms(1) by (simp add: traces_data_def)
next
  case (Some tr)
  then have "case tr_Storage tr of None \<Rightarrow> True | Some st \<Rightarrow> valid_TracesStorage st"
    using assms(2) by (simp add: valid_MonitoringSpec_def valid_Traces_def)
  note dom = tempo_data_dom [OF this]
  obtain d1 where "d = tempo_data tr (monitoringNamespace W m) d1"
    and "dom data \<union> {''OtlpEndpoint'', ''SampleRatio''} \<subseteq> dom d1"
    using assms(1) Some by (force simp: traces_data_def addTracesTemplateData_def Let_def split: sum.splits)
  then show ?thesis
    using dom [of d1 "monitoringNamespace W m"] Some by simp blast
qed

lemma addLokiTemplateData_dom: "dom data \<union> set loki_keys \<subseteq> dom (addLokiTemplateData m ns data)"
  unfolding addLokiTemplateData_def addLokiStorageData_def loki_keys_def Let_def
  by (auto split: option.splits)

lemma addUsageLogsData_dom:
  assumes "addUsageLogsData W m nm ns data = Inr d"
  shows "dom data \<union> set usage_keys \<subseteq> dom d"
proof -
  have *: "dom data \<subseteq> dom d" if "addUsageLogsExportersData W ul data = Inr d" for ul data d
    using that by (force simp: addUsageLogsExportersData_def split: sum.splits)
  show ?thesis
    using assms unfolding addUsageLogsData_def Let_def
    by (auto simp: usage_keys_def dest!: * split: option.splits if_splits) (metis domD domI subsetD)+
qed

lemma forwarding_data_dom:
  "dom data \<subseteq> dom (forwarding_data W m data)"
  "{''ClusterLogForwarderName'', ''ClusterLogForwarderNetworkPolicyName'',
     ''ClusterLogForwarderServiceAccount'', ''ClusterLoggingNamespace''} \<subseteq> dom (forwarding_data W m data)"
  "sp_Logs (mo_Spec m) \<noteq> None \<Longrightarrow> {''InferenceNamespaces''} \<subseteq> dom (forwarding_data W m data)"
  by (auto simp: forwarding_data_def Let_def split: option.splits)


definition with_querier :: "string \<Rightarrow> tdata \<Rightarrow> tdata" where
  "with_querier ns data =
     data(''ThanosQuerierEndpoint'' \<mapsto> TStr (''http://thanos-querier-data-science-thanos-querier.'' @ ns @
       ''.svc.cluster.local:10902''))"

text \<open>The stages a successful build went through.\<close>

lemma buildTemplateData_stages:
  assumes "buildTemplateData W m v = Inr data"
  obtains v' d1 d2 d3 d4 sum where
    "addImageTLSAndKorrel8rData W m (addResourceData (initial_data W m v')) = Inr d1"
    "metrics_data W m (fst (IsSingleNodeCluster W)) d1 = Inr d2"
    "traces_data W m d2 = Inr d3"
    "addUsageLogsData W m usageLogsLokiStackResourceName (monitoringNamespace W m)
       (addLokiTemplateData m (monitoringNamespace W m) (with_querier (monitoringNamespace W m) d3)) = Inr d4"
    "data = (forwarding_data W m d4)(
       ''CollectorReplicas'' \<mapsto> TInt (collector_replicas (mo_Spec m) (fst (IsSingleNodeCluster W))),
       ''Korrel8rConfigChecksum'' \<mapsto> TStr sum)"
  using assms
  by (auto simp: buildTemplateData_def Let_def addKorrel8rConfigChecksum_def with_querier_def
        split: if_splits sum.splits)

lemma loki_stage_dom:
  assumes "addUsageLogsData W m usageLogsLokiStackResourceName ns (addLokiTemplateData m ns (with_querier ns d3)) = Inr d4"
  shows "insert ''ThanosQuerierEndpoint'' (dom d3) \<union> set loki_keys \<union> set usage_keys \<subseteq> dom d4"
  using addLokiTemplateData_dom [of "with_querier ns d3" m ns] addUsageLogsData_dom [OF assms]
  by (simp add: with_querier_def) blast

lemma final_stage_dom:
  assumes "data = (forwarding_data W m d4)(''CollectorReplicas'' \<mapsto> TInt n, ''Korrel8rConfigChecksum'' \<mapsto> TStr checksum)"
  shows "dom d4 \<subseteq> dom data" and "set final_keys - {''ThanosQuerierEndpoint''} \<subseteq> dom data"
    and "set (if sp_Logs (mo_Spec m) \<noteq> None then [''InferenceNamespaces''] else []) \<subseteq> dom data"
proof -
  have fwd: "dom data = {''CollectorReplicas'', ''Korrel8rConfigChecksum''} \<union> dom (forwarding_data W m d4)"
    by (simp add: assms insert_commute)
  show "dom d4 \<subseteq> dom data" "set final_keys - {''ThanosQuerierEndpoint''} \<subseteq> dom data"
    using forwarding_data_dom(1,2) [where data = d4 and m = m and W = W]
    unfolding fwd by (blast, simp add: final_keys_def)
  show "set (if sp_Logs (mo_Spec m) \<noteq> None then [''InferenceNamespaces''] else []) \<subseteq> dom data"
    using forwarding_data_dom(3) [where data = d4 and m = m and W = W]
    unfolding fwd by (cases "sp_Logs (mo_Spec m)") simp_all
qed

text \<open>
  C24: rendering never fails on a missing key: for every spec the API server admits, when the
  template data are built, every key that a template of the repository reads in that
  configuration is present.
\<close>

theorem template_data_complete:
  assumes "valid_MonitoringSpec (mo_Spec m)" and "buildTemplateData W m v = Inr data"
  shows "set (required_keys (mo_Spec m)) \<subseteq> dom data"
  using assms(2)
proof (rule buildTemplateData_stages)
  fix v' d1 d2 d3 d4 sum
  let ?ns = "monitoringNamespace W m"
  assume 1: "addImageTLSAndKorrel8rData W m (addResourceData (initial_data W m v')) = Inr d1"
    and 2: "metrics_data W m (fst (IsSingleNodeCluster W)) d1 = Inr d2"
    and 3: "traces_data W m d2 = Inr d3"
    and 4: "addUsageLogsData W m usageLogsLokiStackResourceName ?ns
       (addLokiTemplateData m ?ns (with_querier ?ns d3)) = Inr d4"
    and data: "data = (forwarding_data W m d4)(
       ''CollectorReplicas'' \<mapsto> TInt (collector_replicas (mo_Spec m) (fst (IsSingleNodeCluster W))),
       ''Korrel8rConfigChecksum'' \<mapsto> TStr sum)"
  have "set base_keys \<union> set resource_keys \<union> set proxy_keys \<subseteq> dom d1"
    using addImageTLSAndKorrel8rData_dom [OF 1] initial_data_dom [of W m v']
    by (auto simp: addResourceData_dom)
  note stage1 = this
  note stage4 = loki_stage_dom [OF 4] and stage5 = final_stage_dom [OF data]
  have chain: "dom d3 \<subseteq> dom data" "dom d2 \<subseteq> dom data" "dom d1 \<subseteq> dom data"
  proof -
    have "dom d2 \<subseteq> dom d3"
      using traces_data_dom [OF 3 assms(1)] unfolding Un_subset_iff by (rule conjunct1)
    moreover have "dom d3 \<subseteq> dom d4"
      using stage4 by blast
    ultimately show "dom d3 \<subseteq> dom data" "dom d2 \<subseteq> dom data" "dom d1 \<subseteq> dom data"
      using metrics_data_dom(1) [OF 2] stage5(1) by (meson order_trans)+
  qed
  have "set (if sp_Metrics (mo_Spec m) \<noteq> None then [''Replicas'', ''StorageRetention'', ''StorageSize''] else [])
      \<subseteq> dom data"
    using metrics_data_dom(2) [OF 2] chain(2) by (cases "sp_Metrics (mo_Spec m)") auto
  moreover have "set (case sp_Traces (mo_Spec m) of None \<Rightarrow> []
      | Some tr \<Rightarrow> [''OtlpEndpoint'', ''SampleRatio''] @ tempo_keys tr) \<subseteq> dom data"
    by (rule order_trans [OF _ chain(1)], insert traces_data_dom [OF 3 assms(1)])
       (cases "sp_Traces (mo_Spec m)", simp_all)
  moreover note stage5(3)
  moreover have "set final_keys \<subseteq> dom data" "set loki_keys \<subseteq> dom data" "set usage_keys \<subseteq> dom data"
    using stage4 stage5 by blast+
  moreover have "set base_keys \<subseteq> dom data" "set resource_keys \<subseteq> dom data" "set proxy_keys \<subseteq> dom data"
    using stage1 chain(3) by blast+
  ultimately show ?thesis
    by (simp only: required_keys_def set_append Un_subset_iff simp_thms)
qed


definition api_cluster :: cluster where
  "api_cluster = quiet_cluster\<lparr>ListEndpointSlices := (\<lambda>_ _. Inr
     [\<lparr>es_AddressType = ''IPv4'', es_Endpoints = [\<lparr>ep_Ready = None, ep_Addresses = [''10.0.0.1'']\<rparr>]\<rparr>])\<rparr>"

definition tempo_spec :: MonitoringSpec where
  "tempo_spec = bare_spec\<lparr>sp_Traces := Some
     \<lparr>tr_Storage = Some \<lparr>ts_Backend = ''pv'', ts_Size = ''5Gi'', ts_Secret = '''', ts_Retention = 0\<rparr>,
      tr_SampleRatio = '''', tr_TLS = None, tr_Exporters = []\<rparr>\<rparr>"

lemma sample_cidrs:
  "kubernetesAPIServerCIDRs
     [\<lparr>es_AddressType = ''IPv4'', es_Endpoints = [\<lparr>ep_Ready = None, ep_Addresses = [''10.0.0.1'']\<rparr>]\<rparr>]
   = Inr [''10.0.0.1/32'']"
  by code_simp

lemma default_image_accepted:
  "validatePromLabelProxyImageSupportsQueryParamOnly defaultPromLabelProxyImage = None"
  by code_simp

lemma no_curves: "filterProxyCurvePreferences '''' b = Inr ''''"
  by (simp add: filterProxyCurvePreferences_def)

lemma sample_build:
  "\<exists>data. buildTemplateData api_cluster (fresh_monitoring tempo_spec) '''' = Inr data"
  unfolding buildTemplateData_def Let_def
  by (simp add: addImageTLSAndKorrel8rData_def addImageURLs_def resolvePromLabelProxyImage_def
        getEnvOrDefault_def default_image_accepted addTLSData_def no_curves proxyTLSVersion13_def
        proxyTLSVersion12_def validateProxyHTTP2CipherSuites_def addKorrel8rAPIServerData_def
        sample_cidrs metrics_data_def traces_data_def addTracesTemplateData_def addUsageLogsData_def
        addKorrel8rConfigChecksum_def api_cluster_def quiet_cluster_def tempo_spec_def sample_defs)

theorem template_data_complete_witness:
  "\<exists>data. buildTemplateData api_cluster (fresh_monitoring tempo_spec) '''' = Inr data \<and>
     set (required_keys tempo_spec) \<subseteq> dom data"
proof -
  obtain data where data: "buildTemplateData api_cluster (fresh_monitoring tempo_spec) '''' = Inr data"
    using sample_build by blast
  have "valid_MonitoringSpec tempo_spec" by code_simp
  then have "set (required_keys (mo_Spec (fresh_monitoring tempo_spec))) \<subseteq> dom data"
    using data by (intro template_data_complete) (simp_all add: fresh_monitoring_def)
  with data show ?thesis by (auto simp: fresh_monitoring_def)
qed

text \<open>The address a round publishes for a configured usage logs stack is never blank.\<close>

lemma usage_logs_endpoint_built:
  assumes "buildTemplateData W m v = Inr data" and "usage_logs_storage (mo_Spec m) \<noteq> None"
  shows "\<exists>e. data ''UsageLogsEndpoint'' = Some (TStr e) \<and> e \<noteq> []"
proof (rule buildTemplateData_stages [OF assms(1)])
  fix d3 d4 sum
  assume d4: "addUsageLogsData W m usageLogsLokiStackResourceName (monitoringNamespace W m)
       (addLokiTemplateData m (monitoringNamespace W m) (with_querier (monitoringNamespace W m) d3)) = Inr d4"
    and data: "data = (forwarding_data W m d4)(
       ''CollectorReplicas'' \<mapsto> TInt (collector_replicas (mo_Spec m) (fst (IsSingleNodeCluster W))),
       ''Korrel8rConfigChecksum'' \<mapsto> TStr sum)"
  have "\<exists>e. d4 ''UsageLogsEndpoint'' = Some (TStr e) \<and> e \<noteq> []"
    using d4 assms(2)
    by (auto simp: addUsageLogsData_def addUsageLogsExportersData_def usage_logs_storage_def Let_def
        split: option.splits sum.splits if_splits)
  then show ?thesis
    by (simp add: data forwarding_data_def Let_def split: option.split)
qed

subsection \<open>The two LokiStacks do not share settings\<close>

text \<open>The settings of one stack's storage, blank when it has none.\<close>

definition loki_settings :: "LokiStorageConfig option \<Rightarrow> string list" where
  "loki_settings storage =
     (case storage of
        None \<Rightarrow> ['''', '''', '''', '''']
      | Some st \<Rightarrow> [ls_CredentialMode st, ls_SecretName st, ls_Type st,
          (if ls_StorageClassName st = '''' then defaultLokiStorageClassName else ls_StorageClassName st)])"

definition stack_settings :: "string \<Rightarrow> tdata \<Rightarrow> tval option list" where
  "stack_settings pre data =
     [data (pre @ ''StorageCredentialMode''), data (pre @ ''StorageSecretName''),
      data (pre @ ''StorageType''), data (pre @ ''StorageClassName'')]"

lemma addUsageLogsData_settings:
  assumes "addUsageLogsData W m nm ns data = Inr d"
  shows "stack_settings ''Loki'' d = stack_settings ''Loki'' data"
    and "stack_settings ''UsageLogsLoki'' d = stack_settings ''UsageLogsLoki'' data"
  using assms
  by (auto simp: addUsageLogsData_def addUsageLogsExportersData_def stack_settings_def Let_def
        split: option.splits sum.splits if_splits)

lemma final_settings:
  assumes "pre \<in> {''Loki'', ''UsageLogsLoki''}"
  shows "stack_settings pre ((forwarding_data W m data)(''CollectorReplicas'' \<mapsto> r, ''Korrel8rConfigChecksum'' \<mapsto> c))
    = stack_settings pre data"
  using assms by (auto simp: stack_settings_def forwarding_data_def Let_def split: option.splits)

lemma addLokiTemplateData_settings:
  "stack_settings ''Loki'' (addLokiTemplateData m ns data) =
     map (\<lambda>s. Some (TStr s)) (loki_settings (logs_storage (mo_Spec m)))"
  "stack_settings ''UsageLogsLoki'' (addLokiTemplateData m ns data) =
     map (\<lambda>s. Some (TStr s)) (loki_settings (usage_logs_storage (mo_Spec m)))"
  by (auto simp: addLokiTemplateData_def addLokiStorageData_def stack_settings_def loki_settings_def
        logs_storage_def usage_logs_storage_def getStringValueOrDefault_def Let_def split: option.splits)

text \<open>
  C25: the two LokiStacks are rendered from separate settings: in the data of a successful
  build the \<open>Loki\<close> storage keys are those of \<open>spec.logs.storage\<close> and the \<open>UsageLogsLoki\<close> keys
  those of \<open>spec.usageLogs.storage\<close>, blank when that feature has no storage, whatever the other
  feature is configured with.
\<close>

theorem loki_settings_do_not_leak:
  assumes "buildTemplateData W m v = Inr data"
  shows "stack_settings ''Loki'' data = map (\<lambda>s. Some (TStr s)) (loki_settings (logs_storage (mo_Spec m))) \<and>
         stack_settings ''UsageLogsLoki'' data =
           map (\<lambda>s. Some (TStr s)) (loki_settings (usage_logs_storage (mo_Spec m)))"
  by (rule buildTemplateData_stages [OF assms])
     (simp add: final_settings addUsageLogsData_settings addLokiTemplateData_settings)


theorem loki_settings_do_not_leak_witness:
  "\<exists>data. buildTemplateData api_cluster (fresh_monitoring tempo_spec) '''' = Inr data \<and>
     stack_settings ''UsageLogsLoki'' data = map (\<lambda>s. Some (TStr s)) ['''', '''', '''', '''']"
proof -
  obtain data where data: "buildTemplateData api_cluster (fresh_monitoring tempo_spec) '''' = Inr data"
    using sample_build by blast
  show ?thesis
    using data loki_settings_do_not_leak [OF data]
    by (auto simp: loki_settings_def usage_logs_storage_def tempo_spec_def sample_defs)
qed


end
