(* ===== verification/Reconciler.thy ===== *)
theory Reconciler
  imports Garbage Preconditions Template_Data
begin

section \<open>The reconciler (monitoring_reconciler.go)\<close>

text \<open>
  One reconcile round. \<open>reconcile\<close> is the body with its deferred handler, \<open>Reconcile\<close> the entry
  point with the finalizer protocol and the status patch. The API answers of a round are given
  per stage: \<open>W\<close> until the first write, \<open>Wc\<close> once the CA ConfigMap was applied and \<open>Wd\<close> once the
  desired resources were; environment variables and the conditions library are read through \<open>W\<close>.
  A \<open>ctrl.Result\<close> is the number of seconds of its \<open>RequeueAfter\<close>, 0 for the empty result; the
  code sets no other field. Logging is left out.
\<close>

subsection \<open>Constants\<close>

definition monitoringFinalizer :: string where "monitoringFinalizer = ''monitoring.opendatahub.io/cleanup''"
definition platformConfigName :: string where
  "platformConfigName = ''odh-'' @ MonitoringServiceName @ ''-config''"
definition platformVersionKey :: string where "platformVersionKey = ''platformVersion''"
definition openTelemetryCollectorComponent :: string where
  "openTelemetryCollectorComponent = ''opentelemetry-collector''"
definition openTelemetryTargetAllocatorComponent :: string where
  "openTelemetryTargetAllocatorComponent = ''opentelemetry-targetallocator''"
definition openTelemetryPartOf :: string where "openTelemetryPartOf = ''opentelemetry''"
definition collectorOperatorNetworkPolicyName :: string where
  "collectorOperatorNetworkPolicyName = ''data-science-collector-collector-networkpolicy''"
definition targetAllocatorOperatorPolicyName :: string where
  "targetAllocatorOperatorPolicyName = ''data-science-collector-targetallocator-networkpolicy''"

text \<open>\<open>platformcommon.Removed\<close>.\<close>

definition Removed :: string where "Removed = ''Removed''"

definition operatorVersion :: "'w cluster_scheme \<Rightarrow> string" where
  "operatorVersion W = Getenv W ''OPERATOR_VERSION''"

subsection \<open>Requeues\<close>

definition initializeCOOVersionCompatibilityCondition ::
  "'w conditions_lib_scheme \<Rightarrow> int \<Rightarrow> Monitoring \<Rightarrow> Monitoring \<times> bool" where
  "initializeCOOVersionCompatibilityCondition W g m =
     (let configured = (sp_ManagementState (mo_Spec m) \<noteq> Removed \<and> metrics_storage (mo_Spec m) \<noteq> None) in
      (if \<not> configured then
         MarkNotConfigured W g ConditionCOOVersionCompatible ''NotApplicable''
           ''COO compatibility is checked only when built-in metrics storage is configured'' m
       else m, configured))"

definition requeueForCOOVersionRefresh :: "nat \<Rightarrow> bool \<Rightarrow> go_error option \<Rightarrow> nat" where
  "requeueForCOOVersionRefresh result configured reconcileErr =
     (if reconcileErr = None \<and> configured \<and> result = 0 then 300 else result)"

fun awaiting_loop :: "Condition list \<Rightarrow> bool" where
  "awaiting_loop [] = True"
| "awaiting_loop (c # cs) =
     (if c_Type c = ConditionOpenTelemetryCollectorAvailable then c_Status c \<noteq> ConditionTrue
      else awaiting_loop cs)"

definition openTelemetryCollectorAwaitingReadiness :: "Monitoring \<Rightarrow> bool" where
  "openTelemetryCollectorAwaitingReadiness m =
     (if sp_Metrics (mo_Spec m) = None \<and> sp_Traces (mo_Spec m) = None then False
      else awaiting_loop (st_Conditions (mo_Status m)))"

definition requeueForCollectorReadiness :: "nat \<Rightarrow> Monitoring \<Rightarrow> go_error option \<Rightarrow> nat" where
  "requeueForCollectorReadiness result m reconcileErr =
     (if reconcileErr \<noteq> None \<or> result \<noteq> 0 \<or> sp_ManagementState (mo_Spec m) = Removed then result
      else if sp_Logs (mo_Spec m) \<noteq> None \<or> metrics_storage (mo_Spec m) \<noteq> None then result
      else if \<not> openTelemetryCollectorAwaitingReadiness m then result
      else 30)"

subsection \<open>Network policies of the OpenTelemetry operator\<close>

definition isOpenTelemetryOperatorNetworkPolicy :: "KObject \<Rightarrow> string \<Rightarrow> string \<Rightarrow> bool" where
  "isOpenTelemetryOperatorNetworkPolicy policy namespace component \<longleftrightarrow>
     sget (o_Labels policy) ''app.kubernetes.io/component'' = component \<and>
     sget (o_Labels policy) ''app.kubernetes.io/instance'' = namespace @ ''.data-science-collector'' \<and>
     sget (o_Labels policy) ''app.kubernetes.io/managed-by'' = opentelemetryOperator \<and>
     sget (o_Labels policy) ''app.kubernetes.io/part-of'' = openTelemetryPartOf"

definition isOpenTelemetryOperatorNetworkPolicyEvent :: "'w cluster_scheme \<Rightarrow> KObject \<Rightarrow> bool" where
  "isOpenTelemetryOperatorNetworkPolicyEvent W obj =
     (let namespace = getEnvOrDefault W ''MONITORING_NAMESPACE'' defaultMonitoringNamespace in
      if o_Gvk obj \<noteq> gvk_NetworkPolicy \<or> o_Namespace obj \<noteq> namespace then False
      else if o_Name obj = collectorOperatorNetworkPolicyName then
        isOpenTelemetryOperatorNetworkPolicy obj namespace openTelemetryCollectorComponent
      else if o_Name obj = targetAllocatorOperatorPolicyName then
        isOpenTelemetryOperatorNetworkPolicy obj namespace openTelemetryTargetAllocatorComponent
      else False)"

fun policies_loop :: "'w cluster_scheme \<Rightarrow> string \<Rightarrow> (string \<times> string) list \<Rightarrow> rstate \<Rightarrow> action_result" where
  "policies_loop W namespace [] s = (s, None)"
| "policies_loop W namespace ((name, component) # items) s =
     (case GetNetworkPolicy W namespace name of
        Inl err \<Rightarrow>
          if IsNotFound err then policies_loop W namespace items s
          else fail_with (''getting '' @ namespace @ ''/'' @ name @ '': '') err s
      | Inr policy \<Rightarrow>
          if \<not> isOpenTelemetryOperatorNetworkPolicy policy namespace component then
            policies_loop W namespace items s
          else (case delete_object W (''deleting '' @ namespace @ ''/'' @ name @ '': '') gvk_NetworkPolicy
                       namespace name None s of
              (s1, Some err) \<Rightarrow> (s1, Some err)
            | (s1, None) \<Rightarrow> policies_loop W namespace items s1))"

definition operator_policies :: "(string \<times> string) list" where
  "operator_policies =
     [(collectorOperatorNetworkPolicyName, openTelemetryCollectorComponent),
      (targetAllocatorOperatorPolicyName, openTelemetryTargetAllocatorComponent)]"

definition cleanupOpenTelemetryOperatorNetworkPolicies ::
  "'w cluster_scheme \<Rightarrow> string \<Rightarrow> rstate \<Rightarrow> action_result" where
  "cleanupOpenTelemetryOperatorNetworkPolicies W namespace s =
     policies_loop W namespace operator_policies s"

subsection \<open>Rendering\<close>

fun run_actions ::
  "('w cluster_scheme \<Rightarrow> int \<Rightarrow> rstate \<Rightarrow> action_result) list \<Rightarrow> 'w cluster_scheme \<Rightarrow> int \<Rightarrow> rstate \<Rightarrow> action_result" where
  "run_actions [] W g s = (s, None)"
| "run_actions (action # actions) W g s =
     (case action W g s of
        (s1, Some err) \<Rightarrow> (s1, Some err)
      | (s1, None) \<Rightarrow> run_actions actions W g s1)"

definition render_actions ::
  "string \<Rightarrow> bool \<Rightarrow> ('w cluster_scheme \<Rightarrow> int \<Rightarrow> rstate \<Rightarrow> action_result) list" where
  "render_actions persesVersion persesFound =
     [deployWebhookInfrastructure,
      deployMonitoringAdmissionPolicies,
      deployMonitoringStackWithQuerierAndRestrictions,
      deployTracingStack,
      deployOpenTelemetryCollector,
      deployAlerting,
      deployOperatorMonitoring,
      deployNodeMetricsEndpoint,
      deployKorrel8r,
      (\<lambda>W g. deployPerses W g persesVersion persesFound),
      (\<lambda>W g. deployPersesTempoIntegration W g persesVersion persesFound),
      (\<lambda>W g. deployPersesPrometheusIntegration W g persesVersion persesFound)]"

definition renderMonitoringResources ::
  "'w cluster_scheme \<Rightarrow> int \<Rightarrow> tdata \<Rightarrow> string \<Rightarrow> bool \<Rightarrow> rstate \<Rightarrow>
   rstate \<times> (KObject list \<times> string list \<times> go_error option) result" where
  "renderMonitoringResources W g data persesVersion persesFound s =
     (case run_actions (render_actions persesVersion persesFound) W g s of
        (s1, Some err) \<Rightarrow> (s1, Inl err)
      | (s1, None) \<Rightarrow>
          (case validateStorageIsolation W g (rs_Mon s1) of
             (m2, withheldComponents, storageErr) \<Rightarrow>
               (case deployLokiStacks W g withheldComponents (s1\<lparr>rs_Mon := m2\<rparr>) of
                  (s3, Some err) \<Rightarrow> (s3, Inl err)
                | (s3, None) \<Rightarrow>
                    (case Render W (rs_Sources s3) data of
                       Inl err \<Rightarrow> (s3, Inl (wrapf ''rendering templates: '' err))
                     | Inr desired \<Rightarrow> (s3, Inr (desired, withheldComponents, storageErr))))))"

subsection \<open>Applying\<close>

text \<open>One call of the deploy library.\<close>

definition deploy_resources :: "'w cluster_scheme \<Rightarrow> string \<Rightarrow> KObject list \<Rightarrow> rstate \<Rightarrow> action_result" where
  "deploy_resources W pre objs s =
     (case DeployAnswer W objs of
        Some err \<Rightarrow> fail_with pre err (emit (Apply objs) s)
      | None \<Rightarrow> (emit (Apply objs) s, None))"

definition ca_config_map :: "string \<Rightarrow> KObject list \<Rightarrow> KObject option" where
  "ca_config_map namespace desired =
     find (\<lambda>obj. o_Gvk obj = gvk_ConfigMap \<and> o_Namespace obj = namespace \<and>
             o_Name obj = prometheusWebTLSCAConfigMapName) (rev desired)"

definition preparePrometheusWebTLSCA ::
  "'w cluster_scheme \<Rightarrow> 'w cluster_scheme \<Rightarrow> KObject list \<Rightarrow> rstate \<Rightarrow> rstate \<times> bool result" where
  "preparePrometheusWebTLSCA W Wc desired s =
     (let namespace = monitoringNamespace W (rs_Mon s);
          stackFound = list_ex (\<lambda>obj. o_Gvk obj = gvk_MonitoringStack \<and> o_Namespace obj = namespace) desired in
      if \<not> stackFound then (s, Inr True)
      else (case ca_config_map namespace desired of
          None \<Rightarrow> (s, Inl (errors_New ''MonitoringStack requires the Prometheus CA ConfigMap template''))
        | Some caConfigMap \<Rightarrow>
            (case deploy_resources W ''applying Prometheus CA ConfigMap: '' [caConfigMap] s of
               (s1, Some err) \<Rightarrow> (s1, Inl err)
             | (s1, None) \<Rightarrow> syncPrometheusWebTLSCA Wc s1)))"

definition withoutMonitoringStack :: "KObject list \<Rightarrow> KObject list" where
  "withoutMonitoringStack desired = filter (\<lambda>obj. o_Gvk obj \<noteq> gvk_MonitoringStack) desired"

subsection \<open>Status after the apply\<close>

text \<open>\<open>data[key].(string)\<close> with the comma-ok form: a missing or non-string value reads as empty.\<close>

definition string_of :: "tval option \<Rightarrow> string" where
  "string_of v = (case v of Some (TStr x) \<Rightarrow> x | _ \<Rightarrow> '''')"

definition publish ::
  "'w conditions_lib_scheme \<Rightarrow> Monitoring \<Rightarrow> tdata \<Rightarrow> bool \<Rightarrow> string \<Rightarrow> string \<Rightarrow> string \<Rightarrow> string \<times> bool" where
  "publish W m data configured condition dataKey endpoint =
     (if \<not> configured then ('''', False)
      else if IsStatusConditionTrue W (GetConditions m) condition then (string_of (data dataKey), False)
      else if IsStatusConditionPresentAndEqual W (GetConditions m) condition ConditionUnknown then (endpoint, True)
      else ('''', True))"

definition publishLokiEndpoints ::
  "'w conditions_lib_scheme \<Rightarrow> tdata \<Rightarrow> Monitoring \<Rightarrow> Monitoring \<times> bool" where
  "publishLokiEndpoints W data m =
     (let (usage, r1) = publish W m data (usage_logs_storage (mo_Spec m) \<noteq> None)
            ConditionUsageLogsLokiStackAvailable ''UsageLogsEndpoint'' (st_UsageLogsEndpoint (mo_Status m));
          (logs, r2) = publish W m data (sp_Logs (mo_Spec m) \<noteq> None)
            ConditionLokiStackAvailable ''LokiQueryEndpoint'' (st_LogsEndpoint (mo_Status m))
      in (m\<lparr>mo_Status := (mo_Status m)\<lparr>st_UsageLogsEndpoint := usage, st_LogsEndpoint := logs\<rparr>\<rparr>, r1 \<or> r2))"

definition findUsageLogsCollectorCondition :: "Monitoring \<Rightarrow> Condition option" where
  "findUsageLogsCollectorCondition m =
     find (\<lambda>c. c_Type c = ConditionUsageLogsCollectorAvailable) (st_Conditions (mo_Status m))"

definition setUsageLogsForwardingStatus :: "tdata \<Rightarrow> Monitoring \<Rightarrow> Monitoring" where
  "setUsageLogsForwardingStatus data m =
     (let names =
        (case findUsageLogsCollectorCondition m of
           None \<Rightarrow> []
         | Some c \<Rightarrow>
             if c_Status c \<noteq> ConditionTrue then []
             else (case data ''UsageLogsExporterNames'' of Some (TList xs) \<Rightarrow> xs | _ \<Rightarrow> []))
      in m\<lparr>mo_Status := (mo_Status m)\<lparr>st_UsageLogsForwarding := names\<rparr>\<rparr>)"

definition usageLogsAwaitingCredential :: "Monitoring \<Rightarrow> bool" where
  "usageLogsAwaitingCredential m =
     (case findUsageLogsCollectorCondition m of
        None \<Rightarrow> False
      | Some c \<Rightarrow> c_Status c = ConditionFalse \<and> c_Reason c = CredentialNotFoundReason)"

definition syncPostDeployResources ::
  "'w cluster_scheme \<Rightarrow> 'w cluster_scheme \<Rightarrow> int \<Rightarrow> rstate \<Rightarrow> rstate" where
  "syncPostDeployResources W Wd g s =
     (let (s1, err) = syncThanosQuerierRouteDestinationCA Wd s;
          s2 = (case err of
              None \<Rightarrow> s1
            | Some e \<Rightarrow> on_mon (MarkFalse W g ConditionMonitoringStackAvailable ''ThanosCAConfigSyncFailed''
                (''Failed to sync Thanos Querier Route destination CA: '' @ Error e)) s1)
      in s2\<lparr>rs_Mon := fst (syncStatusURL Wd (rs_Mon s2))\<rparr>)"

subsection \<open>Reading the environment\<close>

definition readPlatformVersion :: "'w cluster_scheme \<Rightarrow> string result" where
  "readPlatformVersion W =
     (let ns = Getenv W ''POD_NAMESPACE'' in
      if ns = '''' then Inr ''''
      else (case GetConfigMap W ns platformConfigName of
          Inl err \<Rightarrow>
            if IsNotFound err then Inr ''''
            else Inl (wrapf (''reading platform config ConfigMap '' @ ns @ ''/'' @ platformConfigName @ '': '') err)
        | Inr data \<Rightarrow> Inr (sget data platformVersionKey)))"

definition validateMonitoringNamespace :: "'w cluster_scheme \<Rightarrow> Monitoring \<Rightarrow> go_error option" where
  "validateMonitoringNamespace W m =
     (let configured = Getenv W ''MONITORING_NAMESPACE'' in
      if configured = '''' \<or> monitoringNamespace W m = configured then None
      else Some (errors_New (''effective Monitoring namespace '' @ quoted (monitoringNamespace W m) @
        '' does not match configured monitoring namespace '' @ quoted configured)))"

definition markConfigurationError ::
  "'w conditions_lib_scheme \<Rightarrow> int \<Rightarrow> go_error \<Rightarrow> Monitoring \<Rightarrow> Monitoring" where
  "markConfigurationError W g err m =
     (let m1 = (if errors_Is err errUsageLogsExporterInvalid
                then MarkFalse W g ConditionUsageLogsCollectorAvailable ''ConfigurationError'' (Error err) m
                else m) in
      MarkFalse W g ConditionTypeDegraded ''NotDegraded'' ''''
       (MarkFalse W g ConditionTypeReady ''ConfigurationError'' (Error err)
         (MarkFalse W g ConditionTypeProvisioningSucceeded ''ConfigurationError'' (Error err) m1)))"


subsection \<open>The round\<close>

text \<open>
  What the body of \<open>reconcile\<close> leaves to its deferred handler: the state, the result, the error
  and the variable \<open>stampPlatform\<close>.
\<close>

record round =
  rd_State :: rstate
  rd_Result :: nat
  rd_Err :: "go_error option"
  rd_Stamp :: bool

abbreviation stop_with :: "go_error \<Rightarrow> rstate \<Rightarrow> round" where
  "stop_with err s \<equiv> \<lparr>rd_State = s, rd_Result = 0, rd_Err = Some err, rd_Stamp = False\<rparr>"

abbreviation leave :: "rstate \<Rightarrow> round" where
  "leave s \<equiv> \<lparr>rd_State = s, rd_Result = 0, rd_Err = None, rd_Stamp = False\<rparr>"

text \<open>From the garbage collection to the end of the function.\<close>

definition settle ::
  "'w cluster_scheme \<Rightarrow> 'w cluster_scheme \<Rightarrow> int \<Rightarrow> tdata \<Rightarrow> KObject list \<Rightarrow> string list \<Rightarrow> go_error option \<Rightarrow>
   bool \<Rightarrow> rstate \<Rightarrow> round" where
  "settle W Wd g data desired withheldComponents storageErr caReady s =
     (let (s1, gcErr) = collectGarbage Wd desired withheldComponents s;
          gcFailed = (gcErr \<noteq> None);
          s2 = syncPostDeployResources W Wd g s1;
          (m3, requeueNeeded) = publishLokiEndpoints W data (rs_Mon s2);
          m5 = AggregateReady W g (setUsageLogsForwardingStatus data m3);
          s5 = s2\<lparr>rs_Mon := m5\<rparr> in
      case storageErr of
        Some err \<Rightarrow> stop_with err s5
      | None \<Rightarrow>
          if \<not> caReady then
            \<lparr>rd_State = on_mon (MarkFalse W g ConditionTypeProvisioningSucceeded ''PrometheusCAUnavailable''
               ''Waiting for Prometheus CA Secret before applying MonitoringStack'') s5,
             rd_Result = 15, rd_Err = None, rd_Stamp = caReady\<rparr>
          else
            \<lparr>rd_State = s5,
             rd_Result =
               (if requeueNeeded \<or> usageLogsAwaitingCredential m5 then 30
                else if sp_Logs (mo_Spec m5) \<noteq> None then 300
                else if gcFailed then 60 else 0),
             rd_Err = None, rd_Stamp = caReady\<rparr>)"

text \<open>From the rendered resources on.\<close>

definition apply_round ::
  "'w cluster_scheme \<Rightarrow> 'w cluster_scheme \<Rightarrow> 'w cluster_scheme \<Rightarrow> int \<Rightarrow> tdata \<Rightarrow> KObject list \<Rightarrow> string list \<Rightarrow>
   go_error option \<Rightarrow> rstate \<Rightarrow> round" where
  "apply_round W Wc Wd g data desired withheldComponents storageErr s =
     (case preparePrometheusWebTLSCA W Wc desired s of
        (s1, Inl err) \<Rightarrow> stop_with (wrapf ''preparing Prometheus web TLS CA: '' err) s1
      | (s1, Inr caReady) \<Rightarrow>
          (let s2 = (if caReady then s1
                     else on_mon (MarkFalse W g ConditionMonitoringStackAvailable ''PrometheusCAUnavailable''
                       ''Waiting for OpenShift service CA injection and Prometheus CA Secret'') s1);
               deployResources = (if caReady then desired else withoutMonitoringStack desired) in
           case deploy_resources Wc ''applying resources: '' deployResources s2 of
             (s3, Some err) \<Rightarrow> stop_with err s3
           | (s3, None) \<Rightarrow>
               (case cleanupOpenTelemetryOperatorNetworkPolicies Wd (monitoringNamespace W (rs_Mon s3)) s3 of
                  (s4, Some err) \<Rightarrow>
                    stop_with (wrapf ''cleaning up OpenTelemetry Operator NetworkPolicies: '' err) s4
                | (s4, None) \<Rightarrow> settle W Wd g data desired withheldComponents storageErr caReady s4)))"

text \<open>From the met preconditions on.\<close>

definition provision ::
  "'w cluster_scheme \<Rightarrow> 'w cluster_scheme \<Rightarrow> 'w cluster_scheme \<Rightarrow> int \<Rightarrow> rstate \<Rightarrow> round" where
  "provision W Wc Wd g s =
     (case resolvePersesAPIVersion W of
        Inl err \<Rightarrow> stop_with (wrapf ''resolving Perses API version: '' err) s
      | Inr (persesVersion, persesFound) \<Rightarrow>
          (case buildTemplateData W (rs_Mon s) persesVersion of
             Inl err \<Rightarrow>
               if errors_Is err errProxyTLSResolutionFailed then stop_with err s
               else leave (on_mon (markConfigurationError W g err) s)
           | Inr data \<Rightarrow>
               (case renderMonitoringResources W g data persesVersion persesFound s of
                  (s1, Inl err) \<Rightarrow> stop_with err s1
                | (s1, Inr (desired, withheldComponents, storageErr)) \<Rightarrow>
                    apply_round W Wc Wd g data desired withheldComponents storageErr s1)))"

definition removed_round :: "'w cluster_scheme \<Rightarrow> int \<Rightarrow> rstate \<Rightarrow> round" where
  "removed_round W g s =
     (case deleteAllOwned W s of
        (s1, Some err) \<Rightarrow> stop_with err s1
      | (s1, None) \<Rightarrow>
          leave (on_mon (MarkFalse W g ConditionTypeDegraded ''NotDegraded'' '''') (on_mon
            (MarkFalse W g ConditionTypeProvisioningSucceeded ''Removed'' ''Monitoring is in Removed state'') (on_mon
            (MarkFalse W g ConditionTypeReady ''Removed'' ''Monitoring is in Removed state'') (on_mon
            (MarkNotConfigured W g ConditionMonitoringAvailable ''Removed'' ''Monitoring is in Removed state'') (on_mon
            (MarkNotConfigured W g ConditionMonitoringDependenciesReady ''Removed''
               ''Monitoring is in Removed state'') s1))))))"

definition mismatch_round :: "'w cluster_scheme \<Rightarrow> int \<Rightarrow> string \<Rightarrow> rstate \<Rightarrow> round" where
  "mismatch_round W g message s =
     leave (on_mon (MarkFalse W g ConditionTypeDegraded ''NotDegraded'' '''') (on_mon
       (MarkFalse W g ConditionTypeReady ''MonitoringNamespaceMismatch'' message) (on_mon
       (MarkFalse W g ConditionTypeProvisioningSucceeded ''MonitoringNamespaceMismatch'' message) (on_mon
       (MarkFalse W g ConditionKorrel8rAvailable ''MonitoringNamespaceMismatch'' message) (on_mon
       (MarkFalse W g ConditionMonitoringAvailable ''MonitoringNamespaceMismatch'' message) s)))))"

definition missing_operators_round :: "'w cluster_scheme \<Rightarrow> int \<Rightarrow> go_error \<Rightarrow> rstate \<Rightarrow> round" where
  "missing_operators_round W g err s =
     (let message = ''Required monitoring dependencies are missing: '' @ Error err in
      leave (on_mon (AggregateReady W g) (on_mon
        (MarkFalse W g ConditionMonitoringAvailable MissingOperatorReason message) (on_mon
        (MarkFalse W g ConditionMonitoringDependenciesReady MissingOperatorReason message) s))))"

text \<open>The body after the platform version was read.\<close>

definition reconcile_body ::
  "'w cluster_scheme \<Rightarrow> 'w cluster_scheme \<Rightarrow> 'w cluster_scheme \<Rightarrow> int \<Rightarrow> rstate \<Rightarrow> round" where
  "reconcile_body W Wc Wd g s =
     (if sp_ManagementState (mo_Spec (rs_Mon s)) = Removed then removed_round W g s
      else (case validateMonitoringNamespace W (rs_Mon s) of
          Some err \<Rightarrow> mismatch_round W g (Error err) s
        | None \<Rightarrow>
            (case checkMonitoringPreconditionsWithCOOVersion W (rs_Mon s) of
               (cooInfo, r) \<Rightarrow>
                 (let s1 = on_mon (markCOOVersionCompatibility W g cooInfo) s in
                  case r of
                    Some err \<Rightarrow>
                      if errors_As (\<lambda>k. k = MissingOperators) err = None then stop_with err s1
                      else missing_operators_round W g err s1
                  | None \<Rightarrow>
                      provision W Wc Wd g
                        (on_mon (MarkTrue W g ConditionMonitoringAvailable)
                          (on_mon (MarkTrue W g ConditionMonitoringDependenciesReady) s1))))))"

text \<open>The deferred handler.\<close>

definition module_release :: "'w cluster_scheme \<Rightarrow> ComponentRelease" where
  "module_release W =
     \<lparr>rel_Name = MonitoringServiceName, rel_RepoURL = ''https://github.com/opendatahub-io/odh-observability'',
      rel_Version = operatorVersion W\<rparr>"

definition fail_conditions :: "'w conditions_lib_scheme \<Rightarrow> int \<Rightarrow> go_error option \<Rightarrow> Monitoring \<Rightarrow> Monitoring" where
  "fail_conditions W g reconcileErr m =
     (case reconcileErr of
        None \<Rightarrow> m
      | Some err \<Rightarrow>
          MarkTrue W g ConditionTypeDegraded
           (MarkFalse W g ConditionTypeProvisioningSucceeded ''ReconcileFailed'' (Error err)
             (MarkFalse W g ConditionTypeReady ''ReconcileFailed'' (Error err) m)))"

definition finish_status :: "'w cluster_scheme \<Rightarrow> string \<Rightarrow> bool \<Rightarrow> Monitoring \<Rightarrow> Monitoring" where
  "finish_status W platformVersion stampPlatform m =
     m\<lparr>mo_Status := (mo_Status m)\<lparr>
         st_ObservedGeneration := mo_Generation m,
         st_Phase := PhaseOf W m,
         st_Releases :=
           (let rs = SetRelease W (st_Releases (mo_Status m)) (module_release W)
            in if stampPlatform \<and> platformVersion \<noteq> '''' then SetPlatformRelease W rs platformVersion else rs)\<rparr>\<rparr>"

definition deferred ::
  "'w cluster_scheme \<Rightarrow> int \<Rightarrow> bool \<Rightarrow> string \<Rightarrow> round \<Rightarrow> rstate \<times> nat \<times> go_error option" where
  "deferred W g cooCompatibilityConfigured platformVersion rd =
     (let m = rs_Mon (rd_State rd);
          r1 = requeueForCOOVersionRefresh (rd_Result rd) cooCompatibilityConfigured (rd_Err rd);
          r2 = requeueForCollectorReadiness r1 m (rd_Err rd);
          m1 = fail_conditions W g (rd_Err rd) m
      in ((rd_State rd)\<lparr>rs_Mon := finish_status W platformVersion (rd_Stamp rd) m1\<rparr>, r2, rd_Err rd))"

definition reconcile ::
  "'w cluster_scheme \<Rightarrow> 'w cluster_scheme \<Rightarrow> 'w cluster_scheme \<Rightarrow> rstate \<Rightarrow> rstate \<times> nat \<times> go_error option" where
  "reconcile W Wc Wd s0 =
     (let g = mo_Generation (rs_Mon s0);
          (m1, cooCompatibilityConfigured) = initializeCOOVersionCompatibilityCondition W g (rs_Mon s0);
          s1 = s0\<lparr>rs_Mon := m1\<rparr> in
      case readPlatformVersion W of
        Inl err \<Rightarrow> deferred W g cooCompatibilityConfigured '''' (stop_with err s1)
      | Inr platformVersion \<Rightarrow>
          deferred W g cooCompatibilityConfigured platformVersion (reconcile_body W Wc Wd g s1))"


subsection \<open>The entry point\<close>

definition RemoveFinalizer :: "string \<Rightarrow> Monitoring \<Rightarrow> Monitoring" where
  "RemoveFinalizer f m = m\<lparr>mo_Finalizers := filter (\<lambda>x. x \<noteq> f) (mo_Finalizers m)\<rparr>"

definition AddFinalizer :: "string \<Rightarrow> Monitoring \<Rightarrow> Monitoring" where
  "AddFinalizer f m =
     (if f \<in> set (mo_Finalizers m) then m else m\<lparr>mo_Finalizers := mo_Finalizers m @ [f]\<rparr>)"

text \<open>\<open>r.Patch\<close> of the object's metadata after its finalizers were changed.\<close>

definition patch_finalizers :: "'w cluster_scheme \<Rightarrow> (Monitoring \<Rightarrow> Monitoring) \<Rightarrow> rstate \<Rightarrow> action_result" where
  "patch_finalizers W change s =
     (let m = change (rs_Mon s) in
      case PatchMonitoringAnswer W of
        Some err \<Rightarrow> (s\<lparr>rs_Mon := m\<rparr>, Some err)
      | None \<Rightarrow> (emit (PatchFinalizers (mo_Finalizers m)) (s\<lparr>rs_Mon := m\<rparr>), None))"

definition patchStatus :: "'w cluster_scheme \<Rightarrow> rstate \<Rightarrow> action_result" where
  "patchStatus W s =
     (case PatchStatusAnswer W of
        Some err \<Rightarrow> (s, Some err)
      | None \<Rightarrow> (emit (PatchStatus (mo_Status (rs_Mon s))) s, None))"

definition errors_Join :: "go_error \<Rightarrow> go_error \<Rightarrow> go_error" where
  "errors_Join e f = wrap2 (Error e @ [CHR 0x0A] @ Error f) [e, f]"

definition deletion_round :: "'w cluster_scheme \<Rightarrow> rstate \<Rightarrow> action_result" where
  "deletion_round W s =
     (if monitoringFinalizer \<in> set (mo_Finalizers (rs_Mon s)) then
        (case deleteAllOwned W s of
           (s1, Some err) \<Rightarrow> (s1, Some err)
         | (s1, None) \<Rightarrow> patch_finalizers W (RemoveFinalizer monitoringFinalizer) s1)
      else (s, None))"

definition live_round ::
  "'w cluster_scheme \<Rightarrow> 'w cluster_scheme \<Rightarrow> 'w cluster_scheme \<Rightarrow> rstate \<Rightarrow> rstate \<times> nat \<times> go_error option" where
  "live_round W Wc Wd s =
     (case reconcile W Wc Wd s of
        (s1, result, reconcileErr) \<Rightarrow>
          (case patchStatus Wd s1 of
             (s2, Some patchErr) \<Rightarrow>
               (s2, 0, Some (case reconcileErr of Some err \<Rightarrow> errors_Join err patchErr | None \<Rightarrow> patchErr))
           | (s2, None) \<Rightarrow> (s2, result, reconcileErr)))"

definition Reconcile ::
  "'w cluster_scheme \<Rightarrow> 'w cluster_scheme \<Rightarrow> 'w cluster_scheme \<Rightarrow> string \<Rightarrow> rstate option \<times> nat \<times> go_error option" where
  "Reconcile W Wc Wd name =
     (case GetMonitoring W name of
        Inl err \<Rightarrow> if IsNotFound err then (None, 0, None) else (None, 0, Some err)
      | Inr m \<Rightarrow>
          if mo_Deleting m then
            (case deletion_round W (start_state m) of (s, err) \<Rightarrow> (Some s, 0, err))
          else if monitoringFinalizer \<notin> set (mo_Finalizers m) then
            (case patch_finalizers W (AddFinalizer monitoringFinalizer) (start_state m) of
               (s, Some err) \<Rightarrow> (Some s, 0, Some err)
             | (s, None) \<Rightarrow> (case live_round W Wc Wd s of (s', result, err) \<Rightarrow> (Some s', result, err)))
          else (case live_round W Wc Wd (start_state m) of (s', result, err) \<Rightarrow> (Some s', result, err)))"

end
