(* ===== verification/Rounds.thy ===== *)
theory Rounds
  imports Reconciler
begin

section \<open>Properties of reconcile rounds\<close>

text \<open>
  What a round may change. The stages of a round are related by \<open>advances\<close>: the object keeps its
  identity (name, spec, generation, finalizers, releases), the conditions keep one entry per type,
  the COO compatibility condition is left alone, and requests are only added. Every stage of
  \<open>reconcile\<close> after the precondition check advances; the theorems about whole rounds follow from
  that and from what each exit of the round writes.
\<close>

subsection \<open>The frame of a round\<close>

definition identity where
  "identity m = (mo_Name m, mo_UID m, mo_Generation m, mo_Deleting m, mo_Finalizers m, mo_Spec m,
     st_Releases (mo_Status m))"

definition advances :: "'w conditions_lib_scheme \<Rightarrow> (effect \<Rightarrow> bool) \<Rightarrow> rstate \<Rightarrow> rstate \<Rightarrow> bool" where
  "advances W Q s s' \<longleftrightarrow>
     identity (rs_Mon s') = identity (rs_Mon s) \<and>
     find_cond W (rs_Mon s') ConditionCOOVersionCompatible = find_cond W (rs_Mon s) ConditionCOOVersionCompatible \<and>
     (distinct (map c_Type (GetConditions (rs_Mon s))) \<longrightarrow>
        distinct (map c_Type (GetConditions (rs_Mon s')))) \<and>
     (\<exists>es. rs_Effects s' = rs_Effects s @ es \<and> list_all Q es)"

lemma advances_refl [simp, intro]: "advances W Q s s"
  by (simp add: advances_def)

lemma advances_trans: "advances W Q s s1 \<Longrightarrow> advances W Q s1 s2 \<Longrightarrow> advances W Q s s2"
  by (auto simp: advances_def)

text \<open>The requests a round may issue before and besides the garbage collection.\<close>

definition permits :: "(effect \<Rightarrow> bool) \<Rightarrow> bool" where
  "permits Q \<longleftrightarrow>
     (\<forall>e. action_delete e \<longrightarrow> Q e) \<and> (\<forall>objs. Q (Apply objs)) \<and>
     (\<forall>ns n. n \<in> fst ` set operator_policies \<longrightarrow> Q (Delete gvk_NetworkPolicy ns n None)) \<and>
     (\<forall>ns n d. Q (PatchSecretData ns n d)) \<and> (\<forall>ns n c. Q (PatchRouteCA ns n c))"

lemma identity_SetConditions [simp]: "identity (SetConditions m cs) = identity m"
  by (simp add: identity_def)

lemma identity_set_cond [simp]: "identity (set_cond W c m) = identity m"
  by (simp add: set_cond_def)

lemma identity_marks [simp]:
  "identity (MarkTrue W g t m) = identity m"
  "identity (MarkFalse W g t r msg m) = identity m"
  "identity (MarkUnknown W g t r msg m) = identity m"
  "identity (MarkNotConfigured W g t r msg m) = identity m"
  "identity (MarkWarning W g t r msg m) = identity m"
  by (simp_all add: mark_defs)

lemma endpoint_set_cond [simp]:
  "st_UsageLogsEndpoint (mo_Status (set_cond W c m)) = st_UsageLogsEndpoint (mo_Status m)"
  by (simp add: set_cond_def)

lemma identity_fields:
  assumes "identity m = identity m'"
  shows "mo_Spec m = mo_Spec m'" "mo_Generation m = mo_Generation m'" "mo_UID m = mo_UID m'"
    "mo_Finalizers m = mo_Finalizers m'" "st_Releases (mo_Status m) = st_Releases (mo_Status m')"
  using assms by (simp_all add: identity_def)

lemma advances_within:
  assumes "acts_within W owned tmpls s s'" and "ConditionCOOVersionCompatible \<notin> set owned" and "permits Q"
  shows "advances W Q s s'"
proof -
  have "identity (rs_Mon s') = identity (rs_Mon s)"
    using assms(1) unfolding acts_within_def by (metis identity_SetConditions)
  then show ?thesis
    using assms by (auto simp: acts_within_def advances_def permits_def list_all_iff)
qed

lemma advances_only_deletes: "only_deletes Q s s' \<Longrightarrow> advances W Q s s'"
  by (auto simp: only_deletes_def advances_def)

lemma advances_emit: "advances W Q s s' \<Longrightarrow> Q e \<Longrightarrow> advances W Q s (emit e s')"
  by (auto simp: advances_def emit_def)

lemma advances_mark:
  assumes "lawful_conditions W" and "c_Type c \<noteq> ConditionCOOVersionCompatible" and "advances W Q s s'"
  shows "advances W Q s (on_mon (set_cond W c) s')"
  using assms
  by (auto simp: advances_def lawful_conditions.find_set_cond [OF assms(1)]
      lawful_conditions.distinct_set_cond [OF assms(1)])

lemma advances_mon:
  assumes "advances W Q s s'" and "identity m = identity (rs_Mon s')" and "GetConditions m = GetConditions (rs_Mon s')"
  shows "advances W Q s (s'\<lparr>rs_Mon := m\<rparr>)"
  using assms by (auto simp: advances_def find_cond_def)

lemma advances_marks:
  assumes "lawful_conditions W" and "t \<noteq> ConditionCOOVersionCompatible" and "advances W Q s s'"
  shows "advances W Q s (on_mon (MarkTrue W g t) s')"
    and "advances W Q s (on_mon (MarkFalse W g t r msg) s')"
    and "advances W Q s (on_mon (MarkNotConfigured W g t r msg) s')"
    and "advances W Q s (on_mon (MarkUnknown W g t r msg) s')"
  using assms by (simp_all add: mark_defs advances_mark)

lemma not_coo [simp]:
  "ConditionTypeReady \<noteq> ConditionCOOVersionCompatible" "ConditionTypeDegraded \<noteq> ConditionCOOVersionCompatible"
  "ConditionTypeProvisioningSucceeded \<noteq> ConditionCOOVersionCompatible"
  "ConditionMonitoringAvailable \<noteq> ConditionCOOVersionCompatible"
  "ConditionMonitoringDependenciesReady \<noteq> ConditionCOOVersionCompatible"
  "ConditionMonitoringStackAvailable \<noteq> ConditionCOOVersionCompatible"
  "ConditionKorrel8rAvailable \<noteq> ConditionCOOVersionCompatible"
  "ConditionUsageLogsCollectorAvailable \<noteq> ConditionCOOVersionCompatible"
  by (simp_all add: cond_names)

subsection \<open>Rendering\<close>

definition render_conditions :: "string list" where
  "render_conditions =
     [ConditionWebhookAvailable, ConditionMonitoringStackAvailable, ConditionThanosQuerierAvailable,
      ConditionTempoAvailable, ConditionInstrumentationAvailable, ConditionOpenTelemetryCollectorAvailable,
      ConditionAlertingAvailable, ConditionNodeMetricsEndpointAvailable, ConditionKorrel8rAvailable,
      ConditionPersesAvailable, ConditionPersesTempoDataSourceAvailable,
      ConditionPersesPrometheusDataSourceAvailable]"

definition render_templates :: "string list" where
  "render_templates =
     MonitoringAdmissionPoliciesTemplate # monitoring_stack_templates @
     [InstrumentationTemplate, TempoMonolithicTemplate, TempoStackTemplate, TempoMonolithicNetworkPolicyTemplate,
      CollectorRBACTemplate, OpenTelemetryCollectorTemplate, CollectorMonitorServiceTemplate,
      CollectorMonitoringNetworkPolicyTemplate, CollectorTargetAllocatorNetworkPolicyTemplate,
      CollectorServiceMonitorsTemplate, CollectorPrometheusServiceTemplate, CollectorMLflowRBACTemplate,
      CollectorTempoRBACTemplate, OperatorPrometheusRulesTemplate, PrometheusClusterProxyTemplate] @
     korrel8r_templates @
     [PersesTemplate, PersesOperatorAccessNetworkPolicyTemplate,
      PersesTempoDatasourceTemplate, TempoServiceCAConfigMapTemplate,
      PersesTempoDashboardV1Alpha1Template, PersesTempoDashboardV1Alpha2Template,
      PersesDatasourceClusterPrometheusTemplate, PersesDatasourceClusterPrometheusTenancyTemplate,
      PersesDatasourcePrometheusTemplate]"

lemmas render_lists = render_conditions_def render_templates_def

locale action_list =
  fixes acts :: "('w cluster_scheme \<Rightarrow> int \<Rightarrow> rstate \<Rightarrow> action_result) list"
    and owned :: "string list" and tmpls :: "string list"
  assumes each: "act \<in> set acts \<Longrightarrow> deploy_action act owned tmpls"
begin

lemma run_within:
  assumes "lawful_conditions W"
  shows "acts_within W owned tmpls s (fst (run_actions acts W g s))"
proof -
  have "set bs \<subseteq> set acts \<Longrightarrow> acts_within W owned tmpls s (fst (run_actions bs W g s))" for bs s
  proof (induction bs arbitrary: s)
    case (Cons b bs)
    obtain s1 r where b: "b W g s = (s1, r)" by force
    have "acts_within W owned tmpls s s1"
      using deploy_action.within [OF each [of b] assms, of s g] Cons.prems b by simp
    then show ?case
      using Cons.IH [of s1] Cons.prems b by (auto intro: within_trans split: option.split)
  qed simp
  then show ?thesis by blast
qed

end

lemma deploy_action_mono:
  assumes "deploy_action act owned tmpls" and "set owned \<subseteq> set owned'" and "set tmpls \<subseteq> set tmpls'"
  shows "deploy_action act owned' tmpls'"
  by unfold_locales (rule within_mono [OF deploy_action.within [OF assms(1)] assms(2,3)])

lemmas renders_within = deploy_action_mono [where owned' = render_conditions and tmpls' = render_templates]

lemmas render_action_contracts =
  renders_within [OF webhook.deploy_action_axioms]
  renders_within [OF policies.deploy_action_axioms]
  renders_within [OF stack.deploy_action_axioms]
  renders_within [OF tracing.deploy_action_axioms]
  renders_within [OF collector.deploy_action_axioms]
  renders_within [OF alerting.deploy_action_axioms]
  renders_within [OF operator_rules.deploy_action_axioms]
  renders_within [OF node_metrics.deploy_action_axioms]
  renders_within [OF korrel8r.deploy_action_axioms]
  renders_within [OF perses.deploy_action_axioms]
  renders_within [OF perses_tempo.deploy_action_axioms]
  renders_within [OF perses_prometheus.deploy_action_axioms]

lemma render_actions_contract:
  "list_all (\<lambda>act. deploy_action act render_conditions render_templates) (render_actions v f)"
  unfolding render_actions_def list.pred_inject
  by (intro conjI TrueI render_action_contracts) (auto simp: render_lists)

interpretation render: action_list "render_actions v f" render_conditions render_templates for v f
  by (rule action_list.intro) (rule bspec [OF render_actions_contract [unfolded list_all_iff]])

lemma render_actions_advance:
  assumes "lawful_conditions W" and "permits Q"
  shows "advances W Q s (fst (run_actions (render_actions v f) W g s))"
  by (rule advances_within [OF render.run_within [OF assms(1)] _ assms(2)])
     (simp add: render_conditions_def cond_names)

lemma mark_claims_advances:
  fixes W :: "'w cluster_scheme"
  assumes "lawful_conditions W" and "ConditionCOOVersionCompatible \<notin> sc_condition ` set claims"
    and "advances W Q s s'"
  shows "advances W Q s (s'\<lparr>rs_Mon := mark_claims W g st r msg claims (rs_Mon s')\<rparr>)"
  using assms(2,3)
proof (induction claims arbitrary: s')
  case (Cons c claims)
  have "advances W Q s (on_mon (if st = ConditionUnknown then MarkUnknown W g (sc_condition c) r msg
      else MarkFalse W g (sc_condition c) r msg) s')"
    using Cons.prems advances_marks [OF assms(1)] by auto
  from Cons.IH [OF _ this] Cons.prems(1) show ?case
    by (auto simp: on_mon_def split: if_splits)
qed simp

lemma gate_advances:
  fixes W :: "'w cluster_scheme"
  assumes "lawful_conditions W" and "validateStorageIsolation W g (rs_Mon s') = (m, withheld, r)"
    and "advances W Q s s'"
  shows "advances W Q s (s'\<lparr>rs_Mon := m\<rparr>)"
proof (cases r)
  case None
  then show ?thesis using gate_accepts [of W g "rs_Mon s'" m withheld] assms(2,3) by simp
next
  case (Some err)
  note refused = gate_refuses [OF assms(2) [unfolded Some]]
  have "ConditionCOOVersionCompatible \<notin> sc_condition ` set (storageClaims (rs_Mon s'))"
    by (simp add: refused(4) cond_names)
  then show ?thesis
    using mark_claims_advances [OF assms(1) _ assms(3)] refused(3) by auto
qed

lemma loki_stacks_advance:
  assumes "lawful_conditions W" and "permits Q"
  shows "advances W Q s (fst (deployLokiStacks W g withheld s))"
  by (rule advances_within [OF deployLokiStacks_within [OF assms(1)] _ assms(2)])
     (simp add: loki_conditions_def cond_names)

text \<open>The stages a rendering without error went through.\<close>

lemma render_stages:
  assumes "renderMonitoringResources W g data v f s = (s', Inr (desired, withheld, storageErr))"
  obtains s1 m2 where "run_actions (render_actions v f) W g s = (s1, None)"
    and "validateStorageIsolation W g (rs_Mon s1) = (m2, withheld, storageErr)"
    and "deployLokiStacks W g withheld (s1\<lparr>rs_Mon := m2\<rparr>) = (s', None)"
    and "Render W (rs_Sources s') data = Inr desired"
  using assms by (auto simp: renderMonitoringResources_def split: prod.splits option.splits sum.splits)

lemma render_advances:
  assumes "lawful_conditions W" and "permits Q"
  shows "advances W Q s (fst (renderMonitoringResources W g data v f s))"
proof -
  obtain s1 r1 where 1: "run_actions (render_actions v f) W g s = (s1, r1)" by force
  have a1: "advances W Q s s1"
    using render_actions_advance [OF assms, of s v f g] 1 by simp
  obtain m2 withheld se where 2: "validateStorageIsolation W g (rs_Mon s1) = (m2, withheld, se)"
    using prod_cases3 by blast
  have a2: "advances W Q s (s1\<lparr>rs_Mon := m2\<rparr>)"
    by (rule gate_advances [OF assms(1) 2 a1])
  obtain s3 r3 where 3: "deployLokiStacks W g withheld (s1\<lparr>rs_Mon := m2\<rparr>) = (s3, r3)" by force
  have "advances W Q s s3"
    using advances_trans [OF a2 loki_stacks_advance [OF assms]] 3 by (metis fst_conv)
  then show ?thesis
    using a1 by (simp add: renderMonitoringResources_def 1 2 3 split: option.split sum.split)
qed

subsection \<open>Applying and settling\<close>

lemma deploy_resources_advances:
  "advances W Q s s' \<Longrightarrow> permits Q \<Longrightarrow> advances W Q s (fst (deploy_resources W' pre objs s'))"
  by (simp add: deploy_resources_def permits_def advances_emit split: option.split)

lemma sync_ca_advances:
  "advances W Q s s' \<Longrightarrow> permits Q \<Longrightarrow> advances W Q s (fst (syncPrometheusWebTLSCA W' s'))"
  by (simp add: syncPrometheusWebTLSCA_def permits_def advances_emit Let_def split: sum.split option.split)

lemma prepare_advances:
  assumes "advances W Q s s'" and "permits Q"
  shows "advances W Q s (fst (preparePrometheusWebTLSCA W1 Wc desired s'))"
proof -
  have "advances W Q s (fst (case deploy_resources W1 pre [cm] s' of
      (s1, Some err) \<Rightarrow> (s1, Inl err) | (s1, None) \<Rightarrow> syncPrometheusWebTLSCA Wc s1))" for pre cm
    using deploy_resources_advances [OF assms, of W1 pre "[cm]"] sync_ca_advances [OF _ assms(2), of W s]
    by (auto split: prod.split option.split)
  with assms(1) show ?thesis
    by (simp add: preparePrometheusWebTLSCA_def Let_def split: option.split)
qed

lemma delete_advances:
  "advances W Q s s' \<Longrightarrow> Q (Delete k ns n p) \<Longrightarrow> advances W Q s (fst (delete_object W' pre k ns n p s'))"
  by (auto simp: delete_object_def intro: advances_emit split: option.split)

lemma policies_advance:
  assumes "advances W Q s s'" and "permits Q"
  shows "advances W Q s (fst (cleanupOpenTelemetryOperatorNetworkPolicies W' ns s'))"
proof -
  have "advances W Q s s' \<Longrightarrow> fst ` set items \<subseteq> fst ` set operator_policies \<Longrightarrow>
      advances W Q s (fst (policies_loop W' ns items s'))" for items s'
  proof (induction items arbitrary: s')
    case (Cons item items)
    obtain name component where item: "item = (name, component)" by force
    let ?del = "delete_object W' (''deleting '' @ ns @ ''/'' @ name @ '': '') gvk_NetworkPolicy ns name None s'"
    obtain s1 r where d: "?del = (s1, r)" by force
    have "Q (Delete gvk_NetworkPolicy ns name None)"
      using assms(2) Cons.prems(2) by (simp add: permits_def item)
    then have "advances W Q s (fst ?del)"
      by (rule delete_advances [OF Cons.prems(1)])
    then have "advances W Q s s1" unfolding d by simp
    with Cons show ?case
      by (simp add: item d [simplified] split: sum.split option.split)
  qed simp
  then show ?thesis
    using assms(1) by (simp add: cleanupOpenTelemetryOperatorNetworkPolicies_def)
qed


text \<open>A sweep issues deletions only.\<close>

definition sweepable :: "(effect \<Rightarrow> bool) \<Rightarrow> bool" where
  "sweepable Q \<longleftrightarrow> (\<forall>k ns n p. Q (Delete k ns n p)) \<and> (\<forall>obj. Q (CollectorDeleted obj))"

lemma rbac_sweeps_any:
  assumes "sweepable Q" and "only_deletes Q s0 s"
  shows "only_deletes Q s0 (fst (collectScopedClusterRBACGarbage W ds withheld s))"
    and "only_deletes Q s0 (fst (collectTargetAllocatorRBACGarbage W ds s))"
  using assms
  unfolding collectScopedClusterRBACGarbage_def collectTargetAllocatorRBACGarbage_def Let_def sweepable_def
  by (auto split: sum.split intro!: only_deletes_bind sweep_from [OF assms(2)] sweep_from)

lemma three_sweeps_any:
  assumes "sweepable Q"
  shows "only_deletes Q s (fst (three_sweeps W P ds withheld s))"
  unfolding three_sweeps_def
  by (intro only_deletes_bind rbac_sweeps_any assms)
     (use assms in \<open>auto simp: run_collector_def only_deletes_def sweepable_def list_all_iff split: prod.split\<close>)

lemma url_frame [simp]:
  "identity (set_url u m) = identity m" "GetConditions (set_url u m) = GetConditions m"
  by (simp_all add: identity_def set_url_def GetConditions_def)

lemma sync_url_frame:
  "identity (fst (syncStatusURL W m)) = identity m" "GetConditions (fst (syncStatusURL W m)) = GetConditions m"
  by (simp_all add: syncStatusURL_def split: sum.split list.split)

lemma thanos_advances:
  "advances W Q s s' \<Longrightarrow> permits Q \<Longrightarrow> advances W Q s (fst (syncThanosQuerierRouteDestinationCA W' s'))"
  by (auto simp: syncThanosQuerierRouteDestinationCA_def permits_def Let_def intro: advances_emit
      split: sum.split option.split)

lemma post_deploy_advances:
  assumes "lawful_conditions W" and "permits Q" and "advances W Q s s'"
  shows "advances W Q s (syncPostDeployResources W Wd g s')"
proof -
  obtain s1 r where 1: "syncThanosQuerierRouteDestinationCA Wd s' = (s1, r)" by force
  then have "advances W Q s s1"
    using thanos_advances [OF assms(3,2), of Wd] by simp
  then have "advances W Q s (case r of None \<Rightarrow> s1
      | Some e \<Rightarrow> on_mon (MarkFalse W g ConditionMonitoringStackAvailable ''ThanosCAConfigSyncFailed''
          (''Failed to sync Thanos Querier Route destination CA: '' @ Error e)) s1)"
    by (simp add: advances_marks [OF assms(1)] split: option.split)
  then show ?thesis
    unfolding syncPostDeployResources_def 1 Let_def prod.case
    by (rule advances_mon) (simp_all add: sync_url_frame)
qed

lemma status_writes_frame:
  "identity (fst (publishLokiEndpoints W data m)) = identity m"
  "GetConditions (fst (publishLokiEndpoints W data m)) = GetConditions m"
  "identity (setUsageLogsForwardingStatus data m) = identity m"
  "GetConditions (setUsageLogsForwardingStatus data m) = GetConditions m"
  by (simp_all add: publishLokiEndpoints_def setUsageLogsForwardingStatus_def identity_def GetConditions_def
      split: prod.split)

lemma aggregate_advances:
  assumes "lawful_conditions W" and "advances W Q s s'"
  shows "advances W Q s (on_mon (AggregateReady W g) s')"
proof -
  have "identity (AggregateReady W g m) = identity m" for m
    by (simp add: AggregateReady_def Let_def split: prod.split)
  moreover have "find_cond W (AggregateReady W g m) ConditionCOOVersionCompatible =
      find_cond W m ConditionCOOVersionCompatible" for m
    using not_coo
    by (simp add: AggregateReady_def Let_def lawful_conditions.find_MarkTrue [OF assms(1)]
        lawful_conditions.find_MarkFalse [OF assms(1)] lawful_conditions.find_MarkUnknown [OF assms(1)]
        not_coo [symmetric] split: prod.split)
  moreover have "distinct (map c_Type (GetConditions m)) \<longrightarrow>
      distinct (map c_Type (GetConditions (AggregateReady W g m)))" for m
    by (simp add: AggregateReady_def Let_def mark_defs lawful_conditions.distinct_set_cond [OF assms(1)]
        split: prod.split)
  ultimately show ?thesis
    using assms(2) by (simp add: advances_def)
qed

definition status_written :: "'w conditions_lib_scheme \<Rightarrow> int \<Rightarrow> tdata \<Rightarrow> Monitoring \<Rightarrow> Monitoring" where
  "status_written W g data m =
     AggregateReady W g (setUsageLogsForwardingStatus data (fst (publishLokiEndpoints W data m)))"

lemma settle_unfold:
  "settle W Wd g data desired withheld se caReady s =
     (let gcErr = snd (collectGarbage Wd desired withheld s);
          s2 = syncPostDeployResources W Wd g (fst (collectGarbage Wd desired withheld s));
          requeueNeeded = snd (publishLokiEndpoints W data (rs_Mon s2));
          s5 = on_mon (status_written W g data) s2
      in case se of
           Some err \<Rightarrow> stop_with err s5
         | None \<Rightarrow>
             if \<not> caReady then
               \<lparr>rd_State = on_mon (MarkFalse W g ConditionTypeProvisioningSucceeded ''PrometheusCAUnavailable''
                  ''Waiting for Prometheus CA Secret before applying MonitoringStack'') s5,
                rd_Result = 15, rd_Err = None, rd_Stamp = False\<rparr>
             else
               \<lparr>rd_State = s5,
                rd_Result = (if requeueNeeded \<or> usageLogsAwaitingCredential (rs_Mon s5) then 30
                  else if sp_Logs (mo_Spec (rs_Mon s5)) \<noteq> None then 300
                  else if gcErr \<noteq> None then 60 else 0),
                rd_Err = None, rd_Stamp = True\<rparr>)"
proof -
  obtain s1 e where 1: "collectGarbage Wd desired withheld s = (s1, e)" by force
  obtain m3 q where 2: "publishLokiEndpoints W data (rs_Mon (syncPostDeployResources W Wd g s1)) = (m3, q)" by force
  show ?thesis
    by (cases se; cases caReady) (simp_all add: settle_def status_written_def Let_def on_mon_def 1 2)
qed

lemma status_written_advances:
  assumes "lawful_conditions W" and "advances W Q s s'"
  shows "advances W Q s (on_mon (status_written W g data) s')"
proof -
  have "advances W Q s (s'\<lparr>rs_Mon := setUsageLogsForwardingStatus data (fst (publishLokiEndpoints W data (rs_Mon s')))\<rparr>)"
    by (rule advances_mon [OF assms(2)]) (simp_all add: status_writes_frame)
  from aggregate_advances [OF assms(1) this, of g] show ?thesis
    by (simp add: on_mon_def status_written_def)
qed

lemma settle_advances:
  assumes "lawful_conditions W" and "permits Q"
    and "\<And>s. only_deletes Q s (fst (collectGarbage Wd desired withheld s))"
    and "advances W Q s0 s"
  shows "advances W Q s0 (rd_State (settle W Wd g data desired withheld se caReady s))"
proof -
  have "advances W Q s0 (fst (collectGarbage Wd desired withheld s))"
    by (rule advances_trans [OF assms(4) advances_only_deletes [OF assms(3)]])
  then have "advances W Q s0 (on_mon (status_written W g data)
      (syncPostDeployResources W Wd g (fst (collectGarbage Wd desired withheld s))))"
    by (intro status_written_advances post_deploy_advances assms(1,2))
  then show ?thesis
    by (simp add: settle_unfold Let_def advances_marks [OF assms(1)] split: option.split)
qed

lemma apply_round_advances:
  assumes "lawful_conditions W" and "permits Q"
    and "\<And>s. only_deletes Q s (fst (collectGarbage Wd desired withheld s))"
    and "advances W Q s0 s"
  shows "advances W Q s0 (rd_State (apply_round W Wc Wd g data desired withheld se s))"
proof -
  obtain s1 r1 where 1: "preparePrometheusWebTLSCA W Wc desired s = (s1, r1)" by force
  have a1: "advances W Q s0 s1"
    using prepare_advances [OF assms(4,2), of W Wc desired] 1 by simp
  show ?thesis
  proof (cases r1)
    case (Inl e)
    then show ?thesis using a1 by (simp add: apply_round_def 1)
  next
    case (Inr caReady)
    define s2 where "s2 = (if caReady then s1
      else on_mon (MarkFalse W g ConditionMonitoringStackAvailable ''PrometheusCAUnavailable''
             ''Waiting for OpenShift service CA injection and Prometheus CA Secret'') s1)"
    define objs where "objs = (if caReady then desired else withoutMonitoringStack desired)"
    have a2: "advances W Q s0 s2"
      using a1 by (simp add: s2_def advances_marks [OF assms(1)])
    obtain s3 r3 where 3: "deploy_resources Wc ''applying resources: '' objs s2 = (s3, r3)" by force
    have a3: "advances W Q s0 s3"
      using deploy_resources_advances [OF a2 assms(2), of Wc "''applying resources: ''" objs] 3 by simp
    obtain s4 r4 where 4: "cleanupOpenTelemetryOperatorNetworkPolicies Wd (monitoringNamespace W (rs_Mon s3)) s3 = (s4, r4)"
      by force
    have a4: "advances W Q s0 s4"
      using policies_advance [OF a3 assms(2), of Wd "monitoringNamespace W (rs_Mon s3)"] 4 by simp
    have "apply_round W Wc Wd g data desired withheld se s =
        (case r3 of Some err \<Rightarrow> stop_with err s3
         | None \<Rightarrow> (case r4 of
             Some err \<Rightarrow> stop_with (wrapf ''cleaning up OpenTelemetry Operator NetworkPolicies: '' err) s4
           | None \<Rightarrow> settle W Wd g data desired withheld se caReady s4))"
      using 1 Inr 3 4 by (simp add: apply_round_def Let_def s2_def objs_def split: option.split)
    then show ?thesis
      using a3 a4 settle_advances [OF assms(1-3) a4] by (simp split: option.split)
  qed
qed

lemma provision_advances:
  assumes "lawful_conditions W" and "permits Q"
    and "\<And>data v f s1 desired withheld se s'. renderMonitoringResources W g data v f s = (s1, Inr (desired, withheld, se)) \<Longrightarrow>
      only_deletes Q s' (fst (collectGarbage Wd desired withheld s'))"
  shows "advances W Q s (rd_State (provision W Wc Wd g s))"
proof -
  have conf: "advances W Q s (on_mon (markConfigurationError W g err) s)" for err
  proof -
    have "advances W Q s (on_mon (if errors_Is err errUsageLogsExporterInvalid
        then MarkFalse W g ConditionUsageLogsCollectorAvailable ''ConfigurationError'' (Error err) else id) s)"
      by (simp add: advances_marks [OF assms(1)] on_mon_def [of id])
    then have "advances W Q s (on_mon (MarkFalse W g ConditionTypeDegraded ''NotDegraded'' '''')
        (on_mon (MarkFalse W g ConditionTypeReady ''ConfigurationError'' (Error err))
        (on_mon (MarkFalse W g ConditionTypeProvisioningSucceeded ''ConfigurationError'' (Error err))
          (on_mon (if errors_Is err errUsageLogsExporterInvalid
            then MarkFalse W g ConditionUsageLogsCollectorAvailable ''ConfigurationError'' (Error err) else id) s))))"
      by (intro advances_marks [OF assms(1)]) simp_all
    then show ?thesis
      by (simp add: markConfigurationError_def on_mon_def Let_def split: if_splits)
  qed
  have rendered: "advances W Q s (rd_State (case renderMonitoringResources W g data v f s of
      (s1, Inl err) \<Rightarrow> stop_with err s1
    | (s1, Inr (desired, withheld, se)) \<Rightarrow> apply_round W Wc Wd g data desired withheld se s1))" for data v f
    using render_advances [OF assms(1,2), of s g data v f] apply_round_advances [OF assms(1,2) assms(3)]
    by (auto split: prod.split sum.split)
  show ?thesis
    using conf rendered by (auto simp: provision_def split: sum.split prod.split)
qed


subsection \<open>The exits of a round\<close>

lemma body_cases [consumes 0, case_names removed mismatch failed missing provisioned]:
  obtains (removed) "sp_ManagementState (mo_Spec (rs_Mon s)) = Removed"
      "reconcile_body W Wc Wd g s = removed_round W g s"
  | (mismatch) err where "sp_ManagementState (mo_Spec (rs_Mon s)) \<noteq> Removed"
      "validateMonitoringNamespace W (rs_Mon s) = Some err"
      "reconcile_body W Wc Wd g s = mismatch_round W g (Error err) s"
  | (failed) err where "sp_ManagementState (mo_Spec (rs_Mon s)) \<noteq> Removed"
      "snd (checkMonitoringPreconditionsWithCOOVersion W (rs_Mon s)) = Some err"
      "reconcile_body W Wc Wd g s = stop_with err
         (on_mon (markCOOVersionCompatibility W g (fst (checkMonitoringPreconditionsWithCOOVersion W (rs_Mon s)))) s)"
  | (missing) err where "sp_ManagementState (mo_Spec (rs_Mon s)) \<noteq> Removed"
      "snd (checkMonitoringPreconditionsWithCOOVersion W (rs_Mon s)) = Some err"
      "reconcile_body W Wc Wd g s = missing_operators_round W g err
         (on_mon (markCOOVersionCompatibility W g (fst (checkMonitoringPreconditionsWithCOOVersion W (rs_Mon s)))) s)"
  | (provisioned) "sp_ManagementState (mo_Spec (rs_Mon s)) \<noteq> Removed"
      "validateMonitoringNamespace W (rs_Mon s) = None"
      "snd (checkMonitoringPreconditionsWithCOOVersion W (rs_Mon s)) = None"
      "reconcile_body W Wc Wd g s = provision W Wc Wd g
         (on_mon (MarkTrue W g ConditionMonitoringAvailable)
           (on_mon (MarkTrue W g ConditionMonitoringDependenciesReady)
             (on_mon (markCOOVersionCompatibility W g
               (fst (checkMonitoringPreconditionsWithCOOVersion W (rs_Mon s)))) s)))"
proof -
  obtain coo r where p: "checkMonitoringPreconditionsWithCOOVersion W (rs_Mon s) = (coo, r)" by force
  show thesis
  proof (cases "sp_ManagementState (mo_Spec (rs_Mon s)) = Removed")
    case True
    then show thesis using removed by (simp add: reconcile_body_def)
  next
    case False
    then show thesis
      using p mismatch failed missing provisioned
      by (cases "validateMonitoringNamespace W (rs_Mon s)"; cases r)
         (simp_all add: reconcile_body_def Let_def, metis)
  qed
qed

text \<open>
  The precondition stage rewrites the COO condition; apart from that a round advances. The state
  after that stage:
\<close>

definition checked :: "'w cluster_scheme \<Rightarrow> int \<Rightarrow> rstate \<Rightarrow> rstate" where
  "checked W g s =
     on_mon (markCOOVersionCompatibility W g (fst (checkMonitoringPreconditionsWithCOOVersion W (rs_Mon s)))) s"

lemma identity_coo [simp]: "identity (markCOOVersionCompatibility W g i m) = identity m"
  by (simp add: markCOOVersionCompatibility_def Let_def split: option.split)

lemma checked_frame:
  assumes "lawful_conditions W"
  shows "identity (rs_Mon (checked W g s)) = identity (rs_Mon s)" "rs_Effects (checked W g s) = rs_Effects s"
    "distinct (map c_Type (GetConditions (rs_Mon s))) \<Longrightarrow>
       distinct (map c_Type (GetConditions (rs_Mon (checked W g s))))"
  by (simp_all add: checked_def markCOOVersionCompatibility_def Let_def mark_defs
      lawful_conditions.distinct_set_cond [OF assms] split: option.split)

lemma removed_advances:
  assumes "lawful_conditions W" and "only_deletes Q s (fst (deleteAllOwned W s))"
  shows "advances W Q s (rd_State (removed_round W g s))"
proof -
  obtain s1 r where 1: "deleteAllOwned W s = (s1, r)" by force
  then have "advances W Q s s1"
    using advances_only_deletes [OF assms(2)] by simp
  then show ?thesis
    by (simp add: removed_round_def 1 advances_marks [OF assms(1)] split: option.split)
qed

lemma delete_all_any: "sweepable Q \<Longrightarrow> only_deletes Q s (fst (deleteAllOwned W s))"
  by (simp add: deleteAllOwned_def three_sweeps_any Let_def)

lemma collect_any: "sweepable Q \<Longrightarrow> only_deletes Q s (fst (collectGarbage W desired withheld s))"
  by (simp add: collectGarbage_def three_sweeps_any Let_def)

lemma sweepable_any [simp]: "sweepable (\<lambda>_. True)"
  by (simp add: sweepable_def)

lemma permits_any [simp]: "permits (\<lambda>_. True)"
  by (simp add: permits_def)

lemma body_frame:
  assumes "lawful_conditions W"
  shows "identity (rs_Mon (rd_State (reconcile_body W Wc Wd g s))) = identity (rs_Mon s) \<and>
    (distinct (map c_Type (GetConditions (rs_Mon s))) \<longrightarrow>
       distinct (map c_Type (GetConditions (rs_Mon (rd_State (reconcile_body W Wc Wd g s)))))) \<and>
    prefix (rs_Effects s) (rs_Effects (rd_State (reconcile_body W Wc Wd g s)))"
proof -
  have step: "identity (rs_Mon s') = identity (rs_Mon s) \<and>
      (distinct (map c_Type (GetConditions (rs_Mon s))) \<longrightarrow> distinct (map c_Type (GetConditions (rs_Mon s')))) \<and>
      prefix (rs_Effects s) (rs_Effects s')"
    if "advances W (\<lambda>_. True) s s' \<or> advances W (\<lambda>_. True) (checked W g s) s'" for s'
    using that checked_frame [OF assms, where g = g and s = s] by (auto simp: advances_def)
  note marks = advances_marks [OF assms]
  show ?thesis
  proof (cases rule: body_cases [of s W Wc Wd g])
    case removed
    show ?thesis
      unfolding removed(2) by (rule step) (simp add: removed_advances [OF assms delete_all_any])
  next
    case (mismatch err)
    show ?thesis
      unfolding mismatch(3) mismatch_round_def by (rule step) (simp add: marks)
  next
    case (failed err)
    show ?thesis
      unfolding failed(3) by (rule step) (simp add: checked_def)
  next
    case (missing err)
    show ?thesis
      unfolding missing(3) missing_operators_round_def Let_def
      by (rule step) (simp add: checked_def [symmetric] marks aggregate_advances [OF assms])
  next
    case provisioned
    have "advances W (\<lambda>_. True) (checked W g s) (on_mon (MarkTrue W g ConditionMonitoringAvailable)
        (on_mon (MarkTrue W g ConditionMonitoringDependenciesReady) (checked W g s)))"
      by (simp add: marks)
    then show ?thesis
      unfolding provisioned(4) checked_def [symmetric]
      by (intro step disjI2) (rule advances_trans [OF _ provision_advances [OF assms permits_any collect_any [OF sweepable_any]]])
  qed
qed


subsection \<open>The deferred handler\<close>

lemma finish_status_frame [simp]:
  "GetConditions (finish_status W v b m) = GetConditions m"
  "find_cond W' (finish_status W v b m) t = find_cond W' m t"
  "status_of W' (finish_status W v b m) t = status_of W' m t"
  "mo_Spec (finish_status W v b m) = mo_Spec m" "mo_Generation (finish_status W v b m) = mo_Generation m"
  "mo_Finalizers (finish_status W v b m) = mo_Finalizers m"
  "st_Phase (mo_Status (finish_status W v b m)) = PhaseOf W m"
  "st_ObservedGeneration (mo_Status (finish_status W v b m)) = mo_Generation m"
  by (simp_all add: finish_status_def GetConditions_def find_cond_def status_of_def)

lemma finish_releases:
  "st_Releases (mo_Status (finish_status W v b m)) =
     (let rs = SetRelease W (st_Releases (mo_Status m)) (module_release W)
      in if b \<and> v \<noteq> '''' then SetPlatformRelease W rs v else rs)"
  by (simp add: finish_status_def)

lemma phase_status:
  "lawful_conditions W \<Longrightarrow>
     PhaseOf W m = (if status_of W m ConditionTypeReady = Some ConditionTrue then PhaseReady else PhaseNotReady)"
  by (auto simp: PhaseOf_def lawful_conditions.true_iff status_of_def find_cond_def)

lemma identity_fail_conditions [simp]: "identity (fail_conditions W g e m) = identity m"
  by (simp add: fail_conditions_def split: option.split)

lemma initialize_frame:
  assumes "lawful_conditions W" and "initializeCOOVersionCompatibilityCondition W g m = (m', b)"
  shows "identity m' = identity m"
    "distinct (map c_Type (GetConditions m)) \<Longrightarrow> distinct (map c_Type (GetConditions m'))"
    "st_UsageLogsEndpoint (mo_Status m') = st_UsageLogsEndpoint (mo_Status m)"
  using assms(2)
  by (auto simp: initializeCOOVersionCompatibilityCondition_def Let_def mark_defs
      lawful_conditions.distinct_set_cond [OF assms(1)] split: if_splits)

text \<open>
  A round as its body and the deferred handler: the body starts from a state that differs from the
  given one in the COO condition only, or it is the failure to read the platform version.
\<close>

lemma reconcile_stages:
  assumes "lawful_conditions W" and "reconcile W Wc Wd s = (s', r, e)"
  obtains s1 b v rd where "identity (rs_Mon s1) = identity (rs_Mon s)" and "rs_Effects s1 = rs_Effects s"
    and "distinct (map c_Type (GetConditions (rs_Mon s))) \<longrightarrow> distinct (map c_Type (GetConditions (rs_Mon s1)))"
    and "readPlatformVersion W = Inr v \<and> rd = reconcile_body W Wc Wd (mo_Generation (rs_Mon s)) s1 \<or>
      (\<exists>err. readPlatformVersion W = Inl err \<and> v = '''' \<and> rd = stop_with err s1)"
    and "deferred W (mo_Generation (rs_Mon s)) b v rd = (s', r, e)"
    and "b \<longleftrightarrow> sp_ManagementState (mo_Spec (rs_Mon s)) \<noteq> Removed \<and> metrics_storage (mo_Spec (rs_Mon s)) \<noteq> None"
    and "st_UsageLogsEndpoint (mo_Status (rs_Mon s1)) = st_UsageLogsEndpoint (mo_Status (rs_Mon s))"
proof -
  obtain m1 b where i: "initializeCOOVersionCompatibilityCondition W (mo_Generation (rs_Mon s)) (rs_Mon s) = (m1, b)"
    by force
  note fr = initialize_frame [OF assms(1) i]
  have b: "b \<longleftrightarrow> sp_ManagementState (mo_Spec (rs_Mon s)) \<noteq> Removed \<and> metrics_storage (mo_Spec (rs_Mon s)) \<noteq> None"
    using i by (auto simp: initializeCOOVersionCompatibilityCondition_def Let_def)
  show thesis
    using assms(2) fr b
    by (cases "readPlatformVersion W")
       (auto simp: reconcile_def Let_def i intro!: that [of "s\<lparr>rs_Mon := m1\<rparr>"])
qed

lemma reconcile_rd_identity:
  assumes "lawful_conditions W" and "identity (rs_Mon s1) = identity m"
    and "readPlatformVersion W = Inr v \<and> rd = reconcile_body W Wc Wd g s1 \<or>
      (\<exists>err. readPlatformVersion W = Inl err \<and> v = '''' \<and> rd = stop_with err s1)"
  shows "identity (rs_Mon (rd_State rd)) = identity m"
  using assms(2,3) body_frame [OF assms(1), of Wc Wd g s1] by auto

lemma error_exit_result:
  "rd_Err (settle W Wd g data ds w se ca s) = Some e \<Longrightarrow> rd_Result (settle W Wd g data ds w se ca s) = 0 \<and> \<not> rd_Stamp (settle W Wd g data ds w se ca s)"
  "rd_Err (apply_round W Wc Wd g data ds w se s) = Some e \<Longrightarrow> rd_Result (apply_round W Wc Wd g data ds w se s) = 0 \<and>
       \<not> rd_Stamp (apply_round W Wc Wd g data ds w se s)"
proof -
  show *: "rd_Err (settle W Wd g data ds w se ca s) = Some e \<Longrightarrow> rd_Result (settle W Wd g data ds w se ca s) = 0 \<and> \<not> rd_Stamp (settle W Wd g data ds w se ca s)"
    for ca s by (auto simp: settle_unfold Let_def split: option.splits if_splits)
  show "rd_Err (apply_round W Wc Wd g data ds w se s) = Some e \<Longrightarrow>
      rd_Result (apply_round W Wc Wd g data ds w se s) = 0 \<and>
       \<not> rd_Stamp (apply_round W Wc Wd g data ds w se s)"
    by (auto simp: apply_round_def Let_def * split: prod.splits sum.splits option.splits if_splits)
qed

lemma body_error_result:
  assumes "rd_Err (reconcile_body W Wc Wd g s) = Some e"
  shows "rd_Result (reconcile_body W Wc Wd g s) = 0 \<and> \<not> rd_Stamp (reconcile_body W Wc Wd g s)"
proof -
  have prov: "rd_Err (provision W Wc Wd g s') = Some e \<Longrightarrow> rd_Result (provision W Wc Wd g s') = 0 \<and>
      \<not> rd_Stamp (provision W Wc Wd g s')" for s'
    by (auto simp: provision_def error_exit_result split: sum.splits prod.splits if_splits)
  show ?thesis
    by (cases rule: body_cases [of s W Wc Wd g])
       (use assms in \<open>auto simp: removed_round_def mismatch_round_def missing_operators_round_def Let_def
          dest: prov split: prod.splits option.splits\<close>)
qed

text \<open>
  C11: a failed round is always reported. Whatever made \<open>reconcile\<close> return an error, the object it
  leaves has Ready and ProvisioningSucceeded False with the reason ReconcileFailed and the error's
  message, Degraded True, phase NotReady and the observed generation of the spec it worked on; the platform version of an
  earlier round is not touched; and the result asks for no requeue of its own, so that the
  controller's backoff applies.
\<close>

theorem failed_round_is_reported:
  assumes lawful: "lawful_conditions W" and run: "reconcile W Wc Wd s = (s', r, Some err)"
  shows "find_cond W (rs_Mon s') ConditionTypeReady = Some
           \<lparr>c_Type = ConditionTypeReady, c_Status = ConditionFalse, c_Reason = ''ReconcileFailed'',
            c_Message = Error err, c_Severity = SeverityError, c_ObservedGeneration = mo_Generation (rs_Mon s)\<rparr> \<and>
         find_cond W (rs_Mon s') ConditionTypeProvisioningSucceeded = Some
           \<lparr>c_Type = ConditionTypeProvisioningSucceeded, c_Status = ConditionFalse, c_Reason = ''ReconcileFailed'',
            c_Message = Error err, c_Severity = SeverityError, c_ObservedGeneration = mo_Generation (rs_Mon s)\<rparr> \<and>
         status_of W (rs_Mon s') ConditionTypeDegraded = Some ConditionTrue \<and>
         st_Phase (mo_Status (rs_Mon s')) = PhaseNotReady \<and>
         st_ObservedGeneration (mo_Status (rs_Mon s')) = mo_Generation (rs_Mon s) \<and>
         st_Releases (mo_Status (rs_Mon s')) =
           SetRelease W (st_Releases (mo_Status (rs_Mon s))) (module_release W) \<and> r = 0"
  using lawful run
proof (rule reconcile_stages)
  fix s1 b v rd
  assume id1: "identity (rs_Mon s1) = identity (rs_Mon s)"
    and rd: "readPlatformVersion W = Inr v \<and> rd = reconcile_body W Wc Wd (mo_Generation (rs_Mon s)) s1 \<or>
      (\<exists>err. readPlatformVersion W = Inl err \<and> v = '''' \<and> rd = stop_with err s1)"
    and d: "deferred W (mo_Generation (rs_Mon s)) b v rd = (s', r, Some err)"
  let ?g = "mo_Generation (rs_Mon s)"
  have err: "rd_Err rd = Some err" and r: "r = rd_Result rd"
    and s': "rs_Mon s' = finish_status W v (rd_Stamp rd) (fail_conditions W ?g (Some err) (rs_Mon (rd_State rd)))"
    using d by (auto simp: deferred_def Let_def requeueForCOOVersionRefresh_def requeueForCollectorReadiness_def)
  have res: "rd_Result rd = 0" and stamp: "\<not> rd_Stamp rd"
    using rd err body_error_result [of W Wc Wd ?g s1 err] by auto
  have "identity (rs_Mon (rd_State rd)) = identity (rs_Mon s)"
    by (rule reconcile_rd_identity [OF lawful id1 rd])
  then have id: "identity (fail_conditions W ?g (Some err) (rs_Mon (rd_State rd))) = identity (rs_Mon s)"
    by simp
  have ne: "ConditionTypeReady \<noteq> ConditionTypeProvisioningSucceeded" "ConditionTypeReady \<noteq> ConditionTypeDegraded"
    "ConditionTypeProvisioningSucceeded \<noteq> ConditionTypeDegraded"
    by (simp_all add: cond_names)
  note find = lawful_conditions.find_MarkTrue [OF lawful] lawful_conditions.find_MarkFalse [OF lawful]
  have ready: "find_cond W (fail_conditions W ?g (Some err) m) ConditionTypeReady = Some
      \<lparr>c_Type = ConditionTypeReady, c_Status = ConditionFalse, c_Reason = ''ReconcileFailed'',
       c_Message = Error err, c_Severity = SeverityError, c_ObservedGeneration = ?g\<rparr>" for m
    using ne by (simp add: fail_conditions_def find)
  have "PhaseOf W (fail_conditions W ?g (Some err) m) = PhaseNotReady" for m
    using ready [of m] by (simp add: phase_status [OF lawful] status_of_def)
  then show ?thesis
    using ready [of "rs_Mon (rd_State rd)"] ne identity_fields(2,5) [OF id]
    by (simp add: s' r res stamp status_of_def finish_releases) (simp add: fail_conditions_def find)
qed


end
