(* ===== verification/Round_Properties.thy ===== *)
theory Round_Properties
  imports Rounds
begin

section \<open>What rounds guarantee\<close>

text \<open>
  The theorems about whole reconcile rounds: when anything is applied, when the platform version is
  stamped, that unfinished work is always retried, that a refused storage configuration costs no
  LokiStack.
\<close>

subsection \<open>Nothing is applied before every gate is open\<close>

lemma spec_only:
  assumes "mo_Spec m = mo_Spec m'"
  shows "monitoringNamespace W m = monitoringNamespace W m'"
    "validateMonitoringNamespace W m = validateMonitoringNamespace W m'"
    "checkMonitoringPreconditionsWithCOOVersion W m = checkMonitoringPreconditionsWithCOOVersion W m'"
    "buildTemplateData W m v = buildTemplateData W m' v"
proof -
  show ns: "monitoringNamespace W m = monitoringNamespace W m'"
    by (simp add: monitoringNamespace_def assms)
  show "validateMonitoringNamespace W m = validateMonitoringNamespace W m'"
    by (simp only: validateMonitoringNamespace_def ns)
  show "checkMonitoringPreconditionsWithCOOVersion W m = checkMonitoringPreconditionsWithCOOVersion W m'"
    by (simp only: checkMonitoringPreconditionsWithCOOVersion_def assms)
  show "buildTemplateData W m v = buildTemplateData W m' v"
    by (simp only: buildTemplateData_def initial_data_def addImageTLSAndKorrel8rData_def
        addKorrel8rAPIServerData_def metrics_data_def traces_data_def addLokiTemplateData_def
        addUsageLogsData_def forwarding_data_def assms ns)
qed

definition new_effects :: "rstate \<Rightarrow> rstate \<Rightarrow> effect list" where
  "new_effects s s' = drop (length (rs_Effects s)) (rs_Effects s')"

lemma advances_new: "advances W Q s s' \<Longrightarrow> list_all Q (new_effects s s')"
  by (auto simp: advances_def new_effects_def)

definition no_apply :: "effect \<Rightarrow> bool" where
  "no_apply e \<longleftrightarrow> (\<forall>objs. e \<noteq> Apply objs)"

lemma sweepable_no_apply [simp]: "sweepable no_apply"
  by (simp add: sweepable_def no_apply_def)

lemma provision_applies:
  assumes "lawful_conditions W" and "\<not> list_all no_apply (new_effects s (rd_State (provision W Wc Wd g s)))"
  shows "\<exists>v data. buildTemplateData W (rs_Mon s) v = Inr data"
proof (rule ccontr)
  assume none: "\<not> (\<exists>v data. buildTemplateData W (rs_Mon s) v = Inr data)"
  define E where "E v = projl (buildTemplateData W (rs_Mon s) v)" for v
  have "buildTemplateData W (rs_Mon s) v = Inl (E v)" for v
    using none unfolding E_def by (cases "buildTemplateData W (rs_Mon s) v") auto
  then have "rs_Effects (rd_State (provision W Wc Wd g s)) = rs_Effects s"
    by (simp add: provision_def split: sum.split prod.split)
  with assms(2) show False by (simp add: new_effects_def)
qed

text \<open>The state in which provisioning starts.\<close>

definition admitted :: "'w cluster_scheme \<Rightarrow> int \<Rightarrow> rstate \<Rightarrow> rstate" where
  "admitted W g s = on_mon (MarkTrue W g ConditionMonitoringAvailable)
     (on_mon (MarkTrue W g ConditionMonitoringDependenciesReady) (checked W g s))"

lemma admitted_frame:
  assumes "lawful_conditions W"
  shows "identity (rs_Mon (admitted W g s)) = identity (rs_Mon s)" "rs_Effects (admitted W g s) = rs_Effects s"
    "new_effects (admitted W g s) s' = new_effects s s'"
  using checked_frame(1,2) [OF assms, where g = g and s = s] by (simp_all add: admitted_def new_effects_def)

lemma admitted_endpoint:
  "st_UsageLogsEndpoint (mo_Status (rs_Mon (admitted W g s))) = st_UsageLogsEndpoint (mo_Status (rs_Mon s))"
  by (simp add: admitted_def checked_def markCOOVersionCompatibility_def mark_defs Let_def split: option.split)

text \<open>A round whose body issued an apply went through every gate.\<close>

lemma body_applies:
  assumes lawful: "lawful_conditions W"
    and new: "\<not> list_all no_apply (new_effects s (rd_State (reconcile_body W Wc Wd g s)))"
  shows "sp_ManagementState (mo_Spec (rs_Mon s)) \<noteq> Removed \<and> validateMonitoringNamespace W (rs_Mon s) = None \<and>
    snd (checkMonitoringPreconditionsWithCOOVersion W (rs_Mon s)) = None \<and>
    reconcile_body W Wc Wd g s = provision W Wc Wd g (admitted W g s)"
proof (cases rule: body_cases [of s W Wc Wd g])
  case removed
  then show ?thesis
    using new advances_new [OF removed_advances [OF lawful delete_all_any [OF sweepable_no_apply]]] by simp
next
  case (mismatch err)
  then show ?thesis using new by (simp add: mismatch_round_def new_effects_def)
next
  case (failed err)
  then show ?thesis using new by (simp add: new_effects_def)
next
  case (missing err)
  then show ?thesis using new by (simp add: missing_operators_round_def Let_def new_effects_def)
next
  case provisioned
  then show ?thesis by (simp add: admitted_def checked_def)
qed

text \<open>The same for the round around the body.\<close>

lemma applying_round:
  assumes lawful: "lawful_conditions W" and run: "reconcile W Wc Wd s = (s', r, e)"
    and applied: "Apply objs \<in> set (new_effects s s')"
  obtains s1 b v rd where "identity (rs_Mon s1) = identity (rs_Mon s)" and "rs_Effects s1 = rs_Effects s"
    and "sp_ManagementState (mo_Spec (rs_Mon s1)) \<noteq> Removed" and "validateMonitoringNamespace W (rs_Mon s1) = None"
    and "snd (checkMonitoringPreconditionsWithCOOVersion W (rs_Mon s1)) = None"
    and "rd = provision W Wc Wd (mo_Generation (rs_Mon s)) (admitted W (mo_Generation (rs_Mon s)) s1)"
    and "\<not> list_all no_apply (new_effects (admitted W (mo_Generation (rs_Mon s)) s1) (rd_State rd))"
    and "deferred W (mo_Generation (rs_Mon s)) b v rd = (s', r, e)"
    and "b \<longleftrightarrow> sp_ManagementState (mo_Spec (rs_Mon s)) \<noteq> Removed \<and> metrics_storage (mo_Spec (rs_Mon s)) \<noteq> None"
    and "st_UsageLogsEndpoint (mo_Status (rs_Mon s1)) = st_UsageLogsEndpoint (mo_Status (rs_Mon s))"
  using lawful run
proof (rule reconcile_stages)
  fix s1 b v rd
  let ?g = "mo_Generation (rs_Mon s)"
  assume id1: "identity (rs_Mon s1) = identity (rs_Mon s)" and eff: "rs_Effects s1 = rs_Effects s"
    and rd: "readPlatformVersion W = Inr v \<and> rd = reconcile_body W Wc Wd ?g s1 \<or>
      (\<exists>err. readPlatformVersion W = Inl err \<and> v = '''' \<and> rd = stop_with err s1)"
    and d: "deferred W ?g b v rd = (s', r, e)"
    and b: "b \<longleftrightarrow> sp_ManagementState (mo_Spec (rs_Mon s)) \<noteq> Removed \<and> metrics_storage (mo_Spec (rs_Mon s)) \<noteq> None"
    and before: "st_UsageLogsEndpoint (mo_Status (rs_Mon s1)) = st_UsageLogsEndpoint (mo_Status (rs_Mon s))"
  have new: "\<not> list_all no_apply (new_effects s1 (rd_State rd))"
    using d applied eff by (auto simp: deferred_def Let_def new_effects_def no_apply_def list_all_iff)
  then have body: "rd = reconcile_body W Wc Wd ?g s1"
    using rd by (auto simp: new_effects_def)
  note gates = body_applies [OF lawful new [unfolded body]]
  show thesis
    using that [OF id1 eff _ _ _ _ _ d b before] gates body new by (simp add: admitted_frame(3) [OF lawful])
qed

text \<open>
  C12: resources are applied only in a round that may provision: if a round issues an apply, then
  the object is not in the Removed state, its namespace is the one the operator was installed for,
  no required operator was reported missing and the template data could be built.
\<close>

theorem apply_only_when_provisioning:
  assumes lawful: "lawful_conditions W" and run: "reconcile W Wc Wd s = (s', r, e)"
    and applied: "Apply objs \<in> set (new_effects s s')"
  shows "sp_ManagementState (mo_Spec (rs_Mon s)) \<noteq> Removed \<and> validateMonitoringNamespace W (rs_Mon s) = None \<and>
         checkMonitoringPreconditions W (rs_Mon s) = None \<and>
         (\<exists>v data. buildTemplateData W (rs_Mon s) v = Inr data)"
  using lawful run applied
proof (rule applying_round)
  fix s1 rd
  let ?g = "mo_Generation (rs_Mon s)" and ?s2 = "admitted W (mo_Generation (rs_Mon s)) s1"
  assume id1: "identity (rs_Mon s1) = identity (rs_Mon s)"
    and gates: "sp_ManagementState (mo_Spec (rs_Mon s1)) \<noteq> Removed" "validateMonitoringNamespace W (rs_Mon s1) = None"
      "snd (checkMonitoringPreconditionsWithCOOVersion W (rs_Mon s1)) = None"
    and prov: "rd = provision W Wc Wd ?g ?s2" and new: "\<not> list_all no_apply (new_effects ?s2 (rd_State rd))"
  note spec = spec_only [OF identity_fields(1) [OF id1]]
  have "mo_Spec (rs_Mon ?s2) = mo_Spec (rs_Mon s)"
    using id1 admitted_frame(1) [OF lawful, of ?g s1] by (intro identity_fields(1)) simp
  then have "\<exists>v data. buildTemplateData W (rs_Mon s) v = Inr data"
    using provision_applies [OF lawful, of ?s2 Wc Wd ?g] new prov spec_only(4) by metis
  then show ?thesis
    using gates by (simp add: checkMonitoringPreconditions_def spec identity_fields(1) [OF id1])
qed

subsection \<open>The platform version is stamped after a full apply only\<close>

lemma emit_mon [simp]: "rs_Mon (emit e s) = rs_Mon s"
  by (simp add: emit_def)

lemma delete_object_mon: "rs_Mon (fst (delete_object W pre k ns n p s)) = rs_Mon s"
  by (simp add: delete_object_def split: option.split)

lemma policies_mon: "rs_Mon (fst (cleanupOpenTelemetryOperatorNetworkPolicies W ns s)) = rs_Mon s"
proof -
  have "rs_Mon (fst (policies_loop W ns items s)) = rs_Mon s" for items
  proof (induction items arbitrary: s)
    case (Cons item items)
    obtain name component where item: "item = (name, component)" by force
    let ?del = "delete_object W (''deleting '' @ ns @ ''/'' @ name @ '': '') gvk_NetworkPolicy ns name None s"
    obtain s1 r where d: "?del = (s1, r)" by force
    have "rs_Mon s1 = rs_Mon s"
      using delete_object_mon [of W "''deleting '' @ ns @ ''/'' @ name @ '': ''" gvk_NetworkPolicy ns name None s]
      unfolding d by simp
    with Cons show ?case
      by (simp add: item d [simplified] split: sum.split option.split)
  qed simp
  then show ?thesis by (simp add: cleanupOpenTelemetryOperatorNetworkPolicies_def)
qed

lemma prepare_mon: "rs_Mon (fst (preparePrometheusWebTLSCA W Wc desired s)) = rs_Mon s"
  by (auto simp: preparePrometheusWebTLSCA_def deploy_resources_def syncPrometheusWebTLSCA_def Let_def
      split: option.split sum.split prod.split list.split)

text \<open>A round that got as far as the garbage collection has applied its resources.\<close>

lemma apply_round_cases [consumes 1, case_names stopped settled]:
  assumes "lawful_conditions W"
  obtains (stopped) err s' where "apply_round W Wc Wd g data desired withheld se s = stop_with err s'"
  | (settled) ca objs s4 where "objs = (if ca then desired else withoutMonitoringStack desired)"
      "DeployAnswer Wc objs = None" "Apply objs \<in> set (new_effects s s4)" "advances W (\<lambda>_. True) s s4"
      "apply_round W Wc Wd g data desired withheld se s = settle W Wd g data desired withheld se ca s4"
      "ca \<or> (\<exists>c. find_cond W (rs_Mon s4) ConditionMonitoringStackAvailable = Some c \<and> failing_feature c)"
      "find_cond W (rs_Mon s4) ConditionUsageLogsCollectorAvailable = find_cond W (rs_Mon s) ConditionUsageLogsCollectorAvailable"
proof -
  obtain s1 r1 where 1: "preparePrometheusWebTLSCA W Wc desired s = (s1, r1)" by force
  have mon1: "rs_Mon s1 = rs_Mon s"
    using prepare_mon [of W Wc desired s] 1 by simp
  have a1: "advances W (\<lambda>_. True) s s1"
    using prepare_advances [OF advances_refl permits_any, of W s W Wc desired] 1 by simp
  show thesis
  proof (cases r1)
    case (Inl e)
    then show thesis using stopped by (simp add: apply_round_def 1)
  next
    case (Inr ca)
    define s2 where "s2 = (if ca then s1
      else on_mon (MarkFalse W g ConditionMonitoringStackAvailable ''PrometheusCAUnavailable''
             ''Waiting for OpenShift service CA injection and Prometheus CA Secret'') s1)"
    define objs where "objs = (if ca then desired else withoutMonitoringStack desired)"
    have a2: "advances W (\<lambda>_. True) s s2"
      using a1 by (simp add: s2_def advances_marks [OF assms])
    define s3 where "s3 = emit (Apply objs) s2"
    have dep: "deploy_resources Wc ''applying resources: '' objs s2 =
        (s3, map_option (wrapf ''applying resources: '') (DeployAnswer Wc objs))"
      by (simp add: deploy_resources_def s3_def split: option.split)
    obtain s4 r4 where 4: "cleanupOpenTelemetryOperatorNetworkPolicies Wd (monitoringNamespace W (rs_Mon s3)) s3 = (s4, r4)"
      by force
    have a4: "advances W (\<lambda>_. True) s3 s4"
      using policies_advance [OF advances_refl permits_any, of W s3 Wd "monitoringNamespace W (rs_Mon s3)"] 4 by simp
    have "Apply objs \<in> set (new_effects s s4)"
      using a2 a4 by (auto simp: advances_def new_effects_def s3_def emit_def)
    moreover have "advances W (\<lambda>_. True) s s4"
      using advances_trans [OF advances_emit [OF a2, of "Apply objs"]] a4 by (simp add: s3_def)
    moreover have "apply_round W Wc Wd g data desired withheld se s =
        (case DeployAnswer Wc objs of Some err \<Rightarrow> stop_with (wrapf ''applying resources: '' err) s3
         | None \<Rightarrow> (case r4 of
             Some err \<Rightarrow> stop_with (wrapf ''cleaning up OpenTelemetry Operator NetworkPolicies: '' err) s4
           | None \<Rightarrow> settle W Wd g data desired withheld se ca s4))"
      unfolding apply_round_def 1 Inr prod.case sum.case Let_def s2_def [symmetric] objs_def [symmetric] dep
      by (simp add: 4 split: option.split)
    moreover have "ca \<or> (\<exists>c. find_cond W (rs_Mon s4) ConditionMonitoringStackAvailable = Some c \<and> failing_feature c)"
      using policies_mon [of Wd "monitoringNamespace W (rs_Mon s3)" s3] 4
      by (simp add: s3_def s2_def lawful_conditions.find_MarkFalse [OF assms] failing_feature_def featureConditionTypes_def)
    moreover have "find_cond W (rs_Mon s4) ConditionUsageLogsCollectorAvailable =
        find_cond W (rs_Mon s) ConditionUsageLogsCollectorAvailable"
      using policies_mon [of Wd "monitoringNamespace W (rs_Mon s3)" s3] 4 mon1
      by (simp add: s3_def s2_def lawful_conditions.find_MarkFalse [OF assms] cond_names)
    ultimately show thesis
      using stopped settled [OF objs_def] by (auto split: option.splits)
  qed
qed

lemma settle_keeps_effects:
  assumes "lawful_conditions W" and "e \<in> set (new_effects s s4)" and "advances W (\<lambda>_. True) s s4"
  shows "e \<in> set (new_effects s (rd_State (settle W Wd g data desired withheld se ca s4)))"
  using settle_advances [OF assms(1) permits_any collect_any [OF sweepable_any], of s4 s4 Wd g data desired withheld se ca]
    assms(2,3)
  by (auto simp: advances_def new_effects_def)

lemma provision_cases [consumes 0, case_names stopped unconfigured applied]:
  obtains (stopped) err s' where "provision W Wc Wd g s = stop_with err s'"
  | (unconfigured) v err where "buildTemplateData W (rs_Mon s) v = Inl err"
      "provision W Wc Wd g s = leave (on_mon (markConfigurationError W g err) s)"
  | (applied) v f data s1 desired withheld se where
      "renderMonitoringResources W g data v f s = (s1, Inr (desired, withheld, se))"
      "buildTemplateData W (rs_Mon s) v = Inr data"
      "provision W Wc Wd g s = apply_round W Wc Wd g data desired withheld se s1"
proof (cases "resolvePersesAPIVersion W")
  case (Inl err)
  then show thesis using stopped by (simp add: provision_def)
next
  case (Inr vf)
  obtain v f where vf: "vf = (v, f)" by force
  show thesis
  proof (cases "buildTemplateData W (rs_Mon s) v")
    case (Inl err)
    then show thesis
      using stopped unconfigured [OF Inl] Inr vf
      by (cases "errors_Is err errProxyTLSResolutionFailed") (simp_all add: provision_def)
  next
    case data: (Inr data)
    obtain s1 r where r: "renderMonitoringResources W g data v f s = (s1, r)" by force
    show thesis
    proof (cases r)
      case (Inl err)
      then show thesis using stopped Inr vf data r by (simp add: provision_def)
    next
      case rendered: (Inr x)
      obtain desired withheld se where "x = (desired, withheld, se)" by (rule prod_cases3)
      then show thesis using applied [of data v f] Inr vf data r rendered by (simp add: provision_def)
    qed
  qed
qed

lemma new_effects_earlier:
  assumes "advances W Q s s1" and "e \<in> set (new_effects s1 s2)"
  shows "e \<in> set (new_effects s s2)"
proof -
  have "length (rs_Effects s) \<le> length (rs_Effects s1)"
    using assms(1) by (auto simp: advances_def)
  then show ?thesis
    using assms(2) subsetD [OF set_drop_subset_set_drop] unfolding new_effects_def by metis
qed

lemma provision_stamp:
  assumes lawful: "lawful_conditions W" and stamp: "rd_Stamp (provision W Wc Wd g s)"
  shows "rd_Err (provision W Wc Wd g s) = None \<and>
     (\<exists>srcs data desired. Render W srcs data = Inr desired \<and> DeployAnswer Wc desired = None \<and>
        Apply desired \<in> set (new_effects s (rd_State (provision W Wc Wd g s))))"
proof -
  obtain v f data s1 desired withheld se where
    render: "renderMonitoringResources W g data v f s = (s1, Inr (desired, withheld, se))"
    and p: "provision W Wc Wd g s = apply_round W Wc Wd g data desired withheld se s1"
    using stamp by (cases rule: provision_cases [of W Wc Wd g s]) simp_all
  have a: "advances W (\<lambda>_. True) s s1"
    using render_advances [OF lawful permits_any, of s g data v f] render by simp
  from render obtain srcs where srcs: "Render W srcs data = Inr desired" by (rule render_stages)
  show ?thesis
    using lawful
  proof (cases rule: apply_round_cases [where Wc = Wc and Wd = Wd and g = g and data = data and desired = desired
        and withheld = withheld and se = se and s = s1])
    case (stopped err s')
    then show ?thesis using stamp p by simp
  next
    case (settled ca objs s4)
    from stamp have "se = None" "ca"
      unfolding p settled(5) by (auto simp: settle_unfold Let_def split: option.splits if_splits)
    moreover have "Apply objs \<in> set (new_effects s (rd_State (provision W Wc Wd g s)))"
      unfolding p settled(5)
      by (rule new_effects_earlier [OF a settle_keeps_effects [OF lawful settled(3,4)]])
    moreover have "rd_Err (provision W Wc Wd g s) = None"
      unfolding p settled(5) using \<open>se = None\<close> \<open>ca\<close> by (simp add: settle_unfold Let_def)
    ultimately show ?thesis
      using srcs settled(1,2) by auto
  qed
qed


lemma body_provisions:
  assumes "rd_Result (reconcile_body W Wc Wd g s) \<noteq> 0 \<or> rd_Stamp (reconcile_body W Wc Wd g s)"
  shows "reconcile_body W Wc Wd g s = provision W Wc Wd g (admitted W g s)"
  by (cases rule: body_cases [of s W Wc Wd g])
     (use assms in \<open>auto simp: removed_round_def mismatch_round_def missing_operators_round_def Let_def
        admitted_def checked_def split: prod.splits option.splits\<close>)

text \<open>
  C7: the platform version in the status is what the parent operator takes for a finished upgrade,
  and it is written only after a complete apply: whenever a round changes the releases beyond
  recording the module's own version, the round ended without error, a non-empty platform version
  was read from the platform's ConfigMap, the value written is that version, and the full set of
  rendered resources (the MonitoringStack included) was applied successfully in this round.
\<close>

theorem platform_version_stamp:
  assumes lawful: "lawful_conditions W" and run: "reconcile W Wc Wd s = (s', r, e)"
    and stamped: "st_Releases (mo_Status (rs_Mon s')) \<noteq>
      SetRelease W (st_Releases (mo_Status (rs_Mon s))) (module_release W)"
  shows "e = None \<and>
     (\<exists>v. readPlatformVersion W = Inr v \<and> v \<noteq> '''' \<and> st_Releases (mo_Status (rs_Mon s')) =
        SetPlatformRelease W (SetRelease W (st_Releases (mo_Status (rs_Mon s))) (module_release W)) v) \<and>
     (\<exists>srcs data desired. Render W srcs data = Inr desired \<and> DeployAnswer Wc desired = None \<and>
        Apply desired \<in> set (new_effects s s'))"
  using lawful run
proof (rule reconcile_stages)
  fix s1 b v rd
  let ?g = "mo_Generation (rs_Mon s)"
  assume id1: "identity (rs_Mon s1) = identity (rs_Mon s)" and eff: "rs_Effects s1 = rs_Effects s"
    and rd: "readPlatformVersion W = Inr v \<and> rd = reconcile_body W Wc Wd ?g s1 \<or>
      (\<exists>err. readPlatformVersion W = Inl err \<and> v = '''' \<and> rd = stop_with err s1)"
    and d: "deferred W ?g b v rd = (s', r, e)"
  have e: "e = rd_Err rd" and s': "rs_Effects s' = rs_Effects (rd_State rd)"
    "rs_Mon s' = finish_status W v (rd_Stamp rd) (fail_conditions W ?g (rd_Err rd) (rs_Mon (rd_State rd)))"
    using d by (auto simp: deferred_def Let_def)
  have "identity (fail_conditions W ?g (rd_Err rd) (rs_Mon (rd_State rd))) = identity (rs_Mon s)"
    using reconcile_rd_identity [OF lawful id1 rd] by simp
  note rel = identity_fields(5) [OF this]
  have stamp: "rd_Stamp rd" and v: "v \<noteq> ''''"
    using stamped by (auto simp: s' finish_releases rel Let_def split: if_splits)
  then have v_read: "readPlatformVersion W = Inr v" and body: "rd = reconcile_body W Wc Wd ?g s1"
    using rd by auto
  have prov: "rd = provision W Wc Wd ?g (admitted W ?g s1)"
    using body_provisions stamp body by blast
  have "new_effects s s' = new_effects (admitted W ?g s1) (rd_State rd)"
    by (simp add: admitted_frame(2) [OF lawful] new_effects_def eff s'(1))
  moreover have "st_Releases (mo_Status (rs_Mon s')) =
      SetPlatformRelease W (SetRelease W (st_Releases (mo_Status (rs_Mon s))) (module_release W)) v"
    using stamp v by (simp add: s' finish_releases rel)
  ultimately show ?thesis
    using provision_stamp [OF lawful stamp [unfolded prov]] v v_read by (simp add: e prov [symmetric])
qed


subsection \<open>Unfinished work is retried\<close>

text \<open>The usage logs collector is left out for want of the address of its LokiStack.\<close>

definition awaits_stack :: "'w conditions_lib_scheme \<Rightarrow> Monitoring \<Rightarrow> bool" where
  "awaits_stack W m \<longleftrightarrow>
     map_option c_Reason (find_cond W m ConditionUsageLogsCollectorAvailable) = Some ''LokiStackNotReady''"

lemma collector_awaits:
  assumes "lawful_conditions W" and "deployUsageLogsCollector W g s = (s', None)" and "awaits_stack W (rs_Mon s')"
  shows "st_UsageLogsEndpoint (mo_Status (rs_Mon s)) = ''''"
proof (rule ccontr)
  assume "st_UsageLogsEndpoint (mo_Status (rs_Mon s)) \<noteq> ''''"
  then show False
    using assms(2,3)
    by (auto simp: deployUsageLogsCollector_def render_usage_logs_collector_def awaits_stack_def Let_def
        add_sources_def CredentialNotFoundReason_def
        lawful_conditions.find_MarkTrue [OF assms(1)] lawful_conditions.find_MarkFalse [OF assms(1)]
        lawful_conditions.find_MarkNotConfigured [OF assms(1)] lawful_conditions.find_MarkTrueWithReason [OF assms(1)]
        split: option.splits sum.splits bool.splits if_splits)
qed

lemma render_awaits:
  assumes lawful: "lawful_conditions W"
    and render: "renderMonitoringResources W g data v f s = (s', Inr (desired, withheld, None))"
    and waits: "awaits_stack W (rs_Mon s')"
  shows "st_UsageLogsEndpoint (mo_Status (rs_Mon s)) = ''''"
  using render
proof (rule render_stages)
  fix s1 m2
  assume r: "run_actions (render_actions v f) W g s = (s1, None)"
    and gate: "validateStorageIsolation W g (rs_Mon s1) = (m2, withheld, None)"
    and stacks: "deployLokiStacks W g withheld (s1\<lparr>rs_Mon := m2\<rparr>) = (s', None)"
  have free: "withheld = []" "s1\<lparr>rs_Mon := m2\<rparr> = s1"
    using gate_accepts [OF gate] by simp_all
  obtain s2 s3 where stack: "deployLokiStack W g (usage_logs_stack (mo_Spec (rs_Mon s1))) s1 = (s2, None)"
    and coll: "deployUsageLogsCollector W g s2 = (s3, None)" and forward: "deployRHOAILogsLokiStack W g s3 = (s', None)"
    using stacks component_names
    by (auto simp: free deployLokiStacks_def lokiComponents_def deployUsageLogsLokiStack_def
        split: prod.splits option.splits)
  have "find_cond W (rs_Mon s') ConditionUsageLogsCollectorAvailable = find_cond W (rs_Mon s3) ConditionUsageLogsCollectorAvailable"
    using forward_pipeline.pair.within [OF lawful, of s3 g, folded loki_pipelines_as_pairs(2)] forward
    by (simp add: acts_within_def cond_names)
  then have "st_UsageLogsEndpoint (mo_Status (rs_Mon s2)) = ''''"
    using collector_awaits [OF lawful coll] waits by (simp add: awaits_stack_def)
  moreover have "acts_within W render_conditions render_templates s s1"
    using render.run_within [OF lawful, of s v f g] r by simp
  moreover from usage_stack.within [OF lawful, of s1 g] obtain o' t' where "acts_within W o' t' s1 s2"
    using stack by auto
  ultimately show ?thesis by (simp add: within_frame(4))
qed

lemma applied_settles:
  assumes lawful: "lawful_conditions W" and new: "\<not> list_all no_apply (new_effects s (rd_State (provision W Wc Wd g s)))"
    and ok: "rd_Err (provision W Wc Wd g s) = None"
  obtains data desired withheld ca s4 v where "advances W (\<lambda>_. True) s s4"
    and "Apply (if ca then desired else withoutMonitoringStack desired) \<in> set (new_effects s s4)"
    and "provision W Wc Wd g s = settle W Wd g data desired withheld None ca s4"
    and "buildTemplateData W (rs_Mon s) v = Inr data"
    and "awaits_stack W (rs_Mon s4) \<Longrightarrow> st_UsageLogsEndpoint (mo_Status (rs_Mon s)) = ''''"
proof (cases rule: provision_cases [of W Wc Wd g s])
  case (stopped err s')
  then show thesis using ok by simp
next
  case (unconfigured v err)
  then show thesis using new by (simp add: new_effects_def)
next
  case (applied v f data s1 desired withheld se)
  have a: "advances W (\<lambda>_. True) s s1"
    using render_advances [OF lawful permits_any, of s g data v f] applied(1) by simp
  show thesis
    using lawful
  proof (cases rule: apply_round_cases [where Wc = Wc and Wd = Wd and g = g and data = data and desired = desired
        and withheld = withheld and se = se and s = s1])
    case (stopped err s')
    then show thesis using ok applied(3) by simp
  next
    case (settled ca objs s4)
    have "se = None"
      using ok unfolding applied(3) settled(5) by (cases se) (simp_all add: settle_unfold Let_def)
    then show thesis
      using that [OF advances_trans [OF a settled(4)], of ca desired data withheld v]
        new_effects_earlier [OF a settled(3)] settled(1,5,7) applied(2,3)
        render_awaits [OF lawful applied(1) [unfolded \<open>se = None\<close>]] by (simp add: awaits_stack_def)
  qed
qed

lemma status_written_conditions:
  assumes "lawful_conditions W" and "t \<notin> set top_level_types"
  shows "find_cond W (status_written W g data m) t = find_cond W m t"
proof -
  have agg: "find_cond W (AggregateReady W g m') t = find_cond W m' t" for m'
    using assms(2)
    by (simp add: AggregateReady_def Let_def top_level_types_def lawful_conditions.find_MarkTrue [OF assms(1)]
        lawful_conditions.find_MarkFalse [OF assms(1)] lawful_conditions.find_MarkUnknown [OF assms(1)]
        split: prod.split)
  show ?thesis
    unfolding status_written_def agg by (simp add: find_cond_def status_writes_frame)
qed


lemma finish_checks:
  "openTelemetryCollectorAwaitingReadiness (finish_status W v b m) = openTelemetryCollectorAwaitingReadiness m"
  "usageLogsAwaitingCredential (finish_status W v b m) = usageLogsAwaitingCredential m"
  "st_UsageLogsEndpoint (mo_Status (finish_status W v b m)) = st_UsageLogsEndpoint (mo_Status m)"
  by (simp_all add: finish_status_def openTelemetryCollectorAwaitingReadiness_def usageLogsAwaitingCredential_def
      findUsageLogsCollectorCondition_def)

lemma publish_settled:
  assumes "lawful_conditions W" and "\<not> snd (publishLokiEndpoints W data m)" and "usage_logs_storage (mo_Spec m) \<noteq> None"
  shows "status_of W m ConditionUsageLogsLokiStackAvailable = Some ConditionTrue"
proof -
  have "\<not> snd (publish W m data True ConditionUsageLogsLokiStackAvailable ''UsageLogsEndpoint''
      (st_UsageLogsEndpoint (mo_Status m)))"
    using assms(2,3) by (auto simp: publishLokiEndpoints_def split: prod.splits)
  then show ?thesis
    by (auto simp: publish_def lawful_conditions.true_iff [OF assms(1)] status_of_def find_cond_def split: if_splits)
qed

text \<open>
  A round that finds a storage conflict marks the stack's condition False and so clears the published
  endpoint, although the pipeline is only frozen. The first round after the storage was repaired then
  finds no endpoint and leaves the collector's templates out of the desired set.
\<close>

lemma conflict_round_unpublishes_collector:
  assumes lawful: "lawful_conditions W" and storage: "usage_logs_storage (mo_Spec m) \<noteq> None"
    and refused: "status_of W m ConditionUsageLogsLokiStackAvailable = Some ConditionFalse"
    and later: "mo_Spec (rs_Mon s) = mo_Spec m"
      "st_UsageLogsEndpoint (mo_Status (rs_Mon s)) = st_UsageLogsEndpoint (mo_Status (fst (publishLokiEndpoints W data m)))"
  shows "deployUsageLogsCollector W' g s =
    (on_mon (MarkFalse W' g ConditionUsageLogsCollectorAvailable ''LokiStackNotReady''
       ''Waiting for LokiStack to be ready'') s, None)"
proof -
  have "fst (publish W m data True ConditionUsageLogsLokiStackAvailable ''UsageLogsEndpoint''
      (st_UsageLogsEndpoint (mo_Status m))) = ''''"
    using refused
    by (auto simp: publish_def lawful_conditions.true_iff [OF lawful] lawful_conditions.equal_iff [OF lawful]
        status_of_def find_cond_def)
  then have "st_UsageLogsEndpoint (mo_Status (rs_Mon s)) = ''''"
    using storage later(2) by (auto simp: publishLokiEndpoints_def split: prod.splits)
  then show ?thesis
    using storage later(1)
    by (auto simp: deployUsageLogsCollector_def usage_logs_storage_def Let_def split: option.splits)
qed

lemma published_endpoint:
  assumes "lawful_conditions W" and "\<not> snd (publishLokiEndpoints W data m)" and "usage_logs_storage (mo_Spec m) \<noteq> None"
  shows "st_UsageLogsEndpoint (mo_Status (status_written W g data m)) = string_of (data ''UsageLogsEndpoint'')"
proof -
  have "st_UsageLogsEndpoint (mo_Status (fst (publishLokiEndpoints W data m))) = string_of (data ''UsageLogsEndpoint'')"
    using assms(2,3) by (auto simp: publishLokiEndpoints_def publish_def split: prod.splits if_splits)
  then show ?thesis
    by (simp add: status_written_def AggregateReady_def setUsageLogsForwardingStatus_def mark_defs Let_def split: prod.split)
qed

lemma post_deploy_collector:
  assumes "lawful_conditions W"
  shows "find_cond W (rs_Mon (syncPostDeployResources W Wd g s)) ConditionUsageLogsCollectorAvailable =
    find_cond W (rs_Mon s) ConditionUsageLogsCollectorAvailable"
proof -
  obtain s1 r where 1: "syncThanosQuerierRouteDestinationCA Wd s = (s1, r)" by force
  then have "rs_Mon s1 = rs_Mon s"
    by (auto simp: syncThanosQuerierRouteDestinationCA_def Let_def split: if_splits sum.splits option.splits)
  moreover have "find_cond W (fst (syncStatusURL Wd m)) t = find_cond W m t" for m t
    by (simp add: find_cond_def sync_url_frame)
  ultimately show ?thesis
    by (simp add: syncPostDeployResources_def 1 Let_def lawful_conditions.find_MarkFalse [OF assms] cond_names
        split: option.split)
qed

lemma quiet_settle:
  assumes lawful: "lawful_conditions W"
    and quiet: "rd_Result (settle W Wd g data desired withheld None ca s) = 0"
  defines "m \<equiv> rs_Mon (rd_State (settle W Wd g data desired withheld None ca s))"
  shows "ca \<and> snd (collectGarbage Wd desired withheld s) = None \<and> sp_Logs (mo_Spec m) = None \<and>
    \<not> usageLogsAwaitingCredential m \<and>
    (usage_logs_storage (mo_Spec m) \<noteq> None \<longrightarrow>
       status_of W m ConditionUsageLogsLokiStackAvailable = Some ConditionTrue \<and>
       st_UsageLogsEndpoint (mo_Status m) = string_of (data ''UsageLogsEndpoint'')) \<and>
    (awaits_stack W m \<longleftrightarrow> awaits_stack W (rs_Mon s))"
proof -
  define s2 where "s2 = syncPostDeployResources W Wd g (fst (collectGarbage Wd desired withheld s))"
  have ca: ca
    using quiet by (simp add: settle_unfold Let_def split: if_splits)
  have m: "m = status_written W g data (rs_Mon s2)"
    using ca by (simp add: m_def settle_unfold Let_def s2_def)
  have q: "\<not> snd (publishLokiEndpoints W data (rs_Mon s2))" "\<not> usageLogsAwaitingCredential m"
    "sp_Logs (mo_Spec m) = None" "snd (collectGarbage Wd desired withheld s) = None"
    using quiet ca unfolding m by (simp_all add: settle_unfold Let_def s2_def split: if_splits)
  have "advances W (\<lambda>_. True) s2 (on_mon (status_written W g data) s2)"
    by (rule status_written_advances [OF lawful advances_refl])
  then have "mo_Spec m = mo_Spec (rs_Mon s2)"
    by (intro identity_fields(1)) (simp add: advances_def m)
  moreover have "status_of W m ConditionUsageLogsLokiStackAvailable = status_of W (rs_Mon s2) ConditionUsageLogsLokiStackAvailable"
    by (simp add: status_of_def m status_written_conditions [OF lawful] top_level_types_def cond_names)
  moreover have "find_cond W m ConditionUsageLogsCollectorAvailable = find_cond W (rs_Mon s) ConditionUsageLogsCollectorAvailable"
  proof -
    have "ConditionUsageLogsCollectorAvailable \<notin> set top_level_types"
      by (simp add: top_level_types_def cond_names)
    then show ?thesis
      using collect_any [OF sweepable_any, of s Wd desired withheld]
      by (simp add: m status_written_conditions [OF lawful] s2_def post_deploy_collector [OF lawful] only_deletes_def)
  qed
  ultimately show ?thesis
    using q ca publish_settled [OF lawful q(1)] published_endpoint [OF lawful q(1), of g]
    by (simp add: awaits_stack_def m)
qed



subsection \<open>Unsafe storage costs no logs\<close>

text \<open>
  Requests that leave the LokiStacks and every resource of the Loki components in place. The
  library's collector deletes no LokiStack and nothing with the label of a Loki component. A
  deletion of the operator's own is conditioned on the identity of a listed cluster role or binding
  without such a label, or it names one of the few objects that belong to other components: the
  target allocator's Secret role and binding, the two network policies of the OpenTelemetry
  operator, the Perses objects of the Tempo integration and the legacy token Secrets.
\<close>

fun log_safe :: "'w cluster_scheme \<Rightarrow> effect \<Rightarrow> bool" where
  "log_safe W (CollectorDeleted obj) \<longleftrightarrow>
     o_Gvk obj \<noteq> gvk_LokiStack \<and> sget (o_Labels obj) componentLabel \<notin> set lokiComponents"
| "log_safe W (Delete k ns name pre) \<longleftrightarrow>
     k \<noteq> gvk_LokiStack \<and>
     ((k = gvk_ClusterRole \<or> k = gvk_ClusterRoleBinding) \<and>
        (\<exists>objs obj. ListOwned W k = Inr objs \<and> obj \<in> set objs \<and> name = o_Name obj \<and>
           pre = Some (o_UID obj, o_ResourceVersion obj) \<and>
           sget (o_Labels obj) componentLabel \<notin> set lokiComponents) \<or>
      (k = gvk_Role \<or> k = gvk_RoleBinding) \<and> name = targetAllocatorSecretRBACName \<or>
      k = gvk_NetworkPolicy \<and> name \<in> fst ` set operator_policies \<or>
      action_delete (Delete k ns name pre))"
| "log_safe W _ \<longleftrightarrow> True"

lemma permits_log_safe [simp]: "permits (log_safe W)"
proof -
  have "action_delete e \<longrightarrow> log_safe W e" for e
    by (cases e) (auto simp: gvk_defs)
  then show ?thesis by (simp add: permits_def) (simp add: gvk_defs)
qed

lemma justified_log_safe:
  assumes "justified W m desired lokiComponents e"
  shows "log_safe W e"
proof (cases e)
  case (Delete k ns name pre)
  then obtain obj where "stale_rbac W m desired lokiComponents k obj" "name = o_Name obj"
    "pre = Some (o_UID obj, o_ResourceVersion obj)"
    using assms by auto
  moreover from this have "k \<noteq> gvk_LokiStack"
    by (auto simp: stale_rbac_def gvk_defs)
  ultimately show ?thesis
    unfolding Delete by (auto simp: stale_rbac_def simp del: action_delete.simps)
qed (use assms in \<open>auto simp: stale_owned_def lokiComponents_def\<close>)

lemma withheld_sweep_log_safe:
  assumes "faithful_collector W"
  shows "only_deletes (log_safe W) s (fst (collectGarbage W desired lokiComponents s))"
proof -
  note faithful_collector.collect_only [OF assms, of s desired lokiComponents]
  then show ?thesis
    using justified_log_safe [of W "rs_Mon s" desired] unfolding only_deletes_def list_all_iff by metis
qed

lemma render_withholds:
  assumes lawful: "lawful_conditions W"
    and unsafe: "checkStorageIsolation W (monitoringNamespace W (rs_Mon s)) (storageClaims (rs_Mon s)) = Some err"
    and render: "renderMonitoringResources W g data v f s = (s', Inr (desired, withheld, se))"
  shows "withheld = lokiComponents \<and> se = Some err"
  using render
proof (rule render_stages)
  fix s1 m2
  assume r: "run_actions (render_actions v f) W g s = (s1, None)"
    and gate: "validateStorageIsolation W g (rs_Mon s1) = (m2, withheld, se)"
  have "identity (rs_Mon s1) = identity (rs_Mon s)"
    using render_actions_advance [OF lawful permits_any, of s v f g] r by (simp add: advances_def)
  note spec = identity_fields(1) [OF this]
  have "checkStorageIsolation W (monitoringNamespace W (rs_Mon s1)) (storageClaims (rs_Mon s1)) = Some err"
    using unsafe by (simp add: spec_only(1) [OF spec] storageClaims_def spec)
  then show ?thesis
    using gate gate_accepts [of W g "rs_Mon s1"] gate_refuses(1,2) [of W g "rs_Mon s1"] by (cases se) auto
qed

text \<open>
  C3: a storage misconfiguration never costs logs. In a round that finds the two LokiStacks'
  storage shared or unverifiable, no LokiStack is deleted and no sweep deletes a resource that
  carries the label of a Loki component, cluster roles and bindings included; every other deletion
  of the round names an object of another component. This holds whatever else the round does and
  wherever it stops.
\<close>

theorem unsafe_storage_keeps_logs:
  assumes lawful: "lawful_conditions W" and faithful: "faithful_collector Wd"
    and unsafe: "checkStorageIsolation W (monitoringNamespace W (rs_Mon s)) (storageClaims (rs_Mon s)) = Some err"
    and live: "sp_ManagementState (mo_Spec (rs_Mon s)) \<noteq> Removed" and run: "reconcile W Wc Wd s = (s', r, e)"
  shows "list_all (log_safe Wd) (new_effects s s')"
  using lawful run
proof (rule reconcile_stages)
  fix s1 b v rd
  let ?g = "mo_Generation (rs_Mon s)"
  assume id1: "identity (rs_Mon s1) = identity (rs_Mon s)" and eff: "rs_Effects s1 = rs_Effects s"
    and rd: "readPlatformVersion W = Inr v \<and> rd = reconcile_body W Wc Wd ?g s1 \<or>
      (\<exists>err. readPlatformVersion W = Inl err \<and> v = '''' \<and> rd = stop_with err s1)"
    and d: "deferred W ?g b v rd = (s', r, e)"
  have s': "new_effects s s' = new_effects s1 (rd_State rd)"
    using d eff by (auto simp: deferred_def Let_def new_effects_def)
  have "list_all (log_safe Wd) (new_effects s1 (rd_State (reconcile_body W Wc Wd ?g s1)))"
  proof (cases rule: body_cases [of s1 W Wc Wd ?g])
    case removed
    then show ?thesis using live identity_fields(1) [OF id1] by simp
  next
    case provisioned
    let ?s2 = "admitted W ?g s1"
    have spec: "mo_Spec (rs_Mon ?s2) = mo_Spec (rs_Mon s)"
      using id1 admitted_frame(1) [OF lawful, of ?g s1] by (intro identity_fields(1)) simp
    have u: "checkStorageIsolation W (monitoringNamespace W (rs_Mon ?s2)) (storageClaims (rs_Mon ?s2)) = Some err"
      using unsafe by (simp add: spec_only(1) [OF spec] storageClaims_def spec)
    have "advances W (log_safe Wd) ?s2 (rd_State (provision W Wc Wd ?g ?s2))"
      by (rule provision_advances [OF lawful permits_log_safe])
         (use render_withholds [OF lawful u] withheld_sweep_log_safe [OF faithful] in blast)
    then show ?thesis
      using advances_new provisioned(4) admitted_frame(3) [OF lawful, of ?g s1]
      by (fastforce simp: admitted_def checked_def)
  qed (simp_all add: mismatch_round_def missing_operators_round_def Let_def new_effects_def)
  then show ?thesis
    using rd unfolding s' by (auto simp: new_effects_def)
qed


subsection \<open>A sample round\<close>

text \<open>A cluster with every operator, a platform version and an empty render, and an object without features.\<close>

definition version_cluster :: cluster where
  "version_cluster = api_cluster\<lparr>Getenv := (\<lambda>v. if v = ''OPERATOR_IMAGE'' then ''quay.io/op:1''
       else if v = ''POD_NAMESPACE'' then ''opendatahub'' else ''''),
     GetConfigMap := (\<lambda>_ _. Inr [(platformVersionKey, ''3.1.0'')])\<rparr>"

definition sample_start :: rstate where
  "sample_start = start_state (fresh_monitoring bare_spec)"

definition sample_admitted :: rstate where
  "sample_admitted = admitted version_cluster 1
     (start_state (fst (initializeCOOVersionCompatibilityCondition version_cluster 1 (fresh_monitoring bare_spec))))"

lemma lawful_version_cluster: "lawful_conditions version_cluster"
  by (rule lawful_like_upsert) (simp_all add: version_cluster_def api_cluster_def quiet_cluster_def)

lemma version_build: "\<exists>data. buildTemplateData version_cluster (fresh_monitoring bare_spec) '''' = Inr data"
  unfolding buildTemplateData_def Let_def
  by (simp add: addImageTLSAndKorrel8rData_def addImageURLs_def resolvePromLabelProxyImage_def
        getEnvOrDefault_def default_image_accepted addTLSData_def no_curves proxyTLSVersion13_def
        proxyTLSVersion12_def validateProxyHTTP2CipherSuites_def addKorrel8rAPIServerData_def
        sample_cidrs metrics_data_def traces_data_def addUsageLogsData_def
        addKorrel8rConfigChecksum_def version_cluster_def api_cluster_def quiet_cluster_def sample_defs)

lemma sample_render:
  "case renderMonitoringResources version_cluster 1 data '''' False sample_admitted of
     (s3, Inr (desired, withheld, se)) \<Rightarrow> desired = [] \<and> withheld = [] \<and> se = None \<and>
       \<not> usageLogsAwaitingCredential (rs_Mon s3) \<and> rs_Effects s3 = []
   | _ \<Rightarrow> False"
  by code_simp


lemma version_answers [simp]:
  "DeployAnswer version_cluster objs = None" "GetNetworkPolicy version_cluster ns n = Inl notFound"
  "ListOwned version_cluster k = Inr []" "CollectorRun version_cluster P = ([], None)"
  "GetRoute version_cluster ns n = Inl notFound"
  by (simp_all add: version_cluster_def api_cluster_def quiet_cluster_def)

lemma sample_sweep: "collectGarbage version_cluster desired withheld s = (s, None)"
  by (simp add: collectGarbage_def three_sweeps_def run_collector_def collectScopedClusterRBACGarbage_def
      collectTargetAllocatorRBACGarbage_def Let_def then_act_def)

lemma awaiting_find:
  assumes "lawful_conditions W"
  shows "usageLogsAwaitingCredential m =
    (case find_cond W m ConditionUsageLogsCollectorAvailable of
        None \<Rightarrow> False | Some c \<Rightarrow> c_Status c = ConditionFalse \<and> c_Reason c = CredentialNotFoundReason)"
  by (simp add: usageLogsAwaitingCredential_def findUsageLogsCollectorCondition_def find_cond_def GetConditions_def
      lawful_conditions.find_entry [OF assms])

text \<open>On that cluster a round for an object with no features settles at once.\<close>

lemma sample_settles:
  assumes "mo_Spec (rs_Mon s) = bare_spec" and "\<not> usageLogsAwaitingCredential (rs_Mon s)"
  shows "\<exists>m. apply_round version_cluster version_cluster version_cluster 1 data [] [] None s =
     \<lparr>rd_State = \<lparr>rs_Mon = m, rs_Sources = rs_Sources s, rs_Effects = rs_Effects s @ [Apply []]\<rparr>,
      rd_Result = 0, rd_Err = None, rd_Stamp = True\<rparr>"
proof -
  have cleanup: "cleanupOpenTelemetryOperatorNetworkPolicies version_cluster ns s' = (s', None)" for ns s'
    by (simp add: cleanupOpenTelemetryOperatorNetworkPolicies_def operator_policies_def)
  let ?s3 = "emit (Apply []) s"
  have a: "apply_round version_cluster version_cluster version_cluster 1 data [] [] None s =
      settle version_cluster version_cluster 1 data [] [] None True ?s3"
    by (simp add: apply_round_def preparePrometheusWebTLSCA_def deploy_resources_def cleanup Let_def)
  define s2 where "s2 = syncPostDeployResources version_cluster version_cluster 1 ?s3"
  have s2: "rs_Mon s2 = fst (syncStatusURL version_cluster (rs_Mon s))" "rs_Sources s2 = rs_Sources s"
    "rs_Effects s2 = rs_Effects s @ [Apply []]"
    using assms(1)
    by (simp_all add: s2_def syncPostDeployResources_def syncThanosQuerierRouteDestinationCA_def metrics_storage_def
        bare_spec_def Let_def emit_def)
  have spec: "mo_Spec (rs_Mon s2) = bare_spec" and cond: "GetConditions (rs_Mon s2) = GetConditions (rs_Mon s)"
    using assms(1) identity_fields(1) [OF sync_url_frame(1), of version_cluster "rs_Mon s"]
    by (simp_all add: s2 sync_url_frame)
  define m where "m = status_written version_cluster 1 data (rs_Mon s2)"
  have "\<not> usageLogsAwaitingCredential m"
    using assms(2)
    by (simp add: awaiting_find [OF lawful_version_cluster] find_cond_def cond m_def
        status_written_conditions [OF lawful_version_cluster, unfolded find_cond_def] top_level_types_def cond_names)
  moreover have "sp_Logs (mo_Spec m) = None"
    using status_written_advances [OF lawful_version_cluster advances_refl, of "\<lambda>_. True" s2 1 data] spec
    by (auto simp: advances_def m_def bare_spec_def dest: identity_fields(1))
  moreover have "\<not> snd (publishLokiEndpoints version_cluster data (rs_Mon s2))"
    using spec by (simp add: publishLokiEndpoints_def publish_def usage_logs_storage_def bare_spec_def)
  moreover have "on_mon (status_written version_cluster 1 data) s2 =
      \<lparr>rs_Mon = m, rs_Sources = rs_Sources s, rs_Effects = rs_Effects s @ [Apply []]\<rparr>"
    using s2 by (simp add: on_mon_def m_def)
  ultimately show ?thesis
    unfolding a settle_unfold sample_sweep Let_def by (simp add: s2_def [symmetric])
qed

text \<open>The state in which the body of that round starts.\<close>

definition sample_initial :: rstate where
  "sample_initial = start_state (fst (initializeCOOVersionCompatibilityCondition version_cluster 1 (fresh_monitoring bare_spec)))"

lemma sample_initial:
  "initializeCOOVersionCompatibilityCondition version_cluster 1 (fresh_monitoring bare_spec) = (rs_Mon sample_initial, False)"
  "identity (rs_Mon sample_initial) = identity (fresh_monitoring bare_spec)"
  "mo_Spec (rs_Mon sample_initial) = bare_spec"
  "sample_admitted = admitted version_cluster 1 sample_initial"
proof -
  show ini: "initializeCOOVersionCompatibilityCondition version_cluster 1 (fresh_monitoring bare_spec) = (rs_Mon sample_initial, False)"
    by (simp add: sample_initial_def initializeCOOVersionCompatibilityCondition_def metrics_storage_def sample_defs
        start_state_def Let_def)
  show id1: "identity (rs_Mon sample_initial) = identity (fresh_monitoring bare_spec)"
    by (rule initialize_frame(1) [OF lawful_version_cluster ini])
  show "mo_Spec (rs_Mon sample_initial) = bare_spec"
    using identity_fields(1) [OF id1] by (simp add: fresh_monitoring_def)
  show "sample_admitted = admitted version_cluster 1 sample_initial"
    by (simp add: sample_admitted_def sample_initial_def)
qed

lemma sample_provision:
  obtains m srcs where "provision version_cluster version_cluster version_cluster 1 sample_admitted =
     \<lparr>rd_State = \<lparr>rs_Mon = m, rs_Sources = srcs, rs_Effects = [Apply []]\<rparr>, rd_Result = 0, rd_Err = None, rd_Stamp = True\<rparr>"
proof -
  let ?W = version_cluster
  note adm = sample_initial(4) and frame = admitted_frame(1) [OF lawful_version_cluster, of 1 sample_initial]
  have spec: "mo_Spec (rs_Mon sample_admitted) = bare_spec"
    using identity_fields(1) [OF frame] by (simp add: adm sample_initial(3))
  obtain data where data: "buildTemplateData ?W (rs_Mon sample_admitted) '''' = Inr data"
    using version_build spec_only(4) [of "rs_Mon sample_admitted" "fresh_monitoring bare_spec" ?W "[]"] spec
    by (auto simp: fresh_monitoring_def)
  obtain s3 where render: "renderMonitoringResources ?W 1 data '''' False sample_admitted = (s3, Inr ([], [], None))"
    and s3: "\<not> usageLogsAwaitingCredential (rs_Mon s3)" "rs_Effects s3 = []"
    using sample_render [of data] by (auto split: prod.splits sum.splits)
  have "advances ?W (\<lambda>_. True) sample_admitted s3"
    using render_advances [OF lawful_version_cluster permits_any, of sample_admitted 1 data "''''" False] render by simp
  then have "identity (rs_Mon s3) = identity (fresh_monitoring bare_spec)"
    using sample_initial(2) frame by (simp add: advances_def adm)
  note spec3 = identity_fields(1) [OF this]
  obtain m where settled: "apply_round ?W ?W ?W 1 data [] [] None s3 =
     \<lparr>rd_State = \<lparr>rs_Mon = m, rs_Sources = rs_Sources s3, rs_Effects = [Apply []]\<rparr>,
      rd_Result = 0, rd_Err = None, rd_Stamp = True\<rparr>"
    using sample_settles [of s3 data] spec3 s3 by (auto simp: fresh_monitoring_def)
  have "resolvePersesAPIVersion ?W = Inr ('''', False)" by code_simp
  then show thesis using that settled by (simp add: provision_def data render)
qed

lemma sample_body:
  "reconcile_body version_cluster version_cluster version_cluster 1 sample_initial =
     provision version_cluster version_cluster version_cluster 1 sample_admitted"
proof -
  note spec = sample_initial(3)
  have "checkMonitoringPreconditionsWithCOOVersion version_cluster (rs_Mon sample_initial) = (None, None)"
    by (simp add: checkMonitoringPreconditionsWithCOOVersion_def spec check_if_def usage_logs_collector_def
        metrics_storage_def traces_storage_def usage_logs_storage_def bare_spec_def)
  moreover have "validateMonitoringNamespace version_cluster (rs_Mon sample_initial) = None"
    by (simp add: validateMonitoringNamespace_def version_cluster_def)
  ultimately show ?thesis
    by (simp add: reconcile_body_def sample_initial(4) admitted_def checked_def spec bare_spec_def Removed_def Let_def)
qed

lemma sample_round:
  obtains s' where "reconcile version_cluster version_cluster version_cluster sample_start = (s', 0, None)"
    and "new_effects sample_start s' = [Apply []]"
    and "map rel_Version (st_Releases (mo_Status (rs_Mon s'))) = ['''', ''3.1.0'']"
proof -
  let ?W = version_cluster
  obtain m srcs where settled: "reconcile_body ?W ?W ?W 1 sample_initial =
     \<lparr>rd_State = \<lparr>rs_Mon = m, rs_Sources = srcs, rs_Effects = [Apply []]\<rparr>, rd_Result = 0, rd_Err = None, rd_Stamp = True\<rparr>"
    using sample_provision unfolding sample_body by blast
  have "identity m = identity (fresh_monitoring bare_spec)"
    using body_frame [OF lawful_version_cluster, of ?W ?W 1 sample_initial] sample_initial(2) by (simp add: settled)
  note fields = identity_fields(1,5) [OF this]
  have start: "sample_start\<lparr>rs_Mon := rs_Mon sample_initial\<rparr> = sample_initial" "rs_Mon sample_start = fresh_monitoring bare_spec"
    "mo_Generation (fresh_monitoring bare_spec) = 1" "rs_Effects sample_start = []"
    by (simp_all add: sample_initial_def sample_start_def start_state_def fresh_monitoring_def)
  have "readPlatformVersion ?W = Inr ''3.1.0''" by code_simp
  then have run: "reconcile ?W ?W ?W sample_start = deferred ?W 1 False ''3.1.0'' (reconcile_body ?W ?W ?W 1 sample_initial)"
    using start by (simp add: reconcile_def sample_initial(1) Let_def)
  have quiet: "requeueForCollectorReadiness 0 m None = 0"
    using fields(1) by (simp add: requeueForCollectorReadiness_def openTelemetryCollectorAwaitingReadiness_def sample_defs)
  have rel: "map rel_Version (SetPlatformRelease ?W (SetRelease ?W [] (module_release ?W)) ''3.1.0'') = ['''', ''3.1.0'']"
    by code_simp
  have none: "st_Releases (mo_Status m) = []"
    using fields(2) by (simp add: fresh_monitoring_def fresh_status_def)
  have "reconcile ?W ?W ?W sample_start = (\<lparr>rs_Mon = finish_status ?W ''3.1.0'' True m,
      rs_Sources = srcs, rs_Effects = [Apply []]\<rparr>, 0, None)"
    by (simp add: run settled deferred_def Let_def quiet requeueForCOOVersionRefresh_def fail_conditions_def)
  then show thesis
    using that start(4) by (simp add: new_effects_def finish_releases none rel)
qed

theorem apply_only_when_provisioning_witness:
  "\<exists>s'. Apply [] \<in> set (new_effects sample_start s') \<and>
     reconcile version_cluster version_cluster version_cluster sample_start = (s', 0, None) \<and>
     checkMonitoringPreconditions version_cluster (rs_Mon sample_start) = None"
proof (rule sample_round)
  fix s'
  assume *: "reconcile version_cluster version_cluster version_cluster sample_start = (s', 0, None)"
    "new_effects sample_start s' = [Apply []]"
  then have ap: "Apply [] \<in> set (new_effects sample_start s')" by simp
  show ?thesis
    using apply_only_when_provisioning [OF lawful_version_cluster *(1) ap] * by auto
qed

theorem platform_version_stamp_witness:
  "\<exists>s' v. reconcile version_cluster version_cluster version_cluster sample_start = (s', 0, None) \<and>
     map rel_Version (st_Releases (mo_Status (rs_Mon s'))) = ['''', ''3.1.0''] \<and> readPlatformVersion version_cluster = Inr v \<and>
     v \<noteq> '''' \<and> (\<exists>desired. DeployAnswer version_cluster desired = None \<and> Apply desired \<in> set (new_effects sample_start s'))"
proof (rule sample_round)
  fix s'
  assume *: "reconcile version_cluster version_cluster version_cluster sample_start = (s', 0, None)"
    "map rel_Version (st_Releases (mo_Status (rs_Mon s'))) = ['''', ''3.1.0'']"
  have "map rel_Version (SetRelease version_cluster (st_Releases (mo_Status (rs_Mon sample_start)))
      (module_release version_cluster)) = ['''']"
    by code_simp
  then have "st_Releases (mo_Status (rs_Mon s')) \<noteq>
      SetRelease version_cluster (st_Releases (mo_Status (rs_Mon sample_start))) (module_release version_cluster)"
    using *(2) by force
  from platform_version_stamp [OF lawful_version_cluster *(1) this] * show ?thesis by auto
qed



theorem unsafe_storage_keeps_logs_witness:
  "\<exists>s' r e. reconcile shared_bucket_cluster shared_bucket_cluster stale_cluster
       (start_state (fresh_monitoring (two_stacks_spec ''a'' ''b''))) = (s', r, e) \<and>
     list_all (log_safe stale_cluster) (new_effects (start_state (fresh_monitoring (two_stacks_spec ''a'' ''b''))) s')"
proof -
  let ?s = "start_state (fresh_monitoring (two_stacks_spec ''a'' ''b''))"
  obtain s' r e where run: "reconcile shared_bucket_cluster shared_bucket_cluster stale_cluster ?s = (s', r, e)"
    by (rule prod_cases3)
  have "rs_Mon ?s = fresh_monitoring (two_stacks_spec ''a'' ''b'')"
    by (simp add: start_state_def)
  then have "list_all (log_safe stale_cluster) (new_effects ?s s')"
    by (intro unsafe_storage_keeps_logs [OF lawful_shared_bucket_cluster faithful_stale_cluster _ _ run])
       (simp_all add: sample_conflict [OF refl], simp add: two_stacks_spec_def sample_defs Removed_def)
  with run show ?thesis by blast
qed

text \<open>A cluster whose platform ConfigMap may not be read.\<close>

definition forbidden_cluster :: cluster where
  "forbidden_cluster = version_cluster\<lparr>GetConfigMap := (\<lambda>_ _. Inl (errors_New ''forbidden''))\<rparr>"

lemma lawful_forbidden_cluster: "lawful_conditions forbidden_cluster"
  by (rule lawful_like_upsert)
     (simp_all add: forbidden_cluster_def version_cluster_def api_cluster_def quiet_cluster_def)

lemma forbidden_version:
  "readPlatformVersion forbidden_cluster = Inl (wrapf ''reading platform config ConfigMap opendatahub/odh-monitoring-config: ''
     (errors_New ''forbidden''))"
  by code_simp

theorem failed_round_is_reported_witness:
  "\<exists>s' err. reconcile forbidden_cluster forbidden_cluster forbidden_cluster sample_start = (s', 0, Some err) \<and>
     status_of forbidden_cluster (rs_Mon s') ConditionTypeDegraded = Some ConditionTrue"
proof -
  let ?W = forbidden_cluster
  obtain s' r e where run: "reconcile ?W ?W ?W sample_start = (s', r, e)" by (rule prod_cases3)
  then obtain err where e: "e = Some err"
    by (auto simp: reconcile_def forbidden_version Let_def deferred_def split: prod.splits)
  show ?thesis
    using failed_round_is_reported [OF lawful_forbidden_cluster run [unfolded e]] run e by blast
qed

end
