(* ===== verification/Lifecycle.thy ===== *)
theory Lifecycle
  imports Round_Properties
begin

section \<open>The life of a Monitoring object\<close>

text \<open>
  What holds over any sequence of edits and reconcile calls. A step relation lets the spec change,
  the object be marked for deletion, and \<open>Reconcile\<close> run with any answers of the API; the object
  after a call is the old one with the patches the call got through. The invariant of reachable
  objects: one condition per type, a phase and top-level conditions that agree, and an observed
  generation that never runs ahead. The finalizer protocol and the watches complete the picture.
\<close>

subsection \<open>Coherent top-level conditions\<close>

definition condition_status :: "Monitoring \<Rightarrow> string \<Rightarrow> ConditionStatus option" where
  "condition_status m t = map_option c_Status (find (\<lambda>c. c_Type c = t) (GetConditions m))"

definition coherent :: "Monitoring \<Rightarrow> bool" where
  "coherent m \<longleftrightarrow>
     (condition_status m ConditionTypeReady = Some ConditionTrue \<longrightarrow>
        condition_status m ConditionTypeProvisioningSucceeded = Some ConditionTrue \<and>
        condition_status m ConditionTypeDegraded = Some ConditionFalse)"

lemma condition_status_of: "lawful_conditions W \<Longrightarrow> condition_status m t = status_of W m t"
  by (simp add: condition_status_def status_of_def find_cond_def lawful_conditions.find_entry)

lemma top_level_distinct:
  "ConditionTypeReady \<noteq> ConditionTypeProvisioningSucceeded" "ConditionTypeReady \<noteq> ConditionTypeDegraded"
  "ConditionTypeProvisioningSucceeded \<noteq> ConditionTypeDegraded"
  by (simp_all add: cond_names)

lemma coherent_not_ready:
  "condition_status m ConditionTypeReady \<noteq> Some ConditionTrue \<Longrightarrow> coherent m"
  by (simp add: coherent_def)

lemma aggregate_coherent:
  assumes "lawful_conditions W"
  shows "coherent (AggregateReady W g m)"
  using top_level_distinct
  by (simp add: coherent_def condition_status_of [OF assms] aggregate_ready_unfold Let_def status_of_def
      lawful_conditions.find_MarkTrue [OF assms] lawful_conditions.find_MarkFalse [OF assms]
      lawful_conditions.find_MarkUnknown [OF assms])

lemma failing_blocks_ready:
  assumes lawful: "lawful_conditions W" and "find_cond W m t = Some c" and "failing_feature c"
  shows "condition_status (AggregateReady W g m) ConditionTypeReady \<noteq> Some ConditionTrue"
proof -
  have "c \<in> set (GetConditions m)"
    using lawful_conditions.find_cond_entry [OF lawful assms(2)] by simp
  then have "readiness_of W m \<noteq> Healthy"
    using assms(3) by (auto simp: readiness_of_def)
  then show ?thesis
    using top_level_distinct
    by (auto simp: condition_status_of [OF lawful] aggregate_ready_unfold Let_def status_of_def
        lawful_conditions.find_MarkTrue [OF lawful] lawful_conditions.find_MarkFalse [OF lawful]
        lawful_conditions.find_MarkUnknown [OF lawful] split: if_splits)
qed

lemma find_ready_marks:
  assumes "lawful_conditions W"
  shows "condition_status (MarkFalse W g ConditionTypeReady r msg m) ConditionTypeReady = Some ConditionFalse"
    "t \<noteq> ConditionTypeReady \<Longrightarrow> condition_status (MarkFalse W g t r msg m) ConditionTypeReady = condition_status m ConditionTypeReady"
    "t \<noteq> ConditionTypeReady \<Longrightarrow> condition_status (MarkTrue W g t m) ConditionTypeReady = condition_status m ConditionTypeReady"
  by (simp_all add: condition_status_of [OF assms] status_of_def lawful_conditions.find_MarkFalse [OF assms]
      lawful_conditions.find_MarkTrue [OF assms])

lemma post_deploy_failing:
  assumes lawful: "lawful_conditions W"
    and "find_cond W (rs_Mon s) ConditionMonitoringStackAvailable = Some c" and "failing_feature c"
  shows "\<exists>d. find_cond W (rs_Mon (syncPostDeployResources W Wd g s)) ConditionMonitoringStackAvailable = Some d \<and>
    failing_feature d"
proof -
  obtain s1 e where 1: "syncThanosQuerierRouteDestinationCA Wd s = (s1, e)" by force
  have "rs_Mon (fst (syncThanosQuerierRouteDestinationCA Wd s)) = rs_Mon s"
    by (simp add: syncThanosQuerierRouteDestinationCA_def Let_def split: sum.split option.split)
  then have m: "rs_Mon s1 = rs_Mon s" by (simp add: 1)
  have url: "find_cond W (fst (syncStatusURL Wd m)) t = find_cond W m t" for m t
    by (simp add: find_cond_def sync_url_frame)
  show ?thesis
    using assms(2,3)
    by (cases e) (simp_all add: syncPostDeployResources_def 1 Let_def url m
        lawful_conditions.find_MarkFalse [OF lawful] failing_feature_def featureConditionTypes_def)
qed

lemma settle_coherent:
  assumes lawful: "lawful_conditions W"
    and ca: "ca \<or> (\<exists>c. find_cond W (rs_Mon s) ConditionMonitoringStackAvailable = Some c \<and> failing_feature c)"
  shows "coherent (rs_Mon (rd_State (settle W Wd g data desired withheld None ca s)))"
proof -
  define s2 where "s2 = syncPostDeployResources W Wd g (fst (collectGarbage Wd desired withheld s))"
  define m where "m = setUsageLogsForwardingStatus data (fst (publishLokiEndpoints W data (rs_Mon s2)))"
  have find_m: "find_cond W m t = find_cond W (rs_Mon s2) t" for t
    by (simp add: m_def find_cond_def status_writes_frame)
  show ?thesis
  proof (cases ca)
    case True
    then show ?thesis
      by (simp add: settle_unfold Let_def status_written_def aggregate_coherent [OF lawful])
  next
    case False
    have "rs_Mon (fst (collectGarbage Wd desired withheld s)) = rs_Mon s"
      using collect_any [OF sweepable_any, of s Wd desired withheld] by (simp add: only_deletes_def)
    then obtain d where "find_cond W m ConditionMonitoringStackAvailable = Some d" "failing_feature d"
      using ca False post_deploy_failing [OF lawful, of "fst (collectGarbage Wd desired withheld s)" _ Wd g]
      unfolding find_m s2_def by auto
    from failing_blocks_ready [OF lawful this] show ?thesis
      using False top_level_distinct
      by (intro coherent_not_ready)
         (simp add: settle_unfold Let_def status_written_def m_def [symmetric] s2_def [symmetric] find_ready_marks [OF lawful])
  qed
qed


lemma provision_coherent:
  assumes lawful: "lawful_conditions W" and ok: "rd_Err (provision W Wc Wd g s) = None"
  shows "coherent (rs_Mon (rd_State (provision W Wc Wd g s)))"
proof (cases rule: provision_cases [of W Wc Wd g s])
  case (stopped err s')
  then show ?thesis using ok by simp
next
  case (unconfigured v err)
  then show ?thesis
    using top_level_distinct
    by (intro coherent_not_ready) (simp add: markConfigurationError_def Let_def find_ready_marks [OF lawful])
next
  case (applied v f data s1 desired withheld se)
  show ?thesis
    using lawful
  proof (cases rule: apply_round_cases [where Wc = Wc and Wd = Wd and g = g and data = data and desired = desired
        and withheld = withheld and se = se and s = s1])
    case (stopped err s')
    then show ?thesis using ok applied(3) by simp
  next
    case (settled ca objs s4)
    have "se = None"
      using ok unfolding applied(3) settled(5) by (cases se) (simp_all add: settle_unfold Let_def)
    then show ?thesis
      unfolding applied(3) settled(5) using settle_coherent [OF lawful settled(6)] by simp
  qed
qed

lemma body_coherent:
  assumes lawful: "lawful_conditions W" and ok: "rd_Err (reconcile_body W Wc Wd g s) = None"
  shows "coherent (rs_Mon (rd_State (reconcile_body W Wc Wd g s)))"
proof (cases rule: body_cases [of s W Wc Wd g])
  case removed
  obtain s1 r where d: "deleteAllOwned W s = (s1, r)" by force
  then show ?thesis
    using removed(2) ok top_level_distinct
    by (intro coherent_not_ready)
       (cases r; simp add: removed_round_def find_ready_marks [OF lawful])
next
  case (mismatch err)
  then show ?thesis
    using top_level_distinct
    by (intro coherent_not_ready) (simp add: mismatch_round_def find_ready_marks [OF lawful])
next
  case (failed err)
  then show ?thesis using ok by simp
next
  case (missing err)
  then show ?thesis by (simp add: missing_operators_round_def Let_def aggregate_coherent [OF lawful])
next
  case provisioned
  then show ?thesis using ok provision_coherent [OF lawful] by simp
qed

lemma fail_conditions_not_ready:
  assumes "lawful_conditions W"
  shows "condition_status (fail_conditions W g (Some err) m) ConditionTypeReady = Some ConditionFalse"
  using top_level_distinct by (simp add: fail_conditions_def find_ready_marks [OF assms])

lemma finish_coherent [simp]: "coherent (finish_status W v b m) = coherent m"
  by (simp add: coherent_def condition_status_def)

text \<open>What every round leaves: the invariant of the object, except for how it came to be.\<close>

definition reported :: "Monitoring \<Rightarrow> bool" where
  "reported m \<longleftrightarrow>
     coherent m \<and>
     (st_Phase (mo_Status m) = PhaseReady \<longleftrightarrow> condition_status m ConditionTypeReady = Some ConditionTrue) \<and>
     st_ObservedGeneration (mo_Status m) \<le> mo_Generation m"

lemma reconcile_reports:
  assumes lawful: "lawful_conditions W" and run: "reconcile W Wc Wd s = (s', r, e)"
  shows "reported (rs_Mon s') \<and> st_ObservedGeneration (mo_Status (rs_Mon s')) = mo_Generation (rs_Mon s) \<and>
    (distinct (map c_Type (GetConditions (rs_Mon s))) \<longrightarrow> distinct (map c_Type (GetConditions (rs_Mon s')))) \<and>
    mo_Spec (rs_Mon s') = mo_Spec (rs_Mon s) \<and> mo_Finalizers (rs_Mon s') = mo_Finalizers (rs_Mon s)"
  using lawful run
proof (rule reconcile_stages)
  fix s1 b v rd
  let ?g = "mo_Generation (rs_Mon s)"
  assume id1: "identity (rs_Mon s1) = identity (rs_Mon s)"
    and dist: "distinct (map c_Type (GetConditions (rs_Mon s))) \<longrightarrow> distinct (map c_Type (GetConditions (rs_Mon s1)))"
    and rd: "readPlatformVersion W = Inr v \<and> rd = reconcile_body W Wc Wd ?g s1 \<or>
      (\<exists>err. readPlatformVersion W = Inl err \<and> v = '''' \<and> rd = stop_with err s1)"
    and d: "deferred W ?g b v rd = (s', r, e)"
  let ?m = "fail_conditions W ?g (rd_Err rd) (rs_Mon (rd_State rd))"
  have s': "rs_Mon s' = finish_status W v (rd_Stamp rd) ?m"
    using d by (auto simp: deferred_def Let_def)
  have id: "identity ?m = identity (rs_Mon s)"
    using reconcile_rd_identity [OF lawful id1 rd] by simp
  have coh: "coherent ?m"
  proof (cases "rd_Err rd")
    case None
    then show ?thesis using rd body_coherent [OF lawful] by (auto simp: fail_conditions_def)
  next
    case (Some err)
    then show ?thesis by (simp add: coherent_not_ready fail_conditions_not_ready [OF lawful])
  qed
  have "distinct (map c_Type (GetConditions (rs_Mon s1))) \<longrightarrow> distinct (map c_Type (GetConditions (rs_Mon (rd_State rd))))"
    using rd body_frame [OF lawful, of Wc Wd ?g s1] by auto
  moreover have "distinct (map c_Type (GetConditions m)) \<longrightarrow> distinct (map c_Type (GetConditions (fail_conditions W ?g x m)))" for x m
    by (simp add: fail_conditions_def mark_defs lawful_conditions.distinct_set_cond [OF lawful] split: option.split)
  moreover have "st_Phase (mo_Status (rs_Mon s')) = PhaseReady \<longleftrightarrow> condition_status (rs_Mon s') ConditionTypeReady = Some ConditionTrue"
    by (simp add: s' phase_status [OF lawful] condition_status_of [OF lawful])
  ultimately show ?thesis
    using coh dist identity_fields(1,2,4) [OF id] by (simp add: reported_def s')
qed


subsection \<open>The stored object\<close>

text \<open>The object in the cluster after the requests of a call: its finalizers and its status are patched.\<close>

fun persist_effect :: "effect \<Rightarrow> Monitoring \<Rightarrow> Monitoring" where
  "persist_effect (PatchFinalizers fs) m = m\<lparr>mo_Finalizers := fs\<rparr>"
| "persist_effect (PatchStatus st) m = m\<lparr>mo_Status := st\<rparr>"
| "persist_effect _ m = m"

definition persisted :: "Monitoring \<Rightarrow> effect list \<Rightarrow> Monitoring" where
  "persisted m es = fold persist_effect es m"

definition cluster_only :: "effect \<Rightarrow> bool" where
  "cluster_only e \<longleftrightarrow> (\<forall>m. persist_effect e m = m)"

lemma cluster_only_simps [simp]:
  "cluster_only (Delete k ns n p)" "cluster_only (Apply objs)" "cluster_only (PatchSecretData ns n d)"
  "cluster_only (PatchRouteCA ns n c)" "cluster_only (CollectorDeleted obj)"
  by (simp_all add: cluster_only_def)

lemma permits_cluster_only [simp]: "permits cluster_only" and sweepable_cluster_only [simp]: "sweepable cluster_only"
proof -
  have "action_delete e \<longrightarrow> cluster_only e" for e by (cases e) simp_all
  then show "permits cluster_only" by (simp add: permits_def)
qed (simp add: sweepable_def)

lemma persisted_simps [simp]:
  "persisted m [] = m" "persisted m (e # es) = persisted (persist_effect e m) es"
  "persisted m (es @ es') = persisted (persisted m es) es'"
  by (simp_all add: persisted_def)

lemma persisted_cluster_only: "list_all cluster_only es \<Longrightarrow> persisted m es = m"
  by (induction es arbitrary: m) (simp_all add: cluster_only_def)

lemma reconcile_effects:
  assumes lawful: "lawful_conditions W" and Q: "permits Q" "sweepable Q" and run: "reconcile W Wc Wd s = (s', r, e)"
  shows "\<exists>es. rs_Effects s' = rs_Effects s @ es \<and> list_all Q es"
  using lawful run
proof (rule reconcile_stages)
  fix s1 b v rd
  let ?g = "mo_Generation (rs_Mon s)"
  assume eff: "rs_Effects s1 = rs_Effects s"
    and rd: "readPlatformVersion W = Inr v \<and> rd = reconcile_body W Wc Wd ?g s1 \<or>
      (\<exists>err. readPlatformVersion W = Inl err \<and> v = '''' \<and> rd = stop_with err s1)"
    and d: "deferred W ?g b v rd = (s', r, e)"
  have "\<exists>es. rs_Effects (rd_State (reconcile_body W Wc Wd ?g s1)) = rs_Effects s1 @ es \<and> list_all Q es"
  proof (cases rule: body_cases [of s1 W Wc Wd ?g])
    case removed
    then show ?thesis
      using removed_advances [OF lawful delete_all_any [OF Q(2)], of s1 ?g] by (simp add: advances_def)
  next
    case provisioned
    then have "reconcile_body W Wc Wd ?g s1 = provision W Wc Wd ?g (admitted W ?g s1)"
      by (simp add: admitted_def checked_def)
    then show ?thesis
      using provision_advances [OF lawful Q(1) collect_any [OF Q(2)], where g = ?g and s = "admitted W ?g s1"
          and Wc = Wc and Wd = Wd]
      by (simp add: advances_def admitted_frame [OF lawful])
  qed (simp_all add: mismatch_round_def missing_operators_round_def Let_def)
  then show ?thesis
    using d rd eff by (auto simp: deferred_def Let_def)
qed

text \<open>A live round: the requests of the round, then the status.\<close>

lemma live_round_effects:
  assumes lawful: "lawful_conditions W" and run: "live_round W Wc Wd s = (s', r, e)"
  obtains es st where "list_all cluster_only es"
    and "rs_Effects s' = rs_Effects s @ es @ (if PatchStatusAnswer Wd = None then [PatchStatus st] else [])"
    and "reported ((rs_Mon s)\<lparr>mo_Status := st\<rparr>)" and "st_ObservedGeneration st = mo_Generation (rs_Mon s)"
    and "distinct (map c_Type (GetConditions (rs_Mon s))) \<longrightarrow> distinct (map c_Type (st_Conditions st))"
proof -
  obtain s1 result re where r: "reconcile W Wc Wd s = (s1, result, re)" by (rule prod_cases3)
  obtain es where es: "rs_Effects s1 = rs_Effects s @ es" "list_all cluster_only es"
    using reconcile_effects [OF lawful permits_cluster_only sweepable_cluster_only r] by blast
  have eff: "rs_Effects s' = rs_Effects s1 @
      (if PatchStatusAnswer Wd = None then [PatchStatus (mo_Status (rs_Mon s1))] else [])"
    using run r by (auto simp: live_round_def patchStatus_def emit_def split: option.splits)
  note rep = reconcile_reports [OF lawful r]
  have "reported ((rs_Mon s)\<lparr>mo_Status := mo_Status (rs_Mon s1)\<rparr>)"
    using rep by (simp add: reported_def coherent_def condition_status_def GetConditions_def)
  then show thesis
    using that [OF es(2), of "mo_Status (rs_Mon s1)"] es(1) eff rep by (auto simp: GetConditions_def)
qed


subsection \<open>One call of Reconcile\<close>

lemma start_effects [simp]: "rs_Effects (start_state m) = []" "rs_Mon (start_state m) = m"
  by (simp_all add: start_state_def)

lemma deletion_effects:
  assumes "sweepable Q" and "deletion_round W (start_state m) = (s, e)"
  obtains (kept) es where "rs_Effects s = es" "list_all Q es"
  | (removed) s1 where "deleteAllOwned W (start_state m) = (s1, None)" "list_all Q (rs_Effects s1)"
      "monitoringFinalizer \<in> set (mo_Finalizers m)"
      "rs_Effects s = rs_Effects s1 @ [PatchFinalizers (filter (\<lambda>f. f \<noteq> monitoringFinalizer) (mo_Finalizers m))]"
proof -
  obtain s1 r where d: "deleteAllOwned W (start_state m) = (s1, r)" by force
  have s1: "list_all Q (rs_Effects s1)" "rs_Mon s1 = m"
    using delete_all_any [OF assms(1), of "start_state m" W] by (auto simp: d only_deletes_def)
  show thesis
  proof (cases "monitoringFinalizer \<in> set (mo_Finalizers m)")
    case False
    then show thesis using assms(2) kept by (auto simp: deletion_round_def)
  next
    case True
    then show thesis
      using assms(2) d s1 kept removed
      by (cases r; cases "PatchMonitoringAnswer W")
         (auto simp: deletion_round_def patch_finalizers_def RemoveFinalizer_def emit_def)
  qed
qed

text \<open>The ways a call on an existing object can go.\<close>

lemma Reconcile_cases [consumes 3, case_names deletion claimless live]:
  assumes lawful: "lawful_conditions W" and get: "GetMonitoring W name = Inr m"
    and run: "Reconcile W Wc Wd name = (Some s, r, e)"
  obtains (deletion) "mo_Deleting m" "deletion_round W (start_state m) = (s, e)" "r = 0"
  | (claimless) "\<not> mo_Deleting m" "rs_Effects s = []" "e \<noteq> None"
  | (live) fs s0 where "\<not> mo_Deleting m" "monitoringFinalizer \<in> set fs"
      "fs = (if monitoringFinalizer \<in> set (mo_Finalizers m) then mo_Finalizers m
             else mo_Finalizers m @ [monitoringFinalizer])"
      "rs_Effects s0 = (if monitoringFinalizer \<in> set (mo_Finalizers m) then [] else [PatchFinalizers fs])"
      "rs_Mon s0 = m\<lparr>mo_Finalizers := fs\<rparr>" "live_round W Wc Wd s0 = (s, r, e)"
proof (cases "mo_Deleting m")
  case True
  then show thesis using get run deletion by (auto simp: Reconcile_def split: prod.splits)
next
  case notdel: False
  show thesis
  proof (cases "monitoringFinalizer \<in> set (mo_Finalizers m)")
    case True
    then show thesis
      using get run notdel live [of "mo_Finalizers m" "start_state m"] by (auto simp: Reconcile_def split: prod.splits)
  next
    case False
    let ?m = "AddFinalizer monitoringFinalizer m"
    let ?s0 = "emit (PatchFinalizers (mo_Finalizers ?m)) ((start_state m)\<lparr>rs_Mon := ?m\<rparr>)"
    show thesis
    proof (cases "PatchMonitoringAnswer W")
      case None
      then have "live_round W Wc Wd ?s0 = (s, r, e)"
        using get run notdel False by (simp add: Reconcile_def patch_finalizers_def Let_def split: prod.splits)
      then show thesis
        using notdel False live [of "mo_Finalizers m @ [monitoringFinalizer]" ?s0]
        by (simp add: AddFinalizer_def emit_def)
    next
      case (Some err)
      then show thesis
        using get run notdel False claimless
        by (clarsimp simp: Reconcile_def patch_finalizers_def Let_def Some)
    qed
  qed
qed

text \<open>
  C5: the finalizer protocol. A call removes this operator's finalizer from the stored object only
  when the object is being deleted and, as the call's last request, after the removal of the
  operator's objects went through without error: every object in scope that the library's collector
  lists and this Monitoring object controls was deleted, and the RBAC kinds were listed and every
  role and binding of the operator's name lists that this Monitoring object controls was deleted or
  was already gone, unless its annotation takes it out of the operator's hands. The call never touches
  the finalizers of others. It applies resources only on a live object that carries the finalizer
  already or got it stored as the call's first request.
\<close>

theorem finalizer_protocol:
  assumes lawful: "lawful_conditions W" and thorough: "thorough_collector W seen" and get: "GetMonitoring W name = Inr m"
    and run: "Reconcile W Wc Wd name = (Some s, r, e)"
  shows "(monitoringFinalizer \<in> set (mo_Finalizers m) \<and>
          monitoringFinalizer \<notin> set (mo_Finalizers (persisted m (rs_Effects s))) \<longrightarrow>
            mo_Deleting m \<and>
            (\<exists>es. rs_Effects s = es @ [PatchFinalizers (mo_Finalizers (persisted m (rs_Effects s)))] \<and>
               owned_removed W m seen es \<and> rbac_removed W m es)) \<and>
         filter (\<lambda>f. f \<noteq> monitoringFinalizer) (mo_Finalizers (persisted m (rs_Effects s))) =
           filter (\<lambda>f. f \<noteq> monitoringFinalizer) (mo_Finalizers m) \<and>
         (Apply objs \<in> set (rs_Effects s) \<longrightarrow> \<not> mo_Deleting m \<and>
            (monitoringFinalizer \<in> set (mo_Finalizers m) \<or>
             hd (rs_Effects s) = PatchFinalizers (mo_Finalizers m @ [monitoringFinalizer])))"
  using lawful get run
proof (cases rule: Reconcile_cases)
  case deletion
  have Q: "sweepable (\<lambda>x. cluster_only x \<and> no_apply x)"
    by (simp add: sweepable_def no_apply_def)
  have split: "list_all (\<lambda>x. cluster_only x \<and> no_apply x) es \<Longrightarrow> persisted m es = m \<and> Apply objs \<notin> set es" for es
    using persisted_cluster_only [of es m] by (auto simp: list_all_iff no_apply_def)
  show ?thesis
    using Q deletion(2)
  proof (cases rule: deletion_effects)
    case (kept es)
    then show ?thesis using split [of es] by simp
  next
    case (removed s1)
    have "owned_removed W m seen (rs_Effects s1)" "rbac_removed W m (rs_Effects s1)"
      using thorough_collector.delete_all_owned_removed [OF thorough removed(1)] delete_all_rbac_removed [OF removed(1)]
      by simp_all
    then show ?thesis
      using removed split [of "rs_Effects s1"] deletion(1) by (auto simp: filter_id_conv)
  qed
next
  case claimless
  then show ?thesis by simp
next
  case (live fs s0)
  show ?thesis
    using lawful live(6)
  proof (rule live_round_effects)
    fix es st
    assume es: "list_all cluster_only es" and eff: "rs_Effects s = rs_Effects s0 @ es @
        (if PatchStatusAnswer Wd = None then [PatchStatus st] else [])"
    have "mo_Finalizers (persisted m (rs_Effects s)) = fs"
      using live(3,4) by (simp add: eff persisted_cluster_only [OF es])
    then show ?thesis
      using live(1-4) by (auto simp: eff)
  qed
qed


subsection \<open>Any sequence of calls\<close>

inductive reachable :: "Monitoring \<Rightarrow> bool" where
  created: "\<lbrakk>mo_Status m = fresh_status; mo_Generation m = 1; \<not> mo_Deleting m\<rbrakk> \<Longrightarrow> reachable m"
| edited: "reachable m \<Longrightarrow> reachable (m\<lparr>mo_Spec := sp, mo_Generation := mo_Generation m + 1\<rparr>)"
| marked: "reachable m \<Longrightarrow> reachable (m\<lparr>mo_Deleting := True\<rparr>)"
| reconciled: "\<lbrakk>reachable m; lawful_conditions (W :: cluster); GetMonitoring W name = Inr m;
     Reconcile W (Wc :: cluster) (Wd :: cluster) name = (Some s, r, e)\<rbrakk> \<Longrightarrow>
     reachable (persisted m (rs_Effects s))"

definition invariant_of :: "Monitoring \<Rightarrow> bool" where
  "invariant_of m \<longleftrightarrow>
     distinct (map c_Type (GetConditions m)) \<and> reported m \<and>
     (mo_Status m \<noteq> fresh_status \<longrightarrow> monitoringFinalizer \<in> set (mo_Finalizers m) \<or> mo_Deleting m)"

lemma invariant_frame:
  assumes "invariant_of m" and "mo_Status m' = mo_Status m" and "mo_Generation m \<le> mo_Generation m'"
    and "mo_Status m \<noteq> fresh_status \<Longrightarrow> monitoringFinalizer \<in> set (mo_Finalizers m') \<or> mo_Deleting m'"
  shows "invariant_of m'"
  using assms by (auto simp: invariant_of_def reported_def coherent_def condition_status_def GetConditions_def)

lemma persisted_frame [simp]:
  "mo_Deleting (persisted m es) = mo_Deleting m" "mo_Generation (persisted m es) = mo_Generation m"
proof -
  have "mo_Deleting (persist_effect e m) = mo_Deleting m \<and> mo_Generation (persist_effect e m) = mo_Generation m" for e m
    by (cases e) simp_all
  then show "mo_Deleting (persisted m es) = mo_Deleting m" "mo_Generation (persisted m es) = mo_Generation m"
    by (induction es arbitrary: m) simp_all
qed

lemma Reconcile_invariant:
  assumes inv: "invariant_of m" and lawful: "lawful_conditions W" and get: "GetMonitoring W name = Inr m"
    and run: "Reconcile W Wc Wd name = (Some s, r, e)"
  shows "invariant_of (persisted m (rs_Effects s))"
  using lawful get run
proof (cases rule: Reconcile_cases)
  case deletion
  show ?thesis
    using sweepable_cluster_only deletion(2)
  proof (cases rule: deletion_effects)
    case (kept es)
    then show ?thesis using inv by (simp add: persisted_cluster_only)
  next
    case (removed s1)
    then show ?thesis
      using inv deletion(1) by (intro invariant_frame [OF inv]) (simp_all add: persisted_cluster_only)
  qed
next
  case claimless
  then show ?thesis using inv by simp
next
  case (live fs s0)
  have m0: "persisted m (rs_Effects s0) = m\<lparr>mo_Finalizers := fs\<rparr>"
    using live(3,4) by simp
  have inv0: "invariant_of (m\<lparr>mo_Finalizers := fs\<rparr>)"
    using live(2) by (intro invariant_frame [OF inv]) simp_all
  show ?thesis
    using lawful live(6)
  proof (rule live_round_effects)
    fix es st
    assume es: "list_all cluster_only es" and eff: "rs_Effects s = rs_Effects s0 @ es @
        (if PatchStatusAnswer Wd = None then [PatchStatus st] else [])"
      and rep: "reported ((rs_Mon s0)\<lparr>mo_Status := st\<rparr>)"
      and dist: "distinct (map c_Type (GetConditions (rs_Mon s0))) \<longrightarrow> distinct (map c_Type (st_Conditions st))"
    have "distinct (map c_Type (st_Conditions st))"
      using dist inv0 live(5) by (simp add: invariant_of_def)
    then have "invariant_of ((m\<lparr>mo_Finalizers := fs\<rparr>)\<lparr>mo_Status := st\<rparr>)"
      using rep live(2,5) by (simp add: invariant_of_def GetConditions_def)
    then show ?thesis
      using inv0 by (simp add: eff m0 persisted_cluster_only [OF es])
  qed
qed



subsection \<open>Witnesses of the object's life\<close>

text \<open>
  An object that is being deleted, on a cluster that still holds a LokiStack and a cluster role of it.
\<close>

definition deleting_monitoring :: Monitoring where
  "deleting_monitoring = (fresh_monitoring bare_spec)\<lparr>mo_Deleting := True, mo_Finalizers := [monitoringFinalizer, ''other'']\<rparr>"

definition deleting_cluster :: cluster where
  "deleting_cluster = version_cluster
     \<lparr>CollectorRun := listing_collector [sample_object gvk_LokiStack ''opendatahub'' lokiStackResourceName []],
      ListOwned := (\<lambda>k. Inr (if k = gvk_ClusterRole then [sample_object k '''' ''korrel8r-query'' []] else [])),
      GetMonitoring := (\<lambda>_. Inr deleting_monitoring)\<rparr>"

lemma lawful_deleting_cluster: "lawful_conditions deleting_cluster"
  by (rule lawful_like_upsert)
     (simp_all add: deleting_cluster_def version_cluster_def api_cluster_def quiet_cluster_def)

lemma thorough_deleting_cluster:
  "thorough_collector deleting_cluster [sample_object gvk_LokiStack ''opendatahub'' lokiStackResourceName []]"
  by unfold_locales (simp add: deleting_cluster_def listing_collector_def)

theorem finalizer_protocol_witness:
  "\<exists>s es. Reconcile deleting_cluster deleting_cluster deleting_cluster MonitoringInstanceName = (Some s, 0, None) \<and>
     rs_Effects s = es @ [PatchFinalizers [''other'']] \<and>
     CollectorDeleted (sample_object gvk_LokiStack ''opendatahub'' lokiStackResourceName []) \<in> set es \<and>
     rbac_removed deleting_cluster deleting_monitoring es"
proof -
  let ?W = deleting_cluster and ?o = "sample_object gvk_LokiStack ''opendatahub'' lokiStackResourceName []"
  have get: "GetMonitoring ?W MonitoringInstanceName = Inr deleting_monitoring"
    by (simp add: deleting_cluster_def)
  have "case Reconcile ?W ?W ?W MonitoringInstanceName of (Some s, r, e) \<Rightarrow> r = 0 \<and> e = None \<and>
      mo_Finalizers (persisted deleting_monitoring (rs_Effects s)) = [''other''] | _ \<Rightarrow> False"
    by code_simp
  then obtain s where run: "Reconcile ?W ?W ?W MonitoringInstanceName = (Some s, 0, None)"
    and fin: "mo_Finalizers (persisted deleting_monitoring (rs_Effects s)) = [''other'']"
    by (auto split: prod.splits option.splits)
  have "isOwnedByMonitoring deleting_monitoring ?o \<and> isInMonitoringScope ?o (monitoringNamespace ?W deleting_monitoring)"
    by code_simp
  then show ?thesis
    using finalizer_protocol [OF lawful_deleting_cluster thorough_deleting_cluster get run] run fin
    by (auto simp: deleting_monitoring_def monitoringFinalizer_def owned_removed_def)
qed

text \<open>A first call whose round fails: the finalizer and the failure are stored.\<close>

definition first_cluster :: cluster where
  "first_cluster = forbidden_cluster\<lparr>GetMonitoring := (\<lambda>_. Inr (fresh_monitoring bare_spec))\<rparr>"

lemma lawful_first_cluster: "lawful_conditions first_cluster"
  by (rule lawful_like_upsert)
     (simp_all add: first_cluster_def forbidden_cluster_def version_cluster_def api_cluster_def quiet_cluster_def)



subsection \<open>The COO condition without metrics storage\<close>

lemma check_names_coo:
  "clusterObservabilityOperator \<notin> set names \<Longrightarrow> pc_coo (fst (checkOperatorNames W names msg st)) = pc_coo st"
  by (induction W names msg st rule: checkOperatorNames.induct) (auto split: sum.splits)

lemma check_if_coo:
  "clusterObservabilityOperator \<notin> set names \<or> \<not> b \<Longrightarrow> pc_coo (fst (check_if W b names msg p)) = pc_coo (fst p)"
  by (cases p) (auto simp: check_if_def check_names_coo split: option.split)

lemma coo_not_looked_up:
  assumes "metrics_storage (mo_Spec m) = None"
  shows "fst (checkMonitoringPreconditionsWithCOOVersion W m) = None"
proof -
  have "clusterObservabilityOperator \<notin> {opentelemetryOperator, certManagerOperator, ''openshift-cert-manager-operator'',
      tempoOperator, lokiOperator, clusterLoggingOperator}"
    by code_simp
  then show ?thesis
    using assms by (simp add: checkMonitoringPreconditionsWithCOOVersion_def Let_def check_if_coo case_prod_beta split: option.split)
qed

text \<open>Every exit of a body that got past the namespace check keeps the COO condition of that stage.\<close>

lemma body_keeps_coo:
  assumes lawful: "lawful_conditions W" and "sp_ManagementState (mo_Spec (rs_Mon s)) \<noteq> Removed"
    and "validateMonitoringNamespace W (rs_Mon s) = None"
  shows "find_cond W (rs_Mon (rd_State (reconcile_body W Wc Wd g s))) ConditionCOOVersionCompatible =
    find_cond W (rs_Mon (checked W g s)) ConditionCOOVersionCompatible"
proof (cases rule: body_cases [of s W Wc Wd g])
  case (missing err)
  have "advances W (\<lambda>_. True) (checked W g s) (rd_State (missing_operators_round W g err (checked W g s)))"
    by (simp add: missing_operators_round_def Let_def advances_marks [OF lawful] aggregate_advances [OF lawful])
  then show ?thesis by (simp add: missing(3) checked_def advances_def)
next
  case provisioned
  have "advances W (\<lambda>_. True) (checked W g s) (admitted W g s)"
    by (simp add: admitted_def advances_marks [OF lawful])
  from advances_trans [OF this provision_advances [OF lawful permits_any collect_any [OF sweepable_any]]]
  show ?thesis by (simp add: provisioned(4) advances_def admitted_def checked_def)
qed (use assms in \<open>simp_all add: checked_def\<close>)

text \<open>
  An object without built-in metrics storage never keeps the NotApplicable reason that
  \<open>initializeCOOVersionCompatibilityCondition\<close> gives its COO condition. Whatever else the round
  does, once the namespace check passed the condition ends with the reason VersionUnavailable, as if
  the version of a required operator could not be determined.
\<close>

theorem coo_not_applicable_is_overwritten:
  assumes lawful: "lawful_conditions W" and run: "reconcile W Wc Wd s = (s', r, e)"
    and live: "sp_ManagementState (mo_Spec (rs_Mon s)) \<noteq> Removed" "validateMonitoringNamespace W (rs_Mon s) = None"
    and read: "readPlatformVersion W = Inr v" and plain: "metrics_storage (mo_Spec (rs_Mon s)) = None"
  shows "map_option c_Reason (find_cond W (rs_Mon s') ConditionCOOVersionCompatible) = Some ''VersionUnavailable''"
  using lawful run
proof (rule reconcile_stages)
  fix s1 b v' rd
  let ?g = "mo_Generation (rs_Mon s)"
  assume id1: "identity (rs_Mon s1) = identity (rs_Mon s)"
    and rd: "readPlatformVersion W = Inr v' \<and> rd = reconcile_body W Wc Wd ?g s1 \<or>
      (\<exists>err. readPlatformVersion W = Inl err \<and> v' = '''' \<and> rd = stop_with err s1)"
    and d: "deferred W ?g b v' rd = (s', r, e)"
  note spec = identity_fields(1) [OF id1]
  have fail: "find_cond W (fail_conditions W g x m) ConditionCOOVersionCompatible =
      find_cond W m ConditionCOOVersionCompatible" for g x m
    using not_coo(1-3) [symmetric]
    by (simp add: fail_conditions_def lawful_conditions.find_MarkTrue [OF lawful]
        lawful_conditions.find_MarkFalse [OF lawful] split: option.split)
  have "rd = reconcile_body W Wc Wd ?g s1" using rd read by auto
  then have "find_cond W (rs_Mon s') ConditionCOOVersionCompatible =
      find_cond W (rs_Mon (checked W ?g s1)) ConditionCOOVersionCompatible"
    using d body_keeps_coo [OF lawful, of s1 Wc Wd ?g] live spec spec_only(2) [OF spec, of W]
    by (auto simp: deferred_def Let_def fail)
  moreover have "fst (checkMonitoringPreconditionsWithCOOVersion W (rs_Mon s1)) = None"
    using plain spec by (simp add: coo_not_looked_up)
  ultimately show ?thesis
    by (simp add: checked_def markCOOVersionCompatibility_def Let_def lawful_conditions.find_MarkWarning [OF lawful])
qed

theorem coo_not_applicable_is_overwritten_witness:
  "\<exists>s'. reconcile version_cluster version_cluster version_cluster sample_start = (s', 0, None) \<and>
     map_option c_Reason (find_cond version_cluster (rs_Mon s') ConditionCOOVersionCompatible) = Some ''VersionUnavailable''"
proof (rule sample_round)
  fix s'
  assume *: "reconcile version_cluster version_cluster version_cluster sample_start = (s', 0, None)"
  have read: "readPlatformVersion version_cluster = Inr ''3.1.0''" by code_simp
  have spec: "sp_ManagementState (mo_Spec (rs_Mon sample_start)) \<noteq> Removed"
    "validateMonitoringNamespace version_cluster (rs_Mon sample_start) = None"
    "metrics_storage (mo_Spec (rs_Mon sample_start)) = None"
    by code_simp+
  show ?thesis
    using coo_not_applicable_is_overwritten [OF lawful_version_cluster * spec(1,2) read spec(3)] * by blast
qed

end
