(* ===== verification/Scheduling.thy ===== *)
theory Scheduling
  imports Rounds
begin

section \<open>When a round runs\<close>

text \<open>
  What leads to a call of \<open>Reconcile\<close>: the events that \<open>SetupWithManager\<close> of
  monitoring_reconciler.go subscribes to, and the delay a call itself asks for. A request is the name
  of the Monitoring object to reconcile. The predicates and handlers of controller-runtime that the
  registrations use are given as its documentation states them.
\<close>

subsection \<open>Events\<close>

datatype 'o event = CreateEvent 'o | UpdateEvent 'o 'o | DeleteEvent 'o | GenericEvent 'o

text \<open>\<open>predicate.NewPredicateFuncs\<close>: of an update, the new object decides.\<close>

fun NewPredicateFuncs :: "('o \<Rightarrow> bool) \<Rightarrow> 'o event \<Rightarrow> bool" where
  "NewPredicateFuncs P (CreateEvent obj) = P obj"
| "NewPredicateFuncs P (UpdateEvent old new) = P new"
| "NewPredicateFuncs P (DeleteEvent obj) = P obj"
| "NewPredicateFuncs P (GenericEvent obj) = P obj"

fun ResourceVersionChangedPredicate :: "KObject event \<Rightarrow> bool" where
  "ResourceVersionChangedPredicate (UpdateEvent old new) = (o_ResourceVersion new \<noteq> o_ResourceVersion old)"
| "ResourceVersionChangedPredicate _ = True"

text \<open>The events of the API server object are given by its generations.\<close>

fun GenerationChangedPredicate :: "int event \<Rightarrow> bool" where
  "GenerationChangedPredicate (UpdateEvent old new) = (new \<noteq> old)"
| "GenerationChangedPredicate _ = True"

text \<open>\<open>handler.EnqueueRequestsFromMapFunc\<close>: of an update both objects are mapped, each request once.\<close>

fun EnqueueRequestsFromMapFunc :: "('o \<Rightarrow> string list) \<Rightarrow> 'o event \<Rightarrow> string list" where
  "EnqueueRequestsFromMapFunc f (CreateEvent obj) = remdups (f obj)"
| "EnqueueRequestsFromMapFunc f (UpdateEvent old new) = remdups (f old @ f new)"
| "EnqueueRequestsFromMapFunc f (DeleteEvent obj) = remdups (f obj)"
| "EnqueueRequestsFromMapFunc f (GenericEvent obj) = remdups (f obj)"

fun event_object :: "'o event \<Rightarrow> 'o" where
  "event_object (CreateEvent obj) = obj"
| "event_object (UpdateEvent old new) = new"
| "event_object (DeleteEvent obj) = obj"
| "event_object (GenericEvent obj) = obj"

subsection \<open>The registrations\<close>

definition singletonRequests :: "string list" where
  "singletonRequests = [MonitoringInstanceName]"

definition storageSecretRequests :: "'w cluster_scheme \<Rightarrow> KObject \<Rightarrow> string list" where
  "storageSecretRequests W obj =
     (case GetMonitoring W MonitoringInstanceName of
        Inl err \<Rightarrow> []
      | Inr m \<Rightarrow>
          if o_Namespace obj \<noteq> monitoringNamespace W m then []
          else if (case usage_logs_storage (mo_Spec m) of Some st \<Rightarrow> ls_SecretName st = o_Name obj | None \<Rightarrow> False) \<or>
                  (case logs_storage (mo_Spec m) of Some st \<Rightarrow> ls_SecretName st = o_Name obj | None \<Rightarrow> False)
          then singletonRequests
          else [])"

definition isPlatformConfigMap :: "'w cluster_scheme \<Rightarrow> KObject \<Rightarrow> bool" where
  "isPlatformConfigMap W obj =
     (let ns = Getenv W ''POD_NAMESPACE'' in
      if ns = '''' then False else o_Name obj = platformConfigName \<and> o_Namespace obj = ns)"

definition isPrometheusWebTLSCASecret :: "'w cluster_scheme \<Rightarrow> KObject \<Rightarrow> bool" where
  "isPrometheusWebTLSCASecret W obj \<longleftrightarrow>
     o_Name obj = prometheusWebTLSCAConfigMapName \<and>
     o_Namespace obj = getEnvOrDefault W ''MONITORING_NAMESPACE'' defaultMonitoringNamespace"

text \<open>\<open>discoveryv1.LabelServiceName\<close>.\<close>

definition LabelServiceName :: string where "LabelServiceName = ''kubernetes.io/service-name''"

definition isKorrel8rEndpointSlice :: "'w cluster_scheme \<Rightarrow> KObject \<Rightarrow> bool" where
  "isKorrel8rEndpointSlice W obj =
     (let serviceName = sget (o_Labels obj) LabelServiceName in
      if o_Namespace obj = ''default'' \<and> serviceName = kubernetesServiceName then True
      else o_Namespace obj = getEnvOrDefault W ''MONITORING_NAMESPACE'' defaultMonitoringNamespace \<and>
           serviceName = Korrel8rServiceName)"

text \<open>An object of another type in a namespace event is \<open>None\<close>.\<close>

fun namespaceWatchPredicate :: "NamespaceObj option event \<Rightarrow> bool" where
  "namespaceWatchPredicate (CreateEvent _) = True"
| "namespaceWatchPredicate (DeleteEvent _) = True"
| "namespaceWatchPredicate (UpdateEvent (Some old) (Some new)) =
     (ns_Deleting old \<noteq> ns_Deleting new \<or> isSystemNamespace old \<noteq> isSystemNamespace new)"
| "namespaceWatchPredicate (UpdateEvent _ _) = False"
| "namespaceWatchPredicate (GenericEvent _) = False"

text \<open>The label is the platform's \<open>labels.PlatformPartOf\<close>.\<close>

definition managedPredicate :: "KObject \<Rightarrow> bool" where
  "managedPredicate obj \<longleftrightarrow> sget (o_Labels obj) ''platform.opendatahub.io/part-of'' = monitoringPartOf"

definition networkPolicyPredicate :: "'w cluster_scheme \<Rightarrow> KObject event \<Rightarrow> bool" where
  "networkPolicyPredicate W e \<longleftrightarrow>
     NewPredicateFuncs managedPredicate e \<or> NewPredicateFuncs (isOpenTelemetryOperatorNetworkPolicyEvent W) e"

definition gvk_Job :: gvk where
  "gvk_Job = \<lparr>Group = ''batch'', Version = ''v1'', Kind = ''Job''\<rparr>"

definition gvk_EndpointSlice :: gvk where
  "gvk_EndpointSlice = \<lparr>Group = ''discovery.k8s.io'', Version = ''v1'', Kind = ''EndpointSlice''\<rparr>"

definition gvk_CustomResourceDefinition :: gvk where
  "gvk_CustomResourceDefinition =
     \<lparr>Group = ''apiextensions.k8s.io'', Version = ''v1'', Kind = ''CustomResourceDefinition''\<rparr>"

text \<open>
  The watches on objects, in the order of the code: the kind, the predicate on events and the map to
  requests. The first line is \<open>For\<close>. The watches on namespaces and on the API server follow in
  \<open>watched_requests\<close>, because their predicates read other parts of the object.
\<close>

definition registrations ::
  "'w cluster_scheme \<Rightarrow> (gvk \<times> (KObject event \<Rightarrow> bool) \<times> (KObject \<Rightarrow> string list)) list" where
  "registrations W =
     (let toSingleton = (\<lambda>_. singletonRequests); managed = NewPredicateFuncs managedPredicate in
      [(gvk_Monitoring, \<lambda>_. True, \<lambda>obj. [o_Name obj]),
       (gvk_Role, managed, toSingleton),
       (gvk_RoleBinding, managed, toSingleton),
       (gvk_ClusterRole, managed, toSingleton),
       (gvk_ClusterRoleBinding, managed, toSingleton),
       (gvk_NetworkPolicy, networkPolicyPredicate W, toSingleton),
       (gvk_Deployment, managed, toSingleton),
       (gvk_Job, managed, toSingleton),
       (gvk_ConfigMap, managed, toSingleton),
       (gvk_ConfigMap, NewPredicateFuncs (isPlatformConfigMap W), toSingleton),
       (gvk_Secret, managed, toSingleton),
       (gvk_Secret, NewPredicateFuncs (isPrometheusWebTLSCASecret W), toSingleton),
       (gvk_Secret, ResourceVersionChangedPredicate, storageSecretRequests W),
       (gvk_Service, managed, toSingleton),
       (gvk_EndpointSlice, NewPredicateFuncs (isKorrel8rEndpointSlice W), toSingleton),
       (gvk_ServiceAccount, managed, toSingleton),
       (gvk_Route, managed, toSingleton),
       (gvk_CustomResourceDefinition, \<lambda>_. True, toSingleton)])"

datatype watch =
    ObjectWatch "KObject event"
  | NamespaceWatch "NamespaceObj option event"
  | APIServerWatch "int event"

fun object_requests ::
  "(gvk \<times> (KObject event \<Rightarrow> bool) \<times> (KObject \<Rightarrow> string list)) list \<Rightarrow> KObject event \<Rightarrow> string list" where
  "object_requests [] e = []"
| "object_requests ((kind, pred, f) # regs) e =
     (if o_Gvk (event_object e) = kind \<and> pred e then EnqueueRequestsFromMapFunc f e else []) @ object_requests regs e"

fun watched_requests :: "'w cluster_scheme \<Rightarrow> watch \<Rightarrow> string list" where
  "watched_requests W (ObjectWatch e) = object_requests (registrations W) e"
| "watched_requests W (NamespaceWatch e) =
     (if namespaceWatchPredicate e then EnqueueRequestsFromMapFunc (\<lambda>_. singletonRequests) e else [])"
| "watched_requests W (APIServerWatch e) =
     (if GenerationChangedPredicate e then EnqueueRequestsFromMapFunc (\<lambda>_. singletonRequests) e else [])"

lemma set_object_requests:
  "set (object_requests regs e) =
     (\<Union>(kind, pred, f) \<in> set regs. if o_Gvk (event_object e) = kind \<and> pred e then set (EnqueueRequestsFromMapFunc f e) else {})"
  by (induction regs) (auto split: if_splits)

lemma registered:
  assumes "(kind, pred, f) \<in> set (registrations W)" and "o_Gvk (event_object e) = kind" and "pred e"
  shows "set (EnqueueRequestsFromMapFunc f e) \<subseteq> set (watched_requests W (ObjectWatch e))"
  using assms by (auto simp: set_object_requests)

lemma enqueue_object: "set (f (event_object e)) \<subseteq> set (EnqueueRequestsFromMapFunc f e)"
  by (cases e) auto

lemma enqueue_singleton: "set (EnqueueRequestsFromMapFunc (\<lambda>_. singletonRequests) e) = {MonitoringInstanceName}"
  by (cases e) (auto simp: singletonRequests_def)

text \<open>
  Drift is noticed only while the label is there: the predicate looks at the new object, so the
  update that removes the label from a managed Deployment enqueues nothing.
\<close>

lemma label_removal_unnoticed:
  assumes "o_Gvk new = gvk_Deployment" and "\<not> managedPredicate new"
  shows "watched_requests W (ObjectWatch (UpdateEvent old new)) = []"
  using assms by (simp add: registrations_def Let_def gvk_defs gvk_Job_def gvk_EndpointSlice_def gvk_CustomResourceDefinition_def)

subsection \<open>Changes that matter are noticed\<close>

lemma locations_of_answer:
  "GetSecret W ns name = GetSecret W' ns name \<Longrightarrow> lokiStorageLocations W ns name = lokiStorageLocations W' ns name"
  by (simp add: lokiStorageLocations_def)

lemma claims_of_answers:
  "\<forall>c \<in> set claims. GetSecret W ns (sc_secretName c) = GetSecret W' ns (sc_secretName c) \<Longrightarrow>
     claims_loop W ns claims by order = claims_loop W' ns claims by order"
  by (induction claims arbitrary: "by" order)
     (simp_all add: locations_of_answer [of W ns _ W'] split: sum.split prod.split)

lemma isolation_of_answers:
  assumes "\<forall>c \<in> set claims. GetSecret W ns (sc_secretName c) = GetSecret W' ns (sc_secretName c)"
  shows "checkStorageIsolation W ns claims = checkStorageIsolation W' ns claims"
  unfolding checkStorageIsolation_def claims_of_answers [OF assms] ..

text \<open>An event that tells of a change: an update that leaves the resource version alone does not.\<close>

definition about_secret :: "string \<Rightarrow> string \<Rightarrow> KObject event \<Rightarrow> bool" where
  "about_secret ns name e \<longleftrightarrow>
     o_Gvk (event_object e) = gvk_Secret \<and> o_Namespace (event_object e) = ns \<and> o_Name (event_object e) = name \<and>
     (\<forall>old new. e = UpdateEvent old new \<longrightarrow> o_ResourceVersion new \<noteq> o_ResourceVersion old)"

lemma claimed_secret_watched:
  assumes get: "GetMonitoring W MonitoringInstanceName = Inr m" and claim: "c \<in> set (storageClaims m)"
    and ev: "about_secret (monitoringNamespace W m) (sc_secretName c) e"
  shows "MonitoringInstanceName \<in> set (watched_requests W (ObjectWatch e))"
proof -
  have "storageSecretRequests W (event_object e) = singletonRequests"
    using assms by (auto simp: storageSecretRequests_def storageClaims_def about_secret_def split: option.splits)
  then have "MonitoringInstanceName \<in> set (EnqueueRequestsFromMapFunc (storageSecretRequests W) e)"
    using enqueue_object [of "storageSecretRequests W" e] by (auto simp: singletonRequests_def)
  moreover have "ResourceVersionChangedPredicate e" using ev by (cases e) (auto simp: about_secret_def)
  moreover have "(gvk_Secret, ResourceVersionChangedPredicate, storageSecretRequests W) \<in> set (registrations W)"
    by (simp add: registrations_def Let_def)
  ultimately show ?thesis
    using registered [of gvk_Secret ResourceVersionChangedPredicate "storageSecretRequests W" W e] ev
    by (auto simp: about_secret_def)
qed

text \<open>
  C18: the storage verdict never changes unnoticed. If the isolation check of the stored object's
  claims gives different answers on two states of the cluster, then some claimed Secret answers
  differently, and every event that tells of a change of that Secret (its creation, its deletion, an
  update to another resource version) enqueues a round for the object, whoever owns the Secret.
\<close>

theorem storage_verdict_changes_are_watched:
  assumes get: "GetMonitoring W MonitoringInstanceName = Inr m"
    and change: "checkStorageIsolation W (monitoringNamespace W m) (storageClaims m) \<noteq>
      checkStorageIsolation W' (monitoringNamespace W m) (storageClaims m)"
  shows "\<exists>name. GetSecret W (monitoringNamespace W m) name \<noteq> GetSecret W' (monitoringNamespace W m) name \<and>
     (\<forall>e. about_secret (monitoringNamespace W m) name e \<longrightarrow>
        MonitoringInstanceName \<in> set (watched_requests W (ObjectWatch e)))"
proof -
  have "\<not> (\<forall>c \<in> set (storageClaims m). GetSecret W (monitoringNamespace W m) (sc_secretName c) =
      GetSecret W' (monitoringNamespace W m) (sc_secretName c))"
    using isolation_of_answers change by blast
  then show ?thesis using claimed_secret_watched [OF get] by blast
qed

theorem storage_verdict_changes_are_watched_witness:
  "\<exists>(W :: cluster) name. GetSecret W ''opendatahub'' name \<noteq> GetSecret quiet_cluster ''opendatahub'' name \<and>
     MonitoringInstanceName \<in> set (watched_requests W (ObjectWatch (DeleteEvent
       \<lparr>o_Gvk = gvk_Secret, o_Namespace = ''opendatahub'', o_Name = name, o_Labels = [], o_Annotations = [],
        o_ControllerUID = None, o_UID = ''u'', o_ResourceVersion = ''1''\<rparr>)))"
proof -
  let ?m = "fresh_monitoring (two_stacks_spec ''a'' ''b'')"
  let ?W = "shared_bucket_cluster\<lparr>GetMonitoring := (\<lambda>_. Inr ?m)\<rparr>"
  have ns: "monitoringNamespace ?W ?m = ''opendatahub''" by code_simp
  have conflict: "checkStorageIsolation ?W ns (storageClaims ?m) = checkStorageIsolation shared_bucket_cluster ns (storageClaims ?m)" for ns
    by (rule isolation_of_answers) simp
  have "err_kind_of (the (checkStorageIsolation quiet_cluster ''opendatahub'' (storageClaims ?m))) \<noteq>
      err_kind_of (the (checkStorageIsolation shared_bucket_cluster ''opendatahub'' (storageClaims ?m)))"
    by (simp add: sample_conflict [OF refl] storageConflictError_def)
       (simp add: checkStorageIsolation_def storageClaims_def two_stacks_spec_def sample_defs newStorageCheckError_def
        usage_logs_storage_def logs_storage_def sample_loki_storage_def lokiStorageLocations_def quiet_cluster_def)
  then have "checkStorageIsolation ?W (monitoringNamespace ?W ?m) (storageClaims ?m) \<noteq>
      checkStorageIsolation quiet_cluster (monitoringNamespace ?W ?m) (storageClaims ?m)"
    unfolding ns conflict by auto
  from storage_verdict_changes_are_watched [OF _ this]
  obtain name where "GetSecret ?W ''opendatahub'' name \<noteq> GetSecret quiet_cluster ''opendatahub'' name"
    and "\<forall>e. about_secret ''opendatahub'' name e \<longrightarrow> MonitoringInstanceName \<in> set (watched_requests ?W (ObjectWatch e))"
    unfolding ns by auto
  then show ?thesis by (intro exI [of _ ?W] exI [of _ name]) (simp add: about_secret_def)
qed


lemma namespaces_loop_same:
  assumes "ns_Name new = ns_Name old" and "ns_Deleting new = ns_Deleting old"
    and "isSystemNamespace new = isSystemNamespace old"
  shows "namespaces_loop fb (pre @ new # post) acc found = namespaces_loop fb (pre @ old # post) acc found"
  using assms by (induction pre arbitrary: acc found) simp_all

text \<open>
  C19: no update of a namespace that the watch ignores changes the list of namespaces the operator
  works with. If replacing one listed namespace by an updated version of it changes what
  \<open>listAllNamespaces\<close> returns, then that update enqueues a round.
\<close>

theorem ignored_namespace_updates_are_harmless:
  assumes before: "ListNamespaces W = Inr (pre @ old # post)" and after: "ListNamespaces W' = Inr (pre @ new # post)"
    and name: "ns_Name new = ns_Name old" and change: "listAllNamespaces W fb \<noteq> listAllNamespaces W' fb"
  shows "MonitoringInstanceName \<in> set (watched_requests V (NamespaceWatch (UpdateEvent (Some old) (Some new))))"
proof (rule ccontr)
  assume "\<not> ?thesis"
  then have "namespaces_loop fb (pre @ new # post) [] False = namespaces_loop fb (pre @ old # post) [] False"
    by (intro namespaces_loop_same name) (auto simp: singletonRequests_def)
  with before after change show False by (simp add: listAllNamespaces_def)
qed

theorem ignored_namespace_updates_are_harmless_witness:
  "MonitoringInstanceName \<in> set (watched_requests quiet_cluster (NamespaceWatch (UpdateEvent
     (Some \<lparr>ns_Name = ''team'', ns_Deleting = False, ns_Labels = [], ns_Annotations = []\<rparr>)
     (Some \<lparr>ns_Name = ''team'', ns_Deleting = True, ns_Labels = [], ns_Annotations = []\<rparr>))))"
proof (rule ignored_namespace_updates_are_harmless
    [where W = "quiet_cluster\<lparr>ListNamespaces := Inr [\<lparr>ns_Name = ''team'', ns_Deleting = False, ns_Labels = [], ns_Annotations = []\<rparr>]\<rparr>"
      and W' = "quiet_cluster\<lparr>ListNamespaces := Inr [\<lparr>ns_Name = ''team'', ns_Deleting = True, ns_Labels = [], ns_Annotations = []\<rparr>]\<rparr>"
      and pre = "[]" and post = "[]" and fb = "''''"])
  show "listAllNamespaces (quiet_cluster\<lparr>ListNamespaces := Inr [\<lparr>ns_Name = ''team'', ns_Deleting = False, ns_Labels = [], ns_Annotations = []\<rparr>]\<rparr>) '''' \<noteq>
      listAllNamespaces (quiet_cluster\<lparr>ListNamespaces := Inr [\<lparr>ns_Name = ''team'', ns_Deleting = True, ns_Labels = [], ns_Annotations = []\<rparr>]\<rparr>) ''''"
    by code_simp
qed simp_all

subsection \<open>Delays\<close>

text \<open>The delays of the code, in seconds. An error asks for none: it puts the request into backoff.\<close>

definition timed :: "nat \<Rightarrow> go_error option \<Rightarrow> bool" where
  "timed r e \<longleftrightarrow> r \<in> {0, 15, 30, 60, 300} \<and> (e \<noteq> None \<longrightarrow> r = 0)"

lemma timed_zero [simp]: "timed 0 e"
  by (simp add: timed_def)

abbreviation timed_round :: "round \<Rightarrow> bool" where
  "timed_round rd \<equiv> timed (rd_Result rd) (rd_Err rd)"

lemma timed_settle: "timed_round (settle W Wd g data desired withheld se ca s)"
  by (simp add: settle_def Let_def split: prod.split option.split) (simp add: timed_def)

lemma timed_apply: "timed_round (apply_round W Wc Wd g data desired withheld se s)"
  by (simp add: apply_round_def Let_def timed_settle split: prod.split sum.split option.split)

lemma timed_provision: "timed_round (provision W Wc Wd g s)"
  by (simp add: provision_def timed_apply split: prod.split sum.split option.split)

lemma timed_body: "timed_round (reconcile_body W Wc Wd g s)"
  by (simp add: reconcile_body_def removed_round_def mismatch_round_def missing_operators_round_def Let_def
      timed_provision split: prod.split sum.split option.split)

lemma timed_deferred:
  assumes "timed (rd_Result rd) (rd_Err rd)" and "deferred W g configured v rd = (s', r, e)"
  shows "timed r e \<and> (configured \<and> e = None \<longrightarrow> r \<noteq> 0)"
proof -
  let ?m = "rs_Mon (rd_State rd)"
  define r1 where "r1 = requeueForCOOVersionRefresh (rd_Result rd) configured (rd_Err rd)"
  have e: "e = rd_Err rd" and r: "r = requeueForCollectorReadiness r1 ?m (rd_Err rd)"
    using assms(2) by (auto simp: deferred_def r1_def Let_def)
  have "timed r1 e \<and> (configured \<and> e = None \<longrightarrow> r1 \<noteq> 0)"
    using assms(1) by (simp add: r1_def e requeueForCOOVersionRefresh_def timed_def)
  moreover have "timed r1 e \<Longrightarrow> timed r e \<and> (r1 \<noteq> 0 \<longrightarrow> r = r1)"
    by (simp add: r e requeueForCollectorReadiness_def) (simp add: timed_def)
  ultimately show ?thesis by auto
qed

abbreviation built_in_metrics :: "Monitoring \<Rightarrow> bool" where
  "built_in_metrics m \<equiv> sp_ManagementState (mo_Spec m) \<noteq> Removed \<and> metrics_storage (mo_Spec m) \<noteq> None"

lemma timed_reconcile:
  assumes "reconcile W Wc Wd s = (s', r, e)"
  shows "timed r e \<and> (built_in_metrics (rs_Mon s) \<and> e = None \<longrightarrow> r \<noteq> 0)"
proof -
  obtain m1 configured where i: "initializeCOOVersionCompatibilityCondition W (mo_Generation (rs_Mon s)) (rs_Mon s) = (m1, configured)"
    by force
  then have c: "configured \<longleftrightarrow> built_in_metrics (rs_Mon s)"
    by (auto simp: initializeCOOVersionCompatibilityCondition_def Let_def)
  have "\<exists>v rd. timed (rd_Result rd) (rd_Err rd) \<and> deferred W (mo_Generation (rs_Mon s)) configured v rd = (s', r, e)"
  proof (cases "readPlatformVersion W")
    case (Inl err)
    then show ?thesis using assms by (force simp: reconcile_def i)
  next
    case (Inr v)
    then show ?thesis
      using assms timed_body [of W Wc Wd "mo_Generation (rs_Mon s)" "s\<lparr>rs_Mon := m1\<rparr>"] by (auto simp: reconcile_def i Let_def)
  qed
  then show ?thesis using timed_deferred c by blast
qed

lemma timed_live_round:
  assumes "live_round W Wc Wd s = (s', r, e)"
  shows "timed r e \<and> (built_in_metrics (rs_Mon s) \<and> e = None \<longrightarrow> r \<noteq> 0)"
proof -
  obtain s1 r1 e1 where run: "reconcile W Wc Wd s = (s1, r1, e1)" by (metis prod_cases3)
  note timed_reconcile [OF run]
  then show ?thesis
    using assms by (auto simp: live_round_def run timed_def split: prod.splits option.splits)
qed


text \<open>An object with built-in metrics storage on a cluster without the operators it needs.\<close>

definition metrics_cluster :: cluster where
  "metrics_cluster = quiet_cluster\<lparr>GetMonitoring := (\<lambda>_. Inr (fresh_monitoring metrics_spec))\<rparr>"


end
