(* ===== verification/Deep_Copy.thy ===== *)
theory Deep_Copy
  imports Api_Types
begin

section \<open>Deep copies (api/v1alpha1/zz\_generated.deepcopy.go)\<close>

text \<open>
  The reconciler computes every patch against a deep copy of the object taken before it changes the
  object, and objects from the client's cache are shared. The rest of the development treats values
  as immutable, which is right only if a copy shares no memory with its original. Here the structs are
  given as they lie in memory: a pointer, a slice or a map field holds the address of a cell, or
  nothing for nil. Each generated function is a function of the memory. What a struct in memory stands
  for is read back as the record of \<open>Api_Types\<close>.

  A cell is written once, when its contents are complete: which address an allocation returns, and
  when, cannot be observed. The structs of other packages (\<open>resource.Quantity\<close>,
  \<open>runtime.RawExtension\<close>, \<open>metav1.ObjectMeta\<close>, \<open>metav1.ListMeta\<close>, the platform's status
  structs) are values of the type parameter \<open>'x\<close> with their own \<open>DeepCopy\<close>, the parameter
  \<open>foreign\<close>.
\<close>

subsection \<open>Memory\<close>

type_synonym addr = nat

record 'x mMetricsStorage =
  gms_Size :: 'x
  gms_Retention :: string

record mMetrics =
  gmt_Storage :: "addr option"
  gmt_BuiltinDCGMScrapeEnabled :: "addr option"
  gmt_Replicas :: int
  gmt_Exporters :: "addr option"

record mTraces =
  gtr_Storage :: "addr option"
  gtr_SampleRatio :: string
  gtr_TLS :: "addr option"
  gtr_Exporters :: "addr option"

record mLogs =
  glg_Storage :: "addr option"
  glg_Size :: string
  glg_InferenceNamespaces :: "addr option"

record mUsageLogs =
  gul_Storage :: "addr option"
  gul_Size :: string
  gul_Exporters :: "addr option"
  gul_CredentialSecret :: string
  gul_Attributes :: "addr option"

record mMonitoringSpec =
  gsp_ManagementState :: string
  gsp_Namespace :: string
  gsp_Metrics :: "addr option"
  gsp_Traces :: "addr option"
  gsp_UsageLogs :: "addr option"
  gsp_Alerting :: "addr option"
  gsp_Logs :: "addr option"
  gsp_CollectorReplicas :: int

record 'x mMonitoringStatus =
  gst_Status :: 'x
  gst_ComponentReleaseStatus :: 'x
  gst_URL :: string
  gst_UsageLogsEndpoint :: string
  gst_LogsEndpoint :: string
  gst_UsageLogsForwarding :: "addr option"

record 'x mMonitoring =
  gmo_TypeMeta :: "string \<times> string"
  gmo_ObjectMeta :: 'x
  gmo_Spec :: mMonitoringSpec
  gmo_Status :: "'x mMonitoringStatus"

record 'x mMonitoringList =
  gml_TypeMeta :: "string \<times> string"
  gml_ListMeta :: 'x
  gml_Items :: "addr option"

datatype 'x cell =
    CBool (unBool: bool)
  | CStrings (unStrings: "string list")
  | CStringMap (unStringMap: "(string \<times> string) list")
  | CExtensions (unExtensions: "(string \<times> 'x) list")
  | CAlerting (unAlerting: Alerting)
  | CLokiStorageConfig (unLokiStorageConfig: LokiStorageConfig)
  | CTracesStorage (unTracesStorage: TracesStorage)
  | CTracesTLS (unTracesTLS: TracesTLS)
  | CMetricsStorage (unMetricsStorage: "'x mMetricsStorage")
  | CMetrics (unMetrics: mMetrics)
  | CTraces (unTraces: mTraces)
  | CLogs (unLogs: mLogs)
  | CUsageLogs (unUsageLogs: mUsageLogs)
  | CMonitoringSpec (unMonitoringSpec: mMonitoringSpec)
  | CMonitoringStatus (unMonitoringStatus: "'x mMonitoringStatus")
  | CMonitoring (unMonitoring: "'x mMonitoring")
  | CItems (unItems: "'x mMonitoring list")
  | CMonitoringList (unMonitoringList: "'x mMonitoringList")

text \<open>Addresses below \<open>lim\<close> are allocated.\<close>

record 'x memory =
  mem :: "addr \<Rightarrow> 'x cell"
  lim :: addr

definition new_cell :: "'x cell \<Rightarrow> 'x memory \<Rightarrow> addr \<times> 'x memory" where
  "new_cell c s = (lim s, s\<lparr>mem := (mem s)(lim s := c), lim := Suc (lim s)\<rparr>)"

text \<open>
  The statements the generator emits: for a pointer, slice or map field, nil stays nil and anything
  else gets a new cell with a copy of the contents; \<open>flat\<close> is plain assignment; maps and slices
  of structs are copied entry by entry.
\<close>

definition flat :: "'g \<Rightarrow> 'x memory \<Rightarrow> 'g \<times> 'x memory" where
  "flat v s = (v, s)"

definition copy_ptr ::
  "('x cell \<Rightarrow> 'g) \<Rightarrow> ('g \<Rightarrow> 'x cell) \<Rightarrow> ('g \<Rightarrow> 'x memory \<Rightarrow> 'g \<times> 'x memory) \<Rightarrow>
   addr option \<Rightarrow> 'x memory \<Rightarrow> addr option \<times> 'x memory" where
  "copy_ptr un mk copy p s =
     (case p of
        None \<Rightarrow> (None, s)
      | Some a \<Rightarrow>
          (let (v, s1) = copy (un (mem s a)) s; (b, s2) = new_cell (mk v) s1 in (Some b, s2)))"

fun copy_list :: "('g \<Rightarrow> 'x memory \<Rightarrow> 'g \<times> 'x memory) \<Rightarrow> 'g list \<Rightarrow> 'x memory \<Rightarrow> 'g list \<times> 'x memory" where
  "copy_list copy [] s = ([], s)"
| "copy_list copy (v # vs) s =
     (let (v', s1) = copy v s; (vs', s2) = copy_list copy vs s1 in (v' # vs', s2))"

definition copy_entry ::
  "('g \<Rightarrow> 'x memory \<Rightarrow> 'g \<times> 'x memory) \<Rightarrow> string \<times> 'g \<Rightarrow> 'x memory \<Rightarrow> (string \<times> 'g) \<times> 'x memory" where
  "copy_entry copy e s = (let (v, s1) = copy (snd e) s in ((fst e, v), s1))"

subsection \<open>Structs of other packages\<close>

record object_meta =
  om_Name :: string
  om_UID :: string
  om_Generation :: int
  om_Deleting :: bool
  om_Finalizers :: "string list"

record platform_status =
  ps_Conditions :: "Condition list"
  ps_Phase :: Phase
  ps_ObservedGeneration :: int

text \<open>
  Their copies, what they stand for, and the cells they use. \<open>fo_DeepCopy\<close> is the \<open>DeepCopy\<close> or
  \<open>DeepCopyInto\<close> of the value's type.
\<close>

record 'x foreign =
  fo_DeepCopy :: "'x \<Rightarrow> 'x memory \<Rightarrow> 'x \<times> 'x memory"
  fo_addrs :: "'x memory \<Rightarrow> 'x \<Rightarrow> addr set"
  fo_Quantity :: "'x memory \<Rightarrow> 'x \<Rightarrow> string"
  fo_RawExtension :: "'x memory \<Rightarrow> 'x \<Rightarrow> RawExtension"
  fo_ObjectMeta :: "'x memory \<Rightarrow> 'x \<Rightarrow> object_meta"
  fo_ListMeta :: "'x memory \<Rightarrow> 'x \<Rightarrow> string"
  fo_Status :: "'x memory \<Rightarrow> 'x \<Rightarrow> platform_status"
  fo_Releases :: "'x memory \<Rightarrow> 'x \<Rightarrow> ComponentRelease list"

subsection \<open>The generated functions\<close>

definition Alerting_DeepCopyInto :: "Alerting \<Rightarrow> 'x memory \<Rightarrow> Alerting \<times> 'x memory" where
  "Alerting_DeepCopyInto i s = (i, s)"

definition LokiStorageConfig_DeepCopyInto :: "LokiStorageConfig \<Rightarrow> 'x memory \<Rightarrow> LokiStorageConfig \<times> 'x memory" where
  "LokiStorageConfig_DeepCopyInto i s = (i, s)"

definition TracesTLS_DeepCopyInto :: "TracesTLS \<Rightarrow> 'x memory \<Rightarrow> TracesTLS \<times> 'x memory" where
  "TracesTLS_DeepCopyInto i s = (i, s)"

definition TracesStorage_DeepCopyInto :: "TracesStorage \<Rightarrow> 'x memory \<Rightarrow> TracesStorage \<times> 'x memory" where
  "TracesStorage_DeepCopyInto i s = (i\<lparr>ts_Retention := ts_Retention i\<rparr>, s)"

definition Logs_DeepCopyInto :: "mLogs \<Rightarrow> 'x memory \<Rightarrow> mLogs \<times> 'x memory" where
  "Logs_DeepCopyInto i s =
     (let out = i;
          (p, s1) = copy_ptr unLokiStorageConfig CLokiStorageConfig flat (glg_Storage i) s;
          out1 = out\<lparr>glg_Storage := p\<rparr>;
          (p, s2) = copy_ptr unStrings CStrings flat (glg_InferenceNamespaces i) s1;
          out2 = out1\<lparr>glg_InferenceNamespaces := p\<rparr>
      in (out2, s2))"

definition MetricsStorage_DeepCopyInto ::
  "'x foreign \<Rightarrow> 'x mMetricsStorage \<Rightarrow> 'x memory \<Rightarrow> 'x mMetricsStorage \<times> 'x memory" where
  "MetricsStorage_DeepCopyInto F i s =
     (let out = i; (q, s1) = fo_DeepCopy F (gms_Size i) s in (out\<lparr>gms_Size := q\<rparr>, s1))"

abbreviation copy_exporters :: "'x foreign \<Rightarrow> addr option \<Rightarrow> 'x memory \<Rightarrow> addr option \<times> 'x memory" where
  "copy_exporters F \<equiv> copy_ptr unExtensions CExtensions (copy_list (copy_entry (fo_DeepCopy F)))"

definition Metrics_DeepCopyInto :: "'x foreign \<Rightarrow> mMetrics \<Rightarrow> 'x memory \<Rightarrow> mMetrics \<times> 'x memory" where
  "Metrics_DeepCopyInto F i s =
     (let out = i;
          (p, s1) = copy_ptr unMetricsStorage CMetricsStorage (MetricsStorage_DeepCopyInto F) (gmt_Storage i) s;
          out1 = out\<lparr>gmt_Storage := p\<rparr>;
          (p, s2) = copy_ptr unBool CBool flat (gmt_BuiltinDCGMScrapeEnabled i) s1;
          out2 = out1\<lparr>gmt_BuiltinDCGMScrapeEnabled := p\<rparr>;
          (p, s3) = copy_exporters F (gmt_Exporters i) s2;
          out3 = out2\<lparr>gmt_Exporters := p\<rparr>
      in (out3, s3))"

definition Traces_DeepCopyInto :: "'x foreign \<Rightarrow> mTraces \<Rightarrow> 'x memory \<Rightarrow> mTraces \<times> 'x memory" where
  "Traces_DeepCopyInto F i s =
     (let out = i;
          (p, s1) = copy_ptr unTracesStorage CTracesStorage flat (gtr_Storage i) s;
          out1 = out\<lparr>gtr_Storage := p\<rparr>;
          (p, s2) = copy_ptr unTracesTLS CTracesTLS flat (gtr_TLS i) s1;
          out2 = out1\<lparr>gtr_TLS := p\<rparr>;
          (p, s3) = copy_exporters F (gtr_Exporters i) s2;
          out3 = out2\<lparr>gtr_Exporters := p\<rparr>
      in (out3, s3))"

definition UsageLogs_DeepCopyInto :: "'x foreign \<Rightarrow> mUsageLogs \<Rightarrow> 'x memory \<Rightarrow> mUsageLogs \<times> 'x memory" where
  "UsageLogs_DeepCopyInto F i s =
     (let out = i;
          (p, s1) = copy_ptr unLokiStorageConfig CLokiStorageConfig flat (gul_Storage i) s;
          out1 = out\<lparr>gul_Storage := p\<rparr>;
          (p, s2) = copy_exporters F (gul_Exporters i) s1;
          out2 = out1\<lparr>gul_Exporters := p\<rparr>;
          (p, s3) = copy_ptr unStringMap CStringMap (copy_list (copy_entry flat)) (gul_Attributes i) s2;
          out3 = out2\<lparr>gul_Attributes := p\<rparr>
      in (out3, s3))"

definition MonitoringSpec_DeepCopyInto ::
  "'x foreign \<Rightarrow> mMonitoringSpec \<Rightarrow> 'x memory \<Rightarrow> mMonitoringSpec \<times> 'x memory" where
  "MonitoringSpec_DeepCopyInto F i s =
     (let out = i\<lparr>gsp_ManagementState := gsp_ManagementState i\<rparr>;
          (p, s1) = copy_ptr unMetrics CMetrics (Metrics_DeepCopyInto F) (gsp_Metrics i) s;
          out1 = out\<lparr>gsp_Metrics := p\<rparr>;
          (p, s2) = copy_ptr unTraces CTraces (Traces_DeepCopyInto F) (gsp_Traces i) s1;
          out2 = out1\<lparr>gsp_Traces := p\<rparr>;
          (p, s3) = copy_ptr unUsageLogs CUsageLogs (UsageLogs_DeepCopyInto F) (gsp_UsageLogs i) s2;
          out3 = out2\<lparr>gsp_UsageLogs := p\<rparr>;
          (p, s4) = copy_ptr unAlerting CAlerting flat (gsp_Alerting i) s3;
          out4 = out3\<lparr>gsp_Alerting := p\<rparr>;
          (p, s5) = copy_ptr unLogs CLogs Logs_DeepCopyInto (gsp_Logs i) s4;
          out5 = out4\<lparr>gsp_Logs := p\<rparr>
      in (out5, s5))"

definition MonitoringStatus_DeepCopyInto ::
  "'x foreign \<Rightarrow> 'x mMonitoringStatus \<Rightarrow> 'x memory \<Rightarrow> 'x mMonitoringStatus \<times> 'x memory" where
  "MonitoringStatus_DeepCopyInto F i s =
     (let out = i;
          (v, s1) = fo_DeepCopy F (gst_Status i) s;
          out1 = out\<lparr>gst_Status := v\<rparr>;
          (v, s2) = fo_DeepCopy F (gst_ComponentReleaseStatus i) s1;
          out2 = out1\<lparr>gst_ComponentReleaseStatus := v\<rparr>;
          (p, s3) = copy_ptr unStrings CStrings flat (gst_UsageLogsForwarding i) s2;
          out3 = out2\<lparr>gst_UsageLogsForwarding := p\<rparr>
      in (out3, s3))"

definition Monitoring_DeepCopyInto ::
  "'x foreign \<Rightarrow> 'x mMonitoring \<Rightarrow> 'x memory \<Rightarrow> 'x mMonitoring \<times> 'x memory" where
  "Monitoring_DeepCopyInto F i s =
     (let out = i\<lparr>gmo_TypeMeta := gmo_TypeMeta i\<rparr>;
          (v, s1) = fo_DeepCopy F (gmo_ObjectMeta i) s;
          out1 = out\<lparr>gmo_ObjectMeta := v\<rparr>;
          (v, s2) = MonitoringSpec_DeepCopyInto F (gmo_Spec i) s1;
          out2 = out1\<lparr>gmo_Spec := v\<rparr>;
          (v, s3) = MonitoringStatus_DeepCopyInto F (gmo_Status i) s2;
          out3 = out2\<lparr>gmo_Status := v\<rparr>
      in (out3, s3))"

definition MonitoringList_DeepCopyInto ::
  "'x foreign \<Rightarrow> 'x mMonitoringList \<Rightarrow> 'x memory \<Rightarrow> 'x mMonitoringList \<times> 'x memory" where
  "MonitoringList_DeepCopyInto F i s =
     (let out = i\<lparr>gml_TypeMeta := gml_TypeMeta i\<rparr>;
          (v, s1) = fo_DeepCopy F (gml_ListMeta i) s;
          out1 = out\<lparr>gml_ListMeta := v\<rparr>;
          (p, s2) = copy_ptr unItems CItems (copy_list (Monitoring_DeepCopyInto F)) (gml_Items i) s1;
          out2 = out1\<lparr>gml_Items := p\<rparr>
      in (out2, s2))"

text \<open>
  \<open>DeepCopy\<close> of every type: nil for nil, otherwise a new struct filled by \<open>DeepCopyInto\<close>.
  \<open>DeepCopyObject\<close> returns the copy as an interface value.
\<close>

definition Alerting_DeepCopy :: "addr option \<Rightarrow> 'x memory \<Rightarrow> addr option \<times> 'x memory" where
  "Alerting_DeepCopy = copy_ptr unAlerting CAlerting Alerting_DeepCopyInto"

definition Logs_DeepCopy :: "addr option \<Rightarrow> 'x memory \<Rightarrow> addr option \<times> 'x memory" where
  "Logs_DeepCopy = copy_ptr unLogs CLogs Logs_DeepCopyInto"

definition LokiStorageConfig_DeepCopy :: "addr option \<Rightarrow> 'x memory \<Rightarrow> addr option \<times> 'x memory" where
  "LokiStorageConfig_DeepCopy = copy_ptr unLokiStorageConfig CLokiStorageConfig LokiStorageConfig_DeepCopyInto"

definition Metrics_DeepCopy :: "'x foreign \<Rightarrow> addr option \<Rightarrow> 'x memory \<Rightarrow> addr option \<times> 'x memory" where
  "Metrics_DeepCopy F = copy_ptr unMetrics CMetrics (Metrics_DeepCopyInto F)"

definition MetricsStorage_DeepCopy :: "'x foreign \<Rightarrow> addr option \<Rightarrow> 'x memory \<Rightarrow> addr option \<times> 'x memory" where
  "MetricsStorage_DeepCopy F = copy_ptr unMetricsStorage CMetricsStorage (MetricsStorage_DeepCopyInto F)"

definition Monitoring_DeepCopy :: "'x foreign \<Rightarrow> addr option \<Rightarrow> 'x memory \<Rightarrow> addr option \<times> 'x memory" where
  "Monitoring_DeepCopy F = copy_ptr unMonitoring CMonitoring (Monitoring_DeepCopyInto F)"

definition MonitoringList_DeepCopy :: "'x foreign \<Rightarrow> addr option \<Rightarrow> 'x memory \<Rightarrow> addr option \<times> 'x memory" where
  "MonitoringList_DeepCopy F = copy_ptr unMonitoringList CMonitoringList (MonitoringList_DeepCopyInto F)"

definition MonitoringSpec_DeepCopy :: "'x foreign \<Rightarrow> addr option \<Rightarrow> 'x memory \<Rightarrow> addr option \<times> 'x memory" where
  "MonitoringSpec_DeepCopy F = copy_ptr unMonitoringSpec CMonitoringSpec (MonitoringSpec_DeepCopyInto F)"

definition MonitoringStatus_DeepCopy :: "'x foreign \<Rightarrow> addr option \<Rightarrow> 'x memory \<Rightarrow> addr option \<times> 'x memory" where
  "MonitoringStatus_DeepCopy F = copy_ptr unMonitoringStatus CMonitoringStatus (MonitoringStatus_DeepCopyInto F)"

definition Traces_DeepCopy :: "'x foreign \<Rightarrow> addr option \<Rightarrow> 'x memory \<Rightarrow> addr option \<times> 'x memory" where
  "Traces_DeepCopy F = copy_ptr unTraces CTraces (Traces_DeepCopyInto F)"

definition TracesStorage_DeepCopy :: "addr option \<Rightarrow> 'x memory \<Rightarrow> addr option \<times> 'x memory" where
  "TracesStorage_DeepCopy = copy_ptr unTracesStorage CTracesStorage TracesStorage_DeepCopyInto"

definition TracesTLS_DeepCopy :: "addr option \<Rightarrow> 'x memory \<Rightarrow> addr option \<times> 'x memory" where
  "TracesTLS_DeepCopy = copy_ptr unTracesTLS CTracesTLS TracesTLS_DeepCopyInto"

definition UsageLogs_DeepCopy :: "'x foreign \<Rightarrow> addr option \<Rightarrow> 'x memory \<Rightarrow> addr option \<times> 'x memory" where
  "UsageLogs_DeepCopy F = copy_ptr unUsageLogs CUsageLogs (UsageLogs_DeepCopyInto F)"

definition Monitoring_DeepCopyObject :: "'x foreign \<Rightarrow> addr option \<Rightarrow> 'x memory \<Rightarrow> addr option \<times> 'x memory" where
  "Monitoring_DeepCopyObject F p s = (case Monitoring_DeepCopy F p s of (Some c, s1) \<Rightarrow> (Some c, s1) | (None, s1) \<Rightarrow> (None, s1))"

definition MonitoringList_DeepCopyObject :: "'x foreign \<Rightarrow> addr option \<Rightarrow> 'x memory \<Rightarrow> addr option \<times> 'x memory" where
  "MonitoringList_DeepCopyObject F p s = (case MonitoringList_DeepCopy F p s of (Some c, s1) \<Rightarrow> (Some c, s1) | (None, s1) \<Rightarrow> (None, s1))"


subsection \<open>What a struct in memory stands for\<close>

text \<open>A nil map or slice reads as the empty one.\<close>

abbreviation at_ptr :: "('x cell \<Rightarrow> 'g) \<Rightarrow> ('x memory \<Rightarrow> 'g \<Rightarrow> 'v) \<Rightarrow> 'x memory \<Rightarrow> addr option \<Rightarrow> 'v option" where
  "at_ptr un view s p \<equiv> map_option (\<lambda>a. view s (un (mem s a))) p"

abbreviation value_of :: "'x memory \<Rightarrow> 'g \<Rightarrow> 'g" where
  "value_of s v \<equiv> v"

definition listed :: "'v list option \<Rightarrow> 'v list" where
  "listed p = (case p of None \<Rightarrow> [] | Some vs \<Rightarrow> vs)"

abbreviation entries_at :: "('x memory \<Rightarrow> 'g \<Rightarrow> 'v) \<Rightarrow> 'x memory \<Rightarrow> (string \<times> 'g) list \<Rightarrow> (string \<times> 'v) list" where
  "entries_at view s es \<equiv> map (\<lambda>e. (fst e, view s (snd e))) es"

definition Logs_at :: "'x memory \<Rightarrow> mLogs \<Rightarrow> Logs" where
  "Logs_at s i =
     \<lparr>lg_Storage = at_ptr unLokiStorageConfig value_of s (glg_Storage i), lg_Size = glg_Size i,
      lg_InferenceNamespaces = listed (at_ptr unStrings value_of s (glg_InferenceNamespaces i))\<rparr>"

definition MetricsStorage_at :: "'x foreign \<Rightarrow> 'x memory \<Rightarrow> 'x mMetricsStorage \<Rightarrow> MetricsStorage" where
  "MetricsStorage_at F s i = \<lparr>ms_Size = fo_Quantity F s (gms_Size i), ms_Retention = gms_Retention i\<rparr>"

abbreviation exporters_at :: "'x foreign \<Rightarrow> 'x memory \<Rightarrow> addr option \<Rightarrow> (string \<times> RawExtension) list option" where
  "exporters_at F \<equiv> at_ptr unExtensions (entries_at (fo_RawExtension F))"

definition Metrics_at :: "'x foreign \<Rightarrow> 'x memory \<Rightarrow> mMetrics \<Rightarrow> Metrics" where
  "Metrics_at F s i =
     \<lparr>mt_Storage = at_ptr unMetricsStorage (MetricsStorage_at F) s (gmt_Storage i),
      mt_BuiltinDCGMScrapeEnabled = at_ptr unBool value_of s (gmt_BuiltinDCGMScrapeEnabled i),
      mt_Replicas = gmt_Replicas i, mt_Exporters = listed (exporters_at F s (gmt_Exporters i))\<rparr>"

definition Traces_at :: "'x foreign \<Rightarrow> 'x memory \<Rightarrow> mTraces \<Rightarrow> Traces" where
  "Traces_at F s i =
     \<lparr>tr_Storage = at_ptr unTracesStorage value_of s (gtr_Storage i), tr_SampleRatio = gtr_SampleRatio i,
      tr_TLS = at_ptr unTracesTLS value_of s (gtr_TLS i), tr_Exporters = listed (exporters_at F s (gtr_Exporters i))\<rparr>"

definition UsageLogs_at :: "'x foreign \<Rightarrow> 'x memory \<Rightarrow> mUsageLogs \<Rightarrow> UsageLogs" where
  "UsageLogs_at F s i =
     \<lparr>ul_Storage = at_ptr unLokiStorageConfig value_of s (gul_Storage i), ul_Size = gul_Size i,
      ul_Exporters = listed (exporters_at F s (gul_Exporters i)), ul_CredentialSecret = gul_CredentialSecret i,
      ul_Attributes = listed (at_ptr unStringMap (entries_at value_of) s (gul_Attributes i))\<rparr>"

definition MonitoringSpec_at :: "'x foreign \<Rightarrow> 'x memory \<Rightarrow> mMonitoringSpec \<Rightarrow> MonitoringSpec" where
  "MonitoringSpec_at F s i =
     \<lparr>sp_ManagementState = gsp_ManagementState i, sp_Namespace = gsp_Namespace i,
      sp_Metrics = at_ptr unMetrics (Metrics_at F) s (gsp_Metrics i),
      sp_Traces = at_ptr unTraces (Traces_at F) s (gsp_Traces i),
      sp_UsageLogs = at_ptr unUsageLogs (UsageLogs_at F) s (gsp_UsageLogs i),
      sp_Alerting = at_ptr unAlerting value_of s (gsp_Alerting i),
      sp_Logs = at_ptr unLogs Logs_at s (gsp_Logs i), sp_CollectorReplicas = gsp_CollectorReplicas i\<rparr>"

definition MonitoringStatus_at :: "'x foreign \<Rightarrow> 'x memory \<Rightarrow> 'x mMonitoringStatus \<Rightarrow> MonitoringStatus" where
  "MonitoringStatus_at F s i =
     (let ps = fo_Status F s (gst_Status i) in
      \<lparr>st_Conditions = ps_Conditions ps, st_Phase = ps_Phase ps, st_ObservedGeneration = ps_ObservedGeneration ps,
       st_Releases = fo_Releases F s (gst_ComponentReleaseStatus i), st_URL = gst_URL i,
       st_UsageLogsEndpoint = gst_UsageLogsEndpoint i, st_LogsEndpoint = gst_LogsEndpoint i,
       st_UsageLogsForwarding = listed (at_ptr unStrings value_of s (gst_UsageLogsForwarding i))\<rparr>)"

definition Monitoring_at :: "'x foreign \<Rightarrow> 'x memory \<Rightarrow> 'x mMonitoring \<Rightarrow> Monitoring" where
  "Monitoring_at F s i =
     (let om = fo_ObjectMeta F s (gmo_ObjectMeta i) in
      \<lparr>mo_Name = om_Name om, mo_UID = om_UID om, mo_Generation = om_Generation om, mo_Deleting = om_Deleting om,
       mo_Finalizers = om_Finalizers om, mo_Spec = MonitoringSpec_at F s (gmo_Spec i),
       mo_Status = MonitoringStatus_at F s (gmo_Status i)\<rparr>)"

definition MonitoringList_at :: "'x foreign \<Rightarrow> 'x memory \<Rightarrow> 'x mMonitoringList \<Rightarrow> string \<times> Monitoring list" where
  "MonitoringList_at F s i =
     (fo_ListMeta F s (gml_ListMeta i),
      listed (at_ptr unItems (\<lambda>s ms. map (Monitoring_at F s) ms) s (gml_Items i)))"

text \<open>The cells a struct refers to, at any depth.\<close>

abbreviation no_addrs :: "'x memory \<Rightarrow> 'g \<Rightarrow> addr set" where
  "no_addrs s v \<equiv> {}"

definition ptr_addrs :: "('x cell \<Rightarrow> 'g) \<Rightarrow> ('x memory \<Rightarrow> 'g \<Rightarrow> addr set) \<Rightarrow> 'x memory \<Rightarrow> addr option \<Rightarrow> addr set" where
  "ptr_addrs un addrs s p = (case p of None \<Rightarrow> {} | Some a \<Rightarrow> insert a (addrs s (un (mem s a))))"

definition list_addrs :: "('x memory \<Rightarrow> 'g \<Rightarrow> addr set) \<Rightarrow> 'x memory \<Rightarrow> 'g list \<Rightarrow> addr set" where
  "list_addrs addrs s vs = (\<Union>v \<in> set vs. addrs s v)"

abbreviation entry_addrs :: "('x memory \<Rightarrow> 'g \<Rightarrow> addr set) \<Rightarrow> 'x memory \<Rightarrow> string \<times> 'g \<Rightarrow> addr set" where
  "entry_addrs addrs s e \<equiv> addrs s (snd e)"

abbreviation exporters_addrs :: "'x foreign \<Rightarrow> 'x memory \<Rightarrow> addr option \<Rightarrow> addr set" where
  "exporters_addrs F \<equiv> ptr_addrs unExtensions (list_addrs (entry_addrs (fo_addrs F)))"

definition Logs_addrs :: "'x memory \<Rightarrow> mLogs \<Rightarrow> addr set" where
  "Logs_addrs s i =
     ptr_addrs unLokiStorageConfig no_addrs s (glg_Storage i) \<union> ptr_addrs unStrings no_addrs s (glg_InferenceNamespaces i)"

definition MetricsStorage_addrs :: "'x foreign \<Rightarrow> 'x memory \<Rightarrow> 'x mMetricsStorage \<Rightarrow> addr set" where
  "MetricsStorage_addrs F s i = fo_addrs F s (gms_Size i)"

definition Metrics_addrs :: "'x foreign \<Rightarrow> 'x memory \<Rightarrow> mMetrics \<Rightarrow> addr set" where
  "Metrics_addrs F s i =
     ptr_addrs unMetricsStorage (MetricsStorage_addrs F) s (gmt_Storage i) \<union>
     (ptr_addrs unBool no_addrs s (gmt_BuiltinDCGMScrapeEnabled i) \<union> exporters_addrs F s (gmt_Exporters i))"

definition Traces_addrs :: "'x foreign \<Rightarrow> 'x memory \<Rightarrow> mTraces \<Rightarrow> addr set" where
  "Traces_addrs F s i =
     ptr_addrs unTracesStorage no_addrs s (gtr_Storage i) \<union>
     (ptr_addrs unTracesTLS no_addrs s (gtr_TLS i) \<union> exporters_addrs F s (gtr_Exporters i))"

definition UsageLogs_addrs :: "'x foreign \<Rightarrow> 'x memory \<Rightarrow> mUsageLogs \<Rightarrow> addr set" where
  "UsageLogs_addrs F s i =
     ptr_addrs unLokiStorageConfig no_addrs s (gul_Storage i) \<union>
     (exporters_addrs F s (gul_Exporters i) \<union>
      ptr_addrs unStringMap (list_addrs (entry_addrs no_addrs)) s (gul_Attributes i))"

definition MonitoringSpec_addrs :: "'x foreign \<Rightarrow> 'x memory \<Rightarrow> mMonitoringSpec \<Rightarrow> addr set" where
  "MonitoringSpec_addrs F s i =
     ptr_addrs unMetrics (Metrics_addrs F) s (gsp_Metrics i) \<union>
     (ptr_addrs unTraces (Traces_addrs F) s (gsp_Traces i) \<union>
      (ptr_addrs unUsageLogs (UsageLogs_addrs F) s (gsp_UsageLogs i) \<union>
       (ptr_addrs unAlerting no_addrs s (gsp_Alerting i) \<union> ptr_addrs unLogs Logs_addrs s (gsp_Logs i))))"

definition MonitoringStatus_addrs :: "'x foreign \<Rightarrow> 'x memory \<Rightarrow> 'x mMonitoringStatus \<Rightarrow> addr set" where
  "MonitoringStatus_addrs F s i =
     fo_addrs F s (gst_Status i) \<union>
     (fo_addrs F s (gst_ComponentReleaseStatus i) \<union> ptr_addrs unStrings no_addrs s (gst_UsageLogsForwarding i))"

definition Monitoring_addrs :: "'x foreign \<Rightarrow> 'x memory \<Rightarrow> 'x mMonitoring \<Rightarrow> addr set" where
  "Monitoring_addrs F s i =
     fo_addrs F s (gmo_ObjectMeta i) \<union> (MonitoringSpec_addrs F s (gmo_Spec i) \<union> MonitoringStatus_addrs F s (gmo_Status i))"

definition MonitoringList_addrs :: "'x foreign \<Rightarrow> 'x memory \<Rightarrow> 'x mMonitoringList \<Rightarrow> addr set" where
  "MonitoringList_addrs F s i =
     fo_addrs F s (gml_ListMeta i) \<union> ptr_addrs unItems (list_addrs (Monitoring_addrs F)) s (gml_Items i)"

subsection \<open>The contract of a deep copy\<close>

definition agree :: "addr set \<Rightarrow> 'x memory \<Rightarrow> 'x memory \<Rightarrow> bool" where
  "agree A s s' \<longleftrightarrow> (\<forall>a \<in> A. mem s' a = mem s a)"

definition extends :: "'x memory \<Rightarrow> 'x memory \<Rightarrow> bool" where
  "extends s s' \<longleftrightarrow> lim s \<le> lim s' \<and> agree {..<lim s} s s'"

lemma extends_refl: "extends s s"
  by (simp add: extends_def agree_def)

lemma extends_trans: "extends s s1 \<Longrightarrow> extends s1 s2 \<Longrightarrow> extends s s2"
  by (auto simp: extends_def agree_def)

lemma extends_agree: "extends s s' \<Longrightarrow> A \<subseteq> {..<lim s} \<Longrightarrow> agree A s s'"
  by (auto simp: extends_def agree_def)

lemma extends_new_cell: "new_cell c s = (a, s') \<Longrightarrow> extends s s'"
  by (auto simp: new_cell_def extends_def agree_def)

lemma agree_mono: "agree A s s' \<Longrightarrow> B \<subseteq> A \<Longrightarrow> agree B s s'"
  by (auto simp: agree_def)

locale deep_copy =
  fixes copy :: "'g \<Rightarrow> 'x memory \<Rightarrow> 'g \<times> 'x memory"
    and view :: "'x memory \<Rightarrow> 'g \<Rightarrow> 'v"
    and addrs :: "'x memory \<Rightarrow> 'g \<Rightarrow> addr set"
  assumes copy_extends: "copy x s = (y, s') \<Longrightarrow> extends s s'"
    and copy_view: "copy x s = (y, s') \<Longrightarrow> addrs s x \<subseteq> {..<lim s} \<Longrightarrow> view s' y = view s x"
    and copy_fresh: "copy x s = (y, s') \<Longrightarrow> addrs s x \<subseteq> {..<lim s} \<Longrightarrow> addrs s' y \<subseteq> {lim s..<lim s'}"
    and view_local: "agree (addrs s x) s s' \<Longrightarrow> view s' x = view s x"
    and addrs_local: "agree (addrs s x) s s' \<Longrightarrow> addrs s' x = addrs s x"
begin

lemma later: "extends s s' \<Longrightarrow> addrs s x \<subseteq> {..<lim s} \<Longrightarrow> view s' x = view s x \<and> addrs s' x = addrs s x"
  using view_local addrs_local extends_agree by blast

text \<open>What a copy gives is kept by whatever only extends the memory.\<close>

lemma followed:
  assumes c: "copy x s = (y, s1)" and b: "addrs s x \<subseteq> {..<lim s}" and e: "extends s1 s'"
  shows "view s' y = view s x" and "addrs s' y \<subseteq> {lim s..<lim s'}"
proof -
  note f = copy_fresh [OF c b]
  then have "addrs s1 y \<subseteq> {..<lim s1}" by auto
  then have "view s' y = view s1 y" "addrs s' y = addrs s1 y" using later [OF e] by auto
  then show "view s' y = view s x" "addrs s' y \<subseteq> {lim s..<lim s'}"
    using copy_view [OF c b] f e by (auto simp: extends_def)
qed

text \<open>A copy is independent: no later write to memory outside the copy changes it.\<close>

lemma independent:
  assumes "copy x s = (y, s')" and "addrs s x \<subseteq> {..<lim s}"
  shows "addrs s' y \<inter> addrs s x = {}" and "view s' x = view s x" and "addrs s' x = addrs s x"
    and "agree (addrs s' y) s' s'' \<Longrightarrow> view s'' y = view s x"
    and "agree (addrs s x) s' s'' \<Longrightarrow> view s'' x = view s x"
proof -
  note e = copy_extends [OF assms(1)]
  show "addrs s' y \<inter> addrs s x = {}"
    using copy_fresh [OF assms] assms(2) by fastforce
  show keep: "view s' x = view s x" "addrs s' x = addrs s x" using later [OF e assms(2)] by auto
  show "agree (addrs s' y) s' s'' \<Longrightarrow> view s'' y = view s x"
    using view_local [of s' y s''] copy_view [OF assms] by simp
  show "agree (addrs s x) s' s'' \<Longrightarrow> view s'' x = view s x"
    using view_local [of s' x s''] keep by simp
qed

end

text \<open>Plain values.\<close>

lemma deep_copy_flat: "deep_copy flat value_of no_addrs"
  by unfold_locales (auto simp: flat_def extends_refl)

text \<open>A field behind a pointer.\<close>

locale pointer_copy = deep_copy copy view addrs
  for copy :: "'g \<Rightarrow> 'x memory \<Rightarrow> 'g \<times> 'x memory" and view :: "'x memory \<Rightarrow> 'g \<Rightarrow> 'v"
    and addrs :: "'x memory \<Rightarrow> 'g \<Rightarrow> addr set" +
  fixes un :: "'x cell \<Rightarrow> 'g" and mk :: "'g \<Rightarrow> 'x cell"
  assumes un_mk: "un (mk v) = v"

sublocale pointer_copy \<subseteq> ptr: deep_copy "copy_ptr un mk copy" "at_ptr un view" "ptr_addrs un addrs"
proof
  fix p q s s'
  assume c: "copy_ptr un mk copy p s = (q, s')"
  show "extends s s'"
    using c by (auto simp: copy_ptr_def extends_refl split: option.splits prod.splits
        intro: extends_trans [OF copy_extends extends_new_cell])
  assume b: "ptr_addrs un addrs s p \<subseteq> {..<lim s}"
  show "at_ptr un view s' q = at_ptr un view s p" and "ptr_addrs un addrs s' q \<subseteq> {lim s..<lim s'}"
  proof (atomize(full), cases p)
    case (Some a)
    then obtain v s1 where v: "copy (un (mem s a)) s = (v, s1)" "q = Some (lim s1)" "new_cell (mk v) s1 = (lim s1, s')"
      using c by (auto simp: copy_ptr_def new_cell_def split: prod.splits)
    have b': "addrs s (un (mem s a)) \<subseteq> {..<lim s}" using b Some by (simp add: ptr_addrs_def)
    have "mem s' (lim s1) = mk v" "lim s' = Suc (lim s1)" using v(3) by (auto simp: new_cell_def)
    moreover have "lim s \<le> lim s1" using copy_extends [OF v(1)] by (simp add: extends_def)
    ultimately show "at_ptr un view s' q = at_ptr un view s p \<and> ptr_addrs un addrs s' q \<subseteq> {lim s..<lim s'}"
      using Some v(2) followed [OF v(1) b' extends_new_cell [OF v(3)]] by (simp add: ptr_addrs_def un_mk)
  qed (use c in \<open>auto simp: copy_ptr_def ptr_addrs_def\<close>)
next
  fix s s' :: "'x memory" and p
  assume ag: "agree (ptr_addrs un addrs s p) s s'"
  show "at_ptr un view s' p = at_ptr un view s p" and "ptr_addrs un addrs s' p = ptr_addrs un addrs s p"
  proof (atomize(full), cases p)
    case (Some a)
    have "mem s' a = mem s a" and l: "agree (addrs s (un (mem s a))) s s'"
      using ag Some by (auto simp: ptr_addrs_def agree_def)
    then show "at_ptr un view s' p = at_ptr un view s p \<and> ptr_addrs un addrs s' p = ptr_addrs un addrs s p"
      using view_local [OF l] addrs_local [OF l] Some by (simp add: ptr_addrs_def)
  qed (simp add: ptr_addrs_def)
qed

text \<open>One copy after the other: the second finds its argument unchanged, the first copy survives it.\<close>

definition copy_pair ::
  "('g \<Rightarrow> 'x memory \<Rightarrow> 'g \<times> 'x memory) \<Rightarrow> ('h \<Rightarrow> 'x memory \<Rightarrow> 'h \<times> 'x memory) \<Rightarrow>
   'g \<times> 'h \<Rightarrow> 'x memory \<Rightarrow> ('g \<times> 'h) \<times> 'x memory" where
  "copy_pair c1 c2 xs s = (let (y, s1) = c1 (fst xs) s; (z, s2) = c2 (snd xs) s1 in ((y, z), s2))"

abbreviation view_pair :: "('x memory \<Rightarrow> 'g \<Rightarrow> 'v) \<Rightarrow> ('x memory \<Rightarrow> 'h \<Rightarrow> 'w) \<Rightarrow> 'x memory \<Rightarrow> 'g \<times> 'h \<Rightarrow> 'v \<times> 'w" where
  "view_pair v1 v2 s xs \<equiv> (v1 s (fst xs), v2 s (snd xs))"

abbreviation pair_addrs :: "('x memory \<Rightarrow> 'g \<Rightarrow> addr set) \<Rightarrow> ('x memory \<Rightarrow> 'h \<Rightarrow> addr set) \<Rightarrow> 'x memory \<Rightarrow> 'g \<times> 'h \<Rightarrow> addr set" where
  "pair_addrs a1 a2 s xs \<equiv> a1 s (fst xs) \<union> a2 s (snd xs)"

locale pair_copy = fst: deep_copy c1 v1 a1 + snd: deep_copy c2 v2 a2
  for c1 :: "'g \<Rightarrow> 'x memory \<Rightarrow> 'g \<times> 'x memory" and v1 :: "'x memory \<Rightarrow> 'g \<Rightarrow> 'v"
    and a1 :: "'x memory \<Rightarrow> 'g \<Rightarrow> addr set" and c2 :: "'h \<Rightarrow> 'x memory \<Rightarrow> 'h \<times> 'x memory"
    and v2 :: "'x memory \<Rightarrow> 'h \<Rightarrow> 'w" and a2 :: "'x memory \<Rightarrow> 'h \<Rightarrow> addr set"

sublocale pair_copy \<subseteq> pair: deep_copy "copy_pair c1 c2" "view_pair v1 v2" "pair_addrs a1 a2"
proof
  fix xs ys s s'
  assume c: "copy_pair c1 c2 xs s = (ys, s')"
  then obtain y z s1 where ys: "ys = (y, z)" and c1: "c1 (fst xs) s = (y, s1)" and c2: "c2 (snd xs) s1 = (z, s')"
    by (auto simp: copy_pair_def split: prod.splits)
  note e1 = fst.copy_extends [OF c1] and e2 = snd.copy_extends [OF c2]
  show "extends s s'" using extends_trans [OF e1 e2] .
  assume b: "pair_addrs a1 a2 s xs \<subseteq> {..<lim s}"
  have unread: "v2 s1 (snd xs) = v2 s (snd xs)" "a2 s1 (snd xs) = a2 s (snd xs)"
    using snd.later [OF e1] b by auto
  have lims: "lim s \<le> lim s1" using e1 by (simp add: extends_def)
  then have b2: "a2 s1 (snd xs) \<subseteq> {..<lim s1}" using b unread(2) by auto
  have b1: "a1 s (fst xs) \<subseteq> {..<lim s}" using b by simp
  show "view_pair v1 v2 s' ys = view_pair v1 v2 s xs"
    using fst.followed(1) [OF c1 b1 e2] snd.copy_view [OF c2 b2] unread(1) ys by simp
  show "pair_addrs a1 a2 s' ys \<subseteq> {lim s..<lim s'}"
    using fst.followed(2) [OF c1 b1 e2] snd.copy_fresh [OF c2 b2] ys lims by fastforce
next
  fix s s' :: "'x memory" and xs
  assume a: "agree (pair_addrs a1 a2 s xs) s s'"
  have "agree (a1 s (fst xs)) s s'" "agree (a2 s (snd xs)) s s'" using a by (auto intro: agree_mono)
  then show "view_pair v1 v2 s' xs = view_pair v1 v2 s xs" "pair_addrs a1 a2 s' xs = pair_addrs a1 a2 s xs"
    using fst.view_local snd.view_local fst.addrs_local snd.addrs_local by auto
qed

text \<open>
  A struct: its copy is the copy of its fields, put back into the struct. What it stands for is
  built from the fields and from the rest, which putting fields back does not change.
\<close>

locale struct_copy = fields: deep_copy c v a
  for c :: "'f \<Rightarrow> 'x memory \<Rightarrow> 'f \<times> 'x memory" and v :: "'x memory \<Rightarrow> 'f \<Rightarrow> 'v" and a :: "'x memory \<Rightarrow> 'f \<Rightarrow> addr set" +
  fixes copy :: "'g \<Rightarrow> 'x memory \<Rightarrow> 'g \<times> 'x memory" and view :: "'x memory \<Rightarrow> 'g \<Rightarrow> 'w"
    and addrs :: "'x memory \<Rightarrow> 'g \<Rightarrow> addr set" and get :: "'g \<Rightarrow> 'f" and put :: "'f \<Rightarrow> 'g \<Rightarrow> 'g"
    and build :: "'g \<Rightarrow> 'v \<Rightarrow> 'w"
  assumes copy_eq: "copy i s = (case c (get i) s of (fs, s') \<Rightarrow> (put fs i, s'))"
    and view_eq: "view s i = build i (v s (get i))" and addrs_eq: "addrs s i = a s (get i)"
    and get_put: "get (put fs i) = fs" and build_put: "build (put fs i) = build i"

sublocale struct_copy \<subseteq> whole: deep_copy copy view addrs
proof
  fix i out s s'
  assume "copy i s = (out, s')"
  then obtain fs where c: "c (get i) s = (fs, s')" and out: "out = put fs i"
    by (auto simp: copy_eq split: prod.splits)
  show "extends s s'" using fields.copy_extends [OF c] .
  assume "addrs s i \<subseteq> {..<lim s}"
  then have b: "a s (get i) \<subseteq> {..<lim s}" by (simp add: addrs_eq)
  show "view s' out = view s i" "addrs s' out \<subseteq> {lim s..<lim s'}"
    using fields.copy_view [OF c b] fields.copy_fresh [OF c b] by (simp_all add: out view_eq addrs_eq get_put build_put)
next
  fix s s' :: "'x memory" and i
  assume "agree (addrs s i) s s'"
  then show "view s' i = view s i" "addrs s' i = addrs s i"
    using fields.view_local fields.addrs_local by (auto simp: view_eq addrs_eq)
qed

text \<open>The entries of a map or slice, in order.\<close>

locale entry_copies = elem: deep_copy copy view addrs
  for copy :: "'g \<Rightarrow> 'x memory \<Rightarrow> 'g \<times> 'x memory" and view :: "'x memory \<Rightarrow> 'g \<Rightarrow> 'v"
    and addrs :: "'x memory \<Rightarrow> 'g \<Rightarrow> addr set"
begin

lemma list_local:
  assumes "agree (list_addrs addrs s vs) s s'"
  shows "map (view s') vs = map (view s) vs \<and> list_addrs addrs s' vs = list_addrs addrs s vs"
proof -
  have "view s' v = view s v \<and> addrs s' v = addrs s v" if "v \<in> set vs" for v
  proof -
    have "agree (addrs s v) s s'" using assms that by (auto simp: list_addrs_def agree_def)
    then show ?thesis using elem.view_local elem.addrs_local by blast
  qed
  then show ?thesis by (auto simp: list_addrs_def)
qed

lemma list_copy:
  assumes "copy_list copy xs s = (ys, s')"
  shows "extends s s' \<and> (list_addrs addrs s xs \<subseteq> {..<lim s} \<longrightarrow>
    map (view s') ys = map (view s) xs \<and> list_addrs addrs s' ys \<subseteq> {lim s..<lim s'})"
  using assms
proof (induction xs arbitrary: s ys)
  case (Cons x xs)
  obtain y s1 ys1 where c: "copy x s = (y, s1)" and cs: "copy_list copy xs s1 = (ys1, s')" and ys: "ys = y # ys1"
    using Cons.prems by (auto split: prod.splits)
  note e1 = elem.copy_extends [OF c] and rest = Cons.IH [OF cs]
  have lims: "lim s \<le> lim s1" using e1 by (simp add: extends_def)
  show ?case
  proof (intro conjI impI)
    show "extends s s'" using extends_trans [OF e1] rest by blast
    assume b: "list_addrs addrs s (x # xs) \<subseteq> {..<lim s}"
    have bx: "addrs s x \<subseteq> {..<lim s}" and bs: "list_addrs addrs s xs \<subseteq> {..<lim s}"
      using b by (auto simp: list_addrs_def)
    have unread: "map (view s1) xs = map (view s) xs" "list_addrs addrs s1 xs = list_addrs addrs s xs"
      using list_local [OF extends_agree [OF e1 bs]] by auto
    have bs1: "list_addrs addrs s1 xs \<subseteq> {..<lim s1}" using bs unread(2) lims by auto
    show "map (view s') ys = map (view s) (x # xs)"
      using elem.followed(1) [OF c bx] rest bs1 unread(1) ys by simp
    have "addrs s' y \<subseteq> {lim s..<lim s'}" using elem.followed(2) [OF c bx] rest by blast
    moreover have "list_addrs addrs s' ys1 \<subseteq> {lim s1..<lim s'}" using rest bs1 by blast
    ultimately show "list_addrs addrs s' ys \<subseteq> {lim s..<lim s'}"
      using ys lims by (fastforce simp: list_addrs_def)
  qed
qed (simp add: extends_refl list_addrs_def)

end

sublocale entry_copies \<subseteq> list: deep_copy "copy_list copy" "\<lambda>s. map (view s)" "list_addrs addrs"
  using list_copy list_local by unfold_locales blast+

subsection \<open>Composing copies\<close>

context pointer_copy
begin

lemma ptr_contract: "deep_copy (copy_ptr un mk copy) (at_ptr un view) (ptr_addrs un addrs)"
  by unfold_locales

end

context pair_copy
begin

lemma pair_contract: "deep_copy (copy_pair c1 c2) (view_pair v1 v2) (pair_addrs a1 a2)"
  by unfold_locales

end

context struct_copy
begin

lemma struct_contract: "deep_copy copy view addrs"
  by unfold_locales

end

context entry_copies
begin

lemma list_contract: "deep_copy (copy_list copy) (\<lambda>s. map (view s)) (list_addrs addrs)"
  by unfold_locales

end

lemma deep_copy_ptr:
  assumes "deep_copy copy view addrs" and "\<And>v. un (mk v) = v"
  shows "deep_copy (copy_ptr un mk copy) (at_ptr un view) (ptr_addrs un addrs)"
  by (intro pointer_copy.ptr_contract pointer_copy.intro pointer_copy_axioms.intro assms)

lemma deep_copy_pair:
  assumes "deep_copy c1 v1 a1" and "deep_copy c2 v2 a2"
  shows "deep_copy (copy_pair c1 c2) (view_pair v1 v2) (pair_addrs a1 a2)"
  by (intro pair_copy.pair_contract pair_copy.intro assms)

lemma deep_copy_list:
  assumes "deep_copy copy view addrs"
  shows "deep_copy (copy_list copy) (\<lambda>s. map (view s)) (list_addrs addrs)"
  by (intro entry_copies.list_contract entry_copies.intro assms)

lemma deep_copy_struct:
  assumes "deep_copy c v a" and "\<And>i s. copy i s = (case c (get i) s of (fs, s') \<Rightarrow> (put fs i, s'))"
    and "\<And>s i. view s i = build i (v s (get i))" and "\<And>s i. addrs s i = a s (get i)"
    and "\<And>fs i. get (put fs i) = fs" and "\<And>fs i. build (put fs i) = build i"
  shows "deep_copy copy view addrs"
proof -
  have "struct_copy c v a copy view addrs get put build"
    by (rule struct_copy.intro [OF assms(1)], rule struct_copy_axioms.intro) (rule assms)+
  then show ?thesis by (rule struct_copy.struct_contract)
qed

lemma deep_copy_entry:
  assumes "deep_copy copy view addrs"
  shows "deep_copy (copy_entry copy) (\<lambda>s e. (fst e, view s (snd e))) (entry_addrs addrs)"
  by (rule deep_copy_struct [OF assms, where get = snd and put = "\<lambda>v e. (fst e, v)" and build = "\<lambda>e v. (fst e, v)"])
     (auto simp: copy_entry_def)

text \<open>Fields behind a pointer whose contents are plain.\<close>

lemmas plain_field = deep_copy_ptr [OF deep_copy_flat]

lemmas bool_field = plain_field [of unBool CBool, OF cell.sel(1)]
lemmas strings_field = plain_field [of unStrings CStrings, OF cell.sel(2)]
lemmas alerting_field = plain_field [of unAlerting CAlerting, OF cell.sel(5)]
lemmas loki_field = plain_field [of unLokiStorageConfig CLokiStorageConfig, OF cell.sel(6)]
lemmas traces_storage_field = plain_field [of unTracesStorage CTracesStorage, OF cell.sel(7)]
lemmas traces_tls_field = plain_field [of unTracesTLS CTracesTLS, OF cell.sel(8)]
lemmas attributes_field =
  deep_copy_ptr [OF deep_copy_list [OF deep_copy_entry [OF deep_copy_flat]], of unStringMap CStringMap, OF cell.sel(3)]

interpretation logs: deep_copy Logs_DeepCopyInto Logs_at Logs_addrs
  by (rule deep_copy_struct [OF deep_copy_pair [OF loki_field strings_field],
        where get = "\<lambda>i. (glg_Storage i, glg_InferenceNamespaces i)"
          and put = "\<lambda>(p, q) i. i\<lparr>glg_Storage := p, glg_InferenceNamespaces := q\<rparr>"
          and build = "\<lambda>i (p, q). \<lparr>lg_Storage = p, lg_Size = glg_Size i, lg_InferenceNamespaces = listed q\<rparr>"])
     (auto simp: Logs_DeepCopyInto_def copy_pair_def Logs_at_def Logs_addrs_def split: prod.split)

text \<open>
  What is asked of the other packages: their copies are deep copies, for whatever their structs stand
  for.
\<close>

locale foreign_copies =
  fixes F :: "'x foreign"
  assumes quantity: "deep_copy (fo_DeepCopy F) (fo_Quantity F) (fo_addrs F)"
    and raw_extension: "deep_copy (fo_DeepCopy F) (fo_RawExtension F) (fo_addrs F)"
    and object_meta: "deep_copy (fo_DeepCopy F) (fo_ObjectMeta F) (fo_addrs F)"
    and list_meta: "deep_copy (fo_DeepCopy F) (fo_ListMeta F) (fo_addrs F)"
    and status: "deep_copy (fo_DeepCopy F) (fo_Status F) (fo_addrs F)"
    and releases: "deep_copy (fo_DeepCopy F) (fo_Releases F) (fo_addrs F)"
begin

lemmas exporters_field =
  deep_copy_ptr [OF deep_copy_list [OF deep_copy_entry [OF raw_extension]], of unExtensions CExtensions, OF cell.sel(4)]

end

sublocale foreign_copies \<subseteq> metrics_storage: deep_copy "MetricsStorage_DeepCopyInto F" "MetricsStorage_at F" "MetricsStorage_addrs F"
  by (rule deep_copy_struct [OF quantity, where get = gms_Size and put = "\<lambda>q i. i\<lparr>gms_Size := q\<rparr>"
          and build = "\<lambda>i q. \<lparr>ms_Size = q, ms_Retention = gms_Retention i\<rparr>"])
     (auto simp: MetricsStorage_DeepCopyInto_def MetricsStorage_at_def MetricsStorage_addrs_def)

sublocale foreign_copies \<subseteq> metrics: deep_copy "Metrics_DeepCopyInto F" "Metrics_at F" "Metrics_addrs F"
  by (rule deep_copy_struct [OF deep_copy_pair [OF
            deep_copy_ptr [OF metrics_storage.deep_copy_axioms, of unMetricsStorage CMetricsStorage, OF cell.sel(9)]
            deep_copy_pair [OF bool_field exporters_field]],
        where get = "\<lambda>i. (gmt_Storage i, gmt_BuiltinDCGMScrapeEnabled i, gmt_Exporters i)"
          and put = "\<lambda>(p, q, r) i. i\<lparr>gmt_Storage := p, gmt_BuiltinDCGMScrapeEnabled := q, gmt_Exporters := r\<rparr>"
          and build = "\<lambda>i (p, q, r). \<lparr>mt_Storage = p, mt_BuiltinDCGMScrapeEnabled = q, mt_Replicas = gmt_Replicas i,
            mt_Exporters = listed r\<rparr>"])
     (auto simp: Metrics_DeepCopyInto_def copy_pair_def Metrics_at_def Metrics_addrs_def split: prod.split)

sublocale foreign_copies \<subseteq> traces: deep_copy "Traces_DeepCopyInto F" "Traces_at F" "Traces_addrs F"
  by (rule deep_copy_struct [OF deep_copy_pair [OF traces_storage_field deep_copy_pair [OF traces_tls_field exporters_field]],
        where get = "\<lambda>i. (gtr_Storage i, gtr_TLS i, gtr_Exporters i)"
          and put = "\<lambda>(p, q, r) i. i\<lparr>gtr_Storage := p, gtr_TLS := q, gtr_Exporters := r\<rparr>"
          and build = "\<lambda>i (p, q, r). \<lparr>tr_Storage = p, tr_SampleRatio = gtr_SampleRatio i, tr_TLS = q,
            tr_Exporters = listed r\<rparr>"])
     (auto simp: Traces_DeepCopyInto_def copy_pair_def Traces_at_def Traces_addrs_def split: prod.split)

sublocale foreign_copies \<subseteq> usage_logs: deep_copy "UsageLogs_DeepCopyInto F" "UsageLogs_at F" "UsageLogs_addrs F"
  by (rule deep_copy_struct [OF deep_copy_pair [OF loki_field deep_copy_pair [OF exporters_field attributes_field]],
        where get = "\<lambda>i. (gul_Storage i, gul_Exporters i, gul_Attributes i)"
          and put = "\<lambda>(p, q, r) i. i\<lparr>gul_Storage := p, gul_Exporters := q, gul_Attributes := r\<rparr>"
          and build = "\<lambda>i (p, q, r). \<lparr>ul_Storage = p, ul_Size = gul_Size i, ul_Exporters = listed q,
            ul_CredentialSecret = gul_CredentialSecret i, ul_Attributes = listed r\<rparr>"])
     (auto simp: UsageLogs_DeepCopyInto_def copy_pair_def UsageLogs_at_def UsageLogs_addrs_def split: prod.split)

sublocale foreign_copies \<subseteq> spec: deep_copy "MonitoringSpec_DeepCopyInto F" "MonitoringSpec_at F" "MonitoringSpec_addrs F"
  by (rule deep_copy_struct [OF
          deep_copy_pair [OF deep_copy_ptr [OF metrics.deep_copy_axioms, of unMetrics CMetrics, OF cell.sel(10)]
          deep_copy_pair [OF deep_copy_ptr [OF traces.deep_copy_axioms, of unTraces CTraces, OF cell.sel(11)]
          deep_copy_pair [OF deep_copy_ptr [OF usage_logs.deep_copy_axioms, of unUsageLogs CUsageLogs, OF cell.sel(13)]
          deep_copy_pair [OF alerting_field
            deep_copy_ptr [OF logs.deep_copy_axioms, of unLogs CLogs, OF cell.sel(12)]]]]],
        where get = "\<lambda>i. (gsp_Metrics i, gsp_Traces i, gsp_UsageLogs i, gsp_Alerting i, gsp_Logs i)"
          and put = "\<lambda>(p, q, r, t, u) i. i\<lparr>gsp_Metrics := p, gsp_Traces := q, gsp_UsageLogs := r, gsp_Alerting := t, gsp_Logs := u\<rparr>"
          and build = "\<lambda>i (p, q, r, t, u). \<lparr>sp_ManagementState = gsp_ManagementState i, sp_Namespace = gsp_Namespace i,
            sp_Metrics = p, sp_Traces = q, sp_UsageLogs = r, sp_Alerting = t, sp_Logs = u,
            sp_CollectorReplicas = gsp_CollectorReplicas i\<rparr>"])
     (auto simp: MonitoringSpec_DeepCopyInto_def copy_pair_def MonitoringSpec_at_def MonitoringSpec_addrs_def split: prod.split)

sublocale foreign_copies \<subseteq> status: deep_copy "MonitoringStatus_DeepCopyInto F" "MonitoringStatus_at F" "MonitoringStatus_addrs F"
  by (rule deep_copy_struct [OF deep_copy_pair [OF status deep_copy_pair [OF releases strings_field]],
        where get = "\<lambda>i. (gst_Status i, gst_ComponentReleaseStatus i, gst_UsageLogsForwarding i)"
          and put = "\<lambda>(p, q, r) i. i\<lparr>gst_Status := p, gst_ComponentReleaseStatus := q, gst_UsageLogsForwarding := r\<rparr>"
          and build = "\<lambda>i (p, q, r). \<lparr>st_Conditions = ps_Conditions p, st_Phase = ps_Phase p,
            st_ObservedGeneration = ps_ObservedGeneration p, st_Releases = q, st_URL = gst_URL i,
            st_UsageLogsEndpoint = gst_UsageLogsEndpoint i, st_LogsEndpoint = gst_LogsEndpoint i,
            st_UsageLogsForwarding = listed r\<rparr>"])
     (auto simp: MonitoringStatus_DeepCopyInto_def copy_pair_def MonitoringStatus_at_def MonitoringStatus_addrs_def
        Let_def split: prod.split)

sublocale foreign_copies \<subseteq> monitoring: deep_copy "Monitoring_DeepCopyInto F" "Monitoring_at F" "Monitoring_addrs F"
  by (rule deep_copy_struct [OF deep_copy_pair [OF object_meta
            deep_copy_pair [OF spec.deep_copy_axioms status.deep_copy_axioms]],
        where get = "\<lambda>i. (gmo_ObjectMeta i, gmo_Spec i, gmo_Status i)"
          and put = "\<lambda>(p, q, r) i. i\<lparr>gmo_ObjectMeta := p, gmo_Spec := q, gmo_Status := r\<rparr>"
          and build = "\<lambda>i (p, q, r). \<lparr>mo_Name = om_Name p, mo_UID = om_UID p, mo_Generation = om_Generation p,
            mo_Deleting = om_Deleting p, mo_Finalizers = om_Finalizers p, mo_Spec = q, mo_Status = r\<rparr>"])
     (auto simp: Monitoring_DeepCopyInto_def copy_pair_def Monitoring_at_def Monitoring_addrs_def Let_def split: prod.split)

sublocale foreign_copies \<subseteq> monitoring_list: deep_copy "MonitoringList_DeepCopyInto F" "MonitoringList_at F" "MonitoringList_addrs F"
  by (rule deep_copy_struct [OF deep_copy_pair [OF list_meta
            deep_copy_ptr [OF deep_copy_list [OF monitoring.deep_copy_axioms], of unItems CItems, OF cell.sel(17)]],
        where get = "\<lambda>i. (gml_ListMeta i, gml_Items i)"
          and put = "\<lambda>(p, q) i. i\<lparr>gml_ListMeta := p, gml_Items := q\<rparr>"
          and build = "\<lambda>i (p, q). (p, listed q)"])
     (auto simp: MonitoringList_DeepCopyInto_def copy_pair_def MonitoringList_at_def MonitoringList_addrs_def split: prod.split)

subsection \<open>Every \<open>DeepCopy\<close> method\<close>

lemma flat_methods:
  "Alerting_DeepCopyInto = flat" "LokiStorageConfig_DeepCopyInto = flat" "TracesTLS_DeepCopyInto = flat"
  "TracesStorage_DeepCopyInto = flat"
  by (simp_all add: fun_eq_iff flat_def Alerting_DeepCopyInto_def LokiStorageConfig_DeepCopyInto_def
      TracesTLS_DeepCopyInto_def TracesStorage_DeepCopyInto_def)

interpretation alerting_copy: deep_copy Alerting_DeepCopy "at_ptr unAlerting value_of" "ptr_addrs unAlerting no_addrs"
  unfolding Alerting_DeepCopy_def flat_methods by (rule alerting_field)

interpretation loki_copy: deep_copy LokiStorageConfig_DeepCopy "at_ptr unLokiStorageConfig value_of"
    "ptr_addrs unLokiStorageConfig no_addrs"
  unfolding LokiStorageConfig_DeepCopy_def flat_methods by (rule loki_field)

interpretation traces_storage_copy: deep_copy TracesStorage_DeepCopy "at_ptr unTracesStorage value_of"
    "ptr_addrs unTracesStorage no_addrs"
  unfolding TracesStorage_DeepCopy_def flat_methods by (rule traces_storage_field)

interpretation traces_tls_copy: deep_copy TracesTLS_DeepCopy "at_ptr unTracesTLS value_of" "ptr_addrs unTracesTLS no_addrs"
  unfolding TracesTLS_DeepCopy_def flat_methods by (rule traces_tls_field)

interpretation logs_copy: deep_copy Logs_DeepCopy "at_ptr unLogs Logs_at" "ptr_addrs unLogs Logs_addrs"
  unfolding Logs_DeepCopy_def by (rule deep_copy_ptr [OF logs.deep_copy_axioms]) simp

context foreign_copies
begin

lemma pointer_methods:
  "deep_copy (MetricsStorage_DeepCopy F) (at_ptr unMetricsStorage (MetricsStorage_at F)) (ptr_addrs unMetricsStorage (MetricsStorage_addrs F))"
  "deep_copy (Metrics_DeepCopy F) (at_ptr unMetrics (Metrics_at F)) (ptr_addrs unMetrics (Metrics_addrs F))"
  "deep_copy (Traces_DeepCopy F) (at_ptr unTraces (Traces_at F)) (ptr_addrs unTraces (Traces_addrs F))"
  "deep_copy (UsageLogs_DeepCopy F) (at_ptr unUsageLogs (UsageLogs_at F)) (ptr_addrs unUsageLogs (UsageLogs_addrs F))"
  "deep_copy (MonitoringSpec_DeepCopy F) (at_ptr unMonitoringSpec (MonitoringSpec_at F)) (ptr_addrs unMonitoringSpec (MonitoringSpec_addrs F))"
  "deep_copy (MonitoringStatus_DeepCopy F) (at_ptr unMonitoringStatus (MonitoringStatus_at F)) (ptr_addrs unMonitoringStatus (MonitoringStatus_addrs F))"
  "deep_copy (Monitoring_DeepCopy F) (at_ptr unMonitoring (Monitoring_at F)) (ptr_addrs unMonitoring (Monitoring_addrs F))"
  "deep_copy (MonitoringList_DeepCopy F) (at_ptr unMonitoringList (MonitoringList_at F)) (ptr_addrs unMonitoringList (MonitoringList_addrs F))"
  unfolding MetricsStorage_DeepCopy_def Metrics_DeepCopy_def Traces_DeepCopy_def UsageLogs_DeepCopy_def
    MonitoringSpec_DeepCopy_def MonitoringStatus_DeepCopy_def Monitoring_DeepCopy_def MonitoringList_DeepCopy_def
  by (rule deep_copy_ptr, rule metrics_storage.deep_copy_axioms metrics.deep_copy_axioms traces.deep_copy_axioms
      usage_logs.deep_copy_axioms spec.deep_copy_axioms status.deep_copy_axioms monitoring.deep_copy_axioms
      monitoring_list.deep_copy_axioms, simp)+

end

lemma DeepCopyObject_DeepCopy:
  "Monitoring_DeepCopyObject F = Monitoring_DeepCopy F" "MonitoringList_DeepCopyObject F = MonitoringList_DeepCopy F"
  by (simp_all add: fun_eq_iff Monitoring_DeepCopyObject_def MonitoringList_DeepCopyObject_def split: prod.split option.split)

abbreviation monitoring_value :: "'x foreign \<Rightarrow> 'x memory \<Rightarrow> addr \<Rightarrow> Monitoring" where
  "monitoring_value F s a \<equiv> Monitoring_at F s (unMonitoring (mem s a))"

abbreviation monitoring_cells :: "'x foreign \<Rightarrow> 'x memory \<Rightarrow> addr \<Rightarrow> addr set" where
  "monitoring_cells F s a \<equiv> ptr_addrs unMonitoring (Monitoring_addrs F) s (Some a)"

text \<open>
  C6: a deep copy of a Monitoring object shares nothing with it. The copy stands for the same value,
  in cells disjoint from those of the original, which keeps its value. Whatever is written later
  outside the copy, to the original in particular, leaves the value of the copy; and whatever is
  written outside the original leaves the value of the original. So the base of a patch still is the
  object before the changes when the patch is computed.
\<close>

theorem deep_copy_shares_nothing:
  assumes lib: "foreign_copies F" and alloc: "monitoring_cells F s a \<subseteq> {..<lim s}"
    and copy: "Monitoring_DeepCopy F (Some a) s = (q, s')"
  shows "\<exists>b. q = Some b \<and> monitoring_value F s' b = monitoring_value F s a \<and>
           monitoring_cells F s' b \<inter> monitoring_cells F s a = {} \<and>
           monitoring_value F s' a = monitoring_value F s a \<and>
           (\<forall>s''. agree (monitoring_cells F s' b) s' s'' \<longrightarrow> monitoring_value F s'' b = monitoring_value F s a) \<and>
           (\<forall>s''. agree (monitoring_cells F s a) s' s'' \<longrightarrow> monitoring_value F s'' a = monitoring_value F s a)"
proof -
  note contract = foreign_copies.pointer_methods(7) [OF lib]
  obtain b where b: "q = Some b"
    using copy by (auto simp: Monitoring_DeepCopy_def copy_ptr_def split: prod.splits)
  note ind = deep_copy.independent [OF contract copy alloc] deep_copy.copy_view [OF contract copy alloc]
  show ?thesis
    using ind by (intro exI [of _ b]) (auto simp: b)
qed

text \<open>
  A stand-in for the other packages: a value is plain text, or a pointer to a list of texts, which a
  copy allocates anew.
\<close>

datatype sample_ext = SFlat string | SRef addr

definition sample_texts :: "sample_ext memory \<Rightarrow> sample_ext \<Rightarrow> string list" where
  "sample_texts s v = (case v of SFlat t \<Rightarrow> [t] | SRef a \<Rightarrow> (case mem s a of CStrings ts \<Rightarrow> ts | _ \<Rightarrow> []))"

definition sample_foreign :: "sample_ext foreign" where
  "sample_foreign =
     \<lparr>fo_DeepCopy = (\<lambda>v s. case v of SFlat t \<Rightarrow> (SFlat t, s) | SRef a \<Rightarrow> (let (b, s1) = new_cell (mem s a) s in (SRef b, s1))),
      fo_addrs = (\<lambda>s v. case v of SFlat _ \<Rightarrow> {} | SRef a \<Rightarrow> {a}),
      fo_Quantity = (\<lambda>s v. concat (sample_texts s v)),
      fo_RawExtension = (\<lambda>s v. \<lparr>Raw = concat (sample_texts s v), Object = None\<rparr>),
      fo_ObjectMeta = (\<lambda>s v. \<lparr>om_Name = MonitoringInstanceName, om_UID = '''', om_Generation = 1, om_Deleting = False,
        om_Finalizers = sample_texts s v\<rparr>),
      fo_ListMeta = (\<lambda>s v. concat (sample_texts s v)),
      fo_Status = (\<lambda>s v. \<lparr>ps_Conditions = [], ps_Phase = PhaseUnset, ps_ObservedGeneration = 0\<rparr>),
      fo_Releases = (\<lambda>s v. [])\<rparr>"

lemma sample_copy:
  assumes "\<And>s v. view s v = g (sample_texts s v)"
  shows "deep_copy (fo_DeepCopy sample_foreign) view (fo_addrs sample_foreign)"
  by unfold_locales
     (auto simp: assms sample_foreign_def sample_texts_def new_cell_def extends_def agree_def
       split: sample_ext.splits)

interpretation sample: foreign_copies sample_foreign
proof (rule foreign_copies.intro)
  show "deep_copy (fo_DeepCopy sample_foreign) (fo_Quantity sample_foreign) (fo_addrs sample_foreign)"
    "deep_copy (fo_DeepCopy sample_foreign) (fo_ListMeta sample_foreign) (fo_addrs sample_foreign)"
    by (rule sample_copy [where g = concat], simp add: sample_foreign_def)+
  show "deep_copy (fo_DeepCopy sample_foreign) (fo_RawExtension sample_foreign) (fo_addrs sample_foreign)"
    by (rule sample_copy [where g = "\<lambda>ts. \<lparr>Raw = concat ts, Object = None\<rparr>"]) (simp add: sample_foreign_def)
  show "deep_copy (fo_DeepCopy sample_foreign) (fo_ObjectMeta sample_foreign) (fo_addrs sample_foreign)"
    by (rule sample_copy [where g = "\<lambda>ts. \<lparr>om_Name = MonitoringInstanceName, om_UID = '''', om_Generation = 1,
      om_Deleting = False, om_Finalizers = ts\<rparr>"]) (simp add: sample_foreign_def)
  show "deep_copy (fo_DeepCopy sample_foreign) (fo_Status sample_foreign) (fo_addrs sample_foreign)"
    "deep_copy (fo_DeepCopy sample_foreign) (fo_Releases sample_foreign) (fo_addrs sample_foreign)"
    by (rule sample_copy [where g = "\<lambda>_. \<lparr>ps_Conditions = [], ps_Phase = PhaseUnset, ps_ObservedGeneration = 0\<rparr>"]
        sample_copy [where g = "\<lambda>_. []"], simp add: sample_foreign_def)+
qed

text \<open>An object with a finalizer list, a usage log section and an attribute map, at addresses 3 to 0.\<close>

definition sample_memory :: "sample_ext memory" where
  "sample_memory =
     \<lparr>mem = (\<lambda>a. if a = 0 then CStrings [''finalizer''] else if a = 1 then CStringMap [(''team'', ''a'')]
        else if a = 2 then CUsageLogs \<lparr>gul_Storage = None, gul_Size = '''', gul_Exporters = None,
          gul_CredentialSecret = '''', gul_Attributes = Some 1\<rparr>
        else CMonitoring \<lparr>gmo_TypeMeta = ('''', ''''), gmo_ObjectMeta = SRef 0,
          gmo_Spec = \<lparr>gsp_ManagementState = ''Managed'', gsp_Namespace = '''', gsp_Metrics = None, gsp_Traces = None,
            gsp_UsageLogs = Some 2, gsp_Alerting = None, gsp_Logs = None, gsp_CollectorReplicas = 0\<rparr>,
          gmo_Status = \<lparr>gst_Status = SFlat '''', gst_ComponentReleaseStatus = SFlat '''', gst_URL = '''',
            gst_UsageLogsEndpoint = '''', gst_LogsEndpoint = '''', gst_UsageLogsForwarding = None\<rparr>\<rparr>),
      lim = 4\<rparr>"

lemmas sample_cells =
  ptr_addrs_def list_addrs_def Monitoring_addrs_def MonitoringSpec_addrs_def MonitoringStatus_addrs_def UsageLogs_addrs_def

theorem deep_copy_shares_nothing_witness:
  "\<exists>b s'. Monitoring_DeepCopy sample_foreign (Some 3) sample_memory = (Some b, s') \<and>
     monitoring_value sample_foreign (s'\<lparr>mem := (mem s')(0 := CStrings [])\<rparr>) b =
       monitoring_value sample_foreign sample_memory 3"
proof -
  have cells: "monitoring_cells sample_foreign sample_memory 3 = {0, 1, 2, 3}"
    by (auto simp: sample_cells sample_memory_def sample_foreign_def)
  then have alloc: "monitoring_cells sample_foreign sample_memory 3 \<subseteq> {..<lim sample_memory}"
    by (auto simp: sample_memory_def)
  obtain q s' where c: "Monitoring_DeepCopy sample_foreign (Some 3) sample_memory = (q, s')" by force
  from deep_copy_shares_nothing [OF sample.foreign_copies_axioms alloc c] obtain b where b: "q = Some b"
    "monitoring_cells sample_foreign s' b \<inter> {0, 1, 2, 3} = {}"
    "\<And>s''. agree (monitoring_cells sample_foreign s' b) s' s'' \<Longrightarrow>
       monitoring_value sample_foreign s'' b = monitoring_value sample_foreign sample_memory 3"
    unfolding cells by blast
  have "agree (monitoring_cells sample_foreign s' b) s' (s'\<lparr>mem := (mem s')(0 := CStrings [])\<rparr>)"
    using b(2) by (auto simp: agree_def)
  from b(3) [OF this] show ?thesis using c b(1) by blast
qed

end
