(* ===== verification/Webhook_Tls.thy ===== *)
theory Webhook_Tls
  imports Go_Prelude
begin

section \<open>TLS of the webhook listener (cmd/tls.go, cmd/main.go)\<close>

text \<open>
  How the webhook's TLS settings are chosen at start-up, and how the process finds out that it should
  restart to choose again. The TLS library of the platform (loading the API server's profile,
  validating and converting it) is the parameter \<open>tls_lib\<close>; a profile and a converted
  configuration are opaque. One answer of \<open>LoadWithAdherence\<close> is a value of type \<open>'p load_result
  result\<close>. The gauge is the metric \<open>webhookTLSDegraded\<close>. Logging is left out.
\<close>

subsection \<open>Types\<close>

record 'p load_result =
  lr_Spec :: 'p
  lr_AdherencePolicy :: string
  lr_UsedFallback :: bool
  lr_Watchable :: bool

record ('p, 'c) tls_lib =
  ShouldHonorClusterTLSProfile :: "string \<Rightarrow> bool"
  ValidateStrictTLSProfile :: "'p \<Rightarrow> go_error option"
  ConfigFromProfileWithError :: "'p \<Rightarrow> ('c \<times> string list) result"
  IntermediateProfile :: 'p
  StrictAllComponents :: string
  HTTP1NextProtos :: "string list"

datatype 'c tls_opt = ProfileConfig 'c | SetNextProtos "string list"

record ('p, 'c) webhookTLSResult =
  wt_TLSOpts :: "'c tls_opt list"
  wt_Profile :: 'p
  wt_AdherencePolicy :: string
  wt_Watchable :: bool
  wt_Degraded :: bool

record 'p webhookTLSLoadDecision =
  ld_standIn :: bool
  ld_reason :: string
  ld_load :: "'p load_result option"
  ld_err :: "go_error option"

datatype webhookTLSStandInLeaveReason =
    webhookTLSStandInKeep
  | webhookTLSStandInLeaveHealthy
  | webhookTLSStandInLeaveFailClosed

subsection \<open>Classifying an answer\<close>

text \<open>The reason of a status error may be empty, which the library reads as unknown.\<close>

definition isAPIServerTLSAPIStatusError :: "go_error \<Rightarrow> bool" where
  "isAPIServerTLSAPIStatusError err \<longleftrightarrow> ReasonForError err \<notin> {None, Some (OtherReason '''')}"

definition isRetriableWebhookTLSLoadError :: "go_error \<Rightarrow> bool" where
  "isRetriableWebhookTLSLoadError err =
     (if errors_Is err errDeadlineExceeded \<or> errors_Is err errCanceled then True
      else errors_As (\<lambda>k. k = NetError) err \<noteq> None)"

definition decideWebhookTLSLoad :: "'p load_result result \<Rightarrow> 'p webhookTLSLoadDecision" where
  "decideWebhookTLSLoad answer =
     (case answer of
        Inl err \<Rightarrow>
          (let retriable = isRetriableWebhookTLSLoadError err in
           if isAPIServerTLSAPIStatusError err \<or> retriable then
             \<lparr>ld_standIn = True,
              ld_reason = (if ReasonForError err = Some Forbidden \<or> ReasonForError err = Some Unauthorized
                           then ''denied or unauthorized APIServer TLS read''
                           else if retriable then ''retriable APIServer TLS transport error''
                           else ''unexpected APIServer TLS API error''),
              ld_load = None, ld_err = None\<rparr>
           else \<lparr>ld_standIn = False, ld_reason = '''', ld_load = None,
                 ld_err = Some (wrapf ''unable to load APIServer TLS profile and adherence for webhook: '' err)\<rparr>)
      | Inr load \<Rightarrow>
          if lr_UsedFallback load \<and> lr_Watchable load then
            \<lparr>ld_standIn = True, ld_reason = ''transient API error'', ld_load = Some load, ld_err = None\<rparr>
          else \<lparr>ld_standIn = False, ld_reason = '''', ld_load = Some load, ld_err = None\<rparr>)"

subsection \<open>Choosing the settings\<close>

definition buildWebhookTLSOptsWith ::
  "('p, 'c) tls_lib \<Rightarrow> ('p \<Rightarrow> ('c \<times> string list) result) \<Rightarrow> 'p \<Rightarrow> string \<Rightarrow> ('c tls_opt list \<times> string list) result" where
  "buildWebhookTLSOptsWith L configure profile adherence =
     (if \<not> ShouldHonorClusterTLSProfile L adherence then Inr ([], [])
      else (case ValidateStrictTLSProfile L profile of
          Some err \<Rightarrow> Inl (wrapf ''invalid APIServer TLS profile for webhook under Strict adherence: '' err)
        | None \<Rightarrow>
            (case configure profile of
               Inl err \<Rightarrow> Inl (wrapf ''unable to build webhook TLS config from APIServer profile: '' err)
             | Inr (tlsConfigFn, unsupported) \<Rightarrow>
                 Inr ([ProfileConfig tlsConfigFn, SetNextProtos (HTTP1NextProtos L)], unsupported))))"

definition buildWebhookTLSOpts ::
  "('p, 'c) tls_lib \<Rightarrow> 'p \<Rightarrow> string \<Rightarrow> ('c tls_opt list \<times> string list) result" where
  "buildWebhookTLSOpts L profile adherence =
     buildWebhookTLSOptsWith L (ConfigFromProfileWithError L) profile adherence"

text \<open>
  The choices return the new value of the gauge beside their result. A decision with neither error
  nor stand-in carries a load (\<open>decision_load\<close> below): the branch for a missing one, the zero value
  of the struct, is never taken.
\<close>

definition strictStandInWebhookTLS ::
  "('p, 'c) tls_lib \<Rightarrow> string \<Rightarrow> nat \<Rightarrow> nat \<times> ('p, 'c) webhookTLSResult result" where
  "strictStandInWebhookTLS L reason gauge =
     (case buildWebhookTLSOpts L (IntermediateProfile L) (StrictAllComponents L) of
        Inl err \<Rightarrow>
          (gauge, Inl (wrapf (''unable to apply Strict Intermediate webhook TLS after '' @ reason @ '': '') err))
      | Inr (tlsOpts, _) \<Rightarrow>
          (1, Inr \<lparr>wt_TLSOpts = tlsOpts, wt_Profile = IntermediateProfile L,
                   wt_AdherencePolicy = StrictAllComponents L, wt_Watchable = False, wt_Degraded = True\<rparr>))"

definition evaluateWebhookTLS ::
  "('p, 'c) tls_lib \<Rightarrow> 'p load_result result \<Rightarrow> nat \<Rightarrow> nat \<times> ('p, 'c) webhookTLSResult result" where
  "evaluateWebhookTLS L answer gauge =
     (let decision = decideWebhookTLSLoad answer in
      case ld_err decision of
        Some err \<Rightarrow> (gauge, Inl err)
      | None \<Rightarrow>
          if ld_standIn decision then strictStandInWebhookTLS L (ld_reason decision) gauge
          else (case ld_load decision of
              None \<Rightarrow> (gauge, Inl (errors_New '''')) 
            | Some load \<Rightarrow>
                (case buildWebhookTLSOpts L (lr_Spec load) (lr_AdherencePolicy load) of
                   Inl err \<Rightarrow> (gauge, Inl (wrapf ''unable to apply APIServer TLS profile to webhook: '' err))
                 | Inr (tlsOpts, _) \<Rightarrow>
                     (0, Inr \<lparr>wt_TLSOpts = tlsOpts, wt_Profile = lr_Spec load,
                              wt_AdherencePolicy = lr_AdherencePolicy load, wt_Watchable = lr_Watchable load,
                              wt_Degraded = False\<rparr>))))"

definition resolveWebhookTLS ::
  "('p, 'c) tls_lib \<Rightarrow> go_error option \<Rightarrow> 'p load_result result \<Rightarrow> nat \<Rightarrow> nat \<times> ('p, 'c) webhookTLSResult result" where
  "resolveWebhookTLS L clientErr answer gauge =
     (case clientErr of
        Some err \<Rightarrow> (gauge, Inl (wrapf ''unable to create bootstrap client for webhook TLS profile: '' err))
      | None \<Rightarrow> evaluateWebhookTLS L answer gauge)"

record 'c webhook_options =
  wo_Port :: nat
  wo_CertDir :: string
  wo_TLSOpts :: "'c tls_opt list"

definition webhookServerOptions :: "('p, 'c) webhookTLSResult \<Rightarrow> string \<Rightarrow> 'c webhook_options" where
  "webhookServerOptions webhookTLS certDir =
     (let opts = \<lparr>wo_Port = 9443, wo_CertDir = certDir, wo_TLSOpts = []\<rparr> in
      if length (wt_TLSOpts webhookTLS) = 0 then opts else opts\<lparr>wo_TLSOpts := wt_TLSOpts webhookTLS\<rparr>)"

subsection \<open>Reloading\<close>

definition needsWebhookTLSReload :: "('p, 'c) webhookTLSResult \<Rightarrow> bool" where
  "needsWebhookTLSReload tlsResult \<longleftrightarrow> wt_Degraded tlsResult \<or> wt_Watchable tlsResult"

text \<open>The background task that is registered, or the error of registering it.\<close>

datatype reload_task = SecurityProfileWatcher bool | RecoveryPoller

definition configureWebhookTLSReload ::
  "('p, 'c) webhookTLSResult \<Rightarrow> reload_task result \<Rightarrow> reload_task result \<Rightarrow> reload_task result" where
  "configureWebhookTLSReload tlsResult setupWatcher addRecoveryPoller =
     (if wt_Degraded tlsResult then
        (case addRecoveryPoller of
           Inl err \<Rightarrow> Inl (wrapf ''unable to register webhook TLS recovery poller: '' err)
         | Inr t \<Rightarrow> Inr t)
      else (case setupWatcher of
          Inl err \<Rightarrow> Inl (wrapf ''unable to register TLS security profile watcher for webhook: '' err)
        | Inr t \<Rightarrow> Inr t))"

text \<open>
  The watcher asks for a restart on a change of the adherence policy and, when the profile is
  honoured (the argument of \<open>SecurityProfileWatcher\<close>), on a change of the profile.
\<close>

definition registerWebhookTLSReload ::
  "('p, 'c) tls_lib \<Rightarrow> ('p, 'c) webhookTLSResult \<Rightarrow> go_error option \<Rightarrow> go_error option \<Rightarrow> reload_task option result" where
  "registerWebhookTLSReload L webhookTLS watcherErr pollerErr =
     (if \<not> needsWebhookTLSReload webhookTLS then Inr None
      else (case configureWebhookTLSReload webhookTLS
               (case watcherErr of Some err \<Rightarrow> Inl err
                | None \<Rightarrow> Inr (SecurityProfileWatcher (ShouldHonorClusterTLSProfile L (wt_AdherencePolicy webhookTLS))))
               (case pollerErr of Some err \<Rightarrow> Inl err | None \<Rightarrow> Inr RecoveryPoller) of
             Inl err \<Rightarrow> Inl err
           | Inr t \<Rightarrow> Inr (Some t)))"

definition classifyWebhookTLSStandInLeave ::
  "bool \<Rightarrow> 'p load_result result \<Rightarrow> webhookTLSStandInLeaveReason" where
  "classifyWebhookTLSStandInLeave ctxDone answer =
     (if ctxDone then webhookTLSStandInKeep
      else
       (let decision = decideWebhookTLSLoad answer in
        if ld_standIn decision then webhookTLSStandInKeep
        else if ld_err decision \<noteq> None then webhookTLSStandInLeaveFailClosed
        else webhookTLSStandInLeaveHealthy))"

text \<open>Whether the poller calls its cancel function, which marks the reload and stops the manager.\<close>

definition requestLeaveIfReady :: "bool \<Rightarrow> 'p load_result result \<Rightarrow> bool" where
  "requestLeaveIfReady ctxDone answer \<longleftrightarrow>
     (case classifyWebhookTLSStandInLeave ctxDone answer of
        webhookTLSStandInKeep \<Rightarrow> False
      | webhookTLSStandInLeaveFailClosed \<Rightarrow> True
      | webhookTLSStandInLeaveHealthy \<Rightarrow> True)"

datatype 'p recovery_event = RecoveryTick "'p load_result result" | RecoveryDone

text \<open>\<open>Some True\<close>: a restart was requested; \<open>Some False\<close>: the context ended; \<open>None\<close>: still polling.\<close>

fun recovery_ticks :: "'p recovery_event list \<Rightarrow> bool option" where
  "recovery_ticks [] = None"
| "recovery_ticks (RecoveryDone # events) = Some False"
| "recovery_ticks (RecoveryTick answer # events) =
     (if requestLeaveIfReady False answer then Some True else recovery_ticks events)"

definition recovery_Start :: "'p load_result result \<Rightarrow> 'p recovery_event list \<Rightarrow> bool option" where
  "recovery_Start first events =
     (if requestLeaveIfReady False first then Some True else recovery_ticks events)"


subsection \<open>The posture of the listener\<close>

text \<open>
  The abstract specification: what the listener serves for an answer of the API server. Settings that
  exist but cannot be read give the stand-in; a policy that does not ask for adherence keeps Go's
  defaults; a profile that is to be honoured but is not acceptable makes the process refuse to start.
  An answer is of one of four kinds: the settings were read (\<open>settings_read\<close>); the cluster has no
  such resource or kind, for which the library answers with its fallback and nothing to watch
  (\<open>settings_absent\<close>); reading failed for the moment or was denied (\<open>unreadable\<close>); or reading failed
  with an error that none of these explains.
\<close>

datatype 'p posture = GoDefaults | Honours 'p | StandIn | Refuses

definition unreadable :: "'p load_result result \<Rightarrow> bool" where
  "unreadable answer \<longleftrightarrow>
     (case answer of
        Inl err \<Rightarrow>
          (\<exists>r. ReasonForError err = Some r \<and> r \<noteq> OtherReason '''') \<or>
          (\<exists>x \<in> set (err_tree err). err_kind_of x \<in> {Sentinel errDeadlineExceeded, Sentinel errCanceled, NetError})
      | Inr load \<Rightarrow> lr_UsedFallback load \<and> lr_Watchable load)"

definition settings_read :: "'p load_result result \<Rightarrow> bool" where
  "settings_read answer \<longleftrightarrow> (case answer of Inl _ \<Rightarrow> False | Inr load \<Rightarrow> \<not> lr_UsedFallback load)"

definition settings_absent :: "'p load_result result \<Rightarrow> bool" where
  "settings_absent answer \<longleftrightarrow>
     (case answer of Inl _ \<Rightarrow> False | Inr load \<Rightarrow> lr_UsedFallback load \<and> \<not> lr_Watchable load)"

lemma load_kinds:
  "\<not> unreadable (Inr load) \<longleftrightarrow> settings_read (Inr load) \<or> settings_absent (Inr load)"
  "settings_read answer \<Longrightarrow> \<not> settings_absent answer" "settings_read answer \<Longrightarrow> \<not> unreadable answer"
  "settings_absent answer \<Longrightarrow> \<not> unreadable answer"
  by (auto simp: unreadable_def settings_read_def settings_absent_def split: sum.splits)

definition acceptable :: "('p, 'c) tls_lib \<Rightarrow> 'p \<Rightarrow> bool" where
  "acceptable L p \<longleftrightarrow> ValidateStrictTLSProfile L p = None \<and> (\<exists>c. ConfigFromProfileWithError L p = Inr c)"

definition posture_spec :: "('p, 'c) tls_lib \<Rightarrow> 'p load_result result \<Rightarrow> 'p posture" where
  "posture_spec L answer =
     (if unreadable answer then StandIn
      else (case answer of
          Inl _ \<Rightarrow> Refuses
        | Inr load \<Rightarrow>
            if \<not> ShouldHonorClusterTLSProfile L (lr_AdherencePolicy load) then GoDefaults
            else if acceptable L (lr_Spec load) then Honours (lr_Spec load) else Refuses))"

definition posture_of :: "('p, 'c) webhookTLSResult result \<Rightarrow> 'p posture" where
  "posture_of r =
     (case r of
        Inl _ \<Rightarrow> Refuses
      | Inr t \<Rightarrow> if wt_Degraded t then StandIn else if wt_TLSOpts t = [] then GoDefaults else Honours (wt_Profile t))"

text \<open>
  What the start-up relies on: the platform's strict policy is one that is honoured, and its
  Intermediate profile is acceptable.
\<close>

locale intermediate_ok =
  fixes L :: "('p, 'c) tls_lib"
  assumes strict_honoured: "ShouldHonorClusterTLSProfile L (StrictAllComponents L)"
    and intermediate_acceptable: "acceptable L (IntermediateProfile L)"

lemma errors_As_None: "errors_As P err = None \<longleftrightarrow> (\<forall>x \<in> set (err_tree err). \<not> P (err_kind_of x))"
  by (simp add: errors_As_def find_cong_None)

lemma decision_unreadable: "ld_standIn (decideWebhookTLSLoad answer) \<longleftrightarrow> unreadable answer"
proof (cases answer)
  case (Inl err)
  have "isRetriableWebhookTLSLoadError err \<longleftrightarrow>
      (\<exists>x \<in> set (err_tree err). err_kind_of x \<in> {Sentinel errDeadlineExceeded, Sentinel errCanceled, NetError})"
    using errors_As_None [of "\<lambda>k. k = NetError" err] unfolding isRetriableWebhookTLSLoadError_def errors_Is_def by auto
  moreover have "isAPIServerTLSAPIStatusError err \<longleftrightarrow> (\<exists>r. ReasonForError err = Some r \<and> r \<noteq> OtherReason '''')"
    by (auto simp: isAPIServerTLSAPIStatusError_def)
  ultimately show ?thesis
    by (simp add: Inl decideWebhookTLSLoad_def unreadable_def Let_def)
qed (simp add: decideWebhookTLSLoad_def unreadable_def)

lemma decision_load:
  "\<not> unreadable answer \<Longrightarrow>
     (case answer of
        Inl err \<Rightarrow> ld_err (decideWebhookTLSLoad answer) \<noteq> None
      | Inr load \<Rightarrow> ld_err (decideWebhookTLSLoad answer) = None \<and> ld_load (decideWebhookTLSLoad answer) = Some load)"
  using decision_unreadable [of answer]
  by (auto simp: decideWebhookTLSLoad_def Let_def split: sum.splits if_splits)

lemma decision_standin_err: "unreadable answer \<Longrightarrow> ld_err (decideWebhookTLSLoad answer) = None"
  using decision_unreadable [of answer]
  by (auto simp: decideWebhookTLSLoad_def Let_def split: sum.splits if_splits)

lemma build_default: "\<not> ShouldHonorClusterTLSProfile L adherence \<Longrightarrow> buildWebhookTLSOpts L p adherence = Inr ([], [])"
  by (simp add: buildWebhookTLSOpts_def buildWebhookTLSOptsWith_def)

lemma build_honoured:
  assumes "ShouldHonorClusterTLSProfile L adherence" and "acceptable L p"
  obtains c unsupported where "ConfigFromProfileWithError L p = Inr (c, unsupported)"
    and "buildWebhookTLSOpts L p adherence = Inr ([ProfileConfig c, SetNextProtos (HTTP1NextProtos L)], unsupported)"
  using assms by (auto simp: buildWebhookTLSOpts_def buildWebhookTLSOptsWith_def acceptable_def)

lemma build_refused:
  assumes "ShouldHonorClusterTLSProfile L adherence" and "\<not> acceptable L p"
  obtains err where "buildWebhookTLSOpts L p adherence = Inl err"
  using assms
  by (cases "ConfigFromProfileWithError L p"; cases "ValidateStrictTLSProfile L p")
     (auto simp: buildWebhookTLSOpts_def buildWebhookTLSOptsWith_def acceptable_def)

lemma evaluate_read:
  assumes "\<not> unreadable (Inr load)"
  shows "evaluateWebhookTLS L (Inr load) gauge =
      (case buildWebhookTLSOpts L (lr_Spec load) (lr_AdherencePolicy load) of
         Inl err \<Rightarrow> (gauge, Inl (wrapf ''unable to apply APIServer TLS profile to webhook: '' err))
       | Inr (tlsOpts, _) \<Rightarrow>
           (0, Inr \<lparr>wt_TLSOpts = tlsOpts, wt_Profile = lr_Spec load, wt_AdherencePolicy = lr_AdherencePolicy load,
                    wt_Watchable = lr_Watchable load, wt_Degraded = False\<rparr>))"
    and "posture_spec L (Inr load) =
      (if \<not> ShouldHonorClusterTLSProfile L (lr_AdherencePolicy load) then GoDefaults
       else if acceptable L (lr_Spec load) then Honours (lr_Spec load) else Refuses)"
  using assms decision_load [OF assms] decision_unreadable [of "Inr load"]
  by (simp_all add: evaluateWebhookTLS_def posture_spec_def Let_def)

text \<open>The ways a start-up can go.\<close>

context intermediate_ok
begin

lemma evaluate_cases [case_names standin refused defaults honoured]:
  obtains (standin) c unsupported where "unreadable answer"
      "ConfigFromProfileWithError L (IntermediateProfile L) = Inr (c, unsupported)"
      "evaluateWebhookTLS L answer gauge = (1, Inr
         \<lparr>wt_TLSOpts = [ProfileConfig c, SetNextProtos (HTTP1NextProtos L)], wt_Profile = IntermediateProfile L,
          wt_AdherencePolicy = StrictAllComponents L, wt_Watchable = False, wt_Degraded = True\<rparr>)"
  | (refused) err where "posture_spec L answer = Refuses" "\<not> unreadable answer"
      "evaluateWebhookTLS L answer gauge = (gauge, Inl err)"
  | (defaults) load where "posture_spec L answer = GoDefaults" "\<not> unreadable answer"
      "evaluateWebhookTLS L answer gauge = (0, Inr
         \<lparr>wt_TLSOpts = [], wt_Profile = lr_Spec load, wt_AdherencePolicy = lr_AdherencePolicy load,
          wt_Watchable = lr_Watchable load, wt_Degraded = False\<rparr>)"
      "answer = Inr load"
  | (honoured) load c unsupported where "posture_spec L answer = Honours (lr_Spec load)" "\<not> unreadable answer"
      "ConfigFromProfileWithError L (lr_Spec load) = Inr (c, unsupported)"
      "evaluateWebhookTLS L answer gauge = (0, Inr
         \<lparr>wt_TLSOpts = [ProfileConfig c, SetNextProtos (HTTP1NextProtos L)], wt_Profile = lr_Spec load,
          wt_AdherencePolicy = lr_AdherencePolicy load, wt_Watchable = lr_Watchable load, wt_Degraded = False\<rparr>)"
      "answer = Inr load"
proof (cases "unreadable answer")
  case True
  obtain c unsupported where "ConfigFromProfileWithError L (IntermediateProfile L) = Inr (c, unsupported)"
    "buildWebhookTLSOpts L (IntermediateProfile L) (StrictAllComponents L) =
       Inr ([ProfileConfig c, SetNextProtos (HTTP1NextProtos L)], unsupported)"
    using build_honoured [OF strict_honoured intermediate_acceptable] by blast
  then show thesis
    using True standin decision_unreadable [of answer] decision_standin_err [OF True]
    by (simp add: evaluateWebhookTLS_def strictStandInWebhookTLS_def Let_def)
next
  case False
  note d = decision_load [OF False] decision_unreadable [of answer]
  show thesis
  proof (cases answer)
    case (Inl err)
    then show thesis
      using refused False d by (auto simp: evaluateWebhookTLS_def posture_spec_def Let_def)
  next
    case (Inr load)
    note ev = evaluate_read [OF False [unfolded Inr], of L, folded Inr]
    show thesis
    proof (cases "ShouldHonorClusterTLSProfile L (lr_AdherencePolicy load)")
      case False
      then show thesis
        using defaults [of load] ev Inr \<open>\<not> unreadable answer\<close> build_default [OF False, of "lr_Spec load"] by simp
    next
      case True
      show thesis
      proof (cases "acceptable L (lr_Spec load)")
        case acc: True
        obtain c unsupported where "ConfigFromProfileWithError L (lr_Spec load) = Inr (c, unsupported)"
          "buildWebhookTLSOpts L (lr_Spec load) (lr_AdherencePolicy load) =
             Inr ([ProfileConfig c, SetNextProtos (HTTP1NextProtos L)], unsupported)"
          by (rule build_honoured [OF True acc])
        then show thesis
          using honoured [of load c unsupported] ev Inr \<open>\<not> unreadable answer\<close> True acc by simp
      next
        case acc: False
        obtain err where "buildWebhookTLSOpts L (lr_Spec load) (lr_AdherencePolicy load) = Inl err"
          by (rule build_refused [OF True acc])
        then show thesis using refused ev \<open>\<not> unreadable answer\<close> True acc by simp
      qed
    qed
  qed
qed

end

lemmas startup_cases [consumes 1, case_names standin refused defaults honoured] = intermediate_ok.evaluate_cases

lemma classify_posture:
  "classifyWebhookTLSStandInLeave False answer = webhookTLSStandInKeep \<longleftrightarrow> unreadable answer"
  "classifyWebhookTLSStandInLeave False answer = webhookTLSStandInLeaveFailClosed \<Longrightarrow> posture_spec L answer = Refuses"
  using decision_unreadable [of answer] decision_load [of answer]
  by (auto simp: classifyWebhookTLSStandInLeave_def posture_spec_def Let_def split: sum.splits if_splits)

text \<open>
  C38: the start-up implements the abstract posture, and the recovery poller judges an answer the same
  way the next start-up will. For every answer of the API server the settings chosen are those of
  \<open>posture_spec\<close>; the poller keeps the stand-in exactly when a restart with the same answer would
  stand in again, and it leaves it as fail-closed only when the restart refuses to start.
\<close>

theorem tls_startup_refines_posture:
  assumes ok: "intermediate_ok L"
  shows "posture_of (snd (evaluateWebhookTLS L answer gauge)) = posture_spec L answer \<and>
     (classifyWebhookTLSStandInLeave False answer = webhookTLSStandInKeep \<longleftrightarrow>
        posture_of (snd (evaluateWebhookTLS L answer gauge)) = StandIn) \<and>
     (classifyWebhookTLSStandInLeave False answer = webhookTLSStandInLeaveFailClosed \<longrightarrow>
        posture_of (snd (evaluateWebhookTLS L answer gauge)) = Refuses)"
proof -
  have "posture_of (snd (evaluateWebhookTLS L answer gauge)) = posture_spec L answer"
    using ok by (cases rule: startup_cases [where answer = answer and gauge = gauge])
      (simp_all add: posture_of_def, simp add: posture_spec_def)
  moreover have "posture_spec L answer = StandIn \<longleftrightarrow> unreadable answer"
    by (auto simp: posture_spec_def split: sum.splits if_splits)
  ultimately show ?thesis
    using classify_posture(1) [of answer] classify_posture(2) [of answer L] by simp
qed


text \<open>A library that accepts every profile number and honours every policy but the empty one.\<close>

definition sample_lib :: "(nat, nat) tls_lib" where
  "sample_lib =
     \<lparr>ShouldHonorClusterTLSProfile = (\<lambda>a. a \<noteq> ''''), ValidateStrictTLSProfile = (\<lambda>_. None),
      ConfigFromProfileWithError = (\<lambda>p. Inr (p, [])), IntermediateProfile = 12,
      StrictAllComponents = ''StrictAllComponents'', HTTP1NextProtos = [''http/1.1'']\<rparr>"

interpretation sample_tls: intermediate_ok sample_lib
  by unfold_locales (simp_all add: acceptable_def sample_lib_def)

theorem tls_startup_refines_posture_witness:
  "posture_of (snd (evaluateWebhookTLS sample_lib (Inl (GoError (ApiStatus Forbidden) ''denied'' [])) 0)) = StandIn"
  using tls_startup_refines_posture [OF sample_tls.intermediate_ok_axioms, of "Inl (GoError (ApiStatus Forbidden) ''denied'' [])" 0]
  by (simp add: posture_spec_def unreadable_def ReasonForError_def errors_As_def)

subsection \<open>When the listener keeps Go's defaults\<close>

text \<open>
  C39: when a start-up that succeeds keeps Go's default settings, and what watches over the choice.
  It keeps them exactly when the API server's settings were read and their policy does not ask for
  adherence, or when the cluster has no such settings and the policy of the library's fallback does
  not ask for it; otherwise it serves exactly the chosen profile, over HTTP/1.1 only. An answer is
  one of three: settings that exist but could not be read are never replaced by the defaults, the
  Intermediate profile is served, the gauge shows it and the recovery poller is registered; settings
  that were read are the profile, the gauge is clear and a watchable resource gets the watcher, which
  follows the profile exactly when the profile is honoured; with absent settings the gauge is clear
  and no background task is registered.
\<close>

theorem tls_defaults_exact:
  assumes ok: "intermediate_ok L" and start: "evaluateWebhookTLS L answer gauge = (gauge', Inr t)"
  shows "(wt_TLSOpts t = [] \<longleftrightarrow>
            (\<exists>load. answer = Inr load \<and> (settings_read answer \<or> settings_absent answer) \<and>
               \<not> ShouldHonorClusterTLSProfile L (lr_AdherencePolicy load))) \<and>
         (wt_TLSOpts t \<noteq> [] \<longrightarrow>
            (\<exists>c u. ConfigFromProfileWithError L (wt_Profile t) = Inr (c, u) \<and>
               wo_TLSOpts (webhookServerOptions t dir) = [ProfileConfig c, SetNextProtos (HTTP1NextProtos L)])) \<and>
         (unreadable answer \<and> gauge' = 1 \<and> wt_Profile t = IntermediateProfile L \<and> wt_TLSOpts t \<noteq> [] \<and>
            registerWebhookTLSReload L t None None = Inr (Some RecoveryPoller) \<or>
          settings_read answer \<and> gauge' = 0 \<and> (\<exists>load. answer = Inr load \<and> wt_Profile t = lr_Spec load \<and>
            registerWebhookTLSReload L t None None = Inr (if lr_Watchable load
              then Some (SecurityProfileWatcher (wt_TLSOpts t \<noteq> [])) else None)) \<or>
          settings_absent answer \<and> gauge' = 0 \<and> (\<exists>load. answer = Inr load \<and> wt_Profile t = lr_Spec load) \<and>
            registerWebhookTLSReload L t None None = Inr None)"
proof -
  have honour: "posture_spec L (Inr load) = Honours p \<Longrightarrow> ShouldHonorClusterTLSProfile L (lr_AdherencePolicy load)"
    "posture_spec L (Inr load) = GoDefaults \<Longrightarrow> \<not> ShouldHonorClusterTLSProfile L (lr_AdherencePolicy load)" for load p
    by (auto simp: posture_spec_def split: if_splits)
  note reload = registerWebhookTLSReload_def needsWebhookTLSReload_def configureWebhookTLSReload_def webhookServerOptions_def
  show ?thesis
    using ok
  proof (cases rule: startup_cases [where answer = answer and gauge = gauge])
    case (standin c unsupported)
    then show ?thesis using start load_kinds(3,4) [of answer] by (auto simp: reload)
  next
    case (refused err)
    then show ?thesis using start by simp
  next
    case (defaults load)
    then have kind: "settings_read answer \<or> settings_absent answer" using load_kinds(1) [of load] by simp
    have "settings_absent answer \<longrightarrow> \<not> lr_Watchable load"
      using defaults(4) by (simp add: settings_absent_def)
    then show ?thesis using start defaults kind honour(2) [of load] by (auto simp: reload)
  next
    case (honoured load c unsupported)
    then have kind: "settings_read answer \<or> settings_absent answer" using load_kinds(1) [of load] by simp
    have "settings_absent answer \<longrightarrow> \<not> lr_Watchable load"
      using honoured(5) by (simp add: settings_absent_def)
    then show ?thesis using start honoured kind honour(1) [of load "lr_Spec load"] by (auto simp: reload)
  qed
qed

text \<open>
  The answer of the library on a cluster without the resource, with the blank policy, and a read
  that timed out.
\<close>

theorem tls_defaults_exact_witness:
  "\<exists>gauge' t gauge'' t'. evaluateWebhookTLS sample_lib (Inl (GoError NetError ''timeout'' [])) 0 = (gauge', Inr t) \<and>
     gauge' = 1 \<and> wt_TLSOpts t \<noteq> [] \<and>
     evaluateWebhookTLS sample_lib
       (Inr \<lparr>lr_Spec = 3, lr_AdherencePolicy = '''', lr_UsedFallback = True, lr_Watchable = False\<rparr>) 1 = (gauge'', Inr t') \<and>
     gauge'' = 0 \<and> wt_TLSOpts t' = []"
proof -
  have un: "unreadable (Inl (GoError NetError ''timeout'' []) :: nat load_result result)"
    by (simp add: unreadable_def)
  have "\<exists>gauge' t. evaluateWebhookTLS sample_lib (Inl (GoError NetError ''timeout'' [])) 0 = (gauge', Inr t)"
    by (cases rule: sample_tls.evaluate_cases [where answer = "Inl (GoError NetError ''timeout'' [])" and gauge = 0]) (use un in auto)
  then obtain gauge' t where start: "evaluateWebhookTLS sample_lib (Inl (GoError NetError ''timeout'' [])) 0 = (gauge', Inr t)"
    by blast
  let ?absent = "Inr \<lparr>lr_Spec = 3, lr_AdherencePolicy = '''', lr_UsedFallback = True, lr_Watchable = False\<rparr> ::
    nat load_result result"
  have kinds: "settings_absent ?absent" "\<not> unreadable ?absent" "\<not> settings_read ?absent"
    by (simp_all add: settings_absent_def settings_read_def unreadable_def)
  have "\<exists>gauge' t. evaluateWebhookTLS sample_lib ?absent 1 = (gauge', Inr t)"
    by (simp add: evaluateWebhookTLS_def decideWebhookTLSLoad_def build_default sample_lib_def Let_def)
  then obtain gauge'' t' where start': "evaluateWebhookTLS sample_lib ?absent 1 = (gauge'', Inr t')"
    by blast
  have "gauge' = 1 \<and> wt_TLSOpts t \<noteq> []"
    using tls_defaults_exact [OF sample_tls.intermediate_ok_axioms start] un load_kinds(3,4) by blast
  moreover have "gauge'' = 0 \<and> wt_TLSOpts t' = []"
    using tls_defaults_exact [OF sample_tls.intermediate_ok_axioms start'] kinds by (simp add: sample_lib_def)
  ultimately show ?thesis using start start' by blast
qed

subsection \<open>The poller\<close>

text \<open>The poller asks for a restart at the first answer that can be read, and not before.\<close>

lemma leave_iff_readable: "requestLeaveIfReady False a \<longleftrightarrow> \<not> unreadable a"
  using classify_posture(1) [of a]
  by (auto simp: requestLeaveIfReady_def split: webhookTLSStandInLeaveReason.splits)

lemma recovery_start_unreadable: "unreadable first \<Longrightarrow> recovery_Start first events = recovery_ticks events"
  by (simp add: recovery_Start_def leave_iff_readable)

lemma recovery_first_readable:
  assumes "list_all unreadable answers" and "\<not> unreadable answer"
  shows "recovery_ticks (map RecoveryTick answers @ RecoveryTick answer # events) = Some True"
    and "recovery_ticks (map RecoveryTick answers @ [RecoveryDone]) = Some False"
  using assms by (induction answers) (simp_all add: leave_iff_readable)

end
