(* ===== verification/Method_Gate.thy ===== *)
theory Method_Gate
  imports Go_Url
begin

section \<open>The method gate (cmd/main.go)\<close>

text \<open>
  The reverse proxy of the \<open>method-gate\<close> subcommand, a sidecar in front of prom-label-proxy. It
  lets reads through and, when form POSTs are allowed, checks the form so that the namespace a
  request is authorized for can come from the URL only. Forwarding itself is the library's reverse
  proxy: the outcome of the handler is the request it hands on, or the error response. Of the
  standard library the handler uses \<open>mime.ParseMediaType\<close> (its media type and whether it fails)
  and \<open>url.ParseQuery\<close>, both modelled here, and \<open>http.MaxBytesReader\<close>.
\<close>

subsection \<open>mime.ParseMediaType\<close>

definition isTSpecial :: "char \<Rightarrow> bool" where
  "isTSpecial c \<longleftrightarrow> c \<in> set ''()<>@,;:/[]?='' \<or> c = CHR 0x5C \<or> c = CHR 0x22"

definition isTokenChar :: "char \<Rightarrow> bool" where
  "isTokenChar c \<longleftrightarrow> (of_char c :: nat) > 32 \<and> (of_char c :: nat) < 127 \<and> \<not> isTSpecial c"

definition consumeToken :: "string \<Rightarrow> string \<times> string" where
  "consumeToken v = (takeWhile isTokenChar v, dropWhile isTokenChar v)"

text \<open>The rest of a quoted string after its opening quote; no closing quote gives nothing.\<close>

fun quoted_value :: "string \<Rightarrow> string \<Rightarrow> (string \<times> string) option" where
  "quoted_value [] acc = None"
| "quoted_value (r # v) acc =
     (if r = CHR 0x22 then Some (acc, v)
      else if r = CHR 0x5C \<and> v \<noteq> [] \<and> isTSpecial (hd v) then quoted_value (tl v) (acc @ [hd v])
      else if r = CHR 0x0D \<or> r = CHR 0x0A then None
      else quoted_value v (acc @ [r]))"

definition consumeValue :: "string \<Rightarrow> string \<times> string" where
  "consumeValue v =
     (if v = [] then ([], [])
      else if hd v \<noteq> CHR 0x22 then consumeToken v
      else (case quoted_value (tl v) [] of None \<Rightarrow> ([], v) | Some r \<Rightarrow> r))"

text \<open>One parameter: its name, its value and the rest, or \<open>None\<close> for the empty name.\<close>

definition consumeMediaParam :: "string \<Rightarrow> (string \<times> string \<times> string) option" where
  "consumeMediaParam v =
     (case trim_left v of
        [] \<Rightarrow> None
      | c # r1 \<Rightarrow>
          if c \<noteq> CHR '';'' then None
          else
           (let (param, r2) = consumeToken (trim_left r1) in
            if param = [] then None
            else (case trim_left r2 of
                [] \<Rightarrow> None
              | d # r3 \<Rightarrow>
                  if d \<noteq> CHR ''='' then None
                  else
                   (let r4 = trim_left r3; (val, r5) = consumeValue r4 in
                    if val = [] \<and> r5 = r4 then None else Some (ToLower param, val, r5)))))"

definition checkMediaTypeDisposition :: "string \<Rightarrow> bool" where
  "checkMediaTypeDisposition s =
     (let (typ, rest) = consumeToken s in
      if typ = [] then False
      else if rest = [] then True
      else if hd rest \<noteq> CHR 0x2F then False
      else (let (subtype, rest') = consumeToken (tl rest) in subtype \<noteq> [] \<and> rest' = []))"

lemma trim_left_length: "length (trim_left s) \<le> length s"
proof (induction s rule: trim_left.induct)
  case (1 s)
  show ?case
  proof (cases "find (\<lambda>r. prefix r s) space_runes")
    case None
    then show ?thesis by (simp add: trim_left.simps [of s])
  next
    case (Some r)
    from 1 [OF Some] have "length (trim_left (drop (length r) s)) \<le> length s" by simp
    with Some show ?thesis by (simp add: trim_left.simps [of s])
  qed
qed

lemma quoted_value_length: "quoted_value v acc = Some (x, r) \<Longrightarrow> length r < length v"
  by (induction v acc arbitrary: x r rule: quoted_value.induct) (fastforce split: if_splits)+

lemma consumeValue_length: "length (snd (consumeValue v)) \<le> length v"
  by (cases v) (auto simp: consumeValue_def consumeToken_def length_dropWhile_le le_SucI split: option.split
      dest: quoted_value_length)

lemma consumeMediaParam_length:
  assumes "consumeMediaParam v = Some (p, val, r)"
  shows "length r < length v"
proof -
  obtain r1 where 1: "trim_left v = CHR '';'' # r1"
    using assms by (auto simp: consumeMediaParam_def split: list.splits if_splits)
  obtain r3 where 3: "trim_left (dropWhile isTokenChar (trim_left r1)) = CHR ''='' # r3"
    and r: "r = snd (consumeValue (trim_left r3))"
    using assms by (auto simp: consumeMediaParam_def 1 consumeToken_def Let_def split: list.splits if_splits prod.splits)
  have "length r \<le> length r3"
    unfolding r using consumeValue_length [of "trim_left r3"] trim_left_length [of r3] by simp
  moreover have "length (trim_left (dropWhile isTokenChar (trim_left r1))) \<le> length r1"
    using trim_left_length [of "dropWhile isTokenChar (trim_left r1)"]
      length_dropWhile_le [of isTokenChar "trim_left r1"] trim_left_length [of r1] by linarith
  ultimately show ?thesis
    using trim_left_length [of v] 1 3 by simp
qed

text \<open>
  The parameter loop: whether every parameter parses and no name is given two values. The
  parameter tables of the library (plain names, and names with a star by their base) are one
  association list here: a key has one table.
\<close>

function params_ok :: "string \<Rightarrow> (string \<times> string) list \<Rightarrow> bool" where
  "params_ok v seen =
     (let v' = trim_left v in
      if v' = [] then True
      else (case consumeMediaParam v' of
          None \<Rightarrow> TrimSpace v' = '';''
        | Some (key, val, rest) \<Rightarrow>
            if (case map_of seen key of None \<Rightarrow> False | Some x \<Rightarrow> x \<noteq> val) then False
            else params_ok rest ((key, val) # seen)))"
  by pat_completeness auto
termination
proof (relation "measure (\<lambda>(v, seen). length v)")
  fix v :: string and seen v' x key y val rest
  assume "v' = trim_left v" and "consumeMediaParam v' = Some x" "(key, y) = x" "(val, rest) = y"
  then have "length rest < length (trim_left v)"
    using consumeMediaParam_length by blast
  then show "((rest, (key, val) # seen), v, seen) \<in> measure (\<lambda>(v, seen). length v)"
    using trim_left_length [of v] by simp
qed simp

declare params_ok.simps [simp del]

definition ParseMediaType :: "string \<Rightarrow> string option" where
  "ParseMediaType v =
     (let base = takeWhile (\<lambda>c. c \<noteq> CHR '';'') v;
          mediatype = TrimSpace (ToLower base) in
      if \<not> checkMediaTypeDisposition mediatype then None
      else if \<not> params_ok (drop (length base) v) [] then None
      else Some mediatype)"


subsection \<open>url.ParseQuery\<close>

text \<open>\<open>url.QueryUnescape\<close>: a plus is a space, and every escape must be two hexadecimal digits.\<close>

fun QueryUnescape :: "string \<Rightarrow> string option" where
  "QueryUnescape [] = Some []"
| "QueryUnescape (c # s) =
     (if c = CHR ''%'' then
        (case s of
           a # b # t \<Rightarrow>
             if \<not> is_hex a \<or> \<not> is_hex b then None
             else map_option (\<lambda>r. char_of (unhex a * 16 + unhex b) # r) (QueryUnescape t)
         | _ \<Rightarrow> None)
      else map_option (\<lambda>r. (if c = CHR ''+'' then CHR '' '' else c) # r) (QueryUnescape s))"

definition query_key :: "string \<Rightarrow> string" where
  "query_key piece = takeWhile (\<lambda>c. c \<noteq> CHR ''='') piece"

definition query_value :: "string \<Rightarrow> string" where
  "query_value piece = tl (dropWhile (\<lambda>c. c \<noteq> CHR ''='') piece)"

text \<open>
  The loop over the pieces: the pairs that parse, and whether any piece did not. A limit on the
  number of pieces is a setting of the runtime (\<open>GODEBUG=urlmaxqueryparams\<close>), a parameter.
\<close>

fun query_loop :: "string list \<Rightarrow> (string \<times> string) list \<times> bool" where
  "query_loop [] = ([], False)"
| "query_loop (piece # pieces) =
     (let (m, failed) = query_loop pieces in
      if CHR '';'' \<in> set piece then (m, True)
      else if piece = [] then (m, failed)
      else (case QueryUnescape (query_key piece) of
          None \<Rightarrow> (m, True)
        | Some k \<Rightarrow>
            (case QueryUnescape (query_value piece) of
               None \<Rightarrow> (m, True)
             | Some v \<Rightarrow> ((k, v) # m, failed))))"

definition ParseQuery :: "(nat \<Rightarrow> bool) \<Rightarrow> string \<Rightarrow> (string \<times> string) list option" where
  "ParseQuery withinMax query =
     (let pieces = split_on CHR ''&'' query in
      if \<not> withinMax (length pieces) then None
      else (case query_loop pieces of (m, failed) \<Rightarrow> if failed then None else Some m))"

subsection \<open>The gate\<close>

definition prometheusInstantQueryPath :: string where "prometheusInstantQueryPath = ''/api/v1/query''"
definition formContentType :: string where "formContentType = ''application/x-www-form-urlencoded''"

text \<open>
  What the handler reads of a request. The body is what its reader delivers and the error it ends
  with, if it does not end regularly.
\<close>

record http_request =
  rq_Method :: string
  rq_Path :: string
  rq_ContentTypes :: "string list"
  rq_ContentEncodings :: "string list"
  rq_Body :: string
  rq_BodyErr :: "go_error option"
  rq_ContentLength :: int

datatype gate_outcome = Forwarded http_request | Refused nat string

definition isReadOnlyPrometheusPostPath :: "string \<Rightarrow> bool" where
  "isReadOnlyPrometheusPostPath p \<longleftrightarrow>
     p \<in> {prometheusInstantQueryPath, ''/api/v1/query_range'', ''/api/v1/query_exemplars'', ''/api/v1/series'',
           ''/api/v1/labels''}"

definition maxFormBytes :: nat where
  "maxFormBytes = push_bit 20 10"

text \<open>\<open>io.ReadAll\<close> of the limited body: the bytes, or the response for the error.\<close>

definition read_form :: "http_request \<Rightarrow> (nat \<times> string) + string" where
  "read_form r =
     (if length (rq_Body r) > maxFormBytes then Inl (413, ''form too large'')
      else if rq_BodyErr r \<noteq> None then Inl (400, ''could not read form'')
      else Inr (rq_Body r))"

definition validateQueryForm :: "(nat \<Rightarrow> bool) \<Rightarrow> http_request \<Rightarrow> (nat \<times> string) + http_request" where
  "validateQueryForm withinMax r =
     (if length (rq_ContentTypes r) \<noteq> 1 \<or> length (rq_ContentEncodings r) \<noteq> 0 then
        Inl (415, ''expected an unencoded form'')
      else if ParseMediaType (rq_ContentTypes r ! 0) \<noteq> Some formContentType then
        Inl (415, ''expected an unencoded form'')
      else (case read_form r of
          Inl resp \<Rightarrow> Inl resp
        | Inr body \<Rightarrow>
            (case ParseQuery withinMax body of
               None \<Rightarrow> Inl (400, ''invalid form'')
             | Some form \<Rightarrow>
                 if ''namespace'' \<in> fst ` set form then Inl (403, ''namespace must be in the URL'')
                 else Inr (r\<lparr>rq_Body := body, rq_BodyErr := None, rq_ContentLength := int (length body)\<rparr>))))"

definition methodGateHandler :: "(nat \<Rightarrow> bool) \<Rightarrow> bool \<Rightarrow> http_request \<Rightarrow> gate_outcome" where
  "methodGateHandler withinMax allowFormPost r =
     (if rq_Method r = ''GET'' \<or> rq_Method r = ''HEAD'' then Forwarded r
      else if \<not> allowFormPost \<or> rq_Method r \<noteq> ''POST'' \<or> \<not> isReadOnlyPrometheusPostPath (rq_Path r) then
        Refused 403 (if \<not> allowFormPost then ''only GET and HEAD are allowed'' else ''method not allowed'')
      else (case validateQueryForm withinMax r of
          Inl (status, message) \<Rightarrow> Refused status message
        | Inr r' \<Rightarrow> Forwarded r'))"

subsection \<open>What the gate lets through\<close>

text \<open>How a form may spell a text, stated without the parser.\<close>

inductive spells :: "string \<Rightarrow> string \<Rightarrow> bool" where
  spells_Nil: "spells [] []"
| spells_plain: "\<lbrakk>c \<noteq> CHR ''%''; c \<noteq> CHR ''+''; spells s t\<rbrakk> \<Longrightarrow> spells (c # s) (c # t)"
| spells_plus: "spells s t \<Longrightarrow> spells (CHR ''+'' # s) (CHR '' '' # t)"
| spells_escaped: "\<lbrakk>is_hex a; is_hex b; spells s t\<rbrakk> \<Longrightarrow>
     spells (CHR ''%'' # a # b # s) (char_of (unhex a * 16 + unhex b) # t)"

code_pred (modes: i \<Rightarrow> i \<Rightarrow> bool) spells .

inductive_cases spells_ConsE: "spells (c # s) t"

lemma unescape_spells: "QueryUnescape s = Some t \<longleftrightarrow> spells s t"
proof
  show "QueryUnescape s = Some t \<Longrightarrow> spells s t"
    by (induction s arbitrary: t rule: QueryUnescape.induct)
       (auto intro: spells.intros split: if_splits list.splits)
  show "spells s t \<Longrightarrow> QueryUnescape s = Some t"
    by (induction rule: spells.induct) auto
qed

definition names :: "string \<Rightarrow> string \<Rightarrow> bool" where
  "names piece k \<longleftrightarrow> piece \<noteq> [] \<and>
     (\<exists>key. CHR ''='' \<notin> set key \<and> spells key k \<and> (piece = key \<or> (\<exists>val. piece = key @ CHR ''='' # val)))"

definition wellformed :: "string \<Rightarrow> bool" where
  "wellformed piece \<longleftrightarrow> CHR '';'' \<notin> set piece \<and>
     (piece = [] \<or> (\<exists>k v. spells (query_key piece) k \<and> spells (query_value piece) v))"

lemma names_iff: "names piece k \<longleftrightarrow> piece \<noteq> [] \<and> spells (query_key piece) k"
proof -
  have "CHR ''='' \<notin> set key \<Longrightarrow> takeWhile (\<lambda>c. c \<noteq> CHR ''='') (key @ CHR ''='' # val) = key" for key val
    by (induction key) auto
  moreover have "CHR ''='' \<notin> set key \<Longrightarrow> takeWhile (\<lambda>c. c \<noteq> CHR ''='') key = key" for key
    by (induction key) auto
  moreover have "piece = query_key piece \<or> (\<exists>val. piece = query_key piece @ CHR ''='' # val)"
    unfolding query_key_def by (induction piece) auto
  moreover have "CHR ''='' \<notin> set (query_key piece)"
    unfolding query_key_def by (induction piece) auto
  ultimately show ?thesis
    unfolding names_def by (metis query_key_def)
qed

lemma query_loop_iff:
  "query_loop pieces = (m, failed) \<Longrightarrow>
     (\<not> failed \<longleftrightarrow> list_all wellformed pieces) \<and>
     (\<not> failed \<longrightarrow> fst ` set m = {k. \<exists>p \<in> set pieces. names p k})"
proof (induction pieces arbitrary: m failed)
  case (Cons p ps)
  obtain m' f' where rest: "query_loop ps = (m', f')" by force
  note IH = Cons.IH [OF rest]
  have spell: "spells (query_key p) k' \<longleftrightarrow> k' = k" if "QueryUnescape (query_key p) = Some k" for k k'
    using that by (auto simp: unescape_spells [symmetric])
  have un: "{k. \<exists>q \<in> set (p # ps). names q k} = {k. names p k} \<union> {k. \<exists>q \<in> set ps. names q k}"
    by auto
  show ?case
  proof (cases "CHR '';'' \<in> set p \<or> p = []")
    case True
    have "wellformed p \<longleftrightarrow> CHR '';'' \<notin> set p" and none: "Collect (names []) = {}"
      using True by (auto simp: wellformed_def names_iff)
    with True show ?thesis
      unfolding un using Cons.prems IH
      by (cases "CHR '';'' \<in> set p") (simp_all add: rest none)
  next
    case False
    show ?thesis
    proof (cases "wellformed p")
      case True
      then obtain k v where kv: "QueryUnescape (query_key p) = Some k" "QueryUnescape (query_value p) = Some v"
        using False by (auto simp: wellformed_def unescape_spells)
      have "{k. names p k} = {k}"
        using False spell [OF kv(1)] by (auto simp: names_iff)
      moreover have "m = (k, v) # m'" and "failed = f'"
        using Cons.prems False kv by (auto simp: rest)
      ultimately show ?thesis
        unfolding un using IH True by simp
    next
      case wf: False
      have "QueryUnescape (query_key p) = None \<or> QueryUnescape (query_value p) = None"
        using False wf by (auto simp: wellformed_def unescape_spells [symmetric])
      then show ?thesis
        using Cons.prems False wf by (auto simp: rest split: option.splits)
    qed
  qed
qed simp

lemma ParseQuery_iff:
  "(\<exists>form. ParseQuery withinMax q = Some form \<and> k \<notin> fst ` set form) \<longleftrightarrow>
     withinMax (length (split_on CHR ''&'' q)) \<and>
     (\<forall>p \<in> set (split_on CHR ''&'' q). wellformed p \<and> \<not> names p k)"
proof -
  obtain m failed where loop: "query_loop (split_on CHR ''&'' q) = (m, failed)" by force
  show ?thesis
    using query_loop_iff [OF loop] by (auto simp: ParseQuery_def Let_def loop list_all_iff)
qed

text \<open>
  C10: what the method gate lets through, stated without its parsers. Reads pass unchanged. A POST
  passes only when form POSTs are allowed, the path is one of the read-only query APIs, there is
  exactly one content type and it is an unencoded URL form, the body is complete and at most 10 MiB,
  and no piece of the form names a namespace, however its letters are escaped; its body is handed
  on byte for byte with its exact length. Every such POST does pass.
\<close>

theorem method_gate_exact:
  "methodGateHandler withinMax allowFormPost r = Forwarded r' \<longleftrightarrow>
     (if rq_Method r \<in> {''GET'', ''HEAD''} then r' = r
      else allowFormPost \<and> rq_Method r = ''POST'' \<and> isReadOnlyPrometheusPostPath (rq_Path r) \<and>
        (\<exists>ct. rq_ContentTypes r = [ct] \<and> ParseMediaType ct = Some formContentType) \<and> rq_ContentEncodings r = [] \<and>
        length (rq_Body r) \<le> 10485760 \<and> rq_BodyErr r = None \<and>
        withinMax (length (split_on CHR ''&'' (rq_Body r))) \<and>
        (\<forall>p \<in> set (split_on CHR ''&'' (rq_Body r)). wellformed p \<and> \<not> names p ''namespace'') \<and>
        r' = r\<lparr>rq_ContentLength := int (length (rq_Body r))\<rparr>)"
proof (cases "rq_Method r \<in> {''GET'', ''HEAD''}")
  case True
  then show ?thesis by (auto simp: methodGateHandler_def)
next
  case False
  have types: "length cts = 1 \<and> ParseMediaType (cts ! 0) = Some formContentType \<longleftrightarrow>
      (\<exists>ct. cts = [ct] \<and> ParseMediaType ct = Some formContentType)" for cts
    by (cases cts; cases "tl cts") auto
  have max: "maxFormBytes = 10485760"
    by (simp add: maxFormBytes_def push_bit_eq_mult)
  have "validateQueryForm withinMax r = Inr r' \<longleftrightarrow>
      (\<exists>ct. rq_ContentTypes r = [ct] \<and> ParseMediaType ct = Some formContentType) \<and> rq_ContentEncodings r = [] \<and>
      length (rq_Body r) \<le> 10485760 \<and> rq_BodyErr r = None \<and>
      (\<exists>form. ParseQuery withinMax (rq_Body r) = Some form \<and> ''namespace'' \<notin> fst ` set form) \<and>
      r' = r\<lparr>rq_ContentLength := int (length (rq_Body r))\<rparr>"
    unfolding types [symmetric]
    by (cases "ParseQuery withinMax (rq_Body r)") (auto simp: validateQueryForm_def read_form_def max)
  then show ?thesis
    using False unfolding ParseQuery_iff
    by (auto simp: methodGateHandler_def split: sum.splits prod.splits)
qed


definition sample_post :: "string \<Rightarrow> http_request" where
  "sample_post body =
     \<lparr>rq_Method = ''POST'', rq_Path = ''/api/v1/query'',
      rq_ContentTypes = [''Application/x-www-form-urlencoded; charset=utf-8''], rq_ContentEncodings = [],
      rq_Body = body, rq_BodyErr = None, rq_ContentLength = -1\<rparr>"

theorem method_gate_exact_witness:
  "methodGateHandler (\<lambda>n. n \<le> 10000) True (sample_post ''query=up'') =
     Forwarded ((sample_post ''query=up'')\<lparr>rq_ContentLength := 8\<rparr>) \<and>
   (\<forall>r'. methodGateHandler (\<lambda>n. n \<le> 10000) True (sample_post ''query=up&n%61mespace=x'') \<noteq> Forwarded r') \<and>
   \<not> names ''query=up'' ''namespace''"
proof -
  have pass: "methodGateHandler (\<lambda>n. n \<le> 10000) True (sample_post ''query=up'') =
      Forwarded ((sample_post ''query=up'')\<lparr>rq_ContentLength := 8\<rparr>)"
  proof -
    have "ParseMediaType ''Application/x-www-form-urlencoded; charset=utf-8'' = Some formContentType"
      "ParseQuery (\<lambda>n. n \<le> 10000) ''query=up'' = Some [(''query'', ''up'')]"
      by code_simp+
    then show ?thesis
      by (simp add: methodGateHandler_def validateQueryForm_def read_form_def sample_post_def maxFormBytes_def
          push_bit_eq_mult isReadOnlyPrometheusPostPath_def prometheusInstantQueryPath_def)
  qed
  have "QueryUnescape (query_key ''n%61mespace=x'') = Some ''namespace''"
    by code_simp
  then have "names ''n%61mespace=x'' ''namespace''"
    by (simp add: names_iff unescape_spells)
  moreover have "''n%61mespace=x'' \<in> set (split_on CHR ''&'' (rq_Body (sample_post ''query=up&n%61mespace=x'')))"
    "''query=up'' \<in> set (split_on CHR ''&'' (rq_Body (sample_post ''query=up'')))"
    "rq_Method (sample_post b) = ''POST''" for b
    by (simp_all add: sample_post_def)
  ultimately show ?thesis
    using pass method_gate_exact [of "\<lambda>n. n \<le> 10000" True "sample_post ''query=up&n%61mespace=x''"]
      method_gate_exact [of "\<lambda>n. n \<le> 10000" True "sample_post ''query=up''"]
    by (auto simp del: split_on.simps)
qed

end
