(* ===== verification/Webhook.thy ===== *)
theory Webhook
  imports Cluster
begin

section \<open>The admission webhook and its probe (internal/webhook)\<close>

text \<open>
  The mutating webhook (mutating.go) that labels monitors in namespaces that opted in, as a function
  from an admission request and the answers of the API to a response, and the probe (probe.go) that
  periodically checks that admission does label, as a function from one run's answers to the
  metrics and the writes of the run. The decoder, the marshaller and the JSON patch of the admission
  library are parameters, and so is the type of raw objects: a patch response carries the two raw
  objects the library compares.
\<close>

subsection \<open>Objects\<close>

text \<open>
  A monitor as the webhook and the probe see it; everything else of the object is carried along
  unread. A missing label map is \<open>None\<close>.
\<close>

record MonitorObject =
  mb_Gvk :: gvk
  mb_Namespace :: string
  mb_Name :: string
  mb_Deleting :: bool
  mb_Labels :: "smap option"
  mb_Annotations :: "smap option"
  mb_Spec :: any
  mb_Rest :: string

definition labelMonitoring :: string where "labelMonitoring = ''monitoring.opendatahub.io/scrape''"

definition label_of :: "MonitorObject \<Rightarrow> string \<Rightarrow> string option" where
  "label_of obj k = (case mb_Labels obj of None \<Rightarrow> None | Some l \<Rightarrow> map_of l k)"

subsection \<open>The injector\<close>

record 'r webhook_env =
  we_Decoder :: bool
  we_Client :: bool
  we_DecodeRaw :: "'r \<Rightarrow> MonitorObject result"
  we_GetNamespace :: "string \<Rightarrow> smap result"
  we_GetManagementState :: "string result result"
  we_Marshal :: "MonitorObject \<Rightarrow> 'r result"

record 'r admission_request =
  ar_Kind :: gvk
  ar_Operation :: string
  ar_Raw :: 'r

datatype 'r admission_response =
    Errored nat go_error
  | Allowed string
  | PatchResponseFromRaw 'r 'r

definition em_dash :: string where "em_dash = [CHR 0xE2, CHR 0x80, CHR 0x94]"

definition isExpectedKind :: "gvk \<Rightarrow> bool" where
  "isExpectedKind kind \<longleftrightarrow>
     kind \<in> set [gvk_ServiceMonitor, gvk_ServiceMonitorCoreos, gvk_PodMonitor, gvk_PodMonitorCoreos]"

definition inject :: "'r webhook_env \<Rightarrow> 'r admission_request \<Rightarrow> MonitorObject \<Rightarrow> 'r admission_response" where
  "inject E req obj =
     (case we_GetNamespace E (mb_Namespace obj) of
        Inl err \<Rightarrow>
          if IsNotFound err then Errored 400 (errors_New (''namespace '' @ [CHR 0x27] @ mb_Namespace obj @ [CHR 0x27] @ '' not found''))
          else Errored 500 (wrapf (''failed to get namespace '' @ [CHR 0x27] @ mb_Namespace obj @ [CHR 0x27] @ '': '') err)
      | Inr labels \<Rightarrow>
          if sget labels labelMonitoring \<noteq> ''true'' then Allowed ''namespace not configured for monitoring''
          else (case we_GetManagementState E of
              Inl err \<Rightarrow>
                if IsNotFound err then Allowed (''monitoring is disabled '' @ em_dash @ '' CR does not exist'')
                else Errored 500 (wrapf ''failed to verify monitoring state: '' err)
            | Inr (Inl err) \<Rightarrow> Errored 500 (wrapf ''failed to read monitoring management state: '' err)
            | Inr (Inr managementState) \<Rightarrow>
                if managementState = ''Removed'' then
                  Allowed (''monitoring is disabled '' @ em_dash @ '' management state is Removed'')
                else
                 (let lbls = (case mb_Labels obj of None \<Rightarrow> [] | Some l \<Rightarrow> l);
                      obj' = (if map_of lbls labelMonitoring = None
                              then obj\<lparr>mb_Labels := Some (lbls @ [(labelMonitoring, ''true'')])\<rparr> else obj)
                  in case we_Marshal E obj' of
                       Inl err \<Rightarrow> Errored 500 (wrapf ''failed to marshal mutated object: '' err)
                     | Inr marshaled \<Rightarrow> PatchResponseFromRaw (ar_Raw req) marshaled)))"

definition Handle :: "'r webhook_env \<Rightarrow> 'r admission_request \<Rightarrow> 'r admission_response" where
  "Handle E req =
     (if \<not> we_Decoder E then Errored 500 (errors_New ''webhook decoder not initialized'')
      else if \<not> we_Client E then Errored 500 (errors_New ''webhook client not initialized'')
      else if \<not> isExpectedKind (ar_Kind req) then Errored 400 (errors_New (''unexpected kind: '' @ Kind (ar_Kind req)))
      else (case we_DecodeRaw E (ar_Raw req) of
          Inl err \<Rightarrow> Errored 500 (wrapf ''failed to decode object: '' err)
        | Inr obj \<Rightarrow>
            if mb_Deleting obj then Allowed ''object marked for deletion, skipping monitoring injection''
            else if ar_Operation req = ''CREATE'' \<or> ar_Operation req = ''UPDATE'' then inject E req obj
            else Allowed (''operation '' @ ar_Operation req @ '' on '' @ Kind (ar_Kind req) @ '' allowed'')))"


subsection \<open>What admission stores\<close>

text \<open>The object the API server goes on with: the original, or what the patch makes of it.\<close>

definition stored :: "'r webhook_env \<Rightarrow> 'r admission_request \<Rightarrow> MonitorObject option" where
  "stored E req =
     (case Handle E req of
        Errored _ _ \<Rightarrow> None
      | Allowed _ \<Rightarrow> (case we_DecodeRaw E (ar_Raw req) of Inl _ \<Rightarrow> None | Inr obj \<Rightarrow> Some obj)
      | PatchResponseFromRaw _ new \<Rightarrow> (case we_DecodeRaw E new of Inl _ \<Rightarrow> None | Inr obj \<Rightarrow> Some obj))"

text \<open>When the webhook is to label, and what labelling is.\<close>

definition enrolled :: "'r webhook_env \<Rightarrow> 'r admission_request \<Rightarrow> MonitorObject \<Rightarrow> bool" where
  "enrolled E req obj \<longleftrightarrow>
     ar_Operation req \<in> {''CREATE'', ''UPDATE''} \<and> \<not> mb_Deleting obj \<and>
     (\<exists>labels. we_GetNamespace E (mb_Namespace obj) = Inr labels \<and> sget labels labelMonitoring = ''true'') \<and>
     (\<exists>state. we_GetManagementState E = Inr (Inr state) \<and> state \<noteq> ''Removed'')"

definition labelled :: "MonitorObject \<Rightarrow> MonitorObject" where
  "labelled obj =
     (if label_of obj labelMonitoring = None
      then obj\<lparr>mb_Labels := Some ((case mb_Labels obj of None \<Rightarrow> [] | Some l \<Rightarrow> l) @ [(labelMonitoring, ''true'')])\<rparr>
      else obj)"

lemma label_labelled:
  "label_of (labelled obj) k =
     (if k = labelMonitoring \<and> label_of obj labelMonitoring = None then Some ''true'' else label_of obj k)"
  by (auto simp: labelled_def label_of_def map_add_def split: option.split)

lemma labelled_idem [simp]: "labelled (labelled obj) = labelled obj"
  by (cases "label_of obj labelMonitoring") (simp_all add: labelled_def [of "labelled obj"] label_labelled)

lemma labelled_frame [simp]:
  "mb_Gvk (labelled obj) = mb_Gvk obj" "mb_Namespace (labelled obj) = mb_Namespace obj"
  "mb_Name (labelled obj) = mb_Name obj" "mb_Spec (labelled obj) = mb_Spec obj"
  "mb_Deleting (labelled obj) = mb_Deleting obj"
  "mb_Annotations (labelled obj) = mb_Annotations obj" "mb_Rest (labelled obj) = mb_Rest obj"
  by (simp_all add: labelled_def)

text \<open>The answers the webhook needs before it can decide about an object of a namespace.\<close>

definition answered :: "'r webhook_env \<Rightarrow> string \<Rightarrow> bool" where
  "answered E ns \<longleftrightarrow>
     (\<exists>labels. we_GetNamespace E ns = Inr labels \<and>
        (sget labels labelMonitoring = ''true'' \<longrightarrow>
           (\<exists>err. we_GetManagementState E = Inl err \<and> IsNotFound err) \<or> (\<exists>state. we_GetManagementState E = Inr (Inr state))))"

text \<open>What the codec of the admission library promises: decoding inverts marshalling.\<close>

locale faithful_codec =
  fixes E :: "'r webhook_env"
  assumes marshal_decode: "\<exists>raw. we_Marshal E obj = Inr raw \<and> we_DecodeRaw E raw = Inr obj"
begin

lemma inject_cases:
  assumes "inject E req obj = resp"
  shows "(\<exists>status err. resp = Errored status err) \<or>
    (\<exists>msg. resp = Allowed msg \<and> \<not> enrolled E req obj) \<or>
    (\<exists>new. resp = PatchResponseFromRaw (ar_Raw req) new \<and> we_DecodeRaw E new = Inr (labelled obj) \<and>
       (ar_Operation req \<in> {''CREATE'', ''UPDATE''} \<and> \<not> mb_Deleting obj \<longrightarrow> enrolled E req obj))"
proof -
  obtain raw where raw: "we_Marshal E (labelled obj) = Inr raw" "we_DecodeRaw E raw = Inr (labelled obj)"
    using marshal_decode by blast
  have lab: "(if map_of (case mb_Labels obj of None \<Rightarrow> [] | Some l \<Rightarrow> l) labelMonitoring = None
      then obj\<lparr>mb_Labels := Some ((case mb_Labels obj of None \<Rightarrow> [] | Some l \<Rightarrow> l) @ [(labelMonitoring, ''true'')])\<rparr>
      else obj) = labelled obj"
    by (simp add: labelled_def label_of_def split: option.split)
  show ?thesis
    using assms raw unfolding inject_def Let_def lab
    by (auto simp: enrolled_def split: sum.splits if_splits)
qed

lemma Handle_stored:
  assumes dec: "we_DecodeRaw E (ar_Raw req) = Inr obj"
    and st: "stored E req = Some obj'"
  shows "isExpectedKind (ar_Kind req) \<and> obj' = (if enrolled E req obj then labelled obj else obj)"
proof -
  have ready: "we_Decoder E" "we_Client E" "isExpectedKind (ar_Kind req)"
    using st by (auto simp: stored_def Handle_def split: if_splits)
  show ?thesis
  proof (cases "\<not> mb_Deleting obj \<and> ar_Operation req \<in> {''CREATE'', ''UPDATE''}")
    case True
    then have "Handle E req = inject E req obj"
      using ready dec by (auto simp: Handle_def)
    then show ?thesis
      using inject_cases [OF refl, of req obj] True ready st dec by (auto simp: stored_def)
  next
    case False
    then obtain msg where "Handle E req = Allowed msg"
      using ready dec by (cases "mb_Deleting obj") (auto simp: Handle_def)
    moreover have "\<not> enrolled E req obj" using False by (auto simp: enrolled_def)
    ultimately show ?thesis using ready st dec by (auto simp: stored_def)
  qed
qed

lemma inject_errored: "(\<exists>status err. inject E req obj = Errored status err) \<longleftrightarrow> \<not> answered E (mb_Namespace obj)"
proof -
  have "\<exists>raw. we_Marshal E obj = Inr raw" for obj
    using marshal_decode by blast
  then have m: "we_Marshal E obj \<noteq> Inl err" for obj err by (metis sum.distinct(1))
  show ?thesis
    by (auto simp: inject_def answered_def Let_def m split: sum.split)
qed

lemma stored_iff:
  assumes dec: "we_DecodeRaw E (ar_Raw req) = Inr obj"
  shows "stored E req \<noteq> None \<longleftrightarrow> we_Decoder E \<and> we_Client E \<and> isExpectedKind (ar_Kind req) \<and>
    (mb_Deleting obj \<or> ar_Operation req \<notin> {''CREATE'', ''UPDATE''} \<or> answered E (mb_Namespace obj))"
proof -
  have st: "stored E req \<noteq> None \<longleftrightarrow> \<not> (\<exists>status err. Handle E req = Errored status err)"
  proof (cases "Handle E req")
    case (PatchResponseFromRaw raw new)
    then have "Handle E req = inject E req obj"
      using dec by (auto simp: Handle_def split: if_splits)
    then show ?thesis
      using inject_cases [OF refl, of req obj] PatchResponseFromRaw by (auto simp: stored_def)
  qed (simp_all add: stored_def dec)
  show ?thesis
    unfolding st using inject_errored [of req obj] dec by (auto simp: Handle_def)
qed

end

text \<open>
  C35: what the webhook does to a monitor. If a request is admitted, the object stored is the one
  submitted, except that in an enrolled namespace, while monitoring is managed, the scrape label is
  added with the value true; a scrape label the user set is never overwritten, every other label and
  the rest of the object stay as they were; and admitting the stored object again changes nothing.
\<close>

theorem injection_adds_only_the_label:
  assumes codec: "faithful_codec E" and dec: "we_DecodeRaw E (ar_Raw req) = Inr obj"
    and st: "stored E req = Some obj'"
  shows "(label_of obj' labelMonitoring =
           (if enrolled E req obj \<and> label_of obj labelMonitoring = None then Some ''true''
            else label_of obj labelMonitoring)) \<and>
         (\<forall>k. k \<noteq> labelMonitoring \<longrightarrow> label_of obj' k = label_of obj k) \<and>
         obj'\<lparr>mb_Labels := None\<rparr> = obj\<lparr>mb_Labels := None\<rparr> \<and>
         (\<forall>raw. we_DecodeRaw E raw = Inr obj' \<longrightarrow> stored E (req\<lparr>ar_Raw := raw\<rparr>) = Some obj')"
proof -
  note obj' = faithful_codec.Handle_stored [OF codec dec st]
  have frame: "obj'\<lparr>mb_Labels := None\<rparr> = obj\<lparr>mb_Labels := None\<rparr>"
    using obj' by (auto simp: labelled_def)
  have again: "stored E (req\<lparr>ar_Raw := raw\<rparr>) = Some obj'" if raw: "we_DecodeRaw E raw = Inr obj'" for raw
  proof -
    let ?req = "req\<lparr>ar_Raw := raw\<rparr>"
    have same: "enrolled E ?req obj' \<longleftrightarrow> enrolled E req obj"
      using obj' by (simp add: enrolled_def)
    have "stored E ?req \<noteq> None"
      using faithful_codec.stored_iff [OF codec, of ?req obj'] faithful_codec.stored_iff [OF codec dec] raw st obj' by auto
    then obtain o2 where o2: "stored E ?req = Some o2" by blast
    have "o2 = (if enrolled E ?req obj' then labelled obj' else obj')"
      using faithful_codec.Handle_stored [OF codec _ o2, of obj'] raw by simp
    then show ?thesis using o2 obj' same by auto
  qed
  show ?thesis
    using obj' frame again by (auto simp: label_labelled)
qed


text \<open>Raw objects that are the objects themselves, in a cluster where \<open>team-a\<close> is enrolled.\<close>

definition sample_env :: "MonitorObject webhook_env" where
  "sample_env =
     \<lparr>we_Decoder = True, we_Client = True, we_DecodeRaw = Inr,
      we_GetNamespace = (\<lambda>ns. if ns = ''team-a'' then Inr [(labelMonitoring, ''true'')] else Inl notFound),
      we_GetManagementState = Inr (Inr ''Managed''), we_Marshal = Inr\<rparr>"

interpretation sample: faithful_codec sample_env
  by unfold_locales (simp add: sample_env_def)

definition sample_monitor :: MonitorObject where
  "sample_monitor =
     \<lparr>mb_Gvk = gvk_PodMonitor, mb_Namespace = ''team-a'', mb_Name = ''app'', mb_Deleting = False,
      mb_Labels = Some [(''app'', ''x'')], mb_Annotations = None, mb_Spec = AMap [], mb_Rest = ''''\<rparr>"

theorem injection_adds_only_the_label_witness:
  "\<exists>obj'. stored sample_env \<lparr>ar_Kind = gvk_PodMonitor, ar_Operation = ''CREATE'', ar_Raw = sample_monitor\<rparr> = Some obj' \<and>
     label_of obj' labelMonitoring = Some ''true'' \<and> label_of obj' ''app'' = Some ''x''"
proof -
  let ?req = "\<lparr>ar_Kind = gvk_PodMonitor, ar_Operation = ''CREATE'', ar_Raw = sample_monitor\<rparr>"
  note codec = sample.faithful_codec_axioms
  have dec: "we_DecodeRaw sample_env (ar_Raw ?req) = Inr sample_monitor"
    by (simp add: sample_env_def)
  have "stored sample_env ?req \<noteq> None"
    unfolding faithful_codec.stored_iff [OF codec dec]
    by (simp add: sample_env_def sample_monitor_def isExpectedKind_def answered_def)
  then obtain obj' where st: "stored sample_env ?req = Some obj'" by blast
  have "enrolled sample_env ?req sample_monitor"
    by (simp add: enrolled_def sample_env_def sample_monitor_def sget_def)
  moreover have "label_of sample_monitor labelMonitoring = None" "label_of sample_monitor ''app'' = Some ''x''"
    "''app'' \<noteq> labelMonitoring"
    by (simp_all add: label_of_def sample_monitor_def labelMonitoring_def)
  ultimately show ?thesis
    using injection_adds_only_the_label [OF codec dec st] st by auto
qed

subsection \<open>The probe\<close>

definition probeAPIGroup :: string where "probeAPIGroup = ''monitoring.rhobs''"
definition probeKind :: string where "probeKind = ''PodMonitor''"
definition probeObjectName :: string where "probeObjectName = ''webhook-admission-probe''"

text \<open>The metrics, times in milliseconds.\<close>

record probe_metrics =
  pm_LastSuccess :: nat
  pm_LastAttempt :: nat
  pm_Failures :: nat

text \<open>
  One turn of the read-back loop: the object read, the answer to the update that triggers another
  admission, its time stamp, the time of the deadline check and whether the context ended while
  waiting.
\<close>

record poll =
  po_Get :: "MonitorObject result"
  po_Update :: "go_error option"
  po_Stamp :: string
  po_Now :: nat
  po_Cancelled :: bool

record probe_run =
  pr_Now :: nat
  pr_Stamp :: string
  pr_GetNamespace :: "smap result"
  pr_SetSpec :: "go_error option"
  pr_GetExisting :: "MonitorObject result"
  pr_Create :: "go_error option"
  pr_Update :: "go_error option"
  pr_ReadStart :: nat
  pr_Polls :: "poll list"
  pr_SuccessTime :: nat

datatype probe_write = CreateObj MonitorObject | UpdateObj MonitorObject

fun written :: "probe_write \<Rightarrow> MonitorObject" where
  "written (CreateObj obj) = obj"
| "written (UpdateObj obj) = obj"

definition IsConflict :: "go_error \<Rightarrow> bool" where
  "IsConflict e \<longleftrightarrow> ReasonForError e = Some Conflict"

definition map_set :: "smap \<Rightarrow> string \<Rightarrow> string \<Rightarrow> smap" where
  "map_set m k v = filter (\<lambda>(k', _). k' \<noteq> k) m @ [(k, v)]"

definition map_delete :: "smap \<Rightarrow> string \<Rightarrow> smap" where
  "map_delete m k = filter (\<lambda>(k', _). k' \<noteq> k) m"

definition mergeAnnotation :: "smap option \<Rightarrow> string \<Rightarrow> string \<Rightarrow> smap" where
  "mergeAnnotation annotations key val = map_set (case annotations of None \<Rightarrow> [] | Some m \<Rightarrow> m) key val"

definition retryTimeout :: nat where "retryTimeout = 10000"

text \<open>The object the probe creates: a minimal valid PodMonitor without the scrape label.\<close>

definition probe_spec :: any where
  "probe_spec =
     AMap [(''selector'', AMap [(''matchLabels'', AMap [(''app'', AStr ''webhook-probe-nonexistent'')])]),
           (''podMetricsEndpoints'', AList [AMap [(''port'', AStr ''metrics''), (''interval'', AStr ''30s'')]])]"

definition probe_object :: "string \<Rightarrow> MonitorObject" where
  "probe_object namespace =
     \<lparr>mb_Gvk = \<lparr>Group = probeAPIGroup, Version = ''v1'', Kind = probeKind\<rparr>,
      mb_Namespace = namespace, mb_Name = probeObjectName, mb_Deleting = False,
      mb_Labels = Some [(''platform.opendatahub.io/part-of'', ''monitoring''), (''webhook-probe'', ''true'')],
      mb_Annotations = Some [(''description'',
        ''Webhook admission probe - periodically created to verify webhook is functioning'')],
      mb_Spec = probe_spec, mb_Rest = ''''\<rparr>"

definition refreshed :: "string \<Rightarrow> MonitorObject \<Rightarrow> MonitorObject" where
  "refreshed stamp existing =
     existing\<lparr>mb_Labels := map_option (\<lambda>l. map_delete l labelMonitoring) (mb_Labels existing),
       mb_Annotations := Some (mergeAnnotation (mb_Annotations existing) ''probe-updated-at'' stamp)\<rparr>"

datatype poll_end = PollCancelled | PollDone "go_error option"

fun poll_loop :: "nat \<Rightarrow> poll list \<Rightarrow> probe_write list \<Rightarrow> (probe_write list \<times> poll_end) option" where
  "poll_loop deadline [] ws = None"
| "poll_loop deadline (p # ps) ws =
     (let retry = (\<lambda>ws' lastErr.
        if po_Now p > deadline then Some (ws', PollDone (Some lastErr))
        else if po_Cancelled p then Some (ws', PollCancelled)
        else poll_loop deadline ps ws') in
      case po_Get p of
        Inl err \<Rightarrow> retry ws (wrapf ''failed to read back probe PodMonitor: '' err)
      | Inr current \<Rightarrow>
          if label_of current labelMonitoring = Some ''true'' then Some (ws, PollDone None)
          else
           (let obj = current\<lparr>mb_Annotations := Some (mergeAnnotation (mb_Annotations current) ''probe-retry-at'' (po_Stamp p))\<rparr>
            in retry (ws @ [UpdateObj obj])
                 (case po_Update p of
                    Some err \<Rightarrow>
                      if \<not> IsConflict err then wrapf ''failed to re-trigger webhook admission: '' err
                      else errors_New ''webhook did not add the scrape label''
                  | None \<Rightarrow> errors_New ''webhook did not add the scrape label'')))"

text \<open>Creating or updating the object: the writes, and whether the run goes on to read back.\<close>

definition write_probe :: "string \<Rightarrow> probe_run \<Rightarrow> probe_write list \<times> bool" where
  "write_probe namespace r =
     (case pr_GetExisting r of
        Inl err \<Rightarrow>
          if \<not> IsNotFound err then ([], False)
          else ([CreateObj (probe_object namespace)], pr_Create r = None)
      | Inr existing \<Rightarrow> ([UpdateObj (refreshed (pr_Stamp r) existing)], pr_Update r = None))"

definition runProbe :: "string \<Rightarrow> probe_run \<Rightarrow> probe_metrics \<Rightarrow> (probe_metrics \<times> probe_write list) option" where
  "runProbe namespace r m =
     (let m0 = m\<lparr>pm_LastAttempt := pr_Now r\<rparr>;
          failed = m0\<lparr>pm_Failures := pm_Failures m + 1\<rparr> in
      case pr_GetNamespace r of
        Inl err \<Rightarrow> Some (failed, [])
      | Inr labels \<Rightarrow>
          if sget labels labelMonitoring \<noteq> ''true'' then Some (failed, [])
          else if pr_SetSpec r \<noteq> None then Some (failed, [])
          else (case write_probe namespace r of
              (ws, False) \<Rightarrow> Some (failed, ws)
            | (ws, True) \<Rightarrow>
                (case poll_loop (pr_ReadStart r + retryTimeout) (pr_Polls r) ws of
                   None \<Rightarrow> None
                 | Some (ws', PollCancelled) \<Rightarrow> Some (m0, ws')
                 | Some (ws', PollDone (Some err)) \<Rightarrow> Some (failed, ws')
                 | Some (ws', PollDone None) \<Rightarrow> Some (m0\<lparr>pm_LastSuccess := pr_SuccessTime r\<rparr>, ws'))))"

text \<open>The ticker loop: a first run, then one per tick until the context ends.\<close>

datatype probe_event = Tick probe_run | CtxDone

fun probe_ticks :: "string \<Rightarrow> probe_event list \<Rightarrow> probe_metrics \<Rightarrow> probe_metrics option" where
  "probe_ticks namespace [] m = None"
| "probe_ticks namespace (CtxDone # events) m = Some m"
| "probe_ticks namespace (Tick r # events) m =
     (case runProbe namespace r m of None \<Rightarrow> None | Some (m', _) \<Rightarrow> probe_ticks namespace events m')"

definition probe_Start :: "string \<Rightarrow> probe_run \<Rightarrow> probe_event list \<Rightarrow> probe_metrics \<Rightarrow> probe_metrics option" where
  "probe_Start namespace first events m = probe_ticks namespace (Tick first # events) m"

subsection \<open>A run of the probe ends\<close>

lemma poll_loop_ends:
  "\<exists>p \<in> set ps. po_Now p > deadline \<Longrightarrow> poll_loop deadline ps ws \<noteq> None"
  by (induction ps arbitrary: ws) (auto simp: Let_def split: sum.split)

definition spaced :: "nat \<Rightarrow> poll list \<Rightarrow> bool" where
  "spaced start ps \<longleftrightarrow> (\<forall>i < length ps. start + 500 * i \<le> po_Now (ps ! i))"

text \<open>
  C37: a run of the probe ends. The read-back loop waits half a second between its turns and gives up
  ten seconds after the write, so 22 turns always suffice, whatever the API answers; the run then
  returns.
\<close>

theorem probe_run_ends:
  assumes "spaced (pr_ReadStart r) (pr_Polls r)" and "22 \<le> length (pr_Polls r)"
  shows "\<exists>m' ws. runProbe namespace r m = Some (m', ws)"
proof -
  have "pr_Polls r ! 21 \<in> set (pr_Polls r)"
    using assms(2) by simp
  moreover have "po_Now (pr_Polls r ! 21) > pr_ReadStart r + retryTimeout"
    using assms by (auto simp: spaced_def retryTimeout_def dest: spec [of _ 21])
  ultimately have "poll_loop (pr_ReadStart r + retryTimeout) (pr_Polls r) ws \<noteq> None" for ws
    using poll_loop_ends by blast
  note ends = this
  obtain ws go where w: "write_probe namespace r = (ws, go)" by force
  obtain ws' e where "poll_loop (pr_ReadStart r + retryTimeout) (pr_Polls r) ws = Some (ws', e)"
    using ends [of ws] by auto
  then show ?thesis
    by (cases e; cases go) (auto simp: runProbe_def Let_def w split: sum.split option.split)
qed


definition sample_poll :: "nat \<Rightarrow> poll" where
  "sample_poll i =
     \<lparr>po_Get = Inr (probe_object ''probe''), po_Update = None, po_Stamp = '''', po_Now = 500 * i, po_Cancelled = False\<rparr>"

definition sample_run :: "poll list \<Rightarrow> probe_run" where
  "sample_run polls =
     \<lparr>pr_Now = 7, pr_Stamp = '''', pr_GetNamespace = Inr [(labelMonitoring, ''true'')], pr_SetSpec = None,
      pr_GetExisting = Inl notFound, pr_Create = None, pr_Update = None, pr_ReadStart = 0, pr_Polls = polls,
      pr_SuccessTime = 9\<rparr>"

theorem probe_run_ends_witness:
  "\<exists>m' ws. runProbe ''probe'' (sample_run (map sample_poll [0..<22])) \<lparr>pm_LastSuccess = 0, pm_LastAttempt = 0, pm_Failures = 0\<rparr> =
     Some (m', ws)"
  by (rule probe_run_ends) (simp_all add: spaced_def sample_run_def sample_poll_def)

subsection \<open>What a success of the probe means\<close>

abbreviation scraped :: "MonitorObject \<Rightarrow> bool" where
  "scraped obj \<equiv> label_of obj labelMonitoring = Some ''true''"

lemma map_of_map_delete: "map_of (map_delete m k) k' = (if k' = k then None else map_of m k')"
  by (induction m) (auto simp: map_delete_def)

lemma written_unlabelled:
  "write_probe namespace r = (ws, go) \<Longrightarrow> \<forall>w \<in> set ws. \<not> scraped (written w)"
  "write_probe namespace r = (ws, True) \<Longrightarrow> ws \<noteq> []"
  by (auto simp: write_probe_def label_of_def probe_object_def refreshed_def labelMonitoring_def
      map_of_map_delete split: sum.splits if_splits option.splits)

lemma poll_loop_writes:
  "poll_loop deadline ps ws = Some (ws', e) \<Longrightarrow> \<forall>w \<in> set ws. \<not> scraped (written w) \<Longrightarrow>
     prefix ws ws' \<and> (\<forall>w \<in> set ws'. \<not> scraped (written w)) \<and>
     (e = PollDone None \<longrightarrow> (\<exists>p \<in> set ps. \<exists>obj. po_Get p = Inr obj \<and> scraped obj))"
proof (induction ps arbitrary: ws)
  case (Cons p ps)
  show ?case
  proof (cases "po_Get p")
    case (Inl err)
    then show ?thesis
      using Cons.prems Cons.IH [of ws] by (auto simp: Let_def split: if_splits)
  next
    case (Inr cur)
    define obj where "obj = cur\<lparr>mb_Annotations := Some (mergeAnnotation (mb_Annotations cur) ''probe-retry-at'' (po_Stamp p))\<rparr>"
    have same: "scraped obj = scraped cur" by (simp add: obj_def label_of_def)
    show ?thesis
    proof (cases "scraped cur")
      case True
      then show ?thesis using Cons.prems Inr by auto
    next
      case False
      have "\<forall>w \<in> set (ws @ [UpdateObj obj]). \<not> scraped (written w)"
        using Cons.prems(2) False same by auto
      then show ?thesis
        using Cons.prems(1) Cons.IH [of "ws @ [UpdateObj obj]"] Inr False
        by (auto simp: Let_def obj_def [symmetric] dest: append_prefixD split: if_splits)
    qed
  qed
qed simp

text \<open>
  C36: a success of the probe means that admission labelled the object. Nothing the probe writes
  carries the label, so when a run records a success, its namespace was enrolled, it wrote the object
  and then read it back with the label. Every run counts as an attempt and adds at most one failure,
  a success none.
\<close>

theorem probe_success_means_labelled:
  assumes run: "runProbe namespace r m = Some (m', ws)"
  shows "(\<forall>w \<in> set ws. label_of (written w) labelMonitoring \<noteq> Some ''true'') \<and>
         pm_LastAttempt m' = pr_Now r \<and> pm_Failures m' \<in> {pm_Failures m, pm_Failures m + 1} \<and>
         (pm_LastSuccess m' \<noteq> pm_LastSuccess m \<longrightarrow>
            pm_Failures m' = pm_Failures m \<and> ws \<noteq> [] \<and>
            (\<exists>labels. pr_GetNamespace r = Inr labels \<and> sget labels labelMonitoring = ''true'') \<and>
            (\<exists>p \<in> set (pr_Polls r). \<exists>obj. po_Get p = Inr obj \<and> label_of obj labelMonitoring = Some ''true''))"
proof -
  obtain ws0 go where w: "write_probe namespace r = (ws0, go)" by force
  note unl = written_unlabelled(1) [OF w]
  show ?thesis
  proof (cases "go \<and> (\<exists>labels. pr_GetNamespace r = Inr labels \<and> sget labels labelMonitoring = ''true'') \<and> pr_SetSpec r = None")
    case False
    then show ?thesis
      using run unl by (auto simp: runProbe_def Let_def w split: sum.splits if_splits bool.splits)
  next
    case True
    then obtain ws' e where loop: "poll_loop (pr_ReadStart r + retryTimeout) (pr_Polls r) ws0 = Some (ws', e)"
      using run by (auto simp: runProbe_def Let_def w split: sum.splits option.splits)
    note pl = poll_loop_writes [OF loop unl]
    have "ws0 \<noteq> []" using True w written_unlabelled(2) [of namespace r ws0] by simp
    then show ?thesis
      using run True pl
      by (cases e) (auto simp: runProbe_def Let_def w loop split: option.splits)
  qed
qed

theorem probe_success_means_labelled_witness:
  "\<exists>m' ws. runProbe ''probe'' (sample_run [sample_poll 0, (sample_poll 1)\<lparr>po_Get := Inr (labelled (probe_object ''probe''))\<rparr>])
       \<lparr>pm_LastSuccess = 0, pm_LastAttempt = 0, pm_Failures = 3\<rparr> = Some (m', ws) \<and>
     pm_LastSuccess m' = 9 \<and> pm_Failures m' = 3 \<and> ws \<noteq> []"
proof -
  let ?r = "sample_run [sample_poll 0, (sample_poll 1)\<lparr>po_Get := Inr (labelled (probe_object ''probe''))\<rparr>]"
  let ?m = "\<lparr>pm_LastSuccess = 0, pm_LastAttempt = 0, pm_Failures = 3\<rparr>"
  have "case runProbe ''probe'' ?r ?m of Some (m', ws) \<Rightarrow> pm_LastSuccess m' = 9 | None \<Rightarrow> False"
    by code_simp
  then obtain m' ws where run: "runProbe ''probe'' ?r ?m = Some (m', ws)" and s: "pm_LastSuccess m' = 9"
    by (auto split: option.splits)
  show ?thesis
    using probe_success_means_labelled [OF run] run s by auto
qed

end
