(* ===== verification/Startup.thy ===== *)
theory Startup
  imports Webhook_Tls Method_Gate Webhook
begin

section \<open>The process (cmd/main.go)\<close>

text \<open>
  The two modes of the binary: the method gate, and the controller manager with its optional webhook.
  \<open>main_process\<close> follows \<open>main\<close> from the command line to the exit code; what the
  surroundings answer (the client libraries, the manager, the listener) is the record
  \<open>process_env\<close>. Flags are parsed as Go's \<open>flag\<close> package does. The flags that zap and the
  client library add to the command line are a parameter.
\<close>

subsection \<open>Flags\<close>

datatype flag_kind = BoolFlag | ValueFlag "string \<Rightarrow> bool"

datatype flags_end = FlagsParsed "(string \<times> string) list" | FlagsHelp | FlagsBad

definition ParseBool :: "string \<Rightarrow> bool option" where
  "ParseBool s =
     (if s \<in> {''1'', ''t'', ''T'', ''TRUE'', ''true'', ''True''} then Some True
      else if s \<in> {''0'', ''f'', ''F'', ''FALSE'', ''false'', ''False''} then Some False
      else None)"

definition flag_body :: "string \<Rightarrow> string" where
  "flag_body s = (if take 1 (drop 1 s) = ''-'' then drop 2 s else drop 1 s)"

definition flag_split :: "string \<Rightarrow> string \<times> string option" where
  "flag_split body = (case Cut body CHR ''='' of None \<Rightarrow> (body, None) | Some (name, val) \<Rightarrow> (name, Some val))"

text \<open>Later occurrences of a flag stand first in the result, where a lookup finds them.\<close>

fun parse_flags :: "(string \<Rightarrow> flag_kind option) \<Rightarrow> string list \<Rightarrow> (string \<times> string) list \<Rightarrow> flags_end" where
  "parse_flags formal [] given = FlagsParsed given"
| "parse_flags formal (s # args) given =
     (if length s < 2 \<or> take 1 s \<noteq> ''-'' \<or> s = ''--'' then FlagsParsed given
      else
       (let body = flag_body s; (name, val) = flag_split body in
        if body = [] \<or> hd body = CHR ''-'' \<or> hd body = CHR ''='' then FlagsBad
        else (case formal name of
            None \<Rightarrow> if name = ''help'' \<or> name = ''h'' then FlagsHelp else FlagsBad
          | Some BoolFlag \<Rightarrow>
              (let v = (case val of None \<Rightarrow> ''true'' | Some v \<Rightarrow> v) in
               if ParseBool v = None then FlagsBad else parse_flags formal args ((name, v) # given))
          | Some (ValueFlag ok) \<Rightarrow>
              (case val of
                 Some v \<Rightarrow> if ok v then parse_flags formal args ((name, v) # given) else FlagsBad
               | None \<Rightarrow>
                   (case args of
                      [] \<Rightarrow> FlagsBad
                    | v # args' \<Rightarrow> if ok v then parse_flags formal args' ((name, v) # given) else FlagsBad)))))"

definition flag_string :: "(string \<times> string) list \<Rightarrow> string \<Rightarrow> string \<Rightarrow> string" where
  "flag_string given name deflt = (case map_of given name of None \<Rightarrow> deflt | Some v \<Rightarrow> v)"

definition flag_bool :: "(string \<times> string) list \<Rightarrow> string \<Rightarrow> bool" where
  "flag_bool given name = (case map_of given name of None \<Rightarrow> False | Some v \<Rightarrow> ParseBool v = Some True)"

subsection \<open>The method gate\<close>

text \<open>
  How the subcommand ends: the flag package exits by itself, the upstream address is refused, or the
  gate was served, possibly until an error of the listener.
\<close>

datatype gate_end =
    FlagExit nat
  | InvalidUpstream string
  | MissingSchemeOrHost string
  | Served (served_listen: string) (served_upstream: Url) (served_form_post: bool) (served_err: "go_error option")

definition gate_flags :: "string \<Rightarrow> flag_kind option" where
  "gate_flags = map_of [(''listen'', ValueFlag (\<lambda>_. True)), (''upstream'', ValueFlag (\<lambda>_. True)),
     (''allow-form-post'', BoolFlag)]"

definition runMethodGate :: "string list \<Rightarrow> go_error option \<Rightarrow> gate_end" where
  "runMethodGate argv serveErr =
     (case parse_flags gate_flags argv [] of
        FlagsHelp \<Rightarrow> FlagExit 0
      | FlagsBad \<Rightarrow> FlagExit 2
      | FlagsParsed given \<Rightarrow>
          (let upstream = flag_string given ''upstream'' ''http://127.0.0.1:9091'' in
           case url_Parse upstream of
             None \<Rightarrow> InvalidUpstream upstream
           | Some u \<Rightarrow>
               if url_Scheme u = '''' \<or> url_Host u = '''' then MissingSchemeOrHost upstream
               else Served (flag_string given ''listen'' ''127.0.0.1:9092'') u (flag_bool given ''allow-form-post'')
                      (map_option (wrapf ''method gate exited: '') serveErr)))"

text \<open>The command lines of the two sidecars that the operator's templates start.\<close>

lemma namespace_proxy_gate:
  "case runMethodGate [''--listen=127.0.0.1:9092'', ''--upstream=http://127.0.0.1:9091''] err of
     Served listen u form_post _ \<Rightarrow> listen = ''127.0.0.1:9092'' \<and> url_Host u = ''127.0.0.1:9091'' \<and> \<not> form_post
   | _ \<Rightarrow> False"
  by code_simp

lemma thanos_proxy_gate:
  "case runMethodGate [''--listen=127.0.0.1:9092'', ''--upstream=http://127.0.0.1:9091'', ''--allow-form-post''] err of
     Served _ _ form_post _ \<Rightarrow> form_post | _ \<Rightarrow> False"
  by code_simp

subsection \<open>The controller manager\<close>

definition webhookPath :: string where "webhookPath = ''/mutate-prometheus-monitors''"

datatype 'c service =
    WebhookServer "'c webhook_options"
  | MonitoringController
  | InjectorAt string
  | ProbeTask string nat
  | HealthCheck string
  | ReloadTask reload_task

record 'p process_env =
  se_Args :: "string list"
  se_ExtraFlags :: "string \<Rightarrow> flag_kind option"
  se_GateServe :: "go_error option"
  se_ConfigOk :: bool
  se_BootstrapErr :: "go_error option"
  se_TLSAnswer :: "'p load_result result"
  se_NewManagerErr :: "go_error option"
  se_ClientsOk :: bool
  se_ControllerErr :: "go_error option"
  se_ProbeNamespace :: string
  se_ProbeAddErr :: "go_error option"
  se_HealthzErr :: "go_error option"
  se_ReadyzErr :: "go_error option"
  se_WatcherErr :: "go_error option"
  se_PollerErr :: "go_error option"
  se_PollFirst :: "'p load_result result"
  se_PollEvents :: "'p recovery_event list"
  se_PolicyChanged :: bool
  se_ProfileChanged :: bool
  se_StartErr :: "go_error option"

record 'c process_end =
  pe_Code :: nat
  pe_Services :: "'c service list"
  pe_Gauge :: nat
  pe_Reload :: bool

definition manager_flags :: "(string \<Rightarrow> flag_kind option) \<Rightarrow> string \<Rightarrow> flag_kind option" where
  "manager_flags extra name =
     (case map_of [(''metrics-bind-address'', ValueFlag (\<lambda>_. True)), (''health-probe-bind-address'', ValueFlag (\<lambda>_. True)),
        (''leader-elect'', BoolFlag), (''webhook-cert-dir'', ValueFlag (\<lambda>_. True)), (''enable-webhook'', BoolFlag)] name of
        None \<Rightarrow> extra name
      | Some k \<Rightarrow> Some k)"

text \<open>
  The set-up steps in order: the exit code of a step that fails, and what a step registers. The
  constructors of the dynamic and the discovery client panic on an error, which ends a Go process
  with code 2; registering the injector cannot fail. The probe runs every 300 seconds.
\<close>

definition exits :: "go_error option \<Rightarrow> nat option" where
  "exits err = (case err of None \<Rightarrow> None | Some _ \<Rightarrow> Some 1)"

fun run_steps :: "(nat option \<times> 'c service list) list \<Rightarrow> 'c service list \<Rightarrow> 'c service list \<times> nat option" where
  "run_steps [] svcs = (svcs, None)"
| "run_steps ((Some code, _) # steps) svcs = (svcs, Some code)"
| "run_steps ((None, new) # steps) svcs = run_steps steps (svcs @ new)"

definition setup_steps ::
  "'p process_env \<Rightarrow> 'c webhook_options option \<Rightarrow> (nat option \<times> 'c service list) list" where
  "setup_steps E server =
     [(exits (se_NewManagerErr E), case server of None \<Rightarrow> [] | Some opts \<Rightarrow> [WebhookServer opts]),
      (if se_ClientsOk E then None else Some 2, []),
      (exits (se_ControllerErr E), [MonitoringController])] @
     (if server = None then []
      else (None, [InjectorAt webhookPath]) #
        (if se_ProbeNamespace E \<noteq> '''' then [(exits (se_ProbeAddErr E), [ProbeTask (se_ProbeNamespace E) 300])] else [])) @
     [(exits (se_HealthzErr E), [HealthCheck ''healthz'']), (exits (se_ReadyzErr E), [HealthCheck ''readyz''])]"

text \<open>Whether the background task, while the manager runs, asks for the reload.\<close>

definition reload_requested :: "'p process_env \<Rightarrow> reload_task option \<Rightarrow> bool" where
  "reload_requested E t \<longleftrightarrow>
     (case t of
        None \<Rightarrow> False
      | Some RecoveryPoller \<Rightarrow> recovery_Start (se_PollFirst E) (se_PollEvents E) = Some True
      | Some (SecurityProfileWatcher honoured) \<Rightarrow> se_PolicyChanged E \<or> honoured \<and> se_ProfileChanged E)"

definition start_manager ::
  "'p process_env \<Rightarrow> reload_task option \<Rightarrow> 'c service list \<Rightarrow> nat \<Rightarrow> 'c process_end" where
  "start_manager E t svcs gauge =
     (let reload = reload_requested E t;
          svcs' = svcs @ (case t of None \<Rightarrow> [] | Some task \<Rightarrow> [ReloadTask task]) in
      \<lparr>pe_Code = (if se_StartErr E \<noteq> None then 1 else 0), pe_Services = svcs', pe_Gauge = gauge, pe_Reload = reload\<rparr>)"

definition run_manager ::
  "('p, 'c) tls_lib \<Rightarrow> 'p process_env \<Rightarrow> ('p, 'c) webhookTLSResult option \<Rightarrow> string \<Rightarrow> nat \<Rightarrow> 'c process_end" where
  "run_manager L E tls certDir gauge =
     (let exit_with = (\<lambda>code svcs. \<lparr>pe_Code = code, pe_Services = svcs, pe_Gauge = gauge, pe_Reload = False\<rparr>) in
      case run_steps (setup_steps E (map_option (\<lambda>t. webhookServerOptions t certDir) tls)) [] of
        (svcs, Some code) \<Rightarrow> exit_with code svcs
      | (svcs, None) \<Rightarrow>
          (case tls of
             None \<Rightarrow> start_manager E None svcs gauge
           | Some t \<Rightarrow>
               (case registerWebhookTLSReload L t (se_WatcherErr E) (se_PollerErr E) of
                  Inl err \<Rightarrow> exit_with 1 svcs
                | Inr task \<Rightarrow> start_manager E task svcs gauge)))"

definition main_process :: "('p, 'c) tls_lib \<Rightarrow> 'p process_env \<Rightarrow> nat \<Rightarrow> 'c process_end" where
  "main_process L E gauge =
     (let exit_with = (\<lambda>code g. \<lparr>pe_Code = code, pe_Services = [], pe_Gauge = g, pe_Reload = False\<rparr>) in
      if length (se_Args E) > 1 \<and> se_Args E ! 1 = ''method-gate'' then
        (case runMethodGate (drop 2 (se_Args E)) (se_GateServe E) of
           FlagExit code \<Rightarrow> exit_with code gauge
         | Served _ _ _ None \<Rightarrow> exit_with 0 gauge
         | _ \<Rightarrow> exit_with 1 gauge)
      else
       (case parse_flags (manager_flags (se_ExtraFlags E)) (drop 1 (se_Args E)) [] of
          FlagsHelp \<Rightarrow> exit_with 0 gauge
        | FlagsBad \<Rightarrow> exit_with 2 gauge
        | FlagsParsed given \<Rightarrow>
            (let certDir = flag_string given ''webhook-cert-dir'' ''/tmp/k8s-webhook-server/serving-certs'' in
             if \<not> se_ConfigOk E then exit_with 1 gauge
             else if flag_bool given ''enable-webhook'' then
               (case resolveWebhookTLS L (se_BootstrapErr E) (se_TLSAnswer E) gauge of
                  (gauge', Inl err) \<Rightarrow> exit_with 1 gauge'
                | (gauge', Inr t) \<Rightarrow> run_manager L E (Some t) certDir gauge')
             else run_manager L E None certDir gauge)))"


subsection \<open>What a start registers\<close>

text \<open>Nothing around the process fails, and its command line asks for the webhook.\<close>

definition surroundings_ok :: "'p process_env \<Rightarrow> bool" where
  "surroundings_ok E \<longleftrightarrow>
     se_ConfigOk E \<and> se_ClientsOk E \<and> se_BootstrapErr E = None \<and> se_NewManagerErr E = None \<and>
     se_ControllerErr E = None \<and> se_ProbeAddErr E = None \<and> se_HealthzErr E = None \<and> se_ReadyzErr E = None \<and>
     se_WatcherErr E = None \<and> se_PollerErr E = None \<and> se_StartErr E = None"

definition webhook_asked :: "'p process_env \<Rightarrow> bool" where
  "webhook_asked E \<longleftrightarrow>
     \<not> (length (se_Args E) > 1 \<and> se_Args E ! 1 = ''method-gate'') \<and>
     (case parse_flags (manager_flags (se_ExtraFlags E)) (drop 1 (se_Args E)) [] of
        FlagsParsed given \<Rightarrow> flag_bool given ''enable-webhook'' | _ \<Rightarrow> False)"

lemma run_steps_services: "run_steps steps svcs = (svcs', r) \<Longrightarrow> prefix svcs svcs'"
  by (induction steps svcs rule: run_steps.induct) (auto dest: append_prefixD)

lemma run_steps_ok:
  assumes "list_all (\<lambda>(e, _). e = None) steps"
  shows "run_steps steps svcs = (svcs @ concat (map snd steps), None)"
  using assms by (induction steps arbitrary: svcs) auto

lemma setup_ok:
  assumes "surroundings_ok E"
  shows "list_all (\<lambda>(e, _). e = None) (setup_steps E server)"
  using assms by (simp add: setup_steps_def surroundings_ok_def exits_def)

lemma asked_process:
  assumes "surroundings_ok E" and "webhook_asked E"
  obtains certDir where
    "main_process L E gauge =
       (case evaluateWebhookTLS L (se_TLSAnswer E) gauge of
          (gauge', Inl err) \<Rightarrow> \<lparr>pe_Code = 1, pe_Services = [], pe_Gauge = gauge', pe_Reload = False\<rparr>
        | (gauge', Inr t) \<Rightarrow> run_manager L E (Some t) certDir gauge')"
proof -
  obtain given where "parse_flags (manager_flags (se_ExtraFlags E)) (drop 1 (se_Args E)) [] = FlagsParsed given"
    "flag_bool given ''enable-webhook''"
    using assms(2) by (auto simp: webhook_asked_def split: flags_end.splits)
  then show thesis
    using assms
    by (intro that [of "flag_string given ''webhook-cert-dir'' ''/tmp/k8s-webhook-server/serving-certs''"]) (auto simp: main_process_def webhook_asked_def surroundings_ok_def resolveWebhookTLS_def Let_def)
qed

lemma manager_runs:
  assumes ok: "surroundings_ok E" and task: "registerWebhookTLSReload L t None None = Inr task"
  shows "run_manager L E (Some t) certDir gauge =
     start_manager E task (concat (map snd (setup_steps E (Some (webhookServerOptions t certDir))))) gauge"
    and "WebhookServer (webhookServerOptions t certDir) \<in>
     set (concat (map snd (setup_steps E (Some (webhookServerOptions t certDir)))))"
proof -
  show "run_manager L E (Some t) certDir gauge =
     start_manager E task (concat (map snd (setup_steps E (Some (webhookServerOptions t certDir))))) gauge"
    using ok task by (simp add: run_manager_def run_steps_ok [OF setup_ok [OF ok]] surroundings_ok_def)
qed (simp add: setup_steps_def)


text \<open>
  The posture of a started process: the settings with which its webhook server was created.
\<close>

definition serves :: "'c process_end \<Rightarrow> 'c tls_opt list \<Rightarrow> bool" where
  "serves p opts \<longleftrightarrow> (\<exists>server. WebhookServer server \<in> set (pe_Services p) \<and> wo_TLSOpts server = opts)"

lemma manager_serves:
  assumes "surroundings_ok E" and "registerWebhookTLSReload L t None None = Inr task"
  shows "serves (run_manager L E (Some t) certDir gauge) (wt_TLSOpts t)"
    and "pe_Code (run_manager L E (Some t) certDir gauge) = 0"
    and "pe_Gauge (run_manager L E (Some t) certDir gauge) = gauge"
    and "pe_Reload (run_manager L E (Some t) certDir gauge) = reload_requested E task"
proof -
  have "wo_TLSOpts (webhookServerOptions t certDir) = wt_TLSOpts t"
    by (simp add: webhookServerOptions_def Let_def)
  then show "serves (run_manager L E (Some t) certDir gauge) (wt_TLSOpts t)"
    using manager_runs(2) [OF assms, of certDir]
    unfolding manager_runs(1) [OF assms] serves_def start_manager_def Let_def by fastforce
  show "pe_Code (run_manager L E (Some t) certDir gauge) = 0"
    "pe_Gauge (run_manager L E (Some t) certDir gauge) = gauge"
    "pe_Reload (run_manager L E (Some t) certDir gauge) = reload_requested E task"
    using assms(1) by (simp_all add: manager_runs(1) [OF assms] start_manager_def surroundings_ok_def Let_def)
qed

text \<open>What a process serves, by the posture its answer of the API server asks for.\<close>

definition honours_profile :: "('p, 'c) tls_lib \<Rightarrow> 'c process_end \<Rightarrow> 'p \<Rightarrow> bool" where
  "honours_profile L p profile \<longleftrightarrow>
     (\<exists>c u. ConfigFromProfileWithError L profile = Inr (c, u) \<and>
        serves p [ProfileConfig c, SetNextProtos (HTTP1NextProtos L)])"

lemma process_posture:
  fixes L :: "('p, 'c) tls_lib" and gauge :: nat
  assumes lib: "intermediate_ok L" and ok: "surroundings_ok E" "webhook_asked E"
  defines "p \<equiv> main_process L E gauge"
  shows "case posture_spec L (se_TLSAnswer E) of
       Refuses \<Rightarrow> pe_Code p = 1 \<and> pe_Services p = []
     | GoDefaults \<Rightarrow> pe_Code p = 0 \<and> pe_Gauge p = 0 \<and> serves p []
     | Honours profile \<Rightarrow> pe_Code p = 0 \<and> pe_Gauge p = 0 \<and> honours_profile L p profile
     | StandIn \<Rightarrow> pe_Code p = 0 \<and> pe_Gauge p = 1 \<and> honours_profile L p (IntermediateProfile L) \<and>
         pe_Reload p = reload_requested E (Some RecoveryPoller)"
proof -
  obtain d where main: "p =
       (case evaluateWebhookTLS L (se_TLSAnswer E) gauge of
          (g, Inl err) \<Rightarrow> \<lparr>pe_Code = 1, pe_Services = [], pe_Gauge = g, pe_Reload = False\<rparr>
        | (g, Inr t) \<Rightarrow> run_manager L E (Some t) d g)"
    unfolding p_def by (rule asked_process [OF ok])
  have task: "registerWebhookTLSReload L t None None =
      Inr (if wt_Degraded t then Some RecoveryPoller else if wt_Watchable t
        then Some (SecurityProfileWatcher (ShouldHonorClusterTLSProfile L (wt_AdherencePolicy t))) else None)" for t :: "('p, 'c) webhookTLSResult"
    by (simp add: registerWebhookTLSReload_def needsWebhookTLSReload_def configureWebhookTLSReload_def)
  note runs = manager_serves(2-) [OF ok(1) task]
  have srv: "serves (run_manager L E (Some t) d g) opts" if "wt_TLSOpts t = opts" for t g opts
    using manager_serves(1) [OF ok(1) task, of t d g] that by simp
  show ?thesis
    using lib
  proof (cases rule: startup_cases [where answer = "se_TLSAnswer E" and gauge = gauge])
    case (standin c u)
    then have "posture_spec L (se_TLSAnswer E) = StandIn" by (simp add: posture_spec_def)
    then show ?thesis
      using standin runs by (auto simp: main honours_profile_def intro: srv)
  next
    case (refused err)
    then show ?thesis by (simp add: main)
  next
    case (defaults load)
    then show ?thesis using runs by (auto simp: main intro: srv)
  next
    case (honoured load c u)
    then show ?thesis using runs by (auto simp: main honours_profile_def intro: srv)
  qed
qed

text \<open>
  C40: a process that started while the API server's TLS settings could not be read recovers. It
  serves the Intermediate profile with the gauge set, and the first poll that reads the settings
  ends it with exit code 0 and the reload requested. The process started next on that answer no longer
  stands in: it refuses to start, exactly when the profile read must be honoured and is not
  acceptable, or it clears the gauge and serves the profile read, or Go's defaults where no adherence
  is asked for.
\<close>

theorem degraded_process_recovers:
  assumes lib: "intermediate_ok L" and ok: "surroundings_ok E" "webhook_asked E"
    and denied: "unreadable (se_TLSAnswer E)" "list_all unreadable (se_PollFirst E # answers)"
    and polls: "se_PollEvents E = map RecoveryTick answers @ RecoveryTick answer # later" and read: "\<not> unreadable answer"
  shows "(let p = main_process L E gauge in
          honours_profile L p (IntermediateProfile L) \<and> pe_Gauge p = 1 \<and> pe_Code p = 0 \<and> pe_Reload p) \<and>
         (let p = main_process L (E\<lparr>se_TLSAnswer := answer\<rparr>) gauge' in
          case posture_spec L answer of
            Refuses \<Rightarrow> pe_Code p = 1 \<and> pe_Services p = []
          | GoDefaults \<Rightarrow> pe_Gauge p = 0 \<and> serves p []
          | Honours profile \<Rightarrow> pe_Gauge p = 0 \<and> honours_profile L p profile
          | StandIn \<Rightarrow> False)"
proof -
  let ?E' = "E\<lparr>se_TLSAnswer := answer\<rparr>"
  have ok': "surroundings_ok ?E'" "webhook_asked ?E'"
    using ok by (simp_all add: surroundings_ok_def webhook_asked_def)
  have "reload_requested E (Some RecoveryPoller)"
    using denied(2) recovery_first_readable(1) [of answers answer later] read polls
    by (simp add: reload_requested_def recovery_start_unreadable)
  moreover have "posture_spec L (se_TLSAnswer E) = StandIn" using denied(1) by (simp add: posture_spec_def)
  moreover have "posture_spec L answer \<noteq> StandIn"
    using read by (auto simp: posture_spec_def split: sum.splits)
  ultimately show ?thesis
    using process_posture [OF lib ok, of gauge] process_posture [OF lib ok', of gauge']
    by (auto simp: Let_def split: posture.splits)
qed

definition denied_process :: "nat process_env" where
  "denied_process =
     \<lparr>se_Args = [''/manager'', ''--leader-elect'', ''--enable-webhook=true''], se_ExtraFlags = (\<lambda>_. None),
      se_GateServe = None, se_ConfigOk = True, se_BootstrapErr = None,
      se_TLSAnswer = Inl (GoError NetError ''timeout'' []), se_NewManagerErr = None, se_ClientsOk = True,
      se_ControllerErr = None, se_ProbeNamespace = ''probe'', se_ProbeAddErr = None, se_HealthzErr = None,
      se_ReadyzErr = None, se_WatcherErr = None, se_PollerErr = None,
      se_PollFirst = Inl (GoError NetError ''timeout'' []),
      se_PollEvents = [RecoveryTick (Inl (GoError NetError ''timeout'' [])),
        RecoveryTick (Inr \<lparr>lr_Spec = 13, lr_AdherencePolicy = ''StrictAllComponents'', lr_UsedFallback = False, lr_Watchable = True\<rparr>)],
      se_PolicyChanged = False, se_ProfileChanged = False, se_StartErr = None\<rparr>"

theorem degraded_process_recovers_witness:
  "pe_Reload (main_process sample_lib denied_process 0) \<and>
   honours_profile sample_lib (main_process sample_lib (denied_process\<lparr>se_TLSAnswer :=
     Inr \<lparr>lr_Spec = 13, lr_AdherencePolicy = ''StrictAllComponents'', lr_UsedFallback = False, lr_Watchable = True\<rparr>\<rparr>) 0) 13"
proof -
  let ?load = "\<lparr>lr_Spec = 13 :: nat, lr_AdherencePolicy = ''StrictAllComponents'', lr_UsedFallback = False, lr_Watchable = True\<rparr>"
  have ok: "surroundings_ok denied_process" by (simp add: surroundings_ok_def denied_process_def)
  have asked: "webhook_asked denied_process" by code_simp
  have un: "unreadable (se_TLSAnswer denied_process)"
    "list_all unreadable (se_PollFirst denied_process # [Inl (GoError NetError ''timeout'' [])])"
    by (simp_all add: unreadable_def denied_process_def)
  have polls: "se_PollEvents denied_process =
      map RecoveryTick [Inl (GoError NetError ''timeout'' [])] @ RecoveryTick (Inr ?load) # []"
    by (simp add: denied_process_def)
  have "\<not> unreadable (Inr ?load)" by (simp add: unreadable_def)
  from degraded_process_recovers [OF sample_tls.intermediate_ok_axioms ok asked un polls this, of 0 0] show ?thesis
    by (simp add: posture_spec_def unreadable_def acceptable_def sample_lib_def Let_def)
qed

end
