(* ===== verification/Spec2Isabelle.thy ===== *)
theory Spec2Isabelle
  imports Lifecycle Scheduling Deep_Copy Startup
begin

text \<open>
  \<^bold>\<open>Verification of the ODH observability operator.\<close>

  The program is a Kubernetes operator in Go. It watches one cluster-scoped object, a \<open>Monitoring\<close>
  named \<open>default-monitoring\<close>, and turns its spec into a monitoring stack: metrics, traces,
  alerting, two log pipelines with object storage, dashboards and the proxies in front of them. The
  same binary serves an admission webhook that labels ServiceMonitors and PodMonitors, and runs as a
  sidecar that lets only read requests through.

  \<^bold>\<open>The parts and how they interact.\<close> \<open>Reconcile\<close> is called with the stored object. It adds
  or removes the finalizer and runs a round (\<open>reconcile\<close>), whose deferred handler reports errors on
  the status. A round checks the namespace and the prerequisite operators, builds the template data
  (validating user exporters, the proxies' TLS profile and the images on the way), runs the deploy
  actions, each of which marks its condition and appends templates, puts the storage isolation gate
  in front of the two Loki pipelines, renders, applies, collects garbage, publishes endpoints and
  aggregates the conditions. A failing stage ends the round; the storage gate's error alone is held
  back to the end. The watches decide which events cause a call. The webhook and its probe, the TLS of
  the webhook listener and the method gate run beside the controller in the process that \<open>main\<close>
  sets up.

  \<^bold>\<open>Representation.\<close> A Go struct is a record, a pointer an option, a map an association list in
  the order an iteration visits it, a string a list of bytes, an error a value of type
  \<open>go_error\<close> with the tree that \<open>errors.Is\<close> and \<open>errors.As\<close> walk; a function that
  returns \<open>(T, error)\<close> returns a sum. Everything the operator reads from outside is a field of the
  parameter \<open>cluster\<close>: the answers of the client, the environment, the libraries. What it writes is
  recorded in \<open>rs_Effects\<close>, in order. Writes and reads of one round interleave, and other
  clients act in between, so a round takes three clusters: \<open>W\<close> answers until the first write,
  \<open>Wc\<close> once the CA ConfigMap was applied, \<open>Wd\<close> once the resources were. Theorems about rounds
  hold for every choice of the three, hence also when they are the same.

  \<^bold>\<open>The theories\<close> (sources under src/internal/controller unless another directory is given):

  \<^item> \<open>Go_Prelude\<close>, \<open>Go_Regexp\<close>, \<open>Go_Url\<close>, \<open>Go_Format\<close>: what the code uses of Go's standard
    library. Regular expressions are matched by derivatives, proved equal to their language; SHA-256 is
    executable.
  \<^item> \<open>Gvk\<close> (gvk/gvk.go), \<open>Api_Types\<close> (src/api/v1alpha1/monitoring_types.go): the kinds, the
    API structs, the CRD's validation rules.
  \<^item> \<open>Conditions\<close> (conditions/conditions.go): the Mark operations, \<open>AggregateReady\<close>, the phase. The
    condition library is a parameter; the locale \<open>lawful_conditions\<close> states what is relied on, and
    \<open>upsert_lib\<close> interprets it. The verdict of the aggregation is proved against a declarative reading.
  \<^item> \<open>Cluster\<close>: the parameter and the state of a round. \<open>Helpers\<close> (helpers.go and the small functions
    of other files): CRD detection, namespaces, readiness, CA copies.
  \<^item> \<open>Storage\<close> (errors.go, the isolation part of actions.go): canonical locations, the isolation check,
    proved equal to disjointness of the claims, its report, and the gate that withholds both pipelines.
  \<^item> \<open>Actions\<close> (actions.go): every deploy action. The locale \<open>deploy_action\<close> is their common contract
    (only its own conditions and templates change, only permitted requests are issued);
    \<open>action_pair\<close> composes two. Every action interprets it.
  \<^item> \<open>Garbage\<close> (monitoring_reconciler.go): the sweep predicates and \<open>deleteAllOwned\<close>, against the
    contracts \<open>faithful_collector\<close> and \<open>thorough_collector\<close> of the platform's collector.
  \<^item> \<open>Exporters\<close>, \<open>Preconditions\<close>, \<open>Template_Data\<close> (templatedata.go), \<open>Proxy_Tls\<close> (proxy_tls.go): the
    validation of exporters, of operators and of the TLS profile, the API server networks, the image
    gates, and the map every template is rendered with.
  \<^item> \<open>Deep_Copy\<close> (src/api/v1alpha1/zz\_generated.deepcopy.go): the generated copies over an explicit memory
    with addresses. The locale \<open>deep_copy\<close> is their contract; \<open>pointer_copy\<close>, \<open>pair_copy\<close>,
    \<open>entry_copies\<close> and \<open>struct_copy\<close> compose it, and every generated function satisfies it. This
    is what justifies treating objects as immutable values everywhere else.
  \<^item> \<open>Reconciler\<close> (monitoring_reconciler.go): \<open>renderMonitoringResources\<close>, the round split where the
    source returns, the deferred handler, \<open>Reconcile\<close> with the finalizer. \<open>Scheduling\<close> (the same file):
    the watches of \<open>SetupWithManager\<close> as a list of registrations, and the bounds on the delays a call
    asks for.
  \<^item> \<open>Rounds\<close> shows what each stage can change (the locale \<open>action_list\<close>, interpreted by the list of
    deploy actions); \<open>Round_Properties\<close> and \<open>Lifecycle\<close> hold the theorems about whole rounds and about
    any sequence of edits, deletions and calls (the step relation \<open>reachable\<close>).
  \<^item> \<open>Webhook\<close> (src/internal/webhook): the injector and the probe. \<open>Webhook_Tls\<close> (src/cmd/tls.go): the
    TLS settings of the listener as a refinement of an abstract posture. \<open>Method_Gate\<close> and
    \<open>Startup\<close> (src/cmd/main.go): the gate's handler, and the process from its command line to its exit
    code.

  \<^bold>\<open>What the theorems show.\<close>

  \<^item> Log data is safe: the isolation check passes exactly when the claims are disjoint, every other
    outcome withholds both pipelines, and a round in that state neither renders nor deletes a LokiStack,
    nor deletes anything that carries the label of a Loki component. A change of the verdict is always
    followed by a call.
  \<^item> The status is honest: after every call the top-level conditions, the phase and the observed
    generation agree, an error is always on the status, the platform version is stamped only after a
    complete round. A round that applied resources and asks for no further call has none of the
    features and none of the pending states that the operator polls for.
  \<^item> Calls keep coming: a call asks to be repeated after 15 seconds to five minutes or not at all, a
    failed one goes into backoff, and events that change the storage verdict or the list of namespaces
    enqueue a call.
  \<^item> Deletion is confined and complete: garbage collection deletes only what this object owns and no
    longer renders; on deletion of the object, the finalizer goes only after the collector deleted the
    owned objects it lists, and the RBAC sweeps the owned and managed roles and bindings of their name
    lists.
  \<^item> Input is validated exactly: exporter configurations, endpoints, TLS profiles, operators, image
    versions, API server addresses and form posts are each compared with a declarative reading.
  \<^item> The webhook adds one label and nothing else, a success of the probe proves that it does, and the
    listener keeps Go's defaults only if the cluster's TLS policy asks for nothing else or the cluster has
    no such policy; settings that cannot be read lead to a strict stand-in and to recovery once they can.

  \<^bold>\<open>Bounds.\<close> All definitions are total. The read-back loop of the probe is a function of the
  answers it will get; 22 of them suffice, since its turns are half a second apart and it gives up
  after ten seconds. Ticker loops consume a list of events; running out of events means that the loop
  is still waiting. The form limit of 10 MiB and the limits on exporter configurations are those of
  the source; the limit on the number of query parameters belongs to the Go runtime's settings and is
  a parameter.

  \<^bold>\<open>Parameters and what is asked of them.\<close> \<open>lawful_conditions\<close>: setting a condition replaces the
  entry of its type and no other. \<open>faithful_collector\<close>: the collector deletes only objects that
  its predicate selects. \<open>thorough_collector\<close>: a run without error deletes every object that it lists
  and its predicate selects. \<open>faithful_codec\<close>: encoding an object the decoder produced succeeds and decodes
  to the same object. \<open>intermediate_ok\<close>: the platform's Intermediate profile is valid under its strict policy.
  \<open>foreign_copies\<close>: the copies of structs of other packages are deep copies. All six are locales.
  Each is shown to be satisfiable by a concrete instance that the witnesses use.

  \<^bold>\<open>Not modelled.\<close> The text of the templates and the chart; rendering, server-side apply,
  OLM lookups, YAML and JSON codecs, and the platform's TLS library, which are third-party code and
  therefore parameters; the registration of the API types with a scheme; logging; the HTTP
  server and the reverse proxy behind the method gate; leader election and the scheduling of the work
  queue. Letter case conversion covers the ASCII letters; Go also converts other letters, so host and
  bucket names outside ASCII are compared as they are written.
\<close>

end
